(* ===== verification/Prelude.thy ===== *)
theory Prelude
  imports Main "HOL-Library.Word" "HOL-Library.Finite_Map"
begin

text \<open>
  Shared vocabulary of the development: the Go integer types at their width, Go strings and
  durations, the part of \<^verbatim>\<open>fmt.Sprintf\<close> the operator uses (\<open>%s\<close>, \<open>%q\<close>, \<open>%d\<close>), finite maps as the
  model of Go maps, text cut into pieces, and the collection of definitions the adapter theories fill.
\<close>

named_theorems adapter_defs \<open>the definitions an adapter is made of\<close>

subsection \<open>Integers, time\<close>

type_synonym int32 = "32 word"
type_synonym int64 = "64 word"

text \<open>Go's conversions \<open>int64(x)\<close> of an \<open>int32\<close> (sign extension) and \<open>int32(x)\<close> of an \<open>int64\<close>
  (the low 32 bits).\<close>

definition int64_of_int32 :: "int32 \<Rightarrow> int64" where
  "int64_of_int32 x = word_of_int (sint x)"

definition int32_of_int64 :: "int64 \<Rightarrow> int32" where
  "int32_of_int64 x = ucast x"

text \<open>\<^verbatim>\<open>time.Duration\<close> is an \<open>int64\<close> of nanoseconds.\<close>

type_synonym duration = int64

definition time_Second :: duration where
  "time_Second = 1000000000"

definition time_Minute :: duration where
  "time_Minute = 60 * time_Second"

text \<open>An instant, in nanoseconds; \<open>0\<close> stands for Go's zero \<^verbatim>\<open>time.Time\<close>.\<close>

type_synonym time = int

lemma sint_int64_of_int32 [simp]: "sint (int64_of_int32 x) = sint x"
  unfolding int64_of_int32_def sint_sbintrunc'
  using sint_greater_eq [of x] sint_less [of x] by (simp add: signed_take_bit_int_eq_self)

lemma int32_of_int64_alt: "int32_of_int64 x = word_of_int (sint x)"
  unfolding int32_of_int64_def
  by (rule bit_word_eqI) (simp only: bit_ucast_iff bit_word_of_int_iff bit_sint_iff, simp)

lemma int32_of_int64_of_int32 [simp]: "int32_of_int64 (int64_of_int32 x) = x"
  unfolding int32_of_int64_alt sint_int64_of_int32 by simp

lemma int64_of_int32_inject [simp]: "int64_of_int32 x = int64_of_int32 y \<longleftrightarrow> x = y"
  by (metis int32_of_int64_of_int32)

lemma sint_int32_of_int64:
  assumes "- (2 ^ 31) \<le> sint i" and "sint i < 2 ^ 31"
  shows "sint (int32_of_int64 i) = sint i"
  unfolding int32_of_int64_alt sint_sbintrunc'
  using assms by (simp add: signed_take_bit_int_eq_self)

subsection \<open>Formatting\<close>

text \<open>
  Go strings are byte strings, modelled as \<open>string\<close> (a list of \<open>char\<close>). The verbs of
  \<^verbatim>\<open>fmt.Sprintf\<close> the operator uses: \<open>%s\<close> is the string itself, \<open>%d\<close> of an \<open>int32\<close> is its
  signed decimal form, \<open>%q\<close> is \<^verbatim>\<open>strconv.Quote\<close>. The model of \<open>%q\<close> is the ASCII part of
  \<^verbatim>\<open>strconv.Quote\<close>: bytes from \<open>0x80\<close> up are copied through, as Quote does for printable
  UTF-8; the strings quoted here are Kubernetes object names, which are ASCII.
\<close>

fun nat_digits :: "nat \<Rightarrow> string" where
  "nat_digits n =
     (if n < 10 then [''0123456789'' ! n] else nat_digits (n div 10) @ [''0123456789'' ! (n mod 10)])"

declare nat_digits.simps [simp del]

definition fmt_d :: "int32 \<Rightarrow> string" where
  "fmt_d x = (if sint x < 0 then CHR ''-'' # nat_digits (nat (- sint x)) else nat_digits (nat (sint x)))"

definition hex_digit :: "nat \<Rightarrow> char" where
  "hex_digit n = ''0123456789abcdef'' ! n"

definition quote_char :: "char \<Rightarrow> string" where
  "quote_char c =
    (let n = of_char c :: nat in
     if c = CHR 0x22 \<or> c = CHR 0x5C then [CHR 0x5C, c]
     else if 32 \<le> n \<and> n \<noteq> 127 then [c]
     else if n = 7 then [CHR 0x5C, CHR ''a'']
     else if n = 8 then [CHR 0x5C, CHR ''b'']
     else if n = 12 then [CHR 0x5C, CHR ''f'']
     else if n = 10 then [CHR 0x5C, CHR ''n'']
     else if n = 13 then [CHR 0x5C, CHR ''r'']
     else if n = 9 then [CHR 0x5C, CHR ''t'']
     else if n = 11 then [CHR 0x5C, CHR ''v'']
     else [CHR 0x5C, CHR ''x'', hex_digit (n div 16), hex_digit (n mod 16)])"

definition fmt_q :: "string \<Rightarrow> string" where
  "fmt_q s = CHR 0x22 # concat (map quote_char s) @ [CHR 0x22]"

lemma fmt_d_example: "fmt_d 42 = ''42''" and "fmt_d (- 7) = ''-7''"
  by (simp_all add: fmt_d_def nat_digits.simps)

lemma fmt_q_example: "fmt_q ''a-1'' = [CHR 0x22, CHR ''a'', CHR ''-'', CHR ''1'', CHR 0x22]"
  by (simp add: fmt_q_def quote_char_def)

subsection \<open>Finite maps\<close>

text \<open>A Go map is a finite map; the nil map is read as the empty one. \<open>len(m) > 0\<close> is \<open>m \<noteq> fmempty\<close>.\<close>

type_synonym string_map = "(string, string) fmap"

lemma fmupd_neq_empty [simp]: "fmupd k v m \<noteq> fmempty"
  by (metis fmap_distinct(2))

lemma fmap_neq_emptyI: "fmlookup m k = Some v \<Longrightarrow> m \<noteq> fmempty"
  by auto

lemma fmlookup_of_list [simp]: "fmlookup (fmap_of_list xs) = map_of xs"
  by (induction xs) (auto simp: fun_eq_iff)

text \<open>Copying a Go map entry by entry gives the same map whatever order the range loop visits.\<close>

fun copy_entries :: "('v \<Rightarrow> 'u) \<Rightarrow> ('k \<times> 'v) list \<Rightarrow> ('k, 'u) fmap \<Rightarrow> ('k, 'u) fmap" where
  "copy_entries f [] acc = acc"
| "copy_entries f ((k, v) # kvs) acc = copy_entries f kvs (fmupd k (f v) acc)"

lemma fmlookup_copy_entries:
  "distinct (map fst kvs) \<Longrightarrow> fmlookup (copy_entries f kvs acc) k =
     (case map_of kvs k of Some v \<Rightarrow> Some (f v) | None \<Rightarrow> fmlookup acc k)"
  by (induction f kvs acc rule: copy_entries.induct)
     (auto split: option.splits dest: map_of_SomeD simp: rev_image_eqI)

lemma copy_entries_any_order:
  assumes "distinct (map fst kvs)" and "fmap_of_list kvs = m"
  shows "copy_entries f kvs fmempty = fmmap f m"
  using assms by (intro fmap_ext) (auto simp: fmlookup_copy_entries split: option.splits)

subsection \<open>Text in pieces\<close>

text \<open>\<^verbatim>\<open>strings.Split\<close> at one character, and \<^verbatim>\<open>strings.Join\<close>.\<close>

fun split_at :: "char \<Rightarrow> string \<Rightarrow> string list" where
  "split_at d [] = [[]]"
| "split_at d (c # cs) = (if c = d then [] # split_at d cs else
     (case split_at d cs of [] \<Rightarrow> [[c]] | w # ws \<Rightarrow> (c # w) # ws))"

fun strings_Join :: "string \<Rightarrow> string list \<Rightarrow> string" where
  "strings_Join sep [] = ''''"
| "strings_Join sep [w] = w"
| "strings_Join sep (w # ws) = w @ sep @ strings_Join sep ws"

lemma split_at_not_Nil [simp]: "split_at d s \<noteq> []"
  by (induction s) (auto split: list.split)

lemma strings_Join_Cons: "strings_Join sep (w # ws) = w @ (if ws = [] then '''' else sep @ strings_Join sep ws)"
  by (cases ws) simp_all

lemma join_split [simp]: "strings_Join [d] (split_at d s) = s"
  by (induction s) (auto simp: strings_Join_Cons split: list.splits)

lemma split_at_piece: "w \<in> set (split_at d s) \<Longrightarrow> d \<notin> set w"
  by (induction s arbitrary: w) (auto split: list.splits if_splits)

lemma split_at_single: "d \<notin> set w \<Longrightarrow> split_at d w = [w]"
  by (induction w) auto

lemma split_at_append: "d \<notin> set w \<Longrightarrow> split_at d (w @ d # s) = w # split_at d s"
  by (induction w) auto

lemma split_join: "ws \<noteq> [] \<Longrightarrow> \<forall>w \<in> set ws. d \<notin> set w \<Longrightarrow> split_at d (strings_Join [d] ws) = ws"
  by (induction ws) (auto simp: strings_Join_Cons split_at_single split_at_append)

end
