(* ===== verification/Kube_Objects.thy ===== *)
theory Kube_Objects
  imports Prelude
begin

text \<open>
  The data the operator builds and reads through \<^verbatim>\<open>unstructured.Unstructured\<close>: JSON-like values
  (Go's \<^verbatim>\<open>map[string]any\<close> and friends), objects, object metadata, conditions, API errors.
  These are the structs of the Kubernetes libraries as far as the operator touches them. The
  functions of those libraries are not modelled here: they are the fields of the record
  \<open>k8s_libs\<close>, a parameter of every definition that calls one, and the locale \<open>k8s_libs_ok\<close> states
  what their documentation promises.
\<close>

section \<open>Dynamic values\<close>

text \<open>Values of type \<open>any\<close>: nil, bool, int64, float64 (its bits), string, []any, map[string]any.\<close>

datatype gval =
    GNil
  | GBool bool
  | GInt int64
  | GFloat int64
  | GStr string
  | GSlice "gval list"
  | GMap "(string, gval) fmap"

type_synonym gomap = "(string, gval) fmap"

abbreviation gomap_of :: "(string \<times> gval) list \<Rightarrow> gval" where
  "gomap_of kvs \<equiv> GMap (fmap_of_list kvs)"

text \<open>The value below a path of map keys, if every step but the last is a map holding the key.\<close>

fun path_lookup :: "gomap \<Rightarrow> string list \<Rightarrow> gval option" where
  "path_lookup m [] = Some (GMap m)"
| "path_lookup m (k # ks) =
     (case fmlookup m k of
        None \<Rightarrow> None
      | Some v \<Rightarrow> (if ks = [] then Some v else
          (case v of GMap m' \<Rightarrow> path_lookup m' ks | _ \<Rightarrow> None)))"

lemma path_lookup_single [simp]: "path_lookup m [k] = fmlookup m k"
  by (cases "fmlookup m k") simp_all

lemma path_lookup_step [simp]:
  "path_lookup m (k # k' # ks) =
     (case fmlookup m k of Some (GMap m') \<Rightarrow> path_lookup m' (k' # ks) | _ \<Rightarrow> None)"
  by (auto split: option.splits gval.splits)

declare path_lookup.simps(2) [simp del]

fun is_scalar :: "gval \<Rightarrow> bool" where
  "is_scalar (GBool _) = True"
| "is_scalar (GInt _) = True"
| "is_scalar (GStr _) = True"
| "is_scalar _ = False"

text \<open>The comma-ok type assertions \<open>v, _ := x.(T)\<close>, with the zero value where the type differs.\<close>

fun as_string :: "gval option \<Rightarrow> string" where
  "as_string (Some (GStr s)) = s"
| "as_string _ = ''''"

fun as_int64 :: "gval option \<Rightarrow> int64" where
  "as_int64 (Some (GInt i)) = i"
| "as_int64 _ = 0"

fun as_slice :: "gval option \<Rightarrow> gval list" where
  "as_slice (Some (GSlice vs)) = vs"
| "as_slice _ = []"

text \<open>The string-valued entries of a map value, as \<open>SetAnnotations\<close> and the annotation loops store them.\<close>

definition string_entries :: "gval option \<Rightarrow> string_map" where
  "string_entries v = (case v of Some (GMap m) \<Rightarrow> fmmap (\<lambda>x. as_string (Some x)) m | _ \<Rightarrow> fmempty)"

lemma string_entries_of_map [simp]: "string_entries (Some (GMap (fmmap GStr l))) = l"
  by (rule fmap_ext) (simp add: string_entries_def option.map_comp comp_def option.map_ident)

lemma string_entries_None [simp]: "string_entries None = fmempty"
  by (simp add: string_entries_def)

text \<open>
  The two shapes in which the builders fill a map: \<^verbatim>\<open>if c { m[k] = v }\<close>, and the same where the condition is
  that a pointer or a map is not nil.
\<close>

definition set_if :: "bool \<Rightarrow> string \<Rightarrow> gval \<Rightarrow> gomap \<Rightarrow> gomap" where
  "set_if c k v m = (if c then fmupd k v m else m)"

definition set_some :: "string \<Rightarrow> gval option \<Rightarrow> gomap \<Rightarrow> gomap" where
  "set_some k v m = (case v of None \<Rightarrow> m | Some x \<Rightarrow> fmupd k x m)"

lemma fmlookup_set_if [simp]: "fmlookup (set_if c k v m) k' = (if c \<and> k = k' then Some v else fmlookup m k')"
  by (simp add: set_if_def)

lemma fmlookup_set_some [simp]:
  "fmlookup (set_some k v m) k' = (if v \<noteq> None \<and> k = k' then v else fmlookup m k')"
  by (simp add: set_some_def split: option.splits)

lemma set_some_empty [simp]: "set_some k v m = fmempty \<longleftrightarrow> v = None \<and> m = fmempty"
  by (simp add: set_some_def split: option.splits)

lemma set_simps:
  "set_if True k v m = fmupd k v m" "set_if False k v m = m"
  "set_some k None m = m" "set_some k (Some v) m = fmupd k v m"
  by (simp_all add: set_if_def set_some_def)

section \<open>Objects, metadata, conditions, errors\<close>

record GroupVersionKind =
  Group :: string
  Version :: string
  Kind :: string

record unstructured =
  Object :: gomap

text \<open>\<open>u.Object[k] = v\<close>\<close>

definition put_object :: "string \<Rightarrow> gval \<Rightarrow> unstructured \<Rightarrow> unstructured" where
  "put_object k v u = u\<lparr>Object := fmupd k v (Object u)\<rparr>"

lemma Object_put_object [simp]: "Object (put_object k v u) = fmupd k v (Object u)"
  by (simp add: put_object_def)

definition new_unstructured :: unstructured where
  "new_unstructured = \<lparr>Object = fmempty\<rparr>"

text \<open>The fields of \<^verbatim>\<open>metav1.ObjectMeta\<close> the operator reads or writes.\<close>

record object_meta =
  meta_Name :: string
  meta_Namespace :: string
  meta_Generation :: int64
  meta_DeletionTimestamp :: "time option"
  meta_Finalizers :: "string list"

datatype condition_status = ConditionTrue | ConditionFalse | ConditionUnknown

record condition =
  cond_Type :: string
  cond_Status :: condition_status
  cond_ObservedGeneration :: int64
  cond_LastTransitionTime :: time
  cond_Reason :: string
  cond_Message :: string

text \<open>A non-nil \<open>error\<close>: an API status error (its reason) or any other error (its text).\<close>

datatype gerror = StatusError string | PlainError string

text \<open>\<^verbatim>\<open>resource.Quantity\<close> is observed through its \<open>String\<close> method only.\<close>

record Quantity =
  quantity_String :: string

type_synonym ResourceList = "(string, Quantity) fmap"

record ResourceRequirements =
  Limits :: ResourceList
  Requests :: ResourceList

abbreviation ResourceCPU :: string where "ResourceCPU \<equiv> ''cpu''"
abbreviation ResourceMemory :: string where "ResourceMemory \<equiv> ''memory''"

end
