(* ===== verification/Kube_Libs.thy ===== *)
theory Kube_Libs
  imports Kube_Objects
begin

text \<open>
  The interface to the Kubernetes libraries (\<^verbatim>\<open>apimachinery\<close>, \<^verbatim>\<open>controller-runtime\<close>'s
  \<^verbatim>\<open>controllerutil\<close>): the record \<open>k8s_libs\<close> holds the functions the operator calls, the locale
  \<open>k8s_libs_ok\<close> their documented behaviour. \<open>Ref_Libs\<close> has a reference implementation over the
  JSON representation of an object, on which the locale is interpreted.
\<close>

section \<open>The functions\<close>

record k8s_libs =
  SetGroupVersionKind :: "GroupVersionKind \<Rightarrow> unstructured \<Rightarrow> unstructured"
  SetName :: "string \<Rightarrow> unstructured \<Rightarrow> unstructured"
  SetNamespace :: "string \<Rightarrow> unstructured \<Rightarrow> unstructured"
  SetLabels :: "string_map \<Rightarrow> unstructured \<Rightarrow> unstructured"
  SetAnnotations :: "string_map \<Rightarrow> unstructured \<Rightarrow> unstructured"
  GetGroupVersionKind :: "unstructured \<Rightarrow> GroupVersionKind"
  GetName :: "unstructured \<Rightarrow> string"
  GetNamespace :: "unstructured \<Rightarrow> string"
  GetLabels :: "unstructured \<Rightarrow> string_map"
  GetAnnotations :: "unstructured \<Rightarrow> string_map"
  NestedString :: "gomap \<Rightarrow> string list \<Rightarrow> string \<times> bool \<times> gerror option"
  NestedInt64 :: "gomap \<Rightarrow> string list \<Rightarrow> int64 \<times> bool \<times> gerror option"
  NestedBool :: "gomap \<Rightarrow> string list \<Rightarrow> bool \<times> bool \<times> gerror option"
  NestedSlice :: "gomap \<Rightarrow> string list \<Rightarrow> gval list \<times> bool \<times> gerror option"
  SetStatusCondition :: "time \<Rightarrow> condition list \<Rightarrow> condition \<Rightarrow> condition list"
  ContainsFinalizer :: "object_meta \<Rightarrow> string \<Rightarrow> bool"
  AddFinalizer :: "object_meta \<Rightarrow> string \<Rightarrow> object_meta"
  RemoveFinalizer :: "object_meta \<Rightarrow> string \<Rightarrow> object_meta"
  IsZero :: "time option \<Rightarrow> bool"
  IsNotFound :: "gerror option \<Rightarrow> bool"
  IgnoreNotFound :: "gerror option \<Rightarrow> gerror option"

text \<open>\<open>SetStatusCondition\<close> takes the current time as an argument: it reads the clock itself.\<close>

section \<open>What their documentation promises\<close>

text \<open>An object's identity and metadata as its accessors report them.\<close>

record obj_header =
  hdr_GVK :: GroupVersionKind
  hdr_Name :: string
  hdr_Namespace :: string
  hdr_Labels :: string_map
  hdr_Annotations :: string_map

definition header :: "k8s_libs \<Rightarrow> unstructured \<Rightarrow> obj_header" where
  "header L u = \<lparr>hdr_GVK = GetGroupVersionKind L u, hdr_Name = GetName L u, hdr_Namespace = GetNamespace L u,
     hdr_Labels = GetLabels L u, hdr_Annotations = GetAnnotations L u\<rparr>"

definition empty_header :: obj_header where
  "empty_header = \<lparr>hdr_GVK = \<lparr>Group = '''', Version = '''', Kind = ''''\<rparr>, hdr_Name = '''', hdr_Namespace = '''',
     hdr_Labels = fmempty, hdr_Annotations = fmempty\<rparr>"

text \<open>
  The setters write below \<open>metadata\<close> and the keys \<open>apiVersion\<close> and \<open>kind\<close>. They take effect on an object
  whose \<open>metadata\<close>, if present, is a map; a group or version with a slash in it cannot be read back
  from \<open>apiVersion\<close>.
\<close>

definition header_keys :: "string set" where
  "header_keys = {''apiVersion'', ''kind'', ''metadata''}"

definition metadata_ok :: "unstructured \<Rightarrow> bool" where
  "metadata_ok u = (case fmlookup (Object u) ''metadata'' of None \<Rightarrow> True | Some (GMap _) \<Rightarrow> True | _ \<Rightarrow> False)"

definition valid_gvk :: "GroupVersionKind \<Rightarrow> bool" where
  "valid_gvk g \<longleftrightarrow> CHR ''/'' \<notin> set (Group g) \<and> CHR ''/'' \<notin> set (Version g)"

text \<open>
  \<open>meta.SetStatusCondition\<close>: the first condition of the new one's type takes over its status, reason,
  message and observed generation, with a fresh transition time exactly when the status changes;
  if there is none the new condition is appended.
\<close>

definition stamp :: "time \<Rightarrow> condition \<Rightarrow> time" where
  "stamp now c = (if cond_LastTransitionTime c = 0 then now else cond_LastTransitionTime c)"

fun set_condition :: "time \<Rightarrow> condition \<Rightarrow> condition list \<Rightarrow> condition list" where
  "set_condition now c [] = [c\<lparr>cond_LastTransitionTime := stamp now c\<rparr>]"
| "set_condition now c (d # ds) =
     (if cond_Type d = cond_Type c
      then c\<lparr>cond_LastTransitionTime :=
               (if cond_Status d = cond_Status c then cond_LastTransitionTime d else stamp now c)\<rparr> # ds
      else d # set_condition now c ds)"

text \<open>\<open>meta.FindStatusCondition\<close> in the same spirit, used to state what a status says.\<close>

definition find_condition :: "string \<Rightarrow> condition list \<Rightarrow> condition option" where
  "find_condition t = List.find (\<lambda>c. cond_Type c = t)"

lemma find_condition_set:
  "find_condition (cond_Type c) (set_condition now c cs) =
     Some (c\<lparr>cond_LastTransitionTime := (case find_condition (cond_Type c) cs of
         Some d \<Rightarrow> (if cond_Status d = cond_Status c then cond_LastTransitionTime d else stamp now c)
       | None \<Rightarrow> stamp now c)\<rparr>)"
  by (induction cs) (auto simp: find_condition_def)

lemma find_condition_set_other:
  "t \<noteq> cond_Type c \<Longrightarrow> find_condition t (set_condition now c cs) = find_condition t cs"
  by (induction cs) (auto simp: find_condition_def)

locale k8s_libs_ok =
  fixes L :: k8s_libs
  assumes metadata_ok_setters:
      "metadata_ok u \<Longrightarrow> metadata_ok (SetGroupVersionKind L g u)"
      "metadata_ok u \<Longrightarrow> metadata_ok (SetName L n u)"
      "metadata_ok u \<Longrightarrow> metadata_ok (SetNamespace L n u)"
      "metadata_ok u \<Longrightarrow> metadata_ok (SetLabels L l u)"
      "metadata_ok u \<Longrightarrow> metadata_ok (SetAnnotations L l u)"
    and header_new: "header L new_unstructured = empty_header"
    and header_SetGVK:
      "metadata_ok u \<Longrightarrow> valid_gvk g \<Longrightarrow> header L (SetGroupVersionKind L g u) = (header L u)\<lparr>hdr_GVK := g\<rparr>"
    and header_SetName: "metadata_ok u \<Longrightarrow> header L (SetName L n u) = (header L u)\<lparr>hdr_Name := n\<rparr>"
    and header_SetNamespace:
      "metadata_ok u \<Longrightarrow> header L (SetNamespace L n u) = (header L u)\<lparr>hdr_Namespace := n\<rparr>"
    and header_SetLabels: "metadata_ok u \<Longrightarrow> header L (SetLabels L l u) = (header L u)\<lparr>hdr_Labels := l\<rparr>"
    and header_SetAnnotations:
      "metadata_ok u \<Longrightarrow> header L (SetAnnotations L l u) = (header L u)\<lparr>hdr_Annotations := l\<rparr>"
    and header_put: "k \<notin> header_keys \<Longrightarrow> header L (put_object k v u) = header L u"
    and setters_frame:
      "k \<notin> header_keys \<Longrightarrow> fmlookup (Object (SetGroupVersionKind L g u)) k = fmlookup (Object u) k"
      "k \<notin> header_keys \<Longrightarrow> fmlookup (Object (SetName L n u)) k = fmlookup (Object u) k"
      "k \<notin> header_keys \<Longrightarrow> fmlookup (Object (SetNamespace L n u)) k = fmlookup (Object u) k"
      "k \<notin> header_keys \<Longrightarrow> fmlookup (Object (SetLabels L l u)) k = fmlookup (Object u) k"
      "k \<notin> header_keys \<Longrightarrow> fmlookup (Object (SetAnnotations L l u)) k = fmlookup (Object u) k"
    and nested_string_found:
      "path_lookup m ks = Some (GStr s) \<Longrightarrow> NestedString L m ks = (s, True, None)"
    and nested_string_else:
      "(\<And>s. path_lookup m ks \<noteq> Some (GStr s)) \<Longrightarrow> \<exists>e. NestedString L m ks = ('''', False, e)"
    and nested_int64_found:
      "path_lookup m ks = Some (GInt i) \<Longrightarrow> NestedInt64 L m ks = (i, True, None)"
    and nested_int64_else:
      "(\<And>i. path_lookup m ks \<noteq> Some (GInt i)) \<Longrightarrow> \<exists>e. NestedInt64 L m ks = (0, False, e)"
    and nested_bool_found:
      "path_lookup m ks = Some (GBool b) \<Longrightarrow> NestedBool L m ks = (b, True, None)"
    and nested_bool_else:
      "(\<And>b. path_lookup m ks \<noteq> Some (GBool b)) \<Longrightarrow> \<exists>e. NestedBool L m ks = (False, False, e)"
    and nested_slice_found:
      "path_lookup m ks = Some (GSlice vs) \<Longrightarrow> NestedSlice L m ks = (vs, True, None)"
    and nested_slice_else:
      "(\<And>vs. path_lookup m ks \<noteq> Some (GSlice vs)) \<Longrightarrow> \<exists>e. NestedSlice L m ks = ([], False, e)"
    and set_status_condition: "SetStatusCondition L now cs c = set_condition now c cs"
    and contains_finalizer: "ContainsFinalizer L om f \<longleftrightarrow> f \<in> set (meta_Finalizers om)"
    and add_finalizer: "AddFinalizer L om f =
      (if f \<in> set (meta_Finalizers om) then om else om\<lparr>meta_Finalizers := meta_Finalizers om @ [f]\<rparr>)"
    and remove_finalizer: "RemoveFinalizer L om f = om\<lparr>meta_Finalizers := filter (\<lambda>g. g \<noteq> f) (meta_Finalizers om)\<rparr>"
    and is_zero: "IsZero L t \<longleftrightarrow> t = None \<or> t = Some 0"
    and is_not_found_nil: "\<not> IsNotFound L None"
    and ignore_not_found: "IgnoreNotFound L e = (if IsNotFound L e then None else e)"
begin

lemmas header_setters = header_new header_SetGVK header_SetName header_SetNamespace header_SetLabels
  header_SetAnnotations header_put

lemma nested_int64_value: "fst (NestedInt64 L m ks) = as_int64 (path_lookup m ks)"
proof (cases "\<exists>i. path_lookup m ks = Some (GInt i)")
  case True
  then show ?thesis using nested_int64_found [of m ks] by force
next
  case False
  then have "as_int64 (path_lookup m ks) = 0"
    by (cases "path_lookup m ks" rule: as_int64.cases) auto
  with False show ?thesis using nested_int64_else [of m ks] by force
qed

lemma nested_int64_found_iff:
  "fst (snd (NestedInt64 L m ks)) \<longleftrightarrow> (\<exists>i. path_lookup m ks = Some (GInt i))"
  using nested_int64_found [of m ks] nested_int64_else [of m ks] by fastforce

lemma nested_string_value: "fst (NestedString L m ks) = as_string (path_lookup m ks)"
proof (cases "\<exists>s. path_lookup m ks = Some (GStr s)")
  case True
  then show ?thesis using nested_string_found [of m ks] by force
next
  case False
  then have "as_string (path_lookup m ks) = ''''"
    by (cases "path_lookup m ks" rule: as_string.cases) auto
  with False show ?thesis using nested_string_else [of m ks] by force
qed

lemma nested_string_found_iff:
  "fst (snd (NestedString L m ks)) \<longleftrightarrow> (\<exists>s. path_lookup m ks = Some (GStr s))"
  using nested_string_found [of m ks] nested_string_else [of m ks] by fastforce

lemma nested_bool_value:
  "fst (NestedBool L m ks) \<longleftrightarrow> path_lookup m ks = Some (GBool True)"
  using nested_bool_found [of m ks] nested_bool_else [of m ks] by fastforce

lemma nested_bool_found_iff:
  "fst (snd (NestedBool L m ks)) \<longleftrightarrow> (\<exists>b. path_lookup m ks = Some (GBool b))"
  using nested_bool_found [of m ks] nested_bool_else [of m ks] by fastforce

lemma nested_slice_value: "fst (NestedSlice L m ks) = as_slice (path_lookup m ks)"
proof (cases "\<exists>vs. path_lookup m ks = Some (GSlice vs)")
  case True
  then show ?thesis using nested_slice_found [of m ks] by force
next
  case False
  then have "as_slice (path_lookup m ks) = []"
    by (cases "path_lookup m ks" rule: as_slice.cases) auto
  with False show ?thesis using nested_slice_else [of m ks] by force
qed

text \<open>The shape of an answer, for the proofs about the status readers.\<close>

lemma nested_string_obtain:
  obtains f e where "NestedString L m ks = (as_string (path_lookup m ks), f, e)"
    and "f \<or> as_string (path_lookup m ks) = ''''"
proof (cases "\<exists>s. path_lookup m ks = Some (GStr s)")
  case True
  with nested_string_found [of m ks] show ?thesis by (auto intro!: that)
next
  case False
  then have "as_string (path_lookup m ks) = ''''"
    by (cases "path_lookup m ks" rule: as_string.cases) auto
  with False nested_string_else [of m ks] show ?thesis by (auto intro: that)
qed

lemma nested_int64_obtain:
  obtains f e where "NestedInt64 L m ks = (as_int64 (path_lookup m ks), f, e)"
    and "f \<longleftrightarrow> (\<exists>i. path_lookup m ks = Some (GInt i))"
  using nested_int64_value [of m ks] nested_int64_found_iff [of m ks]
  by (cases "NestedInt64 L m ks") (auto intro: that)

lemma nested_bool_obtain:
  obtains f b e where "NestedBool L m ks = (b, f, e)"
    and "f \<and> b \<longleftrightarrow> path_lookup m ks = Some (GBool True)"
  using nested_bool_value [of m ks] nested_bool_found_iff [of m ks]
  by (cases "NestedBool L m ks") (auto intro: that)

lemma nested_slice_obtain:
  obtains f e where "NestedSlice L m ks = (as_slice (path_lookup m ks), f, e)"
  using nested_slice_value [of m ks] by (cases "NestedSlice L m ks") (auto intro: that)

lemma not_found_iff: "IgnoreNotFound L (Some e) = None \<longleftrightarrow> IsNotFound L (Some e)"
  by (simp add: ignore_not_found)

end

end
