(* ===== verification/Api_Types.thy ===== *)
theory Api_Types
  imports Kube_Objects
begin

text \<open>
  The custom resources of \<^verbatim>\<open>paas.example.com/v1alpha1\<close> (\<^verbatim>\<open>api/v1alpha1/*_types.go\<close>): the shared blocks, the
  spec and status of the six kinds, and the object they sit in. A pointer field is an \<open>option\<close>,
  an optional string is empty when unset, an embedded struct is a record field.
\<close>

section \<open>Shared blocks\<close>

text \<open>\<^verbatim>\<open>StorageSpec\<close> (\<^verbatim>\<open>postgrescluster_types.go\<close>): the data volume.\<close>

record StorageSpec =
  storage_Size :: string
  storage_StorageClass :: string

text \<open>\<^verbatim>\<open>DatabaseSpec\<close>: the bootstrap database.\<close>

record DatabaseSpec =
  db_Name :: string
  db_Owner :: string

text \<open>\<^verbatim>\<open>MonitoringSpec\<close>.\<close>

record MonitoringSpec =
  EnablePodMonitor :: bool

text \<open>\<^verbatim>\<open>PersistenceSpec\<close> (\<^verbatim>\<open>valkeycluster_types.go\<close>).\<close>

record PersistenceSpec =
  persistence_Size :: string
  persistence_StorageClass :: string

text \<open>\<^verbatim>\<open>IngressSpec\<close> (\<^verbatim>\<open>expose_types.go\<close>).\<close>

record IngressSpec =
  ing_Host :: string
  ing_IngressClassName :: string
  ing_TLSSecretName :: string
  ing_Annotations :: string_map

text \<open>\<^verbatim>\<open>ServiceExposeSpec\<close>; \<^verbatim>\<open>corev1.ServiceType\<close> is a string type.\<close>

record ServiceExposeSpec =
  exp_Type :: string
  exp_Annotations :: string_map

section \<open>The six kinds\<close>

text \<open>\<^verbatim>\<open>PostgresClusterSpec\<close>.\<close>

record PostgresClusterSpec =
  pg_Instances :: int32
  pg_Image :: string
  pg_Storage :: StorageSpec
  pg_Database :: DatabaseSpec
  pg_Resources :: ResourceRequirements
  pg_Monitoring :: MonitoringSpec
  pg_Expose :: "ServiceExposeSpec option"

text \<open>\<^verbatim>\<open>PostgresClusterStatus\<close>.\<close>

record PostgresClusterStatus =
  pgst_Ready :: bool
  pgst_Phase :: string
  pgst_Instances :: int32
  pgst_ReadyInstances :: int32
  pgst_Message :: string
  pgst_Conditions :: "condition list"

text \<open>\<^verbatim>\<open>ValkeyClusterSpec\<close>.\<close>

record ValkeyClusterSpec =
  vk_Shards :: int32
  vk_Replicas :: int32
  vk_Image :: string
  vk_Persistence :: PersistenceSpec
  vk_Resources :: ResourceRequirements
  vk_Expose :: "ServiceExposeSpec option"

text \<open>\<^verbatim>\<open>ValkeyClusterStatus\<close>.\<close>

record ValkeyClusterStatus =
  vkst_Ready :: bool
  vkst_Phase :: string
  vkst_Shards :: int32
  vkst_ReadyShards :: int32
  vkst_Message :: string
  vkst_Conditions :: "condition list"

text \<open>\<^verbatim>\<open>GrafanaInstanceSpec\<close>.\<close>

record GrafanaInstanceSpec =
  gf_Version :: string
  gf_Replicas :: int32
  gf_Persistence :: "PersistenceSpec option"
  gf_Ingress :: "IngressSpec option"

text \<open>\<^verbatim>\<open>GrafanaInstanceStatus\<close>.\<close>

record GrafanaInstanceStatus =
  gfst_Ready :: bool
  gfst_Phase :: string
  gfst_Replicas :: int32
  gfst_Message :: string
  gfst_Conditions :: "condition list"

text \<open>\<^verbatim>\<open>MariaDBClusterSpec\<close>.\<close>

record MariaDBClusterSpec =
  md_Replicas :: int32
  md_Image :: string
  md_Storage :: StorageSpec
  md_Database :: DatabaseSpec
  md_Resources :: ResourceRequirements
  md_Monitoring :: MonitoringSpec
  md_Expose :: "ServiceExposeSpec option"

text \<open>\<^verbatim>\<open>MariaDBClusterStatus\<close>.\<close>

record MariaDBClusterStatus =
  mdst_Ready :: bool
  mdst_Phase :: string
  mdst_Replicas :: int32
  mdst_ReadyReplicas :: int32
  mdst_Message :: string
  mdst_Conditions :: "condition list"

text \<open>\<^verbatim>\<open>RabbitMQClusterSpec\<close>.\<close>

record RabbitMQClusterSpec =
  rmq_Replicas :: int32
  rmq_Image :: string
  rmq_Storage :: StorageSpec
  rmq_Resources :: ResourceRequirements
  rmq_Ingress :: "IngressSpec option"

text \<open>\<^verbatim>\<open>RabbitMQClusterStatus\<close>.\<close>

record RabbitMQClusterStatus =
  rmqst_Ready :: bool
  rmqst_Phase :: string
  rmqst_Replicas :: int32
  rmqst_ReadyReplicas :: int32
  rmqst_Message :: string
  rmqst_Conditions :: "condition list"

text \<open>\<^verbatim>\<open>PrometheusInstanceSpec\<close>.\<close>

record PrometheusInstanceSpec =
  prom_Version :: string
  prom_Replicas :: int32
  prom_Retention :: string
  prom_Storage :: "StorageSpec option"
  prom_Resources :: ResourceRequirements
  prom_Ingress :: "IngressSpec option"

text \<open>\<^verbatim>\<open>PrometheusInstanceStatus\<close>.\<close>

record PrometheusInstanceStatus =
  promst_Ready :: bool
  promst_Phase :: string
  promst_Replicas :: int32
  promst_ReadyReplicas :: int32
  promst_Message :: string
  promst_Conditions :: "condition list"

section \<open>Objects\<close>

text \<open>
  Every kind is the same struct around its spec and status (\<^verbatim>\<open>TypeMeta\<close> is filled by the scheme and
  never read); the generic reconciler is polymorphic in the two, as the Go one is in its CR type.
\<close>

record ('spec, 'status) paas_object =
  ObjectMeta :: object_meta
  Spec :: 'spec
  Status :: 'status

type_synonym PostgresCluster = "(PostgresClusterSpec, PostgresClusterStatus) paas_object"
type_synonym ValkeyCluster = "(ValkeyClusterSpec, ValkeyClusterStatus) paas_object"
type_synonym GrafanaInstance = "(GrafanaInstanceSpec, GrafanaInstanceStatus) paas_object"
type_synonym MariaDBCluster = "(MariaDBClusterSpec, MariaDBClusterStatus) paas_object"
type_synonym RabbitMQCluster = "(RabbitMQClusterSpec, RabbitMQClusterStatus) paas_object"
type_synonym PrometheusInstance = "(PrometheusInstanceSpec, PrometheusInstanceStatus) paas_object"

text \<open>The accessors of the embedded \<^verbatim>\<open>ObjectMeta\<close>.\<close>

abbreviation cr_name :: "('spec, 'status) paas_object \<Rightarrow> string" where
  "cr_name cr \<equiv> meta_Name (ObjectMeta cr)"

abbreviation cr_namespace :: "('spec, 'status) paas_object \<Rightarrow> string" where
  "cr_namespace cr \<equiv> meta_Namespace (ObjectMeta cr)"

end
