(* ===== verification/Reconciler.thy ===== *)
theory Reconciler
  imports Kube_Libs Api_Types
begin

text \<open>
  The reconciliation engine of \<^verbatim>\<open>internal/reconciler/reconciler.go\<close>. The API client and the event
  recorder are parameters: every call of theirs takes the state of the world \<open>'w\<close> (API server, other
  controllers, clock) and returns its answer and the next state, so a call may fail or meet a world
  that changed in between. \<open>Reconcile\<close> and its helpers follow the Go code branch by branch; logging is
  left out. Every definition takes the libraries \<open>L\<close> it calls.
\<close>

section \<open>Data\<close>

definition FinalizerName :: string where
  "FinalizerName = ''paas.example.com/cleanup''"

record TargetStatus =
  ts_Phase :: string
  ts_Ready :: bool
  ts_ObservedCount :: int32
  ts_ReadyCount :: int32

record ExtraResource =
  extra_GVK :: GroupVersionKind
  extra_Name :: string
  extra_Desired :: "unstructured option"

text \<open>
  The interface \<^verbatim>\<open>Adapter[T, PT]\<close>. \<open>ExtraResources\<close> is \<open>None\<close> for an adapter that does not implement
  \<^verbatim>\<open>ExtraResourcesAdapter\<close> (the type assertion of the engine fails). \<open>ApplyStatus\<close> mutates its CR: it
  returns the new one with the message; its first argument is the current time.
\<close>

record ('spec, 'status) Adapter =
  GVK :: GroupVersionKind
  TargetName :: "string \<Rightarrow> string"
  ObjectKind :: string
  FieldManager :: string
  BuildManifest :: "('spec, 'status) paas_object \<Rightarrow> string \<Rightarrow> string \<Rightarrow> string \<Rightarrow> unstructured"
  ExtractStatus :: "unstructured option \<Rightarrow> TargetStatus"
  ApplyStatus :: "time \<Rightarrow> ('spec, 'status) paas_object \<Rightarrow> string \<Rightarrow> TargetStatus \<Rightarrow> ('spec, 'status) paas_object \<times> string"
  ExtraResources :: "(('spec, 'status) paas_object \<Rightarrow> string \<Rightarrow> string \<Rightarrow> string \<Rightarrow> ExtraResource list) option"

text \<open>A key is a namespace and a name.\<close>

type_synonym NamespacedName = "string \<times> string"

type_synonym ('w, 'a) api_result = "(gerror + 'a) \<times> 'w"

text \<open>
  The client. \<open>Client_Get\<close> reads a CR, \<open>Client_GetUnstructured\<close> an object of the kind set on its
  argument, \<open>Client_Apply\<close> is \<^verbatim>\<open>Patch\<close> with \<^verbatim>\<open>client.Apply\<close>, a field owner and the force flag and returns the
  object as merged by the server, \<open>Client_Update\<close> and \<open>Client_StatusUpdate\<close> write a CR and its status.
  \<open>Client_Now\<close> is the clock.
\<close>

record ('w, 'cr) Client =
  Client_Get :: "NamespacedName \<Rightarrow> 'w \<Rightarrow> ('w, 'cr) api_result"
  Client_GetUnstructured :: "NamespacedName \<Rightarrow> unstructured \<Rightarrow> 'w \<Rightarrow> ('w, unstructured) api_result"
  Client_Apply :: "unstructured \<Rightarrow> string \<Rightarrow> bool \<Rightarrow> 'w \<Rightarrow> ('w, unstructured) api_result"
  Client_Delete :: "unstructured \<Rightarrow> 'w \<Rightarrow> gerror option \<times> 'w"
  Client_Update :: "'cr \<Rightarrow> 'w \<Rightarrow> ('w, 'cr) api_result"
  Client_StatusUpdate :: "'cr \<Rightarrow> 'w \<Rightarrow> ('w, 'cr) api_result"
  Client_Now :: "'w \<Rightarrow> time"

record event =
  ev_Regarding :: NamespacedName
  ev_Type :: string
  ev_Reason :: string
  ev_Action :: string
  ev_Note :: string

record ('w, 'spec, 'status) GenericReconciler =
  gr_Client :: "('w, ('spec, 'status) paas_object) Client"
  gr_Recorder :: "event \<Rightarrow> 'w \<Rightarrow> 'w"
  gr_Adapter :: "('spec, 'status) Adapter"
  gr_Name :: string

record Result =
  Requeue :: bool
  RequeueAfter :: duration

definition no_result :: Result where
  "no_result = \<lparr>Requeue = False, RequeueAfter = 0\<rparr>"

type_synonym 'w reconcile_result = "(Result \<times> gerror option) \<times> 'w"

section \<open>The helpers\<close>

definition GetTarget ::
    "k8s_libs \<Rightarrow> ('w, 'cr) Client \<Rightarrow> GroupVersionKind \<Rightarrow> string \<Rightarrow> string \<Rightarrow> 'w \<Rightarrow> ('w, unstructured option) api_result" where
  "GetTarget L c gvk namespace name w =
     (let u = SetGroupVersionKind L gvk new_unstructured
      in case Client_GetUnstructured c (namespace, name) u w of
           (Inl err, w') \<Rightarrow> if IsNotFound L (Some err) then (Inr None, w') else (Inl err, w')
         | (Inr u', w') \<Rightarrow> (Inr (Some u'), w'))"

definition getTarget ::
    "k8s_libs \<Rightarrow> ('w, 'spec, 'status) GenericReconciler \<Rightarrow> string \<Rightarrow> string \<Rightarrow> 'w \<Rightarrow> ('w, unstructured option) api_result" where
  "getTarget L r namespace name = GetTarget L (gr_Client r) (GVK (gr_Adapter r)) namespace name"

definition applyTarget ::
    "('w, 'spec, 'status) GenericReconciler \<Rightarrow> unstructured \<Rightarrow> 'w \<Rightarrow> ('w, unstructured) api_result" where
  "applyTarget r desired = Client_Apply (gr_Client r) desired (FieldManager (gr_Adapter r)) True"

text \<open>The object handed to \<^verbatim>\<open>Delete\<close>: kind, namespace and name only.\<close>

definition identify :: "k8s_libs \<Rightarrow> GroupVersionKind \<Rightarrow> string \<Rightarrow> string \<Rightarrow> unstructured" where
  "identify L gvk namespace name =
     SetName L name (SetNamespace L namespace (SetGroupVersionKind L gvk new_unstructured))"

definition deleteTarget ::
    "k8s_libs \<Rightarrow> ('w, 'spec, 'status) GenericReconciler \<Rightarrow> string \<Rightarrow> string \<Rightarrow> 'w \<Rightarrow> ('w, bool) api_result" where
  "deleteTarget L r namespace name w =
     (let u = identify L (GVK (gr_Adapter r)) namespace name
      in case Client_Delete (gr_Client r) u w of
           (err, w') \<Rightarrow>
             if IsNotFound L err then (Inr False, w')
             else (case err of Some e \<Rightarrow> (Inl e, w') | None \<Rightarrow> (Inr True, w')))"

definition deleteExtra ::
    "k8s_libs \<Rightarrow> ('w, 'spec, 'status) GenericReconciler \<Rightarrow> GroupVersionKind \<Rightarrow> string \<Rightarrow> string \<Rightarrow> 'w \<Rightarrow> gerror option \<times> 'w" where
  "deleteExtra L r gvk namespace name w =
     (let u = identify L gvk namespace name
      in case Client_Delete (gr_Client r) u w of
           (err, w') \<Rightarrow> if IsNotFound L err then (None, w') else (err, w'))"

text \<open>The loops over the extras: \<open>None\<close> is a nil error, the first error returns at once.\<close>

fun applyExtras_loop ::
    "k8s_libs \<Rightarrow> ('w, 'spec, 'status) GenericReconciler \<Rightarrow> string \<Rightarrow> ExtraResource list \<Rightarrow> 'w \<Rightarrow> gerror option \<times> 'w" where
  "applyExtras_loop L r namespace [] w = (None, w)"
| "applyExtras_loop L r namespace (extra # extras) w =
     (case extra_Desired extra of
        Some desired \<Rightarrow>
          (case applyTarget r desired w of
             (Inl err, w') \<Rightarrow> (Some err, w')
           | (Inr _, w') \<Rightarrow> applyExtras_loop L r namespace extras w')
      | None \<Rightarrow>
          (case deleteExtra L r (extra_GVK extra) namespace (extra_Name extra) w of
             (Some err, w') \<Rightarrow> (Some err, w')
           | (None, w') \<Rightarrow> applyExtras_loop L r namespace extras w'))"

definition applyExtraResources ::
    "k8s_libs \<Rightarrow> ('w, 'spec, 'status) GenericReconciler \<Rightarrow> ('spec, 'status) paas_object \<Rightarrow> string \<Rightarrow> 'w \<Rightarrow> gerror option \<times> 'w" where
  "applyExtraResources L r cr targetName w =
     (case ExtraResources (gr_Adapter r) of
        None \<Rightarrow> (None, w)
      | Some er \<Rightarrow> applyExtras_loop L r (cr_namespace cr) (er cr targetName (cr_namespace cr) (cr_name cr)) w)"

fun deleteExtras_loop ::
    "k8s_libs \<Rightarrow> ('w, 'spec, 'status) GenericReconciler \<Rightarrow> string \<Rightarrow> ExtraResource list \<Rightarrow> 'w \<Rightarrow> gerror option \<times> 'w" where
  "deleteExtras_loop L r namespace [] w = (None, w)"
| "deleteExtras_loop L r namespace (extra # extras) w =
     (case deleteExtra L r (extra_GVK extra) namespace (extra_Name extra) w of
        (Some err, w') \<Rightarrow> (Some err, w')
      | (None, w') \<Rightarrow> deleteExtras_loop L r namespace extras w')"

definition deleteExtraResources ::
    "k8s_libs \<Rightarrow> ('w, 'spec, 'status) GenericReconciler \<Rightarrow> ('spec, 'status) paas_object \<Rightarrow> string \<Rightarrow> 'w \<Rightarrow> gerror option \<times> 'w" where
  "deleteExtraResources L r cr targetName w =
     (case ExtraResources (gr_Adapter r) of
        None \<Rightarrow> (None, w)
      | Some er \<Rightarrow> deleteExtras_loop L r (cr_namespace cr) (er cr targetName (cr_namespace cr) (cr_name cr)) w)"

section \<open>Reconcile\<close>

text \<open>The deletion path: delete the target, then the extras, then release the finalizer.\<close>

definition reconcile_deletion ::
    "k8s_libs \<Rightarrow> ('w, 'spec, 'status) GenericReconciler \<Rightarrow> ('spec, 'status) paas_object \<Rightarrow> string \<Rightarrow> 'w \<Rightarrow> 'w reconcile_result" where
  "reconcile_deletion L r cr targetName w =
     (if ContainsFinalizer L (ObjectMeta cr) FinalizerName then
        (case deleteTarget L r (cr_namespace cr) targetName w of
           (Inl err, w1) \<Rightarrow> ((no_result, Some err), w1)
         | (Inr _, w1) \<Rightarrow>
             (case deleteExtraResources L r cr targetName w1 of
                (Some err, w2) \<Rightarrow> ((no_result, Some err), w2)
              | (None, w2) \<Rightarrow>
                  (let cr' = cr\<lparr>ObjectMeta := RemoveFinalizer L (ObjectMeta cr) FinalizerName\<rparr>
                   in case Client_Update (gr_Client r) cr' w2 of
                        (Inl err, w3) \<Rightarrow> ((no_result, Some err), w3)
                      | (Inr _, w3) \<Rightarrow> ((no_result, None), w3))))
      else ((no_result, None), w))"

text \<open>The event recorded when the target did not exist before the apply.\<close>

definition target_created :: "('spec, 'status) paas_object \<Rightarrow> string \<Rightarrow> string \<Rightarrow> event" where
  "target_created cr kind targetName =
     \<lparr>ev_Regarding = (cr_namespace cr, cr_name cr), ev_Type = ''Normal'', ev_Reason = ''TargetCreated'', ev_Action = ''Sync'',
      ev_Note = kind @ '' '' @ fmt_q targetName @ '' created in namespace '' @ fmt_q (cr_namespace cr)\<rparr>"

text \<open>Steps 3b and 4: extras, then the status of the applied target mirrored onto the CR.\<close>

definition reconcile_status ::
    "k8s_libs \<Rightarrow> ('w, 'spec, 'status) GenericReconciler \<Rightarrow> ('spec, 'status) paas_object \<Rightarrow> string \<Rightarrow> unstructured \<Rightarrow> 'w \<Rightarrow> 'w reconcile_result" where
  "reconcile_status L r cr targetName applied w =
     (case applyExtraResources L r cr targetName w of
        (Some err, w1) \<Rightarrow> ((no_result, Some err), w1)
      | (None, w1) \<Rightarrow>
          (let status = ExtractStatus (gr_Adapter r) (Some applied);
               cr' = fst (ApplyStatus (gr_Adapter r) (Client_Now (gr_Client r) w1) cr targetName status)
           in case Client_StatusUpdate (gr_Client r) cr' w1 of
                (Inl err, w2) \<Rightarrow> ((no_result, Some err), w2)
              | (Inr _, w2) \<Rightarrow>
                  ((\<lparr>Requeue = False,
                     RequeueAfter = (if ts_Ready status then 5 * time_Minute else 15 * time_Second)\<rparr>, None), w2)))"

text \<open>The normal path: finalizer first, then existence check, apply, extras and status.\<close>

definition reconcile_normal ::
    "k8s_libs \<Rightarrow> ('w, 'spec, 'status) GenericReconciler \<Rightarrow> ('spec, 'status) paas_object \<Rightarrow> string \<Rightarrow> 'w \<Rightarrow> 'w reconcile_result" where
  "reconcile_normal L r cr targetName w =
     (if \<not> ContainsFinalizer L (ObjectMeta cr) FinalizerName then
        (let cr' = cr\<lparr>ObjectMeta := AddFinalizer L (ObjectMeta cr) FinalizerName\<rparr>
         in case Client_Update (gr_Client r) cr' w of
              (Inl err, w1) \<Rightarrow> ((no_result, Some err), w1)
            | (Inr _, w1) \<Rightarrow> ((\<lparr>Requeue = True, RequeueAfter = 0\<rparr>, None), w1))
      else
        (case getTarget L r (cr_namespace cr) targetName w of
           (Inl err, w1) \<Rightarrow> ((no_result, Some err), w1)
         | (Inr existing, w1) \<Rightarrow>
             (let desired = BuildManifest (gr_Adapter r) cr targetName (cr_namespace cr) (cr_name cr)
              in case applyTarget r desired w1 of
                   (Inl err, w2) \<Rightarrow> ((no_result, Some err), w2)
                 | (Inr applied, w2) \<Rightarrow>
                     (let w3 = (if existing = None
                                then gr_Recorder r (target_created cr (ObjectKind (gr_Adapter r)) targetName) w2
                                else w2)
                      in reconcile_status L r cr targetName applied w3))))"

definition Reconcile ::
    "k8s_libs \<Rightarrow> ('w, 'spec, 'status) GenericReconciler \<Rightarrow> NamespacedName \<Rightarrow> 'w \<Rightarrow> 'w reconcile_result" where
  "Reconcile L r req w =
     (case Client_Get (gr_Client r) req w of
        (Inl err, w1) \<Rightarrow> ((no_result, IgnoreNotFound L (Some err)), w1)
      | (Inr cr, w1) \<Rightarrow>
          (let targetName = TargetName (gr_Adapter r) (cr_name cr)
           in if \<not> IsZero L (meta_DeletionTimestamp (ObjectMeta cr))
              then reconcile_deletion L r cr targetName w1
              else reconcile_normal L r cr targetName w1))"

end
