(* ===== verification/Client_Simulation.thy ===== *)
theory Client_Simulation
  imports Reconciler
begin

text \<open>
  Two reconcilers with the same adapter whose clients answer alike end alike. A relation between their worlds holds before the CR is
  read, one while it is handled and one at the end; when every call answers the same in related worlds and leads to related worlds,
  \<open>Reconcile\<close> returns the same result, in related worlds again.
\<close>

lemma same_answerE:
  assumes "rel_prod (=) R p q"
  obtains a w s where "p = (a, w)" "q = (a, s)" "R w s"
  using assms by (cases p; cases q) simp

locale client_simulation =
  fixes r :: "('w, 'spec, 'status) GenericReconciler"
    and q :: "('s, 'spec, 'status) GenericReconciler"
    and before :: "'w \<Rightarrow> 's \<Rightarrow> bool"
    and within :: "'w \<Rightarrow> 's \<Rightarrow> bool"
    and after :: "'w \<Rightarrow> 's \<Rightarrow> bool"
  assumes same_adapter: "gr_Adapter r = gr_Adapter q"
    and within_after: "within w s \<Longrightarrow> after w s"
    and get_sim: "before w s \<Longrightarrow> Client_Get (gr_Client r) k w = (a, w') \<Longrightarrow>
      \<exists>s'. Client_Get (gr_Client q) k s = (a, s') \<and> after w' s' \<and> (\<forall>cr. a = Inr cr \<longrightarrow> within w' s')"
    and look_sim: "within w s \<Longrightarrow>
      rel_prod (=) within (Client_GetUnstructured (gr_Client r) k u w) (Client_GetUnstructured (gr_Client q) k u s)"
    and apply_sim: "within w s \<Longrightarrow> rel_prod (=) within (Client_Apply (gr_Client r) u f b w) (Client_Apply (gr_Client q) u f b s)"
    and delete_sim: "within w s \<Longrightarrow> rel_prod (=) within (Client_Delete (gr_Client r) u w) (Client_Delete (gr_Client q) u s)"
    and update_sim: "within w s \<Longrightarrow> rel_prod (=) after (Client_Update (gr_Client r) cr w) (Client_Update (gr_Client q) cr s)"
    and status_sim: "within w s \<Longrightarrow> rel_prod (=) after (Client_StatusUpdate (gr_Client r) cr w) (Client_StatusUpdate (gr_Client q) cr s)"
    and now_sim: "within w s \<Longrightarrow> Client_Now (gr_Client r) w = Client_Now (gr_Client q) s"
    and event_sim: "within w s \<Longrightarrow> within (gr_Recorder r e w) (gr_Recorder q e s)"
begin

lemma applyTarget_sim: "within w s \<Longrightarrow> rel_prod (=) within (applyTarget r u w) (applyTarget q u s)"
  by (simp add: applyTarget_def same_adapter apply_sim)

lemma deleteExtra_sim:
  assumes "within w s"
  shows "rel_prod (=) within (deleteExtra L r g ns n w) (deleteExtra L q g ns n s)"
  using delete_sim [OF assms, of "identify L g ns n"] by (rule same_answerE) (simp add: deleteExtra_def Let_def)

lemma deleteTarget_sim:
  assumes "within w s"
  shows "rel_prod (=) within (deleteTarget L r ns n w) (deleteTarget L q ns n s)"
  using delete_sim [OF assms, of "identify L (GVK (gr_Adapter q)) ns n"]
  by (rule same_answerE) (simp add: deleteTarget_def Let_def same_adapter split: option.split)

lemma getTarget_sim:
  assumes "within w s"
  shows "rel_prod (=) within (getTarget L r ns n w) (getTarget L q ns n s)"
  using look_sim [OF assms, of "(ns, n)" "SetGroupVersionKind L (GVK (gr_Adapter q)) new_unstructured"]
  by (rule same_answerE) (simp add: getTarget_def GetTarget_def Let_def same_adapter split: sum.split)

lemma deleteExtras_loop_sim:
  "within w s \<Longrightarrow> rel_prod (=) within (deleteExtras_loop L r ns xs w) (deleteExtras_loop L q ns xs s)"
proof (induction xs arbitrary: w s)
  case (Cons x xs)
  from deleteExtra_sim [OF Cons.prems, of L "extra_GVK x" ns "extra_Name x"] show ?case
    by (rule same_answerE) (simp add: Cons.IH split: option.split)
qed simp

lemma applyExtras_loop_sim:
  "within w s \<Longrightarrow> rel_prod (=) within (applyExtras_loop L r ns xs w) (applyExtras_loop L q ns xs s)"
proof (induction xs arbitrary: w s)
  case (Cons x xs)
  show ?case
  proof (cases "extra_Desired x")
    case None
    from deleteExtra_sim [OF Cons.prems, of L "extra_GVK x" ns "extra_Name x"] show ?thesis
      by (rule same_answerE) (simp add: None Cons.IH split: option.split)
  next
    case (Some u)
    from applyTarget_sim [OF Cons.prems, of u] show ?thesis
      by (rule same_answerE) (simp add: Some Cons.IH split: sum.split)
  qed
qed simp

lemma extras_sim:
  assumes "within w s"
  shows "rel_prod (=) within (deleteExtraResources L r cr t w) (deleteExtraResources L q cr t s)"
    and "rel_prod (=) within (applyExtraResources L r cr t w) (applyExtraResources L q cr t s)"
  using assms
  by (simp_all add: deleteExtraResources_def applyExtraResources_def same_adapter deleteExtras_loop_sim applyExtras_loop_sim
    split: option.split)

lemma reconcile_deletion_sim:
  assumes "within w s"
  shows "rel_prod (=) after (reconcile_deletion L r cr t w) (reconcile_deletion L q cr t s)"
proof -
  obtain a w1 s1 where 1: "deleteTarget L r (cr_namespace cr) t w = (a, w1)" "deleteTarget L q (cr_namespace cr) t s = (a, s1)"
    "within w1 s1"
    using deleteTarget_sim [OF assms, of L "cr_namespace cr" t] by (rule same_answerE)
  obtain e w2 s2 where 2: "deleteExtraResources L r cr t w1 = (e, w2)" "deleteExtraResources L q cr t s1 = (e, s2)" "within w2 s2"
    using extras_sim(1) [OF 1(3), of L cr t] by (rule same_answerE)
  let ?cr = "cr\<lparr>ObjectMeta := RemoveFinalizer L (ObjectMeta cr) FinalizerName\<rparr>"
  obtain b w3 s3 where 3: "Client_Update (gr_Client r) ?cr w2 = (b, w3)" "Client_Update (gr_Client q) ?cr s2 = (b, s3)" "after w3 s3"
    using update_sim [OF 2(3), of ?cr] by (rule same_answerE)
  show ?thesis
    by (auto simp: reconcile_deletion_def Let_def 1 2 3 assms within_after split: sum.split option.split)
qed

lemma reconcile_status_sim:
  assumes "within w s"
  shows "rel_prod (=) after (reconcile_status L r cr t u w) (reconcile_status L q cr t u s)"
proof -
  obtain e w1 s1 where 1: "applyExtraResources L r cr t w = (e, w1)" "applyExtraResources L q cr t s = (e, s1)" "within w1 s1"
    using extras_sim(2) [OF assms, of L cr t] by (rule same_answerE)
  let ?cr = "fst (ApplyStatus (gr_Adapter q) (Client_Now (gr_Client q) s1) cr t (ExtractStatus (gr_Adapter q) (Some u)))"
  obtain b w2 s2 where 2: "Client_StatusUpdate (gr_Client r) ?cr w1 = (b, w2)" "Client_StatusUpdate (gr_Client q) ?cr s1 = (b, s2)"
    "after w2 s2"
    using status_sim [OF 1(3), of ?cr] by (rule same_answerE)
  show ?thesis
    by (auto simp: reconcile_status_def Let_def 1 2 within_after now_sim [OF 1(3)] same_adapter split: sum.split option.split)
qed

lemma reconcile_normal_sim:
  assumes "within w s"
  shows "rel_prod (=) after (reconcile_normal L r cr t w) (reconcile_normal L q cr t s)"
proof -
  let ?cr = "cr\<lparr>ObjectMeta := AddFinalizer L (ObjectMeta cr) FinalizerName\<rparr>"
  obtain b w0 s0 where 0: "Client_Update (gr_Client r) ?cr w = (b, w0)" "Client_Update (gr_Client q) ?cr s = (b, s0)" "after w0 s0"
    using update_sim [OF assms, of ?cr] by (rule same_answerE)
  obtain a w1 s1 where 1: "getTarget L r (cr_namespace cr) t w = (a, w1)" "getTarget L q (cr_namespace cr) t s = (a, s1)"
    "within w1 s1"
    using getTarget_sim [OF assms, of L "cr_namespace cr" t] by (rule same_answerE)
  let ?d = "BuildManifest (gr_Adapter q) cr t (cr_namespace cr) (cr_name cr)"
  obtain d w2 s2 where 2: "applyTarget r ?d w1 = (d, w2)" "applyTarget q ?d s1 = (d, s2)" "within w2 s2"
    using applyTarget_sim [OF 1(3), of ?d] by (rule same_answerE)
  show ?thesis
    by (auto simp: reconcile_normal_def Let_def 0 1 2 within_after same_adapter event_sim reconcile_status_sim split: sum.split)
qed

theorem Reconcile_sim:
  assumes "before w s"
  shows "rel_prod (=) after (Reconcile L r req w) (Reconcile L q req s)"
proof -
  obtain a w1 where g: "Client_Get (gr_Client r) req w = (a, w1)" by (metis prod.exhaust)
  from get_sim [OF assms g] obtain s1 where s1: "Client_Get (gr_Client q) req s = (a, s1)" "after w1 s1"
    "\<And>cr. a = Inr cr \<Longrightarrow> within w1 s1" by blast
  show ?thesis
    by (cases a) (simp_all add: Reconcile_def Let_def g s1 same_adapter reconcile_deletion_sim reconcile_normal_sim)
qed

end

end
