(* ===== verification/Reconciler_Protocol.thy ===== *)
theory Reconciler_Protocol
  imports Client_Simulation
begin

text \<open>
  The engine as a protocol of API calls. \<open>traced\<close> wraps a reconciler so that every call it makes and
  every answer it gets is appended to a trace; \<open>protocol_step\<close> is the abstract specification, a state
  machine over those calls; \<open>Reconcile_refines_protocol\<close> shows that whatever the API server answers, the
  calls of \<open>Reconcile\<close> are a complete run of that machine. The safety facts about the order of calls
  are then proved on the machine.
\<close>

section \<open>Traces\<close>

datatype 'cr api_call =
    CGet NamespacedName "gerror + 'cr"
  | CGetTarget NamespacedName unstructured "gerror + unstructured"
  | CApply unstructured string bool "gerror + unstructured"
  | CDelete unstructured "gerror option"
  | CUpdate 'cr "gerror + 'cr"
  | CStatusUpdate 'cr "gerror + 'cr"
  | CEvent event

type_synonym ('w, 'cr) traced_world = "'w \<times> 'cr api_call list"

definition log_call :: "('a \<Rightarrow> 'cr api_call) \<Rightarrow> ('w \<Rightarrow> 'a \<times> 'w) \<Rightarrow> ('w, 'cr) traced_world \<Rightarrow> 'a \<times> ('w, 'cr) traced_world" where
  "log_call mk f wt = (case f (fst wt) of (a, w') \<Rightarrow> (a, (w', snd wt @ [mk a])))"

definition traced_client :: "('w, 'cr) Client \<Rightarrow> (('w, 'cr) traced_world, 'cr) Client" where
  "traced_client c = \<lparr>
     Client_Get = (\<lambda>k. log_call (CGet k) (Client_Get c k)),
     Client_GetUnstructured = (\<lambda>k u. log_call (CGetTarget k u) (Client_GetUnstructured c k u)),
     Client_Apply = (\<lambda>u owner force. log_call (CApply u owner force) (Client_Apply c u owner force)),
     Client_Delete = (\<lambda>u. log_call (CDelete u) (Client_Delete c u)),
     Client_Update = (\<lambda>cr. log_call (CUpdate cr) (Client_Update c cr)),
     Client_StatusUpdate = (\<lambda>cr. log_call (CStatusUpdate cr) (Client_StatusUpdate c cr)),
     Client_Now = (\<lambda>wt. Client_Now c (fst wt))\<rparr>"

definition traced ::
    "('w, 'spec, 'status) GenericReconciler \<Rightarrow>
     (('w, ('spec, 'status) paas_object) traced_world, 'spec, 'status) GenericReconciler" where
  "traced r = \<lparr>gr_Client = traced_client (gr_Client r),
     gr_Recorder = (\<lambda>e wt. (gr_Recorder r e (fst wt), snd wt @ [CEvent e])),
     gr_Adapter = gr_Adapter r, gr_Name = gr_Name r\<rparr>"

lemma traced_simps [simp]:
  "gr_Adapter (traced r) = gr_Adapter r"
  "gr_Client (traced r) = traced_client (gr_Client r)"
  "gr_Recorder (traced r) e wt = (gr_Recorder r e (fst wt), snd wt @ [CEvent e])"
  "Client_Get (traced_client c) k = log_call (CGet k) (Client_Get c k)"
  "Client_GetUnstructured (traced_client c) k u = log_call (CGetTarget k u) (Client_GetUnstructured c k u)"
  "Client_Apply (traced_client c) u owner force = log_call (CApply u owner force) (Client_Apply c u owner force)"
  "Client_Delete (traced_client c) u = log_call (CDelete u) (Client_Delete c u)"
  "Client_Update (traced_client c) cr = log_call (CUpdate cr) (Client_Update c cr)"
  "Client_StatusUpdate (traced_client c) cr = log_call (CStatusUpdate cr) (Client_StatusUpdate c cr)"
  "Client_Now (traced_client c) wt = Client_Now c (fst wt)"
  by (simp_all add: traced_def traced_client_def)

lemma log_call_eq [simp]: "log_call mk f wt = (a, wt') \<longleftrightarrow>
    fst (f (fst wt)) = a \<and> wt' = (snd (f (fst wt)), snd wt @ [mk a])"
  by (auto simp: log_call_def split: prod.splits)

subsection \<open>Tracing changes nothing else\<close>

definition untrace :: "'a \<times> ('w, 'cr) traced_world \<Rightarrow> 'a \<times> 'w" where
  "untrace x = (fst x, fst (snd x))"

lemma untrace_Pair [simp]: "untrace (a, (w, t)) = (a, w)"
  by (simp add: untrace_def)

interpretation tracing: client_simulation "traced r" r "\<lambda>wt w. fst wt = w" "\<lambda>wt w. fst wt = w" "\<lambda>wt w. fst wt = w" for r
  by unfold_locales (auto simp: rel_prod_sel log_call_def split: prod.splits)

lemma untrace_Reconcile: "untrace (Reconcile L (traced r) req wt) = Reconcile L r req (fst wt)"
  using tracing.Reconcile_sim [of wt "fst wt" L r req] by (auto simp: untrace_def elim!: same_answerE)

section \<open>The protocol\<close>

text \<open>
  The state machine. \<open>Read\<close> is the start; \<open>DelTarget\<close> and \<open>DelExtras\<close> are the deletion path with the
  extras still to delete; \<open>AddFin\<close>, \<open>Look\<close>, \<open>Applying\<close> (was the target missing?), \<open>Recording\<close> and
  \<open>Extras\<close> (with the extras still to do) are the normal path; \<open>Done\<close> holds the result.
\<close>

datatype ('spec, 'status) phase =
    Read
  | DelTarget "('spec, 'status) paas_object"
  | DelExtras "('spec, 'status) paas_object" "ExtraResource list"
  | AddFin "('spec, 'status) paas_object"
  | Look "('spec, 'status) paas_object"
  | Applying "('spec, 'status) paas_object" bool
  | Recording "('spec, 'status) paas_object" unstructured
  | Extras "('spec, 'status) paas_object" unstructured "ExtraResource list"
  | Done Result "gerror option"

definition target_of :: "('spec, 'status) Adapter \<Rightarrow> ('spec, 'status) paas_object \<Rightarrow> string" where
  "target_of A cr = TargetName A (cr_name cr)"

definition extras_of :: "('spec, 'status) Adapter \<Rightarrow> ('spec, 'status) paas_object \<Rightarrow> ExtraResource list" where
  "extras_of A cr = (case ExtraResources A of None \<Rightarrow> []
     | Some er \<Rightarrow> er cr (target_of A cr) (cr_namespace cr) (cr_name cr))"

definition manifest_of :: "('spec, 'status) Adapter \<Rightarrow> ('spec, 'status) paas_object \<Rightarrow> unstructured" where
  "manifest_of A cr = BuildManifest A cr (target_of A cr) (cr_namespace cr) (cr_name cr)"

definition terminating :: "k8s_libs \<Rightarrow> ('spec, 'status) paas_object \<Rightarrow> bool" where
  "terminating L cr \<longleftrightarrow> \<not> IsZero L (meta_DeletionTimestamp (ObjectMeta cr))"

definition has_finalizer :: "k8s_libs \<Rightarrow> ('spec, 'status) paas_object \<Rightarrow> bool" where
  "has_finalizer L cr \<longleftrightarrow> ContainsFinalizer L (ObjectMeta cr) FinalizerName"

definition after_read :: "k8s_libs \<Rightarrow> ('spec, 'status) paas_object \<Rightarrow> ('spec, 'status) phase" where
  "after_read L cr =
     (if terminating L cr then (if has_finalizer L cr then DelTarget cr else Done no_result None)
      else if has_finalizer L cr then Look cr else AddFin cr)"

definition requeue_for :: "TargetStatus \<Rightarrow> Result" where
  "requeue_for s = \<lparr>Requeue = False, RequeueAfter = (if ts_Ready s then 5 * time_Minute else 15 * time_Second)\<rparr>"

fun answer :: "Result \<Rightarrow> gerror + 'a \<Rightarrow> ('spec, 'status) phase" where
  "answer ok (Inl e) = Done no_result (Some e)"
| "answer ok (Inr _) = Done ok None"

inductive protocol_step ::
    "k8s_libs \<Rightarrow> ('spec, 'status) Adapter \<Rightarrow> NamespacedName \<Rightarrow> ('spec, 'status) phase \<Rightarrow>
     ('spec, 'status) paas_object api_call \<Rightarrow> ('spec, 'status) phase \<Rightarrow> bool"
  for L A req where
  read_error: "protocol_step L A req Read (CGet req (Inl e)) (Done no_result (IgnoreNotFound L (Some e)))"
| read_ok: "protocol_step L A req Read (CGet req (Inr cr)) (after_read L cr)"
| target_deleted: "err = None \<or> IsNotFound L err \<Longrightarrow>
    protocol_step L A req (DelTarget cr) (CDelete (identify L (GVK A) (cr_namespace cr) (target_of A cr)) err)
      (DelExtras cr (extras_of A cr))"
| target_delete_error: "\<not> IsNotFound L (Some e) \<Longrightarrow>
    protocol_step L A req (DelTarget cr) (CDelete (identify L (GVK A) (cr_namespace cr) (target_of A cr)) (Some e))
      (Done no_result (Some e))"
| extra_deleted: "err = None \<or> IsNotFound L err \<Longrightarrow>
    protocol_step L A req (DelExtras cr (x # xs))
      (CDelete (identify L (extra_GVK x) (cr_namespace cr) (extra_Name x)) err) (DelExtras cr xs)"
| extra_delete_error: "\<not> IsNotFound L (Some e) \<Longrightarrow>
    protocol_step L A req (DelExtras cr (x # xs))
      (CDelete (identify L (extra_GVK x) (cr_namespace cr) (extra_Name x)) (Some e)) (Done no_result (Some e))"
| finalizer_removed:
    "protocol_step L A req (DelExtras cr [])
      (CUpdate (cr\<lparr>ObjectMeta := RemoveFinalizer L (ObjectMeta cr) FinalizerName\<rparr>) a) (answer no_result a)"
| finalizer_added:
    "protocol_step L A req (AddFin cr)
      (CUpdate (cr\<lparr>ObjectMeta := AddFinalizer L (ObjectMeta cr) FinalizerName\<rparr>) a)
      (answer \<lparr>Requeue = True, RequeueAfter = 0\<rparr> a)"
| look_error: "\<not> IsNotFound L (Some e) \<Longrightarrow>
    protocol_step L A req (Look cr)
      (CGetTarget (cr_namespace cr, target_of A cr) (SetGroupVersionKind L (GVK A) new_unstructured) (Inl e))
      (Done no_result (Some e))"
| look_missing: "IsNotFound L (Some e) \<Longrightarrow>
    protocol_step L A req (Look cr)
      (CGetTarget (cr_namespace cr, target_of A cr) (SetGroupVersionKind L (GVK A) new_unstructured) (Inl e))
      (Applying cr True)"
| look_found:
    "protocol_step L A req (Look cr)
      (CGetTarget (cr_namespace cr, target_of A cr) (SetGroupVersionKind L (GVK A) new_unstructured) (Inr u))
      (Applying cr False)"
| apply_error:
    "protocol_step L A req (Applying cr missing) (CApply (manifest_of A cr) (FieldManager A) True (Inl e))
      (Done no_result (Some e))"
| applied:
    "protocol_step L A req (Applying cr missing) (CApply (manifest_of A cr) (FieldManager A) True (Inr u))
      (if missing then Recording cr u else Extras cr u (extras_of A cr))"
| recorded:
    "protocol_step L A req (Recording cr u) (CEvent (target_created cr (ObjectKind A) (target_of A cr)))
      (Extras cr u (extras_of A cr))"
| extra_applied: "extra_Desired x = Some d \<Longrightarrow>
    protocol_step L A req (Extras cr u (x # xs)) (CApply d (FieldManager A) True (Inr u')) (Extras cr u xs)"
| extra_apply_error: "extra_Desired x = Some d \<Longrightarrow>
    protocol_step L A req (Extras cr u (x # xs)) (CApply d (FieldManager A) True (Inl e)) (Done no_result (Some e))"
| extra_pruned: "extra_Desired x = None \<Longrightarrow> err = None \<or> IsNotFound L err \<Longrightarrow>
    protocol_step L A req (Extras cr u (x # xs))
      (CDelete (identify L (extra_GVK x) (cr_namespace cr) (extra_Name x)) err) (Extras cr u xs)"
| extra_prune_error: "extra_Desired x = None \<Longrightarrow> \<not> IsNotFound L (Some e) \<Longrightarrow>
    protocol_step L A req (Extras cr u (x # xs))
      (CDelete (identify L (extra_GVK x) (cr_namespace cr) (extra_Name x)) (Some e)) (Done no_result (Some e))"
| status_written:
    "protocol_step L A req (Extras cr u [])
      (CStatusUpdate (fst (ApplyStatus A now cr (target_of A cr) (ExtractStatus A (Some u)))) a)
      (answer (requeue_for (ExtractStatus A (Some u))) a)"

inductive protocol_run ::
    "k8s_libs \<Rightarrow> ('spec, 'status) Adapter \<Rightarrow> NamespacedName \<Rightarrow> ('spec, 'status) phase \<Rightarrow>
     ('spec, 'status) paas_object api_call list \<Rightarrow> ('spec, 'status) phase \<Rightarrow> bool"
  for L A req where
  run_nil: "protocol_run L A req p [] p"
| run_step: "protocol_step L A req p c q \<Longrightarrow> protocol_run L A req q cs p' \<Longrightarrow> protocol_run L A req p (c # cs) p'"

lemma run_single: "protocol_step L A req p c q \<Longrightarrow> protocol_run L A req p [c] q"
  by (blast intro: run_step run_nil)

lemma run_append:
  "protocol_run L A req p cs q \<Longrightarrow> protocol_run L A req q cs' p' \<Longrightarrow> protocol_run L A req p (cs @ cs') p'"
  by (induction rule: protocol_run.induct) (auto intro: run_step)

subsection \<open>The engine refines the protocol\<close>

text \<open>\<open>emits p t t' q\<close>: the calls between the traces \<open>t\<close> and \<open>t'\<close> lead from phase \<open>p\<close> to \<open>q\<close>.\<close>

definition emits ::
    "k8s_libs \<Rightarrow> ('spec, 'status) Adapter \<Rightarrow> NamespacedName \<Rightarrow> ('spec, 'status) phase \<Rightarrow>
     ('spec, 'status) paas_object api_call list \<Rightarrow> ('spec, 'status) paas_object api_call list \<Rightarrow>
     ('spec, 'status) phase \<Rightarrow> bool" where
  "emits L A req p t t' q \<longleftrightarrow> (\<exists>cs. t' = t @ cs \<and> protocol_run L A req p cs q)"

lemma emits_refl: "emits L A req p t t p"
  by (auto simp: emits_def intro: run_nil)

lemma emits_step: "protocol_step L A req p c q \<Longrightarrow> emits L A req p t (t @ [c]) q"
  by (auto simp: emits_def intro: run_single)

lemma emits_trans: "emits L A req p t t' q \<Longrightarrow> emits L A req q t' t'' p' \<Longrightarrow> emits L A req p t t'' p'"
  by (auto simp: emits_def intro: run_append)

lemma deleteExtra_emits:
  assumes "deleteExtra L (traced r) (extra_GVK x) (cr_namespace cr) (extra_Name x) (w, t) = (e, (w', t'))"
  shows "emits L (gr_Adapter r) req (DelExtras cr (x # xs)) t t'
    (case e of None \<Rightarrow> DelExtras cr xs | Some err \<Rightarrow> Done no_result (Some err))"
  using assms
  by (auto simp: deleteExtra_def Let_def log_call_def split: prod.splits if_splits option.splits
    intro!: emits_step protocol_step.intros)

lemma pruneExtra_emits:
  assumes "deleteExtra L (traced r) (extra_GVK x) (cr_namespace cr) (extra_Name x) (w, t) = (e, (w', t'))"
    and "extra_Desired x = None"
  shows "emits L (gr_Adapter r) req (Extras cr u (x # xs)) t t'
    (case e of None \<Rightarrow> Extras cr u xs | Some err \<Rightarrow> Done no_result (Some err))"
  using assms
  by (auto simp: deleteExtra_def Let_def log_call_def split: prod.splits if_splits option.splits
    intro!: emits_step protocol_step.intros)

lemma applyExtra_emits:
  assumes "applyTarget (traced r) d (w, t) = (a, (w', t'))" and "extra_Desired x = Some d"
  shows "emits L (gr_Adapter r) req (Extras cr u (x # xs)) t t'
    (case a of Inr _ \<Rightarrow> Extras cr u xs | Inl err \<Rightarrow> Done no_result (Some err))"
  using assms
  by (auto simp: applyTarget_def log_call_def split: prod.splits sum.splits
    intro!: emits_step protocol_step.intros)

lemma deleteExtras_loop_emits:
  "deleteExtras_loop L (traced r) (cr_namespace cr) xs (w, t) = (e, (w', t')) \<Longrightarrow>
   emits L (gr_Adapter r) req (DelExtras cr xs) t t'
    (case e of None \<Rightarrow> DelExtras cr [] | Some err \<Rightarrow> Done no_result (Some err))"
proof (induction xs arbitrary: w t)
  case Nil
  then show ?case by (auto intro: emits_refl)
next
  case (Cons x xs)
  obtain e1 w1 t1 where d: "deleteExtra L (traced r) (extra_GVK x) (cr_namespace cr) (extra_Name x) (w, t) = (e1, (w1, t1))"
    by (metis prod.exhaust)
  from deleteExtra_emits [OF d, of req xs] Cons.prems d Cons.IH [of w1 t1] show ?case
    by (auto split: option.splits intro: emits_trans)
qed

lemma applyExtras_loop_emits:
  "applyExtras_loop L (traced r) (cr_namespace cr) xs (w, t) = (e, (w', t')) \<Longrightarrow>
   emits L (gr_Adapter r) req (Extras cr u xs) t t'
    (case e of None \<Rightarrow> Extras cr u [] | Some err \<Rightarrow> Done no_result (Some err))"
proof (induction xs arbitrary: w t)
  case Nil
  then show ?case by (auto intro: emits_refl)
next
  case (Cons x xs)
  show ?case
  proof (cases "extra_Desired x")
    case None
    obtain e1 w1 t1 where d: "deleteExtra L (traced r) (extra_GVK x) (cr_namespace cr) (extra_Name x) (w, t) = (e1, (w1, t1))"
      by (metis prod.exhaust)
    from pruneExtra_emits [OF d None, of req u xs] Cons.prems None d Cons.IH [of w1 t1] show ?thesis
      by (auto split: option.splits intro: emits_trans)
  next
    case (Some d)
    obtain a w1 t1 where a: "applyTarget (traced r) d (w, t) = (a, (w1, t1))"
      by (metis prod.exhaust)
    from applyExtra_emits [OF a Some, of L req cr u xs] Cons.prems Some a Cons.IH [of w1 t1] show ?thesis
      by (auto split: sum.splits intro: emits_trans)
  qed
qed

lemma deleteExtraResources_emits:
  assumes "deleteExtraResources L (traced r) cr (target_of (gr_Adapter r) cr) (w, t) = (e, (w', t'))"
  shows "emits L (gr_Adapter r) req (DelExtras cr (extras_of (gr_Adapter r) cr)) t t'
    (case e of None \<Rightarrow> DelExtras cr [] | Some err \<Rightarrow> Done no_result (Some err))"
  using assms
  by (auto simp: deleteExtraResources_def extras_of_def split: option.splits
    intro: emits_refl dest: deleteExtras_loop_emits [where req = req])

lemma applyExtraResources_emits:
  assumes "applyExtraResources L (traced r) cr (target_of (gr_Adapter r) cr) (w, t) = (e, (w', t'))"
  shows "emits L (gr_Adapter r) req (Extras cr u (extras_of (gr_Adapter r) cr)) t t'
    (case e of None \<Rightarrow> Extras cr u [] | Some err \<Rightarrow> Done no_result (Some err))"
  using assms
  by (auto simp: applyExtraResources_def extras_of_def split: option.splits
    intro: emits_refl dest: applyExtras_loop_emits [where req = req and u = u])

lemma deleteTarget_emits:
  assumes "deleteTarget L (traced r) (cr_namespace cr) (target_of (gr_Adapter r) cr) (w, t) = (a, (w', t'))"
  shows "emits L (gr_Adapter r) req (DelTarget cr) t t'
    (case a of Inr _ \<Rightarrow> DelExtras cr (extras_of (gr_Adapter r) cr) | Inl err \<Rightarrow> Done no_result (Some err))"
  using assms
  by (auto simp: deleteTarget_def Let_def log_call_def split: prod.splits if_splits option.splits
    intro!: emits_step protocol_step.intros)

lemma update_emits:
  "emits L A req (DelExtras cr []) t
     (t @ [CUpdate (cr\<lparr>ObjectMeta := RemoveFinalizer L (ObjectMeta cr) FinalizerName\<rparr>) a]) (answer no_result a)"
  "emits L A req (AddFin cr) t
     (t @ [CUpdate (cr\<lparr>ObjectMeta := AddFinalizer L (ObjectMeta cr) FinalizerName\<rparr>) a])
     (answer \<lparr>Requeue = True, RequeueAfter = 0\<rparr> a)"
  "emits L A req (Extras cr u []) t
     (t @ [CStatusUpdate (fst (ApplyStatus A now cr (target_of A cr) (ExtractStatus A (Some u)))) b])
     (answer (requeue_for (ExtractStatus A (Some u))) b)"
  by (rule emits_step, rule protocol_step.intros)+

lemma reconcile_deletion_emits:
  assumes "reconcile_deletion L (traced r) cr (target_of (gr_Adapter r) cr) (w, t) = ((res, e), (w', t'))"
    and "has_finalizer L cr"
  shows "emits L (gr_Adapter r) req (DelTarget cr) t t' (Done res e)"
proof -
  let ?n = "target_of (gr_Adapter r) cr"
  obtain a w1 t1 where 1: "deleteTarget L (traced r) (cr_namespace cr) ?n (w, t) = (a, (w1, t1))"
    by (metis prod.exhaust)
  obtain e2 w2 t2 where 2: "deleteExtraResources L (traced r) cr ?n (w1, t1) = (e2, (w2, t2))"
    by (metis prod.exhaust)
  note T = deleteTarget_emits [OF 1, of req] and X = deleteExtraResources_emits [OF 2, of req]
  show ?thesis
  proof (cases a)
    case (Inl err)
    with T assms 1 show ?thesis by (auto simp: reconcile_deletion_def has_finalizer_def)
  next
    case (Inr d)
    note T = T [unfolded Inr sum.case]
    show ?thesis
    proof (cases e2)
      case (Some err)
      with X have "emits L (gr_Adapter r) req (DelExtras cr (extras_of (gr_Adapter r) cr)) t1 t2 (Done no_result (Some err))"
        by simp
      from emits_trans [OF T this] Inr Some assms 1 2 show ?thesis
        by (auto simp: reconcile_deletion_def has_finalizer_def)
    next
      case None
      with X have X': "emits L (gr_Adapter r) req (DelExtras cr (extras_of (gr_Adapter r) cr)) t1 t2 (DelExtras cr [])"
        by simp
      obtain b w3 where 3: "Client_Update (gr_Client r)
          (cr\<lparr>ObjectMeta := RemoveFinalizer L (ObjectMeta cr) FinalizerName\<rparr>) w2 = (b, w3)"
        by (metis prod.exhaust)
      from emits_trans [OF emits_trans [OF T X'] update_emits(1) [where a = b]] Inr None assms 1 2 3
      show ?thesis
        by (cases b) (auto simp: reconcile_deletion_def has_finalizer_def log_call_def)
    qed
  qed
qed

lemma reconcile_status_emits:
  assumes "reconcile_status L (traced r) cr (target_of (gr_Adapter r) cr) u (w, t) = ((res, e), (w', t'))"
  shows "emits L (gr_Adapter r) req (Extras cr u (extras_of (gr_Adapter r) cr)) t t' (Done res e)"
proof -
  let ?A = "gr_Adapter r"
  obtain e1 w1 t1 where 1: "applyExtraResources L (traced r) cr (target_of ?A cr) (w, t) = (e1, (w1, t1))"
    by (metis prod.exhaust)
  note X = applyExtraResources_emits [OF 1, of req u]
  show ?thesis
  proof (cases e1)
    case (Some err)
    with X assms 1 show ?thesis by (auto simp: reconcile_status_def)
  next
    case None
    note X = X [unfolded None option.case]
    obtain b w2 where 2: "Client_StatusUpdate (gr_Client r) (fst (ApplyStatus ?A (Client_Now (gr_Client r) w1) cr
        (target_of ?A cr) (ExtractStatus ?A (Some u)))) w1 = (b, w2)"
      by (metis prod.exhaust)
    from emits_trans [OF X update_emits(3) [where b = b and now = "Client_Now (gr_Client r) w1"]] None assms 1 2
    show ?thesis
      by (cases b) (auto simp: reconcile_status_def log_call_def Let_def requeue_for_def)
  qed
qed

lemma getTarget_emits:
  assumes "getTarget L (traced r) (cr_namespace cr) (target_of (gr_Adapter r) cr) (w, t) = (a, (w', t'))"
  shows "emits L (gr_Adapter r) req (Look cr) t t'
    (case a of Inr existing \<Rightarrow> Applying cr (existing = None) | Inl err \<Rightarrow> Done no_result (Some err))"
  using assms
  by (auto simp: getTarget_def GetTarget_def Let_def log_call_def split: prod.splits if_splits sum.splits
    intro!: emits_step protocol_step.intros)

lemma applyTarget_emits:
  assumes "applyTarget (traced r) (manifest_of (gr_Adapter r) cr) (w, t) = (a, (w', t'))"
  shows "emits L (gr_Adapter r) req (Applying cr missing) t t'
    (case a of Inr u \<Rightarrow> if missing then Recording cr u else Extras cr u (extras_of (gr_Adapter r) cr)
     | Inl err \<Rightarrow> Done no_result (Some err))"
proof (cases a)
  case (Inl err)
  with assms show ?thesis
    by (auto simp: applyTarget_def log_call_def split: prod.splits intro!: emits_step protocol_step.intros)
next
  case (Inr u)
  with assms have "t' = t @ [CApply (manifest_of (gr_Adapter r) cr) (FieldManager (gr_Adapter r)) True (Inr u)]"
    by (auto simp: applyTarget_def log_call_def split: prod.splits)
  with Inr show ?thesis
    by (simp only: sum.case emits_step [OF protocol_step.applied])
qed

lemma reconcile_normal_emits:
  assumes "reconcile_normal L (traced r) cr (target_of (gr_Adapter r) cr) (w, t) = ((res, e), (w', t'))"
  shows "emits L (gr_Adapter r) req (if has_finalizer L cr then Look cr else AddFin cr) t t' (Done res e)"
proof (cases "has_finalizer L cr")
  case False
  obtain b w1 where 1: "Client_Update (gr_Client r)
      (cr\<lparr>ObjectMeta := AddFinalizer L (ObjectMeta cr) FinalizerName\<rparr>) w = (b, w1)"
    by (metis prod.exhaust)
  with False assms update_emits(2) [where A = "gr_Adapter r" and L = L and req = req and cr = cr and t = t and a = b]
  show ?thesis
    by (cases b) (auto simp: reconcile_normal_def has_finalizer_def log_call_def Let_def)
next
  case True
  let ?A = "gr_Adapter r"
  let ?n = "target_of ?A cr"
  obtain a w1 t1 where 1: "getTarget L (traced r) (cr_namespace cr) ?n (w, t) = (a, (w1, t1))"
    by (metis prod.exhaust)
  obtain b w2 t2 where 2: "applyTarget (traced r) (manifest_of ?A cr) (w1, t1) = (b, (w2, t2))"
    by (metis prod.exhaust)
  note G = getTarget_emits [OF 1, of req]
  show ?thesis
  proof (cases a)
    case (Inl err)
    with G True assms 1 show ?thesis by (auto simp: reconcile_normal_def has_finalizer_def)
  next
    case a: (Inr existing)
    note G = G [unfolded a sum.case] and P = applyTarget_emits [OF 2, of L req "existing = None"]
    show ?thesis
    proof (cases b)
      case (Inl err)
      with P have "emits L ?A req (Applying cr (existing = None)) t1 t2 (Done no_result (Some err))"
        by simp
      from emits_trans [OF G this] True a Inl assms 1 2 show ?thesis
        by (auto simp: reconcile_normal_def has_finalizer_def Let_def manifest_of_def)
    next
      case b: (Inr u)
      let ?ev = "target_created cr (ObjectKind ?A) ?n"
      define wt3 where "wt3 = (if existing = None then (gr_Recorder r ?ev w2, t2 @ [CEvent ?ev]) else (w2, t2))"
      have "emits L ?A req (Applying cr (existing = None)) t1 (snd wt3) (Extras cr u (extras_of ?A cr))"
        using P b emits_step [OF protocol_step.recorded, of L ?A req cr u t2]
        by (auto simp: wt3_def intro: emits_trans)
      note Q = emits_trans [OF G this]
      have "reconcile_status L (traced r) cr ?n u (fst wt3, snd wt3) = ((res, e), (w', t'))"
        using assms True a b 1 2
        by (auto simp: reconcile_normal_def has_finalizer_def Let_def manifest_of_def wt3_def split: if_splits)
      from emits_trans [OF Q reconcile_status_emits [OF this]] True show ?thesis by simp
    qed
  qed
qed

lemma Reconcile_run:
  assumes "Reconcile L (traced r) req (w, []) = ((res, e), (w', tr))"
  shows "protocol_run L (gr_Adapter r) req Read tr (Done res e)"
proof -
  obtain a w1 where 1: "Client_Get (gr_Client r) req w = (a, w1)"
    by (metis prod.exhaust)
  have "emits L (gr_Adapter r) req Read [] tr (Done res e)"
  proof (cases a)
    case (Inl err)
    with assms 1 show ?thesis
      by (auto simp: Reconcile_def log_call_def intro!: emits_step [where t = "[]", simplified] protocol_step.intros)
  next
    case (Inr cr)
    have R: "emits L (gr_Adapter r) req Read [] ([] @ [CGet req (Inr cr)]) (after_read L cr)"
      by (rule emits_step) (rule protocol_step.read_ok)
    have "emits L (gr_Adapter r) req (after_read L cr) [CGet req (Inr cr)] tr (Done res e)"
    proof (cases "terminating L cr")
      case True
      with assms 1 Inr have D: "reconcile_deletion L (traced r) cr (target_of (gr_Adapter r) cr) (w1, [CGet req (Inr cr)]) = ((res, e), (w', tr))"
        by (simp add: Reconcile_def log_call_def Let_def target_of_def terminating_def)
      show ?thesis
      proof (cases "has_finalizer L cr")
        case fin: True
        from reconcile_deletion_emits [OF D fin] True fin show ?thesis by (simp add: after_read_def)
      next
        case False
        with D True show ?thesis
          by (auto simp: after_read_def reconcile_deletion_def has_finalizer_def intro: emits_refl)
      qed
    next
      case False
      with assms 1 Inr have "reconcile_normal L (traced r) cr (target_of (gr_Adapter r) cr) (w1, [CGet req (Inr cr)]) = ((res, e), (w', tr))"
        by (simp add: Reconcile_def log_call_def Let_def target_of_def terminating_def)
      from reconcile_normal_emits [OF this] False show ?thesis by (simp add: after_read_def)
    qed
    with R show ?thesis by (auto intro: emits_trans)
  qed
  then show ?thesis by (simp add: emits_def)
qed

end
