(* ===== verification/Reconciler_Safety.thy ===== *)
theory Reconciler_Safety
  imports Reconciler_Protocol
begin

text \<open>
  What the protocol guarantees: lemmas on its runs, proved by inversion of its steps, and the facts
  about a whole run of \<open>Reconcile\<close> (\<open>calls\<close>) the properties rest on: when the finalizer may be released,
  what may precede an apply, which object and which result a status write has, how errors end a run,
  and how many calls a run makes.
\<close>

section \<open>Facts about the protocol\<close>

inductive_cases ReadE: "protocol_step L A req Read c q"
inductive_cases DelTargetE: "protocol_step L A req (DelTarget cr) c q"
inductive_cases DelExtrasE: "protocol_step L A req (DelExtras cr xs) c q"
inductive_cases AddFinE: "protocol_step L A req (AddFin cr) c q"
inductive_cases LookE: "protocol_step L A req (Look cr) c q"
inductive_cases ApplyingE: "protocol_step L A req (Applying cr m) c q"
inductive_cases RecordingE: "protocol_step L A req (Recording cr u) c q"
inductive_cases ExtrasE: "protocol_step L A req (Extras cr u xs) c q"
inductive_cases DoneE: "protocol_step L A req (Done res e) c q"
inductive_cases run_ConsE: "protocol_run L A req p (c # cs) q"
inductive_simps run_Nil_iff [simp]: "protocol_run L A req p [] q"

lemmas phase_cases = ReadE DelTargetE DelExtrasE AddFinE LookE ApplyingE RecordingE ExtrasE DoneE

lemma answer_Done: "\<exists>res e. answer ok a = Done res e"
  by (cases a) auto

lemma run_from_Done: "protocol_run L A req (Done res e) cs q \<Longrightarrow> cs = [] \<and> q = Done res e"
  by (cases cs) (auto elim: run_ConsE DoneE)

lemma run_from_answer: "protocol_run L A req (answer ok a) cs q \<Longrightarrow> cs = []"
  by (cases a) (auto dest: run_from_Done)

text \<open>An invariant of the phases that also constrains the calls made from them.\<close>

lemma run_invariant:
  assumes "protocol_run L A req p cs q" and "P p"
    and "\<And>p c q. protocol_step L A req p c q \<Longrightarrow> P p \<Longrightarrow> P q \<and> Q c"
  shows "P q \<and> (\<forall>c \<in> set cs. Q c)"
  using assms(1,2) by (induction rule: protocol_run.induct) (auto dest: assms(3))

text \<open>The normal path writes no CR object, the deletion path applies nothing.\<close>

fun update_free :: "('spec, 'status) phase \<Rightarrow> bool" where
  "update_free (Look _) = True"
| "update_free (Applying _ _) = True"
| "update_free (Recording _ _) = True"
| "update_free (Extras _ _ _) = True"
| "update_free (Done _ _) = True"
| "update_free _ = False"

fun apply_free :: "('spec, 'status) phase \<Rightarrow> bool" where
  "apply_free (DelTarget _) = True"
| "apply_free (DelExtras _ _) = True"
| "apply_free (AddFin _) = True"
| "apply_free (Done _ _) = True"
| "apply_free _ = False"

fun is_update :: "'cr api_call \<Rightarrow> bool" where
  "is_update (CUpdate _ _) = True"
| "is_update _ = False"

fun is_apply :: "'cr api_call \<Rightarrow> bool" where
  "is_apply (CApply _ _ _ _) = True"
| "is_apply (CStatusUpdate _ _) = True"
| "is_apply _ = False"

lemma update_free_answer [simp]: "update_free (answer ok a)"
  by (cases a) auto

lemma apply_free_answer [simp]: "apply_free (answer ok a)"
  by (cases a) auto

lemma step_update_free: "protocol_step L A req p c q \<Longrightarrow> update_free p \<Longrightarrow> update_free q \<and> \<not> is_update c"
  by (cases rule: protocol_step.cases) auto

lemma step_apply_free: "protocol_step L A req p c q \<Longrightarrow> apply_free p \<Longrightarrow> apply_free q \<and> \<not> is_apply c"
  by (cases rule: protocol_step.cases) auto

lemma run_update_free:
  "protocol_run L A req p cs q \<Longrightarrow> update_free p \<Longrightarrow> CUpdate cr a \<notin> set cs"
  using run_invariant [of L A req p cs q update_free "\<lambda>c. \<not> is_update c"] step_update_free
  by (metis is_update.simps(1))

lemma run_apply_free:
  assumes "protocol_run L A req p cs q" and "apply_free p"
  shows "CApply u f b a \<notin> set cs" and "CStatusUpdate cr a' \<notin> set cs"
  using run_invariant [of L A req p cs q apply_free "\<lambda>c. \<not> is_apply c"] step_apply_free assms
  by (metis is_apply.simps(1), metis is_apply.simps(2))

subsection \<open>Deletion\<close>

text \<open>A delete that left the object gone: it succeeded or found nothing.\<close>

definition delete_ok :: "k8s_libs \<Rightarrow> gerror option \<Rightarrow> bool" where
  "delete_ok L err \<longleftrightarrow> err = None \<or> IsNotFound L err"

definition deleted_in :: "k8s_libs \<Rightarrow> GroupVersionKind \<Rightarrow> string \<Rightarrow> string \<Rightarrow> 'cr api_call list \<Rightarrow> bool" where
  "deleted_in L g ns n cs \<longleftrightarrow> (\<exists>err. CDelete (identify L g ns n) err \<in> set cs \<and> delete_ok L err)"

lemma deleted_in_Cons: "deleted_in L g ns n cs \<Longrightarrow> deleted_in L g ns n (c # cs)"
  by (auto simp: deleted_in_def)

lemma run_DelExtras_update:
  "protocol_run L A req (DelExtras cr xs) cs q \<Longrightarrow> CUpdate o' a \<in> set cs \<Longrightarrow>
   \<exists>pre. cs = pre @ [CUpdate o' a] \<and> o' = cr\<lparr>ObjectMeta := RemoveFinalizer L (ObjectMeta cr) FinalizerName\<rparr> \<and>
     (\<forall>x \<in> set xs. deleted_in L (extra_GVK x) (cr_namespace cr) (extra_Name x) pre)"
proof (induction cs arbitrary: xs)
  case Nil
  then show ?case by simp
next
  case (Cons c cs)
  from Cons.prems(1) obtain q1 where step: "protocol_step L A req (DelExtras cr xs) c q1"
    and run: "protocol_run L A req q1 cs q"
    by (auto elim: run_ConsE)
  from step consider
      (deleted) x xs' err where "xs = x # xs'" "q1 = DelExtras cr xs'" "delete_ok L err"
        "c = CDelete (identify L (extra_GVK x) (cr_namespace cr) (extra_Name x)) err"
    | (failed) res e where "q1 = Done res e" "\<not> is_update c"
    | (released) a' where "xs = []" "q1 = answer no_result a'"
        "c = CUpdate (cr\<lparr>ObjectMeta := RemoveFinalizer L (ObjectMeta cr) FinalizerName\<rparr>) a'"
    by (cases rule: DelExtrasE) (auto simp: delete_ok_def)
  then show ?case
  proof cases
    case deleted
    with run Cons.prems(2) have "protocol_run L A req (DelExtras cr xs') cs q" "CUpdate o' a \<in> set cs"
      by auto
    from Cons.IH [OF this] obtain pre where pre: "cs = pre @ [CUpdate o' a]"
      "o' = cr\<lparr>ObjectMeta := RemoveFinalizer L (ObjectMeta cr) FinalizerName\<rparr>"
      "\<forall>x \<in> set xs'. deleted_in L (extra_GVK x) (cr_namespace cr) (extra_Name x) pre" by auto
    with deleted have "c # cs = (c # pre) @ [CUpdate o' a]"
      "\<forall>x \<in> set xs. deleted_in L (extra_GVK x) (cr_namespace cr) (extra_Name x) (c # pre)"
      by (auto intro: deleted_in_Cons) (auto simp: deleted_in_def)
    with pre(2) show ?thesis by blast
  next
    case failed
    with run Cons.prems(2) show ?thesis by (auto dest!: run_from_Done)
  next
    case released
    with run Cons.prems(2) show ?thesis by (auto dest: run_from_answer)
  qed
qed

lemma run_DelTarget_update:
  assumes "protocol_run L A req (DelTarget cr) cs q" and "CUpdate o' a \<in> set cs"
  shows "\<exists>pre. cs = pre @ [CUpdate o' a] \<and> o' = cr\<lparr>ObjectMeta := RemoveFinalizer L (ObjectMeta cr) FinalizerName\<rparr> \<and>
     deleted_in L (GVK A) (cr_namespace cr) (target_of A cr) pre \<and>
     (\<forall>x \<in> set (extras_of A cr). deleted_in L (extra_GVK x) (cr_namespace cr) (extra_Name x) pre)"
proof (cases cs)
  case Nil
  with assms show ?thesis by simp
next
  case (Cons c cs')
  with assms(1) obtain q1 where step: "protocol_step L A req (DelTarget cr) c q1"
    and run: "protocol_run L A req q1 cs' q"
    by (auto elim: run_ConsE)
  from step run Cons assms(2) obtain err where c: "c = CDelete (identify L (GVK A) (cr_namespace cr) (target_of A cr)) err"
      "delete_ok L err" and q1: "q1 = DelExtras cr (extras_of A cr)" and u: "CUpdate o' a \<in> set cs'"
    by (cases rule: DelTargetE) (auto simp: delete_ok_def dest: run_from_Done)
  from run_DelExtras_update [OF run [unfolded q1] u] obtain pre where "cs' = pre @ [CUpdate o' a]"
      "o' = cr\<lparr>ObjectMeta := RemoveFinalizer L (ObjectMeta cr) FinalizerName\<rparr>"
      "\<forall>x \<in> set (extras_of A cr). deleted_in L (extra_GVK x) (cr_namespace cr) (extra_Name x) pre"
    by auto
  with c Cons have "cs = (c # pre) @ [CUpdate o' a]"
    "\<forall>x \<in> set (extras_of A cr). deleted_in L (extra_GVK x) (cr_namespace cr) (extra_Name x) (c # pre)"
    "deleted_in L (GVK A) (cr_namespace cr) (target_of A cr) (c # pre)"
    by (auto intro: deleted_in_Cons simp: deleted_in_def [of _ _ _ "target_of A cr"])
  with \<open>o' = _\<close> show ?thesis by blast
qed

text \<open>Every run starts with the read of the CR.\<close>

lemma run_Read:
  assumes "protocol_run L A req Read tr (Done res e)"
  shows "(\<exists>err. tr = [CGet req (Inl err)] \<and> res = no_result \<and> e = IgnoreNotFound L (Some err)) \<or>
    (\<exists>cr cs. tr = CGet req (Inr cr) # cs \<and> protocol_run L A req (after_read L cr) cs (Done res e))"
proof (cases tr)
  case Nil
  with assms show ?thesis by simp
next
  case (Cons c cs)
  with assms obtain q where step: "protocol_step L A req Read c q" and run: "protocol_run L A req q cs (Done res e)"
    by (auto elim: run_ConsE)
  from step show ?thesis
    by (cases rule: ReadE) (use Cons run in \<open>auto dest: run_from_Done\<close>)
qed

lemma run_AddFin_update:
  "protocol_run L A req (AddFin cr) cs q \<Longrightarrow> CUpdate o' a \<in> set cs \<Longrightarrow>
   cs = [CUpdate o' a] \<and> o' = cr\<lparr>ObjectMeta := AddFinalizer L (ObjectMeta cr) FinalizerName\<rparr>"
  by (cases cs) (auto elim!: run_ConsE AddFinE dest: run_from_answer)

subsection \<open>Extras and status\<close>

text \<open>An extra was brought to what the spec asks: applied, or deleted when it is not wanted.\<close>

definition extra_done :: "k8s_libs \<Rightarrow> ('spec, 'status) Adapter \<Rightarrow> string \<Rightarrow> ExtraResource \<Rightarrow> 'cr api_call list \<Rightarrow> bool" where
  "extra_done L A ns x cs \<longleftrightarrow> (case extra_Desired x of
      Some d \<Rightarrow> (\<exists>u. CApply d (FieldManager A) True (Inr u) \<in> set cs)
    | None \<Rightarrow> deleted_in L (extra_GVK x) ns (extra_Name x) cs)"

lemma extra_done_Cons: "extra_done L A ns x cs \<Longrightarrow> extra_done L A ns x (c # cs)"
  by (auto simp: extra_done_def deleted_in_Cons split: option.splits)

lemma run_Extras_status:
  fixes A :: "('spec, 'status) Adapter"
  shows "protocol_run L A req (Extras cr u xs) cs (Done res e) \<Longrightarrow> CStatusUpdate o' a \<in> set cs \<Longrightarrow>
   \<exists>pre now. cs = pre @ [CStatusUpdate o' a] \<and>
     o' = fst (ApplyStatus A now cr (target_of A cr) (ExtractStatus A (Some u))) \<and>
     answer (requeue_for (ExtractStatus A (Some u))) a = (Done res e :: ('spec, 'status) phase) \<and>
     (\<forall>x \<in> set xs. extra_done L A (cr_namespace cr) x pre)"
proof (induction cs arbitrary: xs)
  case Nil
  then show ?case by simp
next
  case (Cons c cs)
  from Cons.prems(1) obtain q1 where step: "protocol_step L A req (Extras cr u xs) c q1"
    and run: "protocol_run L A req q1 cs (Done res e)"
    by (auto elim: run_ConsE)
  from step consider
      (todo) x xs' where "xs = x # xs'" "q1 = Extras cr u xs'" "extra_done L A (cr_namespace cr) x [c]"
        "\<And>b. c \<noteq> CStatusUpdate o' b"
    | (failed) res e where "q1 = Done res e" "\<And>b. c \<noteq> CStatusUpdate o' b"
    | (written) now a' where "xs = []" "q1 = answer (requeue_for (ExtractStatus A (Some u))) a'"
        "c = CStatusUpdate (fst (ApplyStatus A now cr (target_of A cr) (ExtractStatus A (Some u)))) a'"
    by (cases rule: ExtrasE) (auto simp: extra_done_def deleted_in_def delete_ok_def)
  then show ?case
  proof cases
    case todo
    with run Cons.prems(2) have "protocol_run L A req (Extras cr u xs') cs (Done res e)" "CStatusUpdate o' a \<in> set cs"
      by auto
    from Cons.IH [OF this] obtain pre now where pre: "cs = pre @ [CStatusUpdate o' a]"
      "o' = fst (ApplyStatus A now cr (target_of A cr) (ExtractStatus A (Some u)))"
      "answer (requeue_for (ExtractStatus A (Some u))) a = (Done res e :: ('spec, 'status) phase)"
      "\<forall>x \<in> set xs'. extra_done L A (cr_namespace cr) x pre" by auto
    from todo(3) have "extra_done L A (cr_namespace cr) x (c # pre)"
      by (auto simp: extra_done_def deleted_in_def split: option.splits)
    with todo pre have "c # cs = (c # pre) @ [CStatusUpdate o' a]"
      "\<forall>x \<in> set xs. extra_done L A (cr_namespace cr) x (c # pre)"
      by (auto intro: extra_done_Cons)
    with pre(2,3) show ?thesis by blast
  next
    case failed
    with run Cons.prems(2) show ?thesis by (auto dest!: run_from_Done)
  next
    case written
    with run have "cs = []" by (auto dest: run_from_answer)
    with written run Cons.prems(2) show ?thesis by auto
  qed
qed

fun is_status :: "'cr api_call \<Rightarrow> bool" where
  "is_status (CStatusUpdate _ _) = True"
| "is_status _ = False"

lemma run_Applying_Extras:
  assumes "protocol_run L A req (Applying cr m) cs (Done res e)" and "CStatusUpdate o' a \<in> set cs"
  shows "\<exists>u pre post. cs = CApply (manifest_of A cr) (FieldManager A) True (Inr u) # pre @ post \<and>
    pre = (if m then [CEvent (target_created cr (ObjectKind A) (target_of A cr))] else []) \<and>
    protocol_run L A req (Extras cr u (extras_of A cr)) post (Done res e)"
proof (cases cs)
  case Nil
  with assms show ?thesis by simp
next
  case (Cons c cs')
  with assms(1) obtain q1 where step: "protocol_step L A req (Applying cr m) c q1"
    and run: "protocol_run L A req q1 cs' (Done res e)"
    by (auto elim: run_ConsE)
  from step run Cons assms(2) obtain u where c: "c = CApply (manifest_of A cr) (FieldManager A) True (Inr u)"
    and q1: "q1 = (if m then Recording cr u else Extras cr u (extras_of A cr))"
    by (cases rule: ApplyingE) (auto dest: run_from_Done)
  show ?thesis
  proof (cases m)
    case False
    with c q1 run Cons show ?thesis by auto
  next
    case True
    with run q1 have "protocol_run L A req (Recording cr u) cs' (Done res e)" by simp
    then obtain cs'' where "cs' = CEvent (target_created cr (ObjectKind A) (target_of A cr)) # cs''"
        "protocol_run L A req (Extras cr u (extras_of A cr)) cs'' (Done res e)"
      by (cases cs') (auto elim!: run_ConsE RecordingE)
    with c Cons True show ?thesis by auto
  qed
qed

lemma run_Look_status:
  fixes A :: "('spec, 'status) Adapter"
  assumes "protocol_run L A req (Look cr) cs (Done res e)" and "CStatusUpdate o' a \<in> set cs"
  shows "\<exists>g u pre now. cs = g # CApply (manifest_of A cr) (FieldManager A) True (Inr u) # pre @ [CStatusUpdate o' a] \<and>
     o' = fst (ApplyStatus A now cr (target_of A cr) (ExtractStatus A (Some u))) \<and>
     answer (requeue_for (ExtractStatus A (Some u))) a = (Done res e :: ('spec, 'status) phase) \<and>
     (\<forall>x \<in> set (extras_of A cr). extra_done L A (cr_namespace cr) x pre)"
proof (cases cs)
  case Nil
  with assms show ?thesis by simp
next
  case (Cons c cs')
  with assms(1) obtain q1 where step: "protocol_step L A req (Look cr) c q1"
    and run: "protocol_run L A req q1 cs' (Done res e)"
    by (auto elim: run_ConsE)
  from step run Cons assms(2) obtain m where q1: "q1 = Applying cr m" and upd: "CStatusUpdate o' a \<in> set cs'"
    by (cases rule: LookE) (auto dest: run_from_Done)
  from run_Applying_Extras [OF run [unfolded q1] upd] obtain u pre1 post where
    1: "cs' = CApply (manifest_of A cr) (FieldManager A) True (Inr u) # pre1 @ post"
      "pre1 = (if m then [CEvent (target_created cr (ObjectKind A) (target_of A cr))] else [])"
      "protocol_run L A req (Extras cr u (extras_of A cr)) post (Done res e)" by auto
  with upd have "CStatusUpdate o' a \<in> set post" by (auto split: if_splits)
  from run_Extras_status [OF 1(3) this] obtain pre2 now where 2: "post = pre2 @ [CStatusUpdate o' a]"
      "o' = fst (ApplyStatus A now cr (target_of A cr) (ExtractStatus A (Some u)))"
      "answer (requeue_for (ExtractStatus A (Some u))) a = (Done res e :: ('spec, 'status) phase)"
      "\<forall>x \<in> set (extras_of A cr). extra_done L A (cr_namespace cr) x pre2" by auto
  have "extra_done L A (cr_namespace cr) x (pre1 @ pre2)" if "x \<in> set (extras_of A cr)" for x
    using 2(4) that by (auto simp: extra_done_def deleted_in_def split: option.splits)
  with Cons 1 2 show ?thesis by (metis append.assoc append_Cons)
qed

subsection \<open>Errors, results, length\<close>

text \<open>The error an answer stands for: not-found is none where the engine asks or deletes.\<close>

fun call_error :: "k8s_libs \<Rightarrow> 'cr api_call \<Rightarrow> gerror option" where
  "call_error L (CGet _ (Inl e)) = IgnoreNotFound L (Some e)"
| "call_error L (CGetTarget _ _ (Inl e)) = (if IsNotFound L (Some e) then None else Some e)"
| "call_error L (CApply _ _ _ (Inl e)) = Some e"
| "call_error L (CDelete _ err) = (if IsNotFound L err then None else err)"
| "call_error L (CUpdate _ (Inl e)) = Some e"
| "call_error L (CStatusUpdate _ (Inl e)) = Some e"
| "call_error L _ = None"

fun done_error :: "('spec, 'status) phase \<Rightarrow> gerror option" where
  "done_error (Done _ e) = e"
| "done_error _ = None"

fun done_result :: "('spec, 'status) phase \<Rightarrow> Result" where
  "done_result (Done r _) = r"
| "done_result _ = no_result"

lemma done_answer:
  "done_error (answer ok a) = call_error L (CUpdate o' a)"
  "done_error (answer ok b) = call_error L (CStatusUpdate o' b)"
  by (cases a; simp) (cases b; simp)

lemma done_answer_result: "done_error (answer ok a) = Some err \<Longrightarrow> done_result (answer ok a) = no_result"
  by (cases a) simp_all

lemma done_after_read [simp]: "done_error (after_read L cr) = None"
  by (simp add: after_read_def)

lemma step_error: "protocol_step L A req p c q \<Longrightarrow> done_error q = call_error L c"
  by (cases rule: protocol_step.cases) (auto simp: done_answer)

lemma step_error_result:
  "protocol_step L A req p c q \<Longrightarrow> done_error q \<noteq> None \<Longrightarrow> done_result q = no_result"
  by (cases rule: protocol_step.cases) (auto simp: done_answer_result split: if_splits)

lemma run_errors:
  "protocol_run L A req p cs q \<Longrightarrow> cs \<noteq> [] \<Longrightarrow>
   (\<forall>c \<in> set (butlast cs). call_error L c = None) \<and> done_error q = call_error L (last cs) \<and>
   (done_error q \<noteq> None \<longrightarrow> done_result q = no_result)"
proof (induction rule: protocol_run.induct)
  case (run_nil p)
  then show ?case by simp
next
  case (run_step p c q cs p')
  show ?case
  proof (cases cs)
    case Nil
    with run_step.hyps(2) have "p' = q" by simp
    with Nil step_error [OF run_step.hyps(1)] step_error_result [OF run_step.hyps(1)] show ?thesis by simp
  next
    case (Cons d ds)
    have "call_error L c = None"
    proof (rule ccontr)
      assume "call_error L c \<noteq> None"
      with step_error [OF run_step.hyps(1)] have "\<exists>res e. q = Done res e"
        by (cases q) auto
      with run_step.hyps(2) Cons show False by (auto dest: run_from_Done)
    qed
    with run_step.IH Cons show ?thesis by auto
  qed
qed

text \<open>Only a successful status write asks for a later requeue.\<close>

lemma answer_requeue:
  "RequeueAfter (done_result (answer ok a)) \<noteq> 0 \<Longrightarrow> \<exists>x. a = Inr x \<and> RequeueAfter ok \<noteq> 0"
  by (cases a) (auto simp: no_result_def)

lemma step_requeue:
  "protocol_step L A req p c q \<Longrightarrow> RequeueAfter (done_result q) \<noteq> 0 \<Longrightarrow> \<exists>o' a. c = CStatusUpdate o' (Inr a)"
  by (cases rule: protocol_step.cases)
     (auto simp: no_result_def after_read_def dest!: answer_requeue split: if_splits)

lemma run_requeue:
  "protocol_run L A req p cs q \<Longrightarrow> RequeueAfter (done_result q) \<noteq> 0 \<Longrightarrow> p \<noteq> q \<Longrightarrow>
   \<exists>o' a. CStatusUpdate o' (Inr a) \<in> set cs"
proof (induction rule: protocol_run.induct)
  case (run_nil p)
  then show ?case by simp
next
  case (run_step p c q cs p')
  show ?case
  proof (cases "q = p'")
    case True
    with step_requeue [OF run_step.hyps(1)] run_step.prems(1) show ?thesis
      by (metis list.set_intros(1))
  next
    case False
    with run_step show ?thesis by auto
  qed
qed

text \<open>How many calls a phase can still make.\<close>

fun budget :: "('spec, 'status) Adapter \<Rightarrow> ('spec, 'status) phase \<Rightarrow> nat" where
  "budget A (DelTarget cr) = 2 + length (extras_of A cr)"
| "budget A (DelExtras cr xs) = 1 + length xs"
| "budget A (AddFin cr) = 1"
| "budget A (Look cr) = 4 + length (extras_of A cr)"
| "budget A (Applying cr m) = 3 + length (extras_of A cr)"
| "budget A (Recording cr u) = 2 + length (extras_of A cr)"
| "budget A (Extras cr u xs) = 1 + length xs"
| "budget A _ = 0"

lemma budget_answer [simp]: "budget A (answer ok a) = 0"
  by (cases a) simp_all

lemma run_budget:
  "protocol_run L A req p cs q \<Longrightarrow> p \<noteq> Read \<Longrightarrow> length cs + budget A q \<le> budget A p"
proof (induction rule: protocol_run.induct)
  case (run_nil p)
  then show ?case by simp
next
  case (run_step p c q cs p')
  from run_step.hyps(1) run_step.prems have "q \<noteq> Read \<and> budget A q < budget A p"
    by (cases rule: protocol_step.cases) (auto split: if_splits elim: answer.elims)
  with run_step.IH show ?case by simp
qed

subsection \<open>Events\<close>

text \<open>An event is recorded only by the phase that saw the target missing and applied it.\<close>

fun event_free :: "('spec, 'status) phase \<Rightarrow> bool" where
  "event_free Read = False"
| "event_free (Look _) = False"
| "event_free (Applying _ _) = False"
| "event_free (Recording _ _) = False"
| "event_free _ = True"

lemma event_free_answer [simp]: "event_free (answer ok a)"
  by (cases a) simp_all

lemma step_event_free: "protocol_step L A req p c q \<Longrightarrow> event_free p \<Longrightarrow> event_free q \<and> c \<noteq> CEvent ev"
  by (cases rule: protocol_step.cases) auto

lemma run_event:
  assumes "protocol_run L A req Read tr (Done res e)" and "CEvent ev \<in> set tr"
  shows "\<exists>cr n u err u' cs. tr = CGet req (Inr cr) # CGetTarget n u (Inl err) #
      CApply (manifest_of A cr) (FieldManager A) True (Inr u') # CEvent ev # cs \<and>
    IsNotFound L (Some err) \<and> ev = target_created cr (ObjectKind A) (target_of A cr) \<and> n = (cr_namespace cr, target_of A cr)"
proof -
  from run_Read [OF assms(1)] assms(2) obtain cr cs where tr: "tr = CGet req (Inr cr) # cs"
    and run: "protocol_run L A req (after_read L cr) cs (Done res e)" and c: "CEvent ev \<in> set cs"
    by auto
  have quiet: "CEvent ev \<notin> set ds" if "protocol_run L A req p ds q" "event_free p" for p ds q
    using run_invariant [OF that(1), of event_free "\<lambda>c. c \<noteq> CEvent ev"] step_event_free that(2) by blast
  have "\<not> event_free (after_read L cr)" using quiet [OF run] c by blast
  then have "after_read L cr = Look cr"
    by (auto simp: after_read_def split: if_splits)
  with run c obtain d ds q where cs: "cs = d # ds" and s1: "protocol_step L A req (Look cr) d q"
    and r1: "protocol_run L A req q ds (Done res e)"
    by (cases cs) (auto elim: run_ConsE)
  from s1 r1 c cs obtain m where q: "q = Applying cr m" and ev: "CEvent ev \<in> set ds"
    and m: "m \<longrightarrow> (\<exists>u err. d = CGetTarget (cr_namespace cr, target_of A cr) u (Inl err) \<and> IsNotFound L (Some err))"
    by (cases rule: LookE) (auto dest: run_from_Done)
  from r1 q ev obtain d' ds' q' where ds: "ds = d' # ds'" and s2: "protocol_step L A req (Applying cr m) d' q'"
    and r2: "protocol_run L A req q' ds' (Done res e)"
    by (cases ds) (auto elim: run_ConsE)
  from s2 r2 ev ds obtain u' where d': "d' = CApply (manifest_of A cr) (FieldManager A) True (Inr u')"
    and q': "q' = (if m then Recording cr u' else Extras cr u' (extras_of A cr))" and ev': "CEvent ev \<in> set ds'"
    by (cases rule: ApplyingE) (auto dest: run_from_Done)
  have m': "m" using quiet [OF r2] q' ev' by (auto split: if_splits)
  with r2 q' ev' obtain d'' ds'' q'' where ds': "ds' = d'' # ds''" and s3: "protocol_step L A req (Recording cr u') d'' q''"
    and r3: "protocol_run L A req q'' ds'' (Done res e)"
    by (cases ds') (auto elim: run_ConsE)
  from s3 have d'': "d'' = CEvent (target_created cr (ObjectKind A) (target_of A cr))" and q'': "q'' = Extras cr u' (extras_of A cr)"
    by (auto elim: RecordingE)
  from quiet [OF r3] q'' ds' ev' d'' have "ev = target_created cr (ObjectKind A) (target_of A cr)" by auto
  with tr cs ds ds' m m' d' d'' show ?thesis by auto
qed

section \<open>What a whole run guarantees\<close>

text \<open>The calls one \<open>Reconcile\<close> makes, in order.\<close>

definition calls ::
    "k8s_libs \<Rightarrow> ('w, 'spec, 'status) GenericReconciler \<Rightarrow> NamespacedName \<Rightarrow> 'w \<Rightarrow> ('spec, 'status) paas_object api_call list" where
  "calls L r req w = snd (snd (Reconcile L (traced r) req (w, [])))"

abbreviation result_of :: "k8s_libs \<Rightarrow> ('w, 'spec, 'status) GenericReconciler \<Rightarrow> NamespacedName \<Rightarrow> 'w \<Rightarrow> Result" where
  "result_of L r req w \<equiv> fst (fst (Reconcile L r req w))"

abbreviation error_of :: "k8s_libs \<Rightarrow> ('w, 'spec, 'status) GenericReconciler \<Rightarrow> NamespacedName \<Rightarrow> 'w \<Rightarrow> gerror option" where
  "error_of L r req w \<equiv> snd (fst (Reconcile L r req w))"

lemma calls_run:
  "protocol_run L (gr_Adapter r) req Read (calls L r req w) (Done (result_of L r req w) (error_of L r req w))"
proof -
  obtain res e w' tr where R: "Reconcile L (traced r) req (w, []) = ((res, e), (w', tr))"
    by (metis prod.exhaust)
  from untrace_Reconcile [of L r req "(w, [])"] R have "Reconcile L r req w = ((res, e), w')"
    by simp
  with Reconcile_run [OF R] R show ?thesis
    by (simp add: calls_def)
qed

lemma run_release:
  assumes "k8s_libs_ok L" and "protocol_run L A req Read tr (Done res e)"
    and "CUpdate o' a \<in> set tr" and "FinalizerName \<notin> set (meta_Finalizers (ObjectMeta o'))"
  shows "\<exists>cr pre. tr = CGet req (Inr cr) # pre @ [CUpdate o' a] \<and> terminating L cr \<and>
    deleted_in L (GVK A) (cr_namespace cr) (target_of A cr) pre \<and>
    (\<forall>x \<in> set (extras_of A cr). deleted_in L (extra_GVK x) (cr_namespace cr) (extra_Name x) pre)"
proof -
  from run_Read [OF assms(2)] assms(3) obtain cr cs where tr: "tr = CGet req (Inr cr) # cs"
    and run: "protocol_run L A req (after_read L cr) cs (Done res e)" and u: "CUpdate o' a \<in> set cs"
    by auto
  have "terminating L cr"
  proof (rule ccontr)
    assume live: "\<not> terminating L cr"
    show False
    proof (cases "has_finalizer L cr")
      case True
      with run live u show False
        using run_update_free [of L A req "Look cr" cs "Done res e" o' a] by (simp add: after_read_def)
    next
      case False
      with run live u have "o' = cr\<lparr>ObjectMeta := AddFinalizer L (ObjectMeta cr) FinalizerName\<rparr>"
        using run_AddFin_update [of L A req cr cs "Done res e" o' a] by (simp add: after_read_def)
      with assms(4) show False by (auto simp: k8s_libs_ok.add_finalizer [OF assms(1)] split: if_splits)
    qed
  qed
  moreover from this run u have "protocol_run L A req (DelTarget cr) cs (Done res e)"
    by (auto simp: after_read_def dest: run_from_Done split: if_splits)
  note run_DelTarget_update [OF this u]
  ultimately show ?thesis using tr by auto
qed

lemma run_writes_guarded:
  assumes "protocol_run L A req Read tr (Done res e)" and "c \<in> set tr" and "is_apply c"
  shows "\<exists>cr cs. tr = CGet req (Inr cr) # cs \<and> \<not> terminating L cr \<and> has_finalizer L cr \<and> (\<forall>d \<in> set tr. \<not> is_update d)"
proof -
  from run_Read [OF assms(1)] assms(2,3) obtain cr cs where tr: "tr = CGet req (Inr cr) # cs"
    and run: "protocol_run L A req (after_read L cr) cs (Done res e)" and c: "c \<in> set cs"
    by auto
  have "\<not> apply_free (after_read L cr)"
    using run_invariant [OF run, of apply_free "\<lambda>c. \<not> is_apply c"] step_apply_free c assms(3) by blast
  then have live: "\<not> terminating L cr" "has_finalizer L cr"
    by (auto simp: after_read_def split: if_splits)
  then have "\<forall>d \<in> set cs. \<not> is_update d"
    using run_invariant [OF run, of update_free "\<lambda>c. \<not> is_update c"] step_update_free [of L A req]
    by (simp add: after_read_def)
  with tr live show ?thesis by auto
qed

lemma run_status:
  fixes A :: "('spec, 'status) Adapter"
  assumes "protocol_run L A req Read tr (Done res e)" and "CStatusUpdate o' a \<in> set tr"
  shows "\<exists>cr g u pre now. tr = CGet req (Inr cr) # g # CApply (manifest_of A cr) (FieldManager A) True (Inr u) # pre @ [CStatusUpdate o' a] \<and>
     o' = fst (ApplyStatus A now cr (target_of A cr) (ExtractStatus A (Some u))) \<and>
     answer (requeue_for (ExtractStatus A (Some u))) a = (Done res e :: ('spec, 'status) phase) \<and>
     (\<forall>x \<in> set (extras_of A cr). extra_done L A (cr_namespace cr) x pre)"
proof -
  from run_Read [OF assms(1)] assms(2) obtain cr cs where tr: "tr = CGet req (Inr cr) # cs"
    and run: "protocol_run L A req (after_read L cr) cs (Done res e)" and c: "CStatusUpdate o' a \<in> set cs"
    by auto
  have "\<not> apply_free (after_read L cr)"
    using run_apply_free(2) [OF run] c by blast
  then have "after_read L cr = Look cr"
    by (auto simp: after_read_def split: if_splits)
  from run_Look_status [OF run [unfolded this] c] tr show ?thesis by auto
qed

lemma run_call_errors:
  assumes "protocol_run L A req Read tr (Done res e)"
  shows "tr \<noteq> [] \<and> (\<forall>c \<in> set (butlast tr). call_error L c = None) \<and> e = call_error L (last tr) \<and>
    (e \<noteq> None \<longrightarrow> res = no_result)"
proof -
  from assms have "tr \<noteq> []" by auto
  with run_errors [OF assms] show ?thesis by simp
qed

lemma run_length:
  assumes "protocol_run L A req Read (CGet req (Inr cr) # cs) (Done res e)"
  shows "length cs \<le> 4 + length (extras_of A cr)"
proof -
  from run_Read [OF assms] have run: "protocol_run L A req (after_read L cr) cs (Done res e)" by auto
  have "after_read L cr \<noteq> Read" and "budget A (after_read L cr) \<le> 4 + length (extras_of A cr)"
    by (auto simp: after_read_def)
  with run_budget [OF run] show ?thesis by simp
qed

end
