(* ===== verification/Manifest_Lib.thy ===== *)
theory Manifest_Lib
  imports Kube_Libs Api_Types
begin

text \<open>
  What the manifest builders of all components share: the labels and the prologue of every object,
  the reference readers the round trips use, and the resources block.
\<close>

text \<open>The labels on every object the operator writes.\<close>

definition operator_labels :: "string \<Rightarrow> string \<Rightarrow> string_map" where
  "operator_labels fieldManager owner =
     fmap_of_list [(''app.kubernetes.io/managed-by'', fieldManager), (''paas.example.com/owner'', owner)]"

text \<open>The common prologue of the builders: kind, name, namespace, labels.\<close>

definition built :: "k8s_libs \<Rightarrow> GroupVersionKind \<Rightarrow> string \<Rightarrow> string \<Rightarrow> string_map \<Rightarrow> unstructured" where
  "built L g name namespace labels =
     SetLabels L labels (SetNamespace L namespace (SetName L name (SetGroupVersionKind L g new_unstructured)))"

lemmas fold_built = built_def [symmetric]

text \<open>The first element of a list of maps.\<close>

definition head_map :: "gval option \<Rightarrow> gomap" where
  "head_map v = (case v of Some (GSlice (GMap m # _)) \<Rightarrow> m | _ \<Rightarrow> fmempty)"

lemma head_map_simps [simp]:
  "head_map (Some (GSlice (GMap m # vs))) = m" "head_map None = fmempty"
  by (simp_all add: head_map_def)

section \<open>Resources\<close>

text \<open>
  Only cpu and memory reach a manifest. \<open>resource_list_spec\<close> is what every package's copy of
  \<^verbatim>\<open>resourceListJSON\<close> must compute, \<open>decode_resources\<close> reads the resources block back.
\<close>

definition cpu_memory :: "ResourceList \<Rightarrow> ResourceList" where
  "cpu_memory l = fmfilter (\<lambda>k. k = ResourceCPU \<or> k = ResourceMemory) l"

definition resource_list_spec :: "ResourceList \<Rightarrow> gomap option" where
  "resource_list_spec l =
     (if cpu_memory l = fmempty then None else Some (fmmap (\<lambda>q. GStr (quantity_String q)) (cpu_memory l)))"

definition decode_list :: "gval option \<Rightarrow> ResourceList" where
  "decode_list v = fmmap (\<lambda>s. \<lparr>quantity_String = s\<rparr>) (string_entries v)"

definition decode_resources :: "gval option \<Rightarrow> ResourceRequirements" where
  "decode_resources v = (case v of
      Some (GMap m) \<Rightarrow> \<lparr>Limits = decode_list (fmlookup m ''limits''), Requests = decode_list (fmlookup m ''requests'')\<rparr>
    | _ \<Rightarrow> \<lparr>Limits = fmempty, Requests = fmempty\<rparr>)"

definition trim_resources :: "ResourceRequirements \<Rightarrow> ResourceRequirements" where
  "trim_resources r = \<lparr>Limits = cpu_memory (Limits r), Requests = cpu_memory (Requests r)\<rparr>"

lemma fmlookup_cpu_memory [simp]:
  "fmlookup (cpu_memory l) k = (if k = ResourceCPU \<or> k = ResourceMemory then fmlookup l k else None)"
  by (simp add: cpu_memory_def)

lemma cpu_memory_empty:
  "cpu_memory l = fmempty \<longleftrightarrow> fmlookup l ResourceCPU = None \<and> fmlookup l ResourceMemory = None"
proof
  assume "cpu_memory l = fmempty"
  then have "fmlookup (cpu_memory l) k = None" for k by simp
  from this [of ResourceCPU] this [of ResourceMemory]
  show "fmlookup l ResourceCPU = None \<and> fmlookup l ResourceMemory = None" by simp
next
  assume "fmlookup l ResourceCPU = None \<and> fmlookup l ResourceMemory = None"
  then show "cpu_memory l = fmempty" by (intro fmap_ext) auto
qed

lemma Quantity_eta [simp]: "\<lparr>quantity_String = quantity_String q\<rparr> = (q :: Quantity)"
  by simp

lemma decode_list_simps [simp]:
  "decode_list None = fmempty"
  "decode_list (Some (GMap (fmmap (\<lambda>q. GStr (quantity_String q)) l))) = l"
  by (auto simp: decode_list_def string_entries_def option.map_comp comp_def option.map_ident intro!: fmap_ext)

lemma decode_resource_list_spec: "decode_list (map_option GMap (resource_list_spec l)) = cpu_memory l"
  by (simp add: resource_list_spec_def)

lemma resource_list_spec_None [simp]: "resource_list_spec l = None \<longleftrightarrow> cpu_memory l = fmempty"
  by (simp add: resource_list_spec_def)

text \<open>A package's copy meets the specification.\<close>

lemma resource_list_specI:
  assumes "\<And>l. fmlookup l ResourceCPU = None \<Longrightarrow> fmlookup l ResourceMemory = None \<Longrightarrow> f l = None"
    and "\<And>l. fmlookup l ResourceCPU \<noteq> None \<or> fmlookup l ResourceMemory \<noteq> None \<Longrightarrow>
      f l = Some (set_some ''memory'' (map_option (\<lambda>q. GStr (quantity_String q)) (fmlookup l ResourceMemory))
        (set_some ''cpu'' (map_option (\<lambda>q. GStr (quantity_String q)) (fmlookup l ResourceCPU)) fmempty))"
  shows "f = resource_list_spec"
proof
  fix l
  show "f l = resource_list_spec l"
  proof (cases "cpu_memory l = fmempty")
    case True
    then have "fmlookup l ResourceCPU = None" "fmlookup l ResourceMemory = None"
      by (simp_all add: cpu_memory_empty)
    from assms(1) [OF this] True show ?thesis by (simp add: resource_list_spec_def)
  next
    case False
    then have "fmlookup l ResourceCPU \<noteq> None \<or> fmlookup l ResourceMemory \<noteq> None"
      by (simp add: cpu_memory_empty)
    from assms(2) [OF this] False show ?thesis
      by (auto simp: resource_list_spec_def intro!: fmap_ext)
  qed
qed

text \<open>The resources block of a manifest: present only if one of its maps is.\<close>

definition resources_block :: "ResourceRequirements \<Rightarrow> gomap" where
  "resources_block r = set_some ''limits'' (map_option GMap (resource_list_spec (Limits r)))
     (set_some ''requests'' (map_option GMap (resource_list_spec (Requests r))) fmempty)"

lemma resources_block_empty [simp]:
  "resources_block r = fmempty \<longleftrightarrow> cpu_memory (Limits r) = fmempty \<and> cpu_memory (Requests r) = fmempty"
  by (simp add: resources_block_def)

lemma decode_resources_block [simp]:
  assumes "cpu_memory (Limits r) = fmempty \<longrightarrow> cpu_memory (Requests r) \<noteq> fmempty"
  shows "decode_resources (Some (GMap (resources_block r))) = trim_resources r"
  using assms by (simp add: decode_resources_def resources_block_def trim_resources_def decode_resource_list_spec)

lemma decode_resources_none [simp]:
  "cpu_memory (Limits r) = fmempty \<Longrightarrow> cpu_memory (Requests r) = fmempty \<Longrightarrow> decode_resources None = trim_resources r"
  by (simp add: decode_resources_def trim_resources_def)

section \<open>Conditions of a target\<close>

text \<open>The reference for the loops over \<open>status.conditions\<close>: the first map whose type is \<open>t\<close>.\<close>

definition condition_in :: "string \<Rightarrow> gval list \<Rightarrow> gomap option" where
  "condition_in t vs = List.find (\<lambda>m. as_string (fmlookup m ''type'') = t)
     (List.map_filter (\<lambda>v. case v of GMap m \<Rightarrow> Some m | _ \<Rightarrow> None) vs)"

lemma condition_in_Nil [simp]: "condition_in t [] = None"
  by (simp add: condition_in_def)

lemma condition_in_Cons:
  "condition_in t (v # vs) =
     (case v of GMap m \<Rightarrow> (if as_string (fmlookup m ''type'') = t then Some m else condition_in t vs) | _ \<Rightarrow> condition_in t vs)"
  by (cases v) (simp_all add: condition_in_def)

text \<open>Phase and readiness such a condition stands for.\<close>

definition condition_phase :: "gomap option \<Rightarrow> string" where
  "condition_phase c = (case c of None \<Rightarrow> ''Unknown''
     | Some m \<Rightarrow> (if as_string (fmlookup m ''reason'') = '''' then ''Unknown'' else as_string (fmlookup m ''reason'')))"

definition condition_true :: "gomap option \<Rightarrow> bool" where
  "condition_true c \<longleftrightarrow> (\<exists>m. c = Some m \<and> as_string (fmlookup m ''status'') = ''True'')"

section \<open>Headers\<close>

context k8s_libs_ok
begin

lemma metadata_ok_new: "metadata_ok new_unstructured"
  by (simp add: metadata_ok_def new_unstructured_def)

lemma metadata_ok_built [simp]: "metadata_ok (built L g name namespace labels)"
  by (simp add: built_def metadata_ok_setters metadata_ok_new)

lemma header_built [simp]: "valid_gvk g \<Longrightarrow> header L (built L g name namespace labels) =
    \<lparr>hdr_GVK = g, hdr_Name = name, hdr_Namespace = namespace, hdr_Labels = labels, hdr_Annotations = fmempty\<rparr>"
  by (simp add: built_def metadata_ok_setters metadata_ok_new header_setters empty_header_def)

lemma header_identify_aux: "valid_gvk g \<Longrightarrow>
    header L (SetName L n (SetNamespace L ns (SetGroupVersionKind L g new_unstructured))) =
    \<lparr>hdr_GVK = g, hdr_Name = n, hdr_Namespace = ns, hdr_Labels = fmempty, hdr_Annotations = fmempty\<rparr>"
  by (simp add: metadata_ok_setters metadata_ok_new header_setters empty_header_def)

lemma GetLabels_header: "GetLabels L u = hdr_Labels (header L u)"
  by (simp add: header_def)

lemma GetAnnotations_header: "GetAnnotations L u = hdr_Annotations (header L u)"
  by (simp add: header_def)

end

end
