(* ===== verification/Ingress.thy ===== *)
theory Ingress
  imports Manifest_Lib
begin

text \<open>
  \<^verbatim>\<open>internal/ingress/ingress.go\<close>: the \<^verbatim>\<open>networking.k8s.io/v1\<close> Ingress built for the vendors without an
  ingress field of their own.
\<close>

definition ingress_GVK :: GroupVersionKind where
  "ingress_GVK = \<lparr>Group = ''networking.k8s.io'', Version = ''v1'', Kind = ''Ingress''\<rparr>"

definition ingress_Build ::
    "k8s_libs \<Rightarrow> IngressSpec \<Rightarrow> string \<Rightarrow> string \<Rightarrow> string \<Rightarrow> string \<Rightarrow> string \<Rightarrow> int32 \<Rightarrow> unstructured" where
  "ingress_Build L spec name namespace owner fieldManager backendServiceName backendPort =
     (let pathType = ''Prefix'';
          ingressSpec = fmap_of_list
            [(''rules'', GSlice
               [gomap_of
                 [(''host'', GStr (ing_Host spec)),
                  (''http'', gomap_of
                    [(''paths'', GSlice
                      [gomap_of
                        [(''path'', GStr ''/''),
                         (''pathType'', GStr pathType),
                         (''backend'', gomap_of
                           [(''service'', gomap_of
                             [(''name'', GStr backendServiceName),
                              (''port'', gomap_of [(''number'', GInt (int64_of_int32 backendPort))])])])]])])]])];
          ingressSpec = set_if (ing_IngressClassName spec \<noteq> '''') ''ingressClassName''
            (GStr (ing_IngressClassName spec)) ingressSpec;
          ingressSpec = set_if (ing_TLSSecretName spec \<noteq> '''') ''tls''
            (GSlice [gomap_of [(''hosts'', GSlice [GStr (ing_Host spec)]), (''secretName'', GStr (ing_TLSSecretName spec))]])
            ingressSpec;
          u = SetGroupVersionKind L ingress_GVK new_unstructured;
          u = SetName L name u;
          u = SetNamespace L namespace u;
          u = SetLabels L (operator_labels fieldManager owner) u;
          u = (if ing_Annotations spec \<noteq> fmempty then SetAnnotations L (ing_Annotations spec) u else u)
      in put_object ''spec'' (GMap ingressSpec) u)"

section \<open>What the object says\<close>

text \<open>Reading an Ingress back: the reference decoder inverts \<open>ingress_Build\<close>.\<close>

definition ingress_decode :: "k8s_libs \<Rightarrow> unstructured \<Rightarrow> IngressSpec" where
  "ingress_decode L u =
     \<lparr>ing_Host = as_string (fmlookup (head_map (path_lookup (Object u) [''spec'', ''rules''])) ''host''),
      ing_IngressClassName = as_string (path_lookup (Object u) [''spec'', ''ingressClassName'']),
      ing_TLSSecretName = as_string (fmlookup (head_map (path_lookup (Object u) [''spec'', ''tls''])) ''secretName''),
      ing_Annotations = GetAnnotations L u\<rparr>"

text \<open>Service name and port of the one backend.\<close>

definition ingress_backend :: "unstructured \<Rightarrow> string \<times> int64" where
  "ingress_backend u =
     (let path = head_map (path_lookup (head_map (path_lookup (Object u) [''spec'', ''rules''])) [''http'', ''paths''])
      in (as_string (path_lookup path [''backend'', ''service'', ''name'']),
          as_int64 (path_lookup path [''backend'', ''service'', ''port'', ''number''])))"

context k8s_libs_ok
begin

lemma ingress_Build_header: "header L (ingress_Build L spec name namespace owner fm svc port) =
    \<lparr>hdr_GVK = ingress_GVK, hdr_Name = name, hdr_Namespace = namespace,
     hdr_Labels = operator_labels fm owner, hdr_Annotations = ing_Annotations spec\<rparr>"
proof -
  have [simp]: "valid_gvk ingress_GVK" by (simp add: valid_gvk_def ingress_GVK_def)
  show ?thesis
    by (simp add: ingress_Build_def Let_def header_put header_keys_def header_SetAnnotations
      fold_built)
qed

lemma ingress_decode_Build: "ingress_decode L (ingress_Build L spec name namespace owner fm svc port) = spec"
  using ingress_Build_header [of spec name namespace owner fm svc port]
  by (simp add: ingress_decode_def GetAnnotations_header)
     (simp add: ingress_Build_def Let_def head_map_def)

lemma ingress_backend_Build:
  "ingress_backend (ingress_Build L spec name namespace owner fm svc port) = (svc, int64_of_int32 port)"
  by (simp add: ingress_backend_def ingress_Build_def Let_def head_map_def)

end

end
