(* ===== verification/Ref_Libs.thy ===== *)
theory Ref_Libs
  imports Kube_Libs
begin

text \<open>
  A reference implementation of the library interface over the JSON form of an object
  (\<open>apiVersion\<close>, \<open>kind\<close>, \<open>metadata.name\<close>, \<open>metadata.namespace\<close>, \<open>metadata.labels\<close>,
  \<open>metadata.annotations\<close>), and the interpretation of the library's contract on it: the documented
  behaviour the other theories assume is satisfiable, and concrete runs evaluate on \<open>ref_libs\<close>.
\<close>

definition metadata_of :: "unstructured \<Rightarrow> gomap" where
  "metadata_of u = (case fmlookup (Object u) ''metadata'' of Some (GMap m) \<Rightarrow> m | _ \<Rightarrow> fmempty)"

definition put_metadata :: "string \<Rightarrow> gval \<Rightarrow> unstructured \<Rightarrow> unstructured" where
  "put_metadata k v u = put_object ''metadata'' (GMap (fmupd k v (metadata_of u))) u"

definition apiVersion_of :: "GroupVersionKind \<Rightarrow> string" where
  "apiVersion_of g = (if Group g = '''' then Version g else Group g @ CHR ''/'' # Version g)"

definition parse_apiVersion :: "string \<Rightarrow> string \<times> string" where
  "parse_apiVersion s =
     (if CHR ''/'' \<in> set s then (takeWhile (\<lambda>c. c \<noteq> CHR ''/'') s, tl (dropWhile (\<lambda>c. c \<noteq> CHR ''/'') s))
      else ('''', s))"

definition nested :: "'a \<Rightarrow> (gval \<Rightarrow> 'a option) \<Rightarrow> gomap \<Rightarrow> string list \<Rightarrow> 'a \<times> bool \<times> gerror option" where
  "nested zero sel m ks =
     (case path_lookup m ks of
        None \<Rightarrow> (zero, False, None)
      | Some v \<Rightarrow> (case sel v of None \<Rightarrow> (zero, False, Some (PlainError ''accessor error'')) | Some x \<Rightarrow> (x, True, None)))"

definition ref_libs :: k8s_libs where
  "ref_libs = \<lparr>
     SetGroupVersionKind = (\<lambda>g u. put_object ''kind'' (GStr (Kind g)) (put_object ''apiVersion'' (GStr (apiVersion_of g)) u)),
     SetName = (\<lambda>n. put_metadata ''name'' (GStr n)),
     SetNamespace = (\<lambda>n. put_metadata ''namespace'' (GStr n)),
     SetLabels = (\<lambda>l. put_metadata ''labels'' (GMap (fmmap GStr l))),
     SetAnnotations = (\<lambda>l. put_metadata ''annotations'' (GMap (fmmap GStr l))),
     GetGroupVersionKind = (\<lambda>u. let gv = parse_apiVersion (as_string (fmlookup (Object u) ''apiVersion'')) in
       \<lparr>Group = fst gv, Version = snd gv, Kind = as_string (fmlookup (Object u) ''kind'')\<rparr>),
     GetName = (\<lambda>u. as_string (fmlookup (metadata_of u) ''name'')),
     GetNamespace = (\<lambda>u. as_string (fmlookup (metadata_of u) ''namespace'')),
     GetLabels = (\<lambda>u. string_entries (fmlookup (metadata_of u) ''labels'')),
     GetAnnotations = (\<lambda>u. string_entries (fmlookup (metadata_of u) ''annotations'')),
     NestedString = nested '''' (\<lambda>v. case v of GStr s \<Rightarrow> Some s | _ \<Rightarrow> None),
     NestedInt64 = nested 0 (\<lambda>v. case v of GInt i \<Rightarrow> Some i | _ \<Rightarrow> None),
     NestedBool = nested False (\<lambda>v. case v of GBool b \<Rightarrow> Some b | _ \<Rightarrow> None),
     NestedSlice = nested [] (\<lambda>v. case v of GSlice vs \<Rightarrow> Some vs | _ \<Rightarrow> None),
     SetStatusCondition = (\<lambda>now cs c. set_condition now c cs),
     ContainsFinalizer = (\<lambda>m f. f \<in> set (meta_Finalizers m)),
     AddFinalizer = (\<lambda>m f. if f \<in> set (meta_Finalizers m) then m else m\<lparr>meta_Finalizers := meta_Finalizers m @ [f]\<rparr>),
     RemoveFinalizer = (\<lambda>m f. m\<lparr>meta_Finalizers := filter (\<lambda>g. g \<noteq> f) (meta_Finalizers m)\<rparr>),
     IsZero = (\<lambda>t. t = None \<or> t = Some 0),
     IsNotFound = (\<lambda>e. e = Some (StatusError ''NotFound'')),
     IgnoreNotFound = (\<lambda>e. if e = Some (StatusError ''NotFound'') then None else e)\<rparr>"

lemma parse_apiVersion_of: "valid_gvk g \<Longrightarrow> parse_apiVersion (apiVersion_of g) = (Group g, Version g)"
  by (auto simp: parse_apiVersion_def apiVersion_of_def valid_gvk_def takeWhile_tail dropWhile_append
    intro!: takeWhile_append2)

lemma metadata_of_put_object [simp]:
  "metadata_of (put_object k v u) = (if k = ''metadata'' then (case v of GMap m \<Rightarrow> m | _ \<Rightarrow> fmempty) else metadata_of u)"
  by (simp add: metadata_of_def)

lemma metadata_of_put_metadata [simp]: "metadata_of (put_metadata k v u) = fmupd k v (metadata_of u)"
  by (simp add: put_metadata_def)

lemma metadata_of_new [simp]: "metadata_of new_unstructured = fmempty"
  by (simp add: metadata_of_def new_unstructured_def)

lemma lookup_put_metadata [simp]:
  "k \<noteq> ''metadata'' \<Longrightarrow> fmlookup (Object (put_metadata k' v u)) k = fmlookup (Object u) k"
  by (simp add: put_metadata_def)

lemma metadata_ok_put_metadata [simp]: "metadata_ok (put_metadata k v u)"
  by (simp add: metadata_ok_def put_metadata_def)

lemma metadata_ok_put_object [simp]: "k \<noteq> ''metadata'' \<Longrightarrow> metadata_ok (put_object k v u) = metadata_ok u"
  by (simp add: metadata_ok_def)

lemmas ref_libs_simps = ref_libs_def header_def k8s_libs.simps obj_header.simps unstructured.simps

interpretation ref: k8s_libs_ok ref_libs
proof unfold_locales
  show "header ref_libs new_unstructured = empty_header"
    by (simp add: ref_libs_def header_def empty_header_def parse_apiVersion_def new_unstructured_def metadata_of_def)
  show "header ref_libs (SetGroupVersionKind ref_libs g u) = (header ref_libs u)\<lparr>hdr_GVK := g\<rparr>"
    if "metadata_ok u" and "valid_gvk g" for g u
    using that by (simp add: ref_libs_def header_def parse_apiVersion_of)
qed (auto simp: ref_libs_def header_def header_keys_def nested_def split: option.splits gval.splits)

end
