(* ===== verification/Vendor_Adapter.thy ===== *)
theory Vendor_Adapter
  imports Reconciler_Safety Ingress Ref_Libs
begin

text \<open>
  The contract between the engine and an adapter. The Go interface only fixes signatures; the comments
  on it and the way the engine uses it ask for more: the manifest carries the adapter's kind and
  the name it is given, the extras are listed under the same keys whatever the spec, the status
  is mirrored and nothing else of the CR changes. The locale \<open>vendor_adapter\<close> states this; every one of
  the six adapters is shown to satisfy it (in its own theory), and the facts about the engine that
  need the contract are proved here once.
\<close>

section \<open>Keys\<close>

text \<open>An object of the API server is found under its kind, namespace and name.\<close>

type_synonym object_key = "GroupVersionKind \<times> string \<times> string"

definition key_of :: "k8s_libs \<Rightarrow> unstructured \<Rightarrow> object_key" where
  "key_of L u = (GetGroupVersionKind L u, GetNamespace L u, GetName L u)"

lemma key_of_header: "key_of L u = (hdr_GVK (header L u), hdr_Namespace (header L u), hdr_Name (header L u))"
  by (simp add: key_of_def header_def)

text \<open>The object a call writes or deletes.\<close>

fun changed_key :: "k8s_libs \<Rightarrow> 'cr api_call \<Rightarrow> object_key option" where
  "changed_key L (CApply u _ _ _) = Some (key_of L u)"
| "changed_key L (CDelete u _) = Some (key_of L u)"
| "changed_key L _ = None"

definition extras_at ::
    "('spec, 'status) Adapter \<Rightarrow> ('spec, 'status) paas_object \<Rightarrow> string \<Rightarrow> string \<Rightarrow> string \<Rightarrow> ExtraResource list" where
  "extras_at A cr t ns owner = (case ExtraResources A of None \<Rightarrow> [] | Some er \<Rightarrow> er cr t ns owner)"

lemma extras_of_at: "extras_of A cr = extras_at A cr (target_of A cr) (cr_namespace cr) (cr_name cr)"
  by (simp add: extras_of_def extras_at_def)

abbreviation extra_key :: "ExtraResource \<Rightarrow> GroupVersionKind \<times> string" where
  "extra_key x \<equiv> (extra_GVK x, extra_Name x)"

text \<open>The keys that belong to a CR of a given namespace and name; the spec plays no part.\<close>

definition owned_keys ::
    "GroupVersionKind \<Rightarrow> (string \<Rightarrow> (GroupVersionKind \<times> string) list) \<Rightarrow> string \<Rightarrow> string \<Rightarrow> object_key set" where
  "owned_keys gvk extra_keys ns n = (\<lambda>(g, m). (g, ns, m)) ` set ((gvk, n) # extra_keys n)"

text \<open>A key was deleted: a delete of it succeeded or found nothing.\<close>

definition key_deleted_in :: "k8s_libs \<Rightarrow> object_key \<Rightarrow> 'cr api_call list \<Rightarrow> bool" where
  "key_deleted_in L k cs \<longleftrightarrow> (\<exists>u err. CDelete u err \<in> set cs \<and> key_of L u = k \<and> delete_ok L err)"

section \<open>Status\<close>

text \<open>The fields every status has under its own names.\<close>

record 'status status_view =
  view_Ready :: "'status \<Rightarrow> bool"
  view_Phase :: "'status \<Rightarrow> string"
  view_Message :: "'status \<Rightarrow> string"
  view_Conditions :: "'status \<Rightarrow> condition list"

text \<open>What a CR's status says of a target status: flag, phase, and a \<open>Ready\<close> condition to match.\<close>

definition mirrors :: "'status status_view \<Rightarrow> ('spec, 'status) paas_object \<Rightarrow> TargetStatus \<Rightarrow> bool" where
  "mirrors V o' s \<longleftrightarrow> view_Ready V (Status o') = ts_Ready s \<and> view_Phase V (Status o') = ts_Phase s \<and>
     (\<exists>c. find_condition ''Ready'' (view_Conditions V (Status o')) = Some c \<and>
        cond_Status c = (if ts_Ready s then ConditionTrue else ConditionFalse) \<and>
        cond_Message c = view_Message V (Status o') \<and>
        cond_ObservedGeneration c = meta_Generation (ObjectMeta o'))"

text \<open>What the adapters' \<open>Ready\<close> condition must satisfy follows from the shape all of them give it.\<close>

lemma ready_conditionI:
  assumes "conds = set_condition now \<lparr>cond_Type = ''Ready'', cond_Status = st, cond_ObservedGeneration = g,
    cond_LastTransitionTime = 0, cond_Reason = r, cond_Message = m\<rparr> old"
  shows "\<exists>c. find_condition ''Ready'' conds = Some c \<and> cond_Status c = st \<and> cond_Message c = m \<and>
    cond_ObservedGeneration c = g"
  using find_condition_set [of "\<lparr>cond_Type = ''Ready'', cond_Status = st, cond_ObservedGeneration = g,
    cond_LastTransitionTime = 0, cond_Reason = r, cond_Message = m\<rparr>" now old] assms by simp

section \<open>The contract\<close>

locale vendor_adapter = k8s_libs_ok L for L :: k8s_libs +
  fixes A :: "('spec, 'status) Adapter"
    and extra_keys :: "string \<Rightarrow> (GroupVersionKind \<times> string) list"
    and V :: "'status status_view"
  assumes gvk_valid: "valid_gvk (GVK A)"
    and target_name: "TargetName A n = n"
    and manifest_header: "header L (BuildManifest A cr name ns owner) =
      \<lparr>hdr_GVK = GVK A, hdr_Name = name, hdr_Namespace = ns,
       hdr_Labels = operator_labels (FieldManager A) owner, hdr_Annotations = fmempty\<rparr>"
    and extra_keys_fixed: "map extra_key (extras_at A cr t ns owner) = extra_keys t"
    and extra_keys_valid: "g \<in> fst ` set (extra_keys t) \<Longrightarrow> valid_gvk g"
    and extra_keys_distinct: "distinct ((GVK A, t) # extra_keys t)"
    and extra_desired: "x \<in> set (extras_at A cr t ns owner) \<Longrightarrow> extra_Desired x = Some d \<Longrightarrow>
      key_of L d = (extra_GVK x, ns, extra_Name x) \<and> GetLabels L d = operator_labels (FieldManager A) owner"
    and extract_none: "ExtractStatus A None =
      \<lparr>ts_Phase = ''Unknown'', ts_Ready = False, ts_ObservedCount = 0, ts_ReadyCount = 0\<rparr>"
    and apply_frame:
      "ObjectMeta (fst (ApplyStatus A now cr t s)) = ObjectMeta cr"
      "Spec (fst (ApplyStatus A now cr t s)) = Spec cr"
    and apply_mirror:
      "view_Ready V (Status (fst (ApplyStatus A now cr t s))) = ts_Ready s"
      "view_Phase V (Status (fst (ApplyStatus A now cr t s))) = ts_Phase s"
      "view_Message V (Status (fst (ApplyStatus A now cr t s))) = snd (ApplyStatus A now cr t s)"
    and apply_condition: "\<exists>c. find_condition ''Ready'' (view_Conditions V (Status (fst (ApplyStatus A now cr t s)))) = Some c \<and>
        cond_Status c = (if ts_Ready s then ConditionTrue else ConditionFalse) \<and>
        cond_Message c = snd (ApplyStatus A now cr t s) \<and>
        cond_ObservedGeneration c = meta_Generation (ObjectMeta cr)"
    and apply_other_conditions: "ty \<noteq> ''Ready'' \<Longrightarrow>
        find_condition ty (view_Conditions V (Status (fst (ApplyStatus A now cr t s)))) =
        find_condition ty (view_Conditions V (Status cr))"
begin

abbreviation owned :: "string \<Rightarrow> string \<Rightarrow> object_key set" where
  "owned \<equiv> owned_keys (GVK A) extra_keys"

lemma target_of_eq [simp]: "target_of A cr = cr_name cr"
  by (simp add: target_of_def target_name)

lemma key_of_manifest: "key_of L (manifest_of A cr) = (GVK A, cr_namespace cr, cr_name cr)"
  by (simp add: key_of_header manifest_of_def manifest_header)

lemma key_of_identify: "valid_gvk g \<Longrightarrow> key_of L (identify L g ns n) = (g, ns, n)"
  by (simp add: key_of_header identify_def header_identify_aux)

lemma owned_target: "(GVK A, ns, n) \<in> owned ns n"
  by (auto simp: owned_keys_def)

lemma extra_key_in:
  assumes "x \<in> set (extras_of A cr)"
  shows "(extra_GVK x, extra_Name x) \<in> set (extra_keys (cr_name cr))" and "valid_gvk (extra_GVK x)"
proof -
  have "extra_key x \<in> set (map extra_key (extras_of A cr))"
    using assms by (simp add: rev_image_eqI)
  then show 1: "(extra_GVK x, extra_Name x) \<in> set (extra_keys (cr_name cr))"
    by (simp only: extras_of_at extra_keys_fixed target_of_eq)
  show "valid_gvk (extra_GVK x)"
    using extra_keys_valid [of "extra_GVK x" "cr_name cr"] image_eqI [OF _ 1, of "extra_GVK x" fst] by simp
qed

lemma owned_extra:
  assumes "x \<in> set (extras_of A cr)"
  shows "(extra_GVK x, cr_namespace cr, extra_Name x) \<in> owned (cr_namespace cr) (cr_name cr)"
  using extra_key_in(1) [OF assms] by (force simp: owned_keys_def)

lemma owned_extra_applied:
  assumes "x \<in> set (extras_of A cr)" and "extra_Desired x = Some d"
  shows "key_of L d \<in> owned (cr_namespace cr) (cr_name cr)"
  using extra_desired [of x cr "target_of A cr" "cr_namespace cr" "cr_name cr" d] assms owned_extra
  by (simp add: extras_of_at)

subsection \<open>The engine stays within the keys of its CR\<close>

fun phase_of :: "('spec, 'status) paas_object \<Rightarrow> ('spec, 'status) phase \<Rightarrow> bool" where
  "phase_of cr (DelTarget c) = (c = cr)"
| "phase_of cr (DelExtras c xs) = (c = cr \<and> set xs \<subseteq> set (extras_of A cr))"
| "phase_of cr (AddFin c) = (c = cr)"
| "phase_of cr (Look c) = (c = cr)"
| "phase_of cr (Applying c _) = (c = cr)"
| "phase_of cr (Recording c _) = (c = cr)"
| "phase_of cr (Extras c _ xs) = (c = cr \<and> set xs \<subseteq> set (extras_of A cr))"
| "phase_of cr (Done _ _) = True"
| "phase_of cr Read = False"

lemma phase_of_answer [simp]: "phase_of cr (answer ok a)"
  by (cases a) simp_all

lemma step_scope:
  assumes "protocol_step L A req p c q" and "phase_of cr p"
  shows "phase_of cr q \<and> (\<forall>k. changed_key L c = Some k \<longrightarrow> k \<in> owned (cr_namespace cr) (cr_name cr))"
  using assms
  by (cases rule: protocol_step.cases)
     (auto simp: key_of_manifest key_of_identify gvk_valid owned_target owned_extra extra_key_in(2) owned_extra_applied)

lemma run_scope:
  assumes "protocol_run L A req Read tr (Done res e)" and "c \<in> set tr" and "changed_key L c = Some k"
  shows "\<exists>cr cs. tr = CGet req (Inr cr) # cs \<and> k \<in> owned (cr_namespace cr) (cr_name cr)"
proof -
  from run_Read [OF assms(1)] assms(2,3) obtain cr cs where tr: "tr = CGet req (Inr cr) # cs"
    and run: "protocol_run L A req (after_read L cr) cs (Done res e)" and c: "c \<in> set cs"
    by auto
  have "phase_of cr (after_read L cr)" by (simp add: after_read_def)
  with run_invariant [OF run, of "phase_of cr"
      "\<lambda>c. \<forall>k. changed_key L c = Some k \<longrightarrow> k \<in> owned (cr_namespace cr) (cr_name cr)"]
  have "\<forall>c \<in> set cs. \<forall>k. changed_key L c = Some k \<longrightarrow> k \<in> owned (cr_namespace cr) (cr_name cr)"
    using step_scope by blast
  with tr c assms(3) show ?thesis by blast
qed

subsection \<open>Releasing the finalizer means everything owned was deleted\<close>

lemma key_deletedI: "deleted_in L g ns n cs \<Longrightarrow> valid_gvk g \<Longrightarrow> key_deleted_in L (g, ns, n) cs"
  by (auto simp: deleted_in_def key_deleted_in_def intro: key_of_identify)

lemma run_release_owned:
  assumes "protocol_run L A req Read tr (Done res e)"
    and "CUpdate o' a \<in> set tr" and "FinalizerName \<notin> set (meta_Finalizers (ObjectMeta o'))"
  shows "\<exists>cr pre. tr = CGet req (Inr cr) # pre @ [CUpdate o' a] \<and> terminating L cr \<and>
    (\<forall>k \<in> owned (cr_namespace cr) (cr_name cr). key_deleted_in L k pre)"
proof -
  from run_release [OF k8s_libs_ok_axioms assms] obtain cr pre where
    tr: "tr = CGet req (Inr cr) # pre @ [CUpdate o' a]" "terminating L cr"
    and t: "deleted_in L (GVK A) (cr_namespace cr) (target_of A cr) pre"
    and x: "\<forall>x \<in> set (extras_of A cr). deleted_in L (extra_GVK x) (cr_namespace cr) (extra_Name x) pre"
    by auto
  have "key_deleted_in L k pre" if "k \<in> owned (cr_namespace cr) (cr_name cr)" for k
  proof -
    have keys: "set (extra_keys (cr_name cr)) = extra_key ` set (extras_of A cr)"
      using extra_keys_fixed [of cr "cr_name cr" "cr_namespace cr" "cr_name cr"]
      by (metis extras_of_at list.set_map target_of_eq)
    from that consider "k = (GVK A, cr_namespace cr, cr_name cr)"
      | x where "x \<in> set (extras_of A cr)" "k = (extra_GVK x, cr_namespace cr, extra_Name x)"
      by (auto simp: owned_keys_def keys)
    then show ?thesis
    proof cases
      case 1
      with t gvk_valid show ?thesis by (auto intro: key_deletedI)
    next
      case (2 x)
      with x extra_key_in(2) show ?thesis by (auto intro: key_deletedI)
    qed
  qed
  with tr show ?thesis by blast
qed

subsection \<open>The status written is the applied object's\<close>

lemma mirrors_ApplyStatus: "mirrors V (fst (ApplyStatus A now cr t s)) s"
  using apply_condition [of now cr t s] by (simp add: mirrors_def apply_mirror apply_frame)

lemma run_status_mirrors:
  assumes "protocol_run L A req Read tr (Done res e)" and "CStatusUpdate o' a \<in> set tr"
  shows "\<exists>cr cs u. tr = CGet req (Inr cr) # cs \<and> CApply (manifest_of A cr) (FieldManager A) True (Inr u) \<in> set cs \<and>
     ObjectMeta o' = ObjectMeta cr \<and> Spec o' = Spec cr \<and> mirrors V o' (ExtractStatus A (Some u))"
proof -
  from run_status [OF assms] obtain cr g u pre now where
    "tr = CGet req (Inr cr) # g # CApply (manifest_of A cr) (FieldManager A) True (Inr u) # pre @ [CStatusUpdate o' a]"
    "o' = fst (ApplyStatus A now cr (target_of A cr) (ExtractStatus A (Some u)))"
    by auto
  then show ?thesis
    by (intro exI [of _ cr] exI [of _ "g # CApply (manifest_of A cr) (FieldManager A) True (Inr u) # pre @ [CStatusUpdate o' a]"]
        exI [of _ u]) (simp add: apply_frame mirrors_ApplyStatus)
qed

text \<open>A slow requeue is asked for only once the applied target is ready.\<close>

lemma run_slow_requeue:
  assumes "protocol_run L A req Read tr (Done res e)" and "RequeueAfter res = 5 * time_Minute"
  shows "\<exists>cr o' a u. CGet req (Inr cr) \<in> set tr \<and> CStatusUpdate o' (Inr a) \<in> set tr \<and>
    CApply (manifest_of A cr) (FieldManager A) True (Inr u) \<in> set tr \<and>
    mirrors V o' (ExtractStatus A (Some u)) \<and> ts_Ready (ExtractStatus A (Some u))"
proof -
  have "RequeueAfter res \<noteq> 0" using assms(2) by (simp add: time_Minute_def time_Second_def)
  with run_requeue [OF assms(1)] obtain o' a where upd: "CStatusUpdate o' (Inr a) \<in> set tr" by auto
  from run_status [OF assms(1) this] obtain cr g u pre now where
    tr: "tr = CGet req (Inr cr) # g # CApply (manifest_of A cr) (FieldManager A) True (Inr u) # pre @ [CStatusUpdate o' (Inr a)]"
    and o': "o' = fst (ApplyStatus A now cr (target_of A cr) (ExtractStatus A (Some u)))"
    and res: "requeue_for (ExtractStatus A (Some u)) = res"
    by auto
  from res assms(2) have "ts_Ready (ExtractStatus A (Some u))"
    by (auto simp: requeue_for_def time_Minute_def time_Second_def split: if_splits)
  with tr o' mirrors_ApplyStatus [of now cr "target_of A cr" "ExtractStatus A (Some u)"] show ?thesis
    by (intro exI [of _ cr] exI [of _ o'] exI [of _ a] exI [of _ u]) simp
qed

end

section \<open>Adapters that count\<close>

text \<open>
  The comment on \<^verbatim>\<open>TargetStatus.Ready\<close> promises readiness only if there are units and all of them are ready.
  The contract of the adapters that derive readiness from counts.
\<close>

definition all_ready :: "TargetStatus \<Rightarrow> bool" where
  "all_ready s \<longleftrightarrow> 0 < sint (ts_ObservedCount s) \<and> sint (ts_ObservedCount s) \<le> sint (ts_ReadyCount s)"

locale counting_adapter = vendor_adapter +
  assumes ready_counts: "ts_Ready (ExtractStatus A u) \<Longrightarrow> all_ready (ExtractStatus A u)"
begin

end

end
