(* ===== verification/Cnpg.thy ===== *)
theory Cnpg
  imports Vendor_Adapter
begin

text \<open>
  \<^verbatim>\<open>internal/cnpg/cnpg.go\<close>: the adapter of \<^verbatim>\<open>PostgresCluster\<close> onto CloudNativePG's \<^verbatim>\<open>Cluster\<close>. The definitions follow the
  Go functions; then the round trip of the manifest, the reading of the status and the adapter
  contract.
\<close>

section \<open>The adapter\<close>

definition cnpg_GVK :: GroupVersionKind where
  "cnpg_GVK = \<lparr>Group = ''postgresql.cnpg.io'', Version = ''v1'', Kind = ''Cluster''\<rparr>"

definition cnpg_FieldManager :: string where
  "cnpg_FieldManager = ''postgrescluster-operator''"

definition cnpg_TargetName :: "string \<Rightarrow> string" where
  "cnpg_TargetName crName = crName"

definition cnpg_ObjectKind :: string where
  "cnpg_ObjectKind = ''CNPG Cluster''"

definition cnpg_resourceListJSON :: "ResourceList \<Rightarrow> gomap option" where
  "cnpg_resourceListJSON list =
     (if list = fmempty then None
      else
        (let out = fmempty;
             out = (case fmlookup list ResourceCPU of Some cpu \<Rightarrow> fmupd ''cpu'' (GStr (quantity_String cpu)) out | None \<Rightarrow> out);
             out = (case fmlookup list ResourceMemory of Some mem \<Rightarrow> fmupd ''memory'' (GStr (quantity_String mem)) out | None \<Rightarrow> out)
         in if out = fmempty then None else Some out))"

definition cnpg_BuildManifest :: "k8s_libs \<Rightarrow> PostgresCluster \<Rightarrow> string \<Rightarrow> string \<Rightarrow> string \<Rightarrow> unstructured" where
  "cnpg_BuildManifest L cr name namespace ownerName =
     (let spec = Spec cr;
          storage = fmap_of_list [(''size'', GStr (storage_Size (pg_Storage spec)))];
          storage = set_if (storage_StorageClass (pg_Storage spec) \<noteq> '''') ''storageClass''
            (GStr (storage_StorageClass (pg_Storage spec))) storage;
          clusterSpec = fmap_of_list
            [(''instances'', GInt (int64_of_int32 (pg_Instances spec))),
             (''storage'', GMap storage),
             (''bootstrap'', gomap_of [(''initdb'', gomap_of
               [(''database'', GStr (db_Name (pg_Database spec))), (''owner'', GStr (db_Owner (pg_Database spec)))])])];
          clusterSpec = set_if (pg_Image spec \<noteq> '''') ''imageName'' (GStr (pg_Image spec)) clusterSpec;
          resources = fmempty;
          resources = set_some ''requests'' (map_option GMap (cnpg_resourceListJSON (Requests (pg_Resources spec)))) resources;
          resources = set_some ''limits'' (map_option GMap (cnpg_resourceListJSON (Limits (pg_Resources spec)))) resources;
          clusterSpec = set_if (resources \<noteq> fmempty) ''resources'' (GMap resources) clusterSpec;
          clusterSpec = (case pg_Expose spec of
              None \<Rightarrow> clusterSpec
            | Some expose \<Rightarrow>
                (let serviceMetadata = fmap_of_list [(''name'', GStr (name @ ''-external''))];
                     serviceMetadata = set_if (exp_Annotations expose \<noteq> fmempty) ''annotations''
                       (GMap (fmmap GStr (exp_Annotations expose))) serviceMetadata
                 in fmupd ''managed''
                      (gomap_of [(''services'', gomap_of [(''additional'', GSlice
                        [gomap_of
                          [(''selectorType'', GStr ''rw''),
                           (''serviceTemplate'', gomap_of
                             [(''metadata'', GMap serviceMetadata),
                              (''spec'', gomap_of [(''type'', GStr (exp_Type expose))])])]])])]) clusterSpec));
          clusterSpec = set_if (EnablePodMonitor (pg_Monitoring spec)) ''monitoring''
            (gomap_of [(''enablePodMonitor'', GBool True)]) clusterSpec;
          u = SetGroupVersionKind L cnpg_GVK new_unstructured;
          u = SetName L name u;
          u = SetNamespace L namespace u;
          u = SetLabels L (operator_labels ''postgrescluster-operator'' ownerName) u
      in put_object ''spec'' (GMap clusterSpec) u)"

definition cnpg_ExtractStatus :: "k8s_libs \<Rightarrow> unstructured option \<Rightarrow> TargetStatus" where
  "cnpg_ExtractStatus L u =
     (case u of
        None \<Rightarrow> \<lparr>ts_Phase = ''Unknown'', ts_Ready = False, ts_ObservedCount = 0, ts_ReadyCount = 0\<rparr>
      | Some u \<Rightarrow>
          (let (phase, found, _) = NestedString L (Object u) [''status'', ''phase''];
               phase = (if \<not> found \<or> phase = '''' then ''Unknown'' else phase);
               (i, _, _) = NestedInt64 L (Object u) [''status'', ''instances''];
               (ri, _, _) = NestedInt64 L (Object u) [''status'', ''readyInstances''];
               instances = int32_of_int64 i;
               readyInstances = int32_of_int64 ri;
               ready = (0 < sint instances \<and> sint readyInstances \<ge> sint instances)
           in \<lparr>ts_Phase = phase, ts_Ready = ready, ts_ObservedCount = instances, ts_ReadyCount = readyInstances\<rparr>))"

definition cnpg_ApplyStatus ::
    "k8s_libs \<Rightarrow> time \<Rightarrow> PostgresCluster \<Rightarrow> string \<Rightarrow> TargetStatus \<Rightarrow> PostgresCluster \<times> string" where
  "cnpg_ApplyStatus L now cr targetName s =
     (let message =
            (if ts_Ready s
             then ''CNPG Cluster '' @ fmt_q targetName @ '' is ready ('' @ fmt_d (ts_ReadyCount s) @ ''/'' @
               fmt_d (ts_ObservedCount s) @ '' instances)''
             else ''Waiting for CNPG Cluster '' @ fmt_q targetName @ '' (phase: '' @ ts_Phase s @ '')'');
          condition = \<lparr>cond_Type = ''Ready'', cond_Status = ConditionFalse,
            cond_ObservedGeneration = meta_Generation (ObjectMeta cr), cond_LastTransitionTime = 0,
            cond_Reason = ''ClusterNotReady'', cond_Message = message\<rparr>;
          condition = (if ts_Ready s then condition\<lparr>cond_Status := ConditionTrue, cond_Reason := ''ClusterReady''\<rparr>
            else condition);
          conditions = SetStatusCondition L now (pgst_Conditions (Status cr)) condition
      in (cr\<lparr>Status := \<lparr>pgst_Ready = ts_Ready s, pgst_Phase = ts_Phase s, pgst_Instances = ts_ObservedCount s,
            pgst_ReadyInstances = ts_ReadyCount s, pgst_Message = message, pgst_Conditions = conditions\<rparr>\<rparr>, message))"

definition cnpg_Adapter :: "k8s_libs \<Rightarrow> (PostgresClusterSpec, PostgresClusterStatus) Adapter" where
  "cnpg_Adapter L = \<lparr>GVK = cnpg_GVK, TargetName = cnpg_TargetName, ObjectKind = cnpg_ObjectKind,
     FieldManager = cnpg_FieldManager, BuildManifest = cnpg_BuildManifest L, ExtractStatus = cnpg_ExtractStatus L,
     ApplyStatus = cnpg_ApplyStatus L, ExtraResources = None\<rparr>"

definition cnpg_GetCluster ::
    "k8s_libs \<Rightarrow> ('w, 'cr) Client \<Rightarrow> string \<Rightarrow> string \<Rightarrow> 'w \<Rightarrow> ('w, unstructured option) api_result" where
  "cnpg_GetCluster L c namespace name = GetTarget L c cnpg_GVK namespace name"

section \<open>The manifest\<close>

lemma cnpg_resourceListJSON_spec: "cnpg_resourceListJSON = resource_list_spec"
  by (rule resource_list_specI) (auto simp: cnpg_resourceListJSON_def Let_def set_simps split: option.splits)

text \<open>The reference reader of the manifest.\<close>

definition cnpg_decode :: "unstructured \<Rightarrow> PostgresClusterSpec" where
  "cnpg_decode u =
     \<lparr>pg_Instances = int32_of_int64 (as_int64 (path_lookup (Object u) [''spec'', ''instances''])),
      pg_Image = as_string (path_lookup (Object u) [''spec'', ''imageName'']),
      pg_Storage = \<lparr>storage_Size = as_string (path_lookup (Object u) [''spec'', ''storage'', ''size'']),
        storage_StorageClass = as_string (path_lookup (Object u) [''spec'', ''storage'', ''storageClass''])\<rparr>,
      pg_Database = \<lparr>db_Name = as_string (path_lookup (Object u) [''spec'', ''bootstrap'', ''initdb'', ''database'']),
        db_Owner = as_string (path_lookup (Object u) [''spec'', ''bootstrap'', ''initdb'', ''owner''])\<rparr>,
      pg_Resources = decode_resources (path_lookup (Object u) [''spec'', ''resources'']),
      pg_Monitoring = \<lparr>EnablePodMonitor =
        (path_lookup (Object u) [''spec'', ''monitoring'', ''enablePodMonitor''] = Some (GBool True))\<rparr>,
      pg_Expose = (case path_lookup (Object u) [''spec'', ''managed'', ''services'', ''additional''] of
          None \<Rightarrow> None
        | Some v \<Rightarrow> Some \<lparr>
            exp_Type = as_string (path_lookup (head_map (Some v)) [''serviceTemplate'', ''spec'', ''type'']),
            exp_Annotations = string_entries (path_lookup (head_map (Some v)) [''serviceTemplate'', ''metadata'', ''annotations''])\<rparr>)\<rparr>"

lemma cnpg_decode_BuildManifest:
  "cnpg_decode (cnpg_BuildManifest L cr name namespace owner) =
     (Spec cr)\<lparr>pg_Resources := trim_resources (pg_Resources (Spec cr))\<rparr>"
  by (cases "pg_Expose (Spec cr)")
     (simp_all add: cnpg_decode_def cnpg_BuildManifest_def cnpg_resourceListJSON_spec Let_def flip: resources_block_def)

section \<open>Contract\<close>

lemma cnpg_ExtractStatus_none:
  "cnpg_ExtractStatus L None = \<lparr>ts_Phase = ''Unknown'', ts_Ready = False, ts_ObservedCount = 0, ts_ReadyCount = 0\<rparr>"
  by (simp add: cnpg_ExtractStatus_def)

definition cnpg_view :: "PostgresClusterStatus status_view" where
  "cnpg_view = \<lparr>view_Ready = pgst_Ready, view_Phase = pgst_Phase, view_Message = pgst_Message,
     view_Conditions = pgst_Conditions\<rparr>"

lemmas cnpg_defs [adapter_defs] = cnpg_Adapter_def cnpg_view_def cnpg_GVK_def cnpg_TargetName_def cnpg_FieldManager_def

context k8s_libs_ok
begin

lemma cnpg_header: "header L (cnpg_BuildManifest L cr name ns owner) =
    \<lparr>hdr_GVK = cnpg_GVK, hdr_Name = name, hdr_Namespace = ns,
     hdr_Labels = operator_labels cnpg_FieldManager owner, hdr_Annotations = fmempty\<rparr>"
proof -
  have [simp]: "valid_gvk cnpg_GVK" by (simp add: valid_gvk_def cnpg_GVK_def)
  show ?thesis
    by (simp add: cnpg_BuildManifest_def Let_def header_put header_keys_def cnpg_FieldManager_def fold_built)
qed

text \<open>The status as a function of the two counts and the phase found in the object.\<close>

lemma cnpg_ExtractStatus_eq:
  "cnpg_ExtractStatus L (Some u) =
     (let phase = as_string (path_lookup (Object u) [''status'', ''phase'']);
          n = int32_of_int64 (as_int64 (path_lookup (Object u) [''status'', ''instances'']));
          m = int32_of_int64 (as_int64 (path_lookup (Object u) [''status'', ''readyInstances'']))
      in \<lparr>ts_Phase = (if phase = '''' then ''Unknown'' else phase), ts_Ready = (0 < sint n \<and> sint n \<le> sint m),
          ts_ObservedCount = n, ts_ReadyCount = m\<rparr>)"
proof -
  obtain f e where 1: "NestedString L (Object u) [''status'', ''phase''] =
      (as_string (path_lookup (Object u) [''status'', ''phase'']), f, e)"
    and f: "f \<or> as_string (path_lookup (Object u) [''status'', ''phase'']) = ''''"
    by (rule nested_string_obtain)
  obtain f2 e2 where 2: "NestedInt64 L (Object u) [''status'', ''instances''] =
      (as_int64 (path_lookup (Object u) [''status'', ''instances'']), f2, e2)"
    by (rule nested_int64_obtain)
  obtain f3 e3 where 3: "NestedInt64 L (Object u) [''status'', ''readyInstances''] =
      (as_int64 (path_lookup (Object u) [''status'', ''readyInstances'']), f3, e3)"
    by (rule nested_int64_obtain)
  show ?thesis
    unfolding cnpg_ExtractStatus_def Let_def option.case 1 2 3 prod.case using f by auto
qed

lemma cnpg_conditions:
  "view_Conditions cnpg_view (Status (fst (cnpg_ApplyStatus L now cr t s))) =
     set_condition now \<lparr>cond_Type = ''Ready'', cond_Status = (if ts_Ready s then ConditionTrue else ConditionFalse),
       cond_ObservedGeneration = meta_Generation (ObjectMeta cr), cond_LastTransitionTime = 0,
       cond_Reason = (if ts_Ready s then ''ClusterReady'' else ''ClusterNotReady''),
       cond_Message = snd (cnpg_ApplyStatus L now cr t s)\<rparr> (view_Conditions cnpg_view (Status cr))"
  by (simp add: cnpg_ApplyStatus_def cnpg_view_def Let_def set_status_condition)

end

sublocale k8s_libs_ok \<subseteq> cnpg: counting_adapter L "cnpg_Adapter L" "\<lambda>_. []" cnpg_view
proof
  show "\<exists>c. find_condition ''Ready'' (view_Conditions cnpg_view (Status (fst (ApplyStatus (cnpg_Adapter L) now cr t s)))) = Some c \<and>
      cond_Status c = (if ts_Ready s then ConditionTrue else ConditionFalse) \<and>
      cond_Message c = snd (ApplyStatus (cnpg_Adapter L) now cr t s) \<and>
      cond_ObservedGeneration c = meta_Generation (ObjectMeta cr)" for now cr t s
    by (rule ready_conditionI) (simp add: cnpg_Adapter_def cnpg_conditions)
  show "find_condition ty (view_Conditions cnpg_view (Status (fst (ApplyStatus (cnpg_Adapter L) now cr t s)))) =
      find_condition ty (view_Conditions cnpg_view (Status cr))" if "ty \<noteq> ''Ready''" for ty now cr t s
    using that by (simp add: cnpg_Adapter_def cnpg_conditions find_condition_set_other)
  show "all_ready (ExtractStatus (cnpg_Adapter L) u)" if "ts_Ready (ExtractStatus (cnpg_Adapter L) u)" for u
    using that cnpg_ExtractStatus_none
    by (cases u) (simp_all add: cnpg_Adapter_def all_ready_def cnpg_ExtractStatus_eq Let_def)
qed (auto simp: adapter_defs cnpg_header extras_at_def valid_gvk_def cnpg_ExtractStatus_none cnpg_ApplyStatus_def Let_def)

end
