(* ===== verification/Valkey.thy ===== *)
theory Valkey
  imports Vendor_Adapter
begin

text \<open>
  \<^verbatim>\<open>internal/valkey/valkey.go\<close>: the adapter of \<^verbatim>\<open>ValkeyCluster\<close> onto valkey-operator's \<^verbatim>\<open>ValkeyCluster\<close>. The definitions
  follow the Go functions; then the round trip of the manifest, the reading of the status and the
  adapter contract.
\<close>

section \<open>The adapter\<close>

definition valkey_GVK :: GroupVersionKind where
  "valkey_GVK = \<lparr>Group = ''valkey.io'', Version = ''v1alpha1'', Kind = ''ValkeyCluster''\<rparr>"

definition valkey_FieldManager :: string where
  "valkey_FieldManager = ''valkeycluster-operator''"

definition valkey_TargetName :: "string \<Rightarrow> string" where
  "valkey_TargetName crName = crName"

definition valkey_ObjectKind :: string where
  "valkey_ObjectKind = ''Valkey ValkeyCluster''"

definition valkey_dataPort :: int64 where
  "valkey_dataPort = 6379"

definition valkey_clusterSelectorLabel :: string where
  "valkey_clusterSelectorLabel = ''valkey.io/cluster''"

definition valkey_externalServiceGVK :: GroupVersionKind where
  "valkey_externalServiceGVK = \<lparr>Group = [], Version = ''v1'', Kind = ''Service''\<rparr>"

definition valkey_resourceListJSON :: "ResourceList \<Rightarrow> gomap option" where
  "valkey_resourceListJSON list =
     (if list = fmempty then None
      else
        (let out = fmempty;
             out = (case fmlookup list ResourceCPU of Some cpu \<Rightarrow> fmupd ''cpu'' (GStr (quantity_String cpu)) out | None \<Rightarrow> out);
             out = (case fmlookup list ResourceMemory of Some mem \<Rightarrow> fmupd ''memory'' (GStr (quantity_String mem)) out | None \<Rightarrow> out)
         in if out = fmempty then None else Some out))"

definition valkey_BuildManifest :: "k8s_libs \<Rightarrow> ValkeyCluster \<Rightarrow> string \<Rightarrow> string \<Rightarrow> string \<Rightarrow> unstructured" where
  "valkey_BuildManifest L cr name namespace ownerName =
     (let spec = Spec cr;
          persistence = fmap_of_list [(''size'', GStr (persistence_Size (vk_Persistence spec)))];
          persistence = set_if (persistence_StorageClass (vk_Persistence spec) \<noteq> []) ''storageClassName''
            (GStr (persistence_StorageClass (vk_Persistence spec))) persistence;
          clusterSpec = fmap_of_list
            [(''shards'', GInt (int64_of_int32 (vk_Shards spec))),
             (''replicas'', GInt (int64_of_int32 (vk_Replicas spec))),
             (''persistence'', GMap persistence)];
          clusterSpec = set_if (vk_Image spec \<noteq> []) ''image'' (GStr (vk_Image spec)) clusterSpec;
          resources = fmempty;
          resources = set_some ''requests'' (map_option GMap (valkey_resourceListJSON (Requests (vk_Resources spec)))) resources;
          resources = set_some ''limits'' (map_option GMap (valkey_resourceListJSON (Limits (vk_Resources spec)))) resources;
          clusterSpec = set_if (resources \<noteq> fmempty) ''resources'' (GMap resources) clusterSpec;
          u = SetGroupVersionKind L valkey_GVK new_unstructured;
          u = SetName L name u;
          u = SetNamespace L namespace u;
          u = SetLabels L (operator_labels valkey_FieldManager ownerName) u
      in put_object ''spec'' (GMap clusterSpec) u)"

definition valkey_ExtraResources :: "k8s_libs \<Rightarrow> ValkeyCluster \<Rightarrow> string \<Rightarrow> string \<Rightarrow> string \<Rightarrow> ExtraResource list" where
  "valkey_ExtraResources L cr targetName namespace owner =
     (let name = targetName @ ''-external''
      in case vk_Expose (Spec cr) of
           None \<Rightarrow> [\<lparr>extra_GVK = valkey_externalServiceGVK, extra_Name = name, extra_Desired = None\<rparr>]
         | Some expose \<Rightarrow>
             (let u = SetGroupVersionKind L valkey_externalServiceGVK new_unstructured;
                  u = SetName L name u;
                  u = SetNamespace L namespace u;
                  u = SetLabels L (operator_labels valkey_FieldManager owner) u;
                  u = (if exp_Annotations expose \<noteq> fmempty then SetAnnotations L (exp_Annotations expose) u else u);
                  u = put_object ''spec'' (gomap_of
                    [(''type'', GStr (exp_Type expose)),
                     (''selector'', gomap_of [(valkey_clusterSelectorLabel, GStr targetName)]),
                     (''ports'', GSlice [gomap_of
                       [(''name'', GStr ''valkey''), (''port'', GInt valkey_dataPort), (''targetPort'', GInt valkey_dataPort)]])]) u
              in [\<lparr>extra_GVK = valkey_externalServiceGVK, extra_Name = name, extra_Desired = Some u\<rparr>]))"

definition valkey_ExtractStatus :: "k8s_libs \<Rightarrow> unstructured option \<Rightarrow> TargetStatus" where
  "valkey_ExtractStatus L u =
     (case u of
        None \<Rightarrow> \<lparr>ts_Phase = ''Unknown'', ts_Ready = False, ts_ObservedCount = 0, ts_ReadyCount = 0\<rparr>
      | Some u \<Rightarrow>
          (let (state, found, _) = NestedString L (Object u) [''status'', ''state''];
               state = (if \<not> found \<or> state = [] then ''Unknown'' else state);
               (shards, _, _) = NestedInt64 L (Object u) [''status'', ''shards''];
               (readyShards, _, _) = NestedInt64 L (Object u) [''status'', ''readyShards''];
               observed = int32_of_int64 shards;
               ready = int32_of_int64 readyShards
           in \<lparr>ts_Phase = state, ts_Ready = (0 < sint observed \<and> sint ready \<ge> sint observed),
               ts_ObservedCount = observed, ts_ReadyCount = ready\<rparr>))"

definition valkey_ApplyStatus ::
    "k8s_libs \<Rightarrow> time \<Rightarrow> ValkeyCluster \<Rightarrow> string \<Rightarrow> TargetStatus \<Rightarrow> ValkeyCluster \<times> string" where
  "valkey_ApplyStatus L now cr targetName s =
     (let message =
            (if ts_Ready s
             then ''ValkeyCluster '' @ fmt_q targetName @ '' is ready ('' @ fmt_d (ts_ReadyCount s) @ ''/'' @
               fmt_d (ts_ObservedCount s) @ '' shards)''
             else ''Waiting for ValkeyCluster '' @ fmt_q targetName @ '' (state: '' @ ts_Phase s @ '')'');
          condition = \<lparr>cond_Type = ''Ready'', cond_Status = ConditionFalse,
            cond_ObservedGeneration = meta_Generation (ObjectMeta cr), cond_LastTransitionTime = 0,
            cond_Reason = ''ClusterNotReady'', cond_Message = message\<rparr>;
          condition = (if ts_Ready s then condition\<lparr>cond_Status := ConditionTrue, cond_Reason := ''ClusterReady''\<rparr>
            else condition);
          conditions = SetStatusCondition L now (vkst_Conditions (Status cr)) condition
      in (cr\<lparr>Status := \<lparr>vkst_Ready = ts_Ready s, vkst_Phase = ts_Phase s, vkst_Shards = ts_ObservedCount s,
            vkst_ReadyShards = ts_ReadyCount s,
            vkst_Message = message, vkst_Conditions = conditions\<rparr>\<rparr>, message))"

definition valkey_Adapter :: "k8s_libs \<Rightarrow> (ValkeyClusterSpec, ValkeyClusterStatus) Adapter" where
  "valkey_Adapter L = \<lparr>GVK = valkey_GVK, TargetName = valkey_TargetName, ObjectKind = valkey_ObjectKind,
     FieldManager = valkey_FieldManager, BuildManifest = valkey_BuildManifest L, ExtractStatus = valkey_ExtractStatus L,
     ApplyStatus = valkey_ApplyStatus L, ExtraResources = Some (valkey_ExtraResources L)\<rparr>"

section \<open>The manifest\<close>

lemma valkey_resourceListJSON_spec: "valkey_resourceListJSON = resource_list_spec"
  by (rule resource_list_specI) (auto simp: valkey_resourceListJSON_def Let_def set_simps split: option.splits)

text \<open>The reference reader of the manifest and of the external Service, which carries the expose block.\<close>

definition valkey_expose :: "unstructured option \<Rightarrow> (unstructured \<Rightarrow> string_map) \<Rightarrow> ServiceExposeSpec option" where
  "valkey_expose svc annotations = map_option (\<lambda>u.
     \<lparr>exp_Type = as_string (path_lookup (Object u) [''spec'', ''type'']), exp_Annotations = annotations u\<rparr>) svc"

definition valkey_decode :: "k8s_libs \<Rightarrow> unstructured \<Rightarrow> unstructured option \<Rightarrow> ValkeyClusterSpec" where
  "valkey_decode L u svc =
     \<lparr>vk_Shards = int32_of_int64 (as_int64 (path_lookup (Object u) [''spec'', ''shards''])),
      vk_Replicas = int32_of_int64 (as_int64 (path_lookup (Object u) [''spec'', ''replicas''])),
      vk_Image = as_string (path_lookup (Object u) [''spec'', ''image'']),
      vk_Persistence = \<lparr>persistence_Size = as_string (path_lookup (Object u) [''spec'', ''persistence'', ''size'']),
        persistence_StorageClass = as_string (path_lookup (Object u) [''spec'', ''persistence'', ''storageClassName''])\<rparr>,
      vk_Resources = decode_resources (path_lookup (Object u) [''spec'', ''resources'']),
      vk_Expose = valkey_expose svc (GetAnnotations L)\<rparr>"

section \<open>Contract\<close>

lemma valkey_ExtractStatus_none:
  "valkey_ExtractStatus L None = \<lparr>ts_Phase = ''Unknown'', ts_Ready = False, ts_ObservedCount = 0, ts_ReadyCount = 0\<rparr>"
  by (simp add: valkey_ExtractStatus_def)

definition valkey_view :: "ValkeyClusterStatus status_view" where
  "valkey_view = \<lparr>view_Ready = vkst_Ready, view_Phase = vkst_Phase, view_Message = vkst_Message,
     view_Conditions = vkst_Conditions\<rparr>"

lemmas valkey_defs [adapter_defs] = valkey_Adapter_def valkey_view_def valkey_GVK_def valkey_TargetName_def valkey_FieldManager_def

context k8s_libs_ok
begin

lemma valkey_header: "header L (valkey_BuildManifest L cr name ns owner) =
    \<lparr>hdr_GVK = valkey_GVK, hdr_Name = name, hdr_Namespace = ns,
     hdr_Labels = operator_labels valkey_FieldManager owner, hdr_Annotations = fmempty\<rparr>"
proof -
  have [simp]: "valid_gvk valkey_GVK" by (simp add: valid_gvk_def valkey_GVK_def)
  show ?thesis
    by (simp add: valkey_BuildManifest_def Let_def header_put header_keys_def valkey_FieldManager_def fold_built)
qed

text \<open>The status as a function of the two counts and the state found in the object.\<close>

lemma valkey_ExtractStatus_eq:
  "valkey_ExtractStatus L (Some u) =
     (let state = as_string (path_lookup (Object u) [''status'', ''state'']);
          n = int32_of_int64 (as_int64 (path_lookup (Object u) [''status'', ''shards'']));
          m = int32_of_int64 (as_int64 (path_lookup (Object u) [''status'', ''readyShards'']))
      in \<lparr>ts_Phase = (if state = [] then ''Unknown'' else state), ts_Ready = (0 < sint n \<and> sint n \<le> sint m),
          ts_ObservedCount = n, ts_ReadyCount = m\<rparr>)"
proof -
  obtain f e where 1: "NestedString L (Object u) [''status'', ''state''] =
      (as_string (path_lookup (Object u) [''status'', ''state'']), f, e)"
    and f: "f \<or> as_string (path_lookup (Object u) [''status'', ''state'']) = []"
    by (rule nested_string_obtain)
  obtain f2 e2 where 2: "NestedInt64 L (Object u) [''status'', ''shards''] =
      (as_int64 (path_lookup (Object u) [''status'', ''shards'']), f2, e2)"
    by (rule nested_int64_obtain)
  obtain f3 e3 where 3: "NestedInt64 L (Object u) [''status'', ''readyShards''] =
      (as_int64 (path_lookup (Object u) [''status'', ''readyShards'']), f3, e3)"
    by (rule nested_int64_obtain)
  show ?thesis
    unfolding valkey_ExtractStatus_def Let_def option.case 1 2 3 prod.case using f by auto
qed

lemma valkey_conditions:
  "view_Conditions valkey_view (Status (fst (valkey_ApplyStatus L now cr t s))) =
     set_condition now \<lparr>cond_Type = ''Ready'', cond_Status = (if ts_Ready s then ConditionTrue else ConditionFalse),
       cond_ObservedGeneration = meta_Generation (ObjectMeta cr), cond_LastTransitionTime = 0,
       cond_Reason = (if ts_Ready s then ''ClusterReady'' else ''ClusterNotReady''),
       cond_Message = snd (valkey_ApplyStatus L now cr t s)\<rparr> (view_Conditions valkey_view (Status cr))"
  by (simp add: valkey_ApplyStatus_def valkey_view_def Let_def set_status_condition)

lemma valkey_extra_header:
  assumes "vk_Expose (Spec cr) = Some expose"
  shows "\<exists>u. valkey_ExtraResources L cr t ns owner =
      [\<lparr>extra_GVK = valkey_externalServiceGVK, extra_Name = t @ ''-external'', extra_Desired = Some u\<rparr>] \<and>
    header L u = \<lparr>hdr_GVK = valkey_externalServiceGVK, hdr_Name = t @ ''-external'', hdr_Namespace = ns,
      hdr_Labels = operator_labels valkey_FieldManager owner, hdr_Annotations = exp_Annotations expose\<rparr> \<and>
    path_lookup (Object u) [''spec'', ''type''] = Some (GStr (exp_Type expose)) \<and>
    path_lookup (Object u) [''spec'', ''selector''] = Some (gomap_of [(valkey_clusterSelectorLabel, GStr t)])"
proof -
  have [simp]: "valid_gvk valkey_externalServiceGVK" by (simp add: valid_gvk_def valkey_externalServiceGVK_def)
  show ?thesis
    using assms
    by (simp add: valkey_ExtraResources_def Let_def header_put header_keys_def header_SetAnnotations fold_built)
qed

lemma valkey_decode_BuildManifest:
  "map (\<lambda>x. valkey_decode L (valkey_BuildManifest L cr name namespace owner) (extra_Desired x))
     (valkey_ExtraResources L cr name namespace owner) =
   [(Spec cr)\<lparr>vk_Resources := trim_resources (vk_Resources (Spec cr))\<rparr>]"
proof (cases "vk_Expose (Spec cr)")
  case None
  then show ?thesis
    by (simp add: valkey_decode_def valkey_expose_def valkey_ExtraResources_def valkey_BuildManifest_def
      valkey_resourceListJSON_spec Let_def flip: resources_block_def)
next
  case (Some expose)
  from valkey_extra_header [OF Some, of name namespace owner] Some show ?thesis
    by (auto simp: valkey_decode_def valkey_expose_def valkey_BuildManifest_def GetAnnotations_header
      valkey_resourceListJSON_spec Let_def simp flip: resources_block_def)
qed

end

sublocale k8s_libs_ok \<subseteq> valkey: counting_adapter L "valkey_Adapter L" "\<lambda>t. [(valkey_externalServiceGVK, t @ ''-external'')]" valkey_view
proof
  show "\<exists>c. find_condition ''Ready'' (view_Conditions valkey_view (Status (fst (ApplyStatus (valkey_Adapter L) now cr t s)))) = Some c \<and>
      cond_Status c = (if ts_Ready s then ConditionTrue else ConditionFalse) \<and>
      cond_Message c = snd (ApplyStatus (valkey_Adapter L) now cr t s) \<and>
      cond_ObservedGeneration c = meta_Generation (ObjectMeta cr)" for now cr t s
    by (rule ready_conditionI) (simp add: valkey_Adapter_def valkey_conditions)
  show "find_condition ty (view_Conditions valkey_view (Status (fst (ApplyStatus (valkey_Adapter L) now cr t s)))) =
      find_condition ty (view_Conditions valkey_view (Status cr))" if "ty \<noteq> ''Ready''" for ty now cr t s
    using that by (simp add: valkey_Adapter_def valkey_conditions find_condition_set_other)
  show "all_ready (ExtractStatus (valkey_Adapter L) u)" if "ts_Ready (ExtractStatus (valkey_Adapter L) u)" for u
    using that valkey_ExtractStatus_none
    by (cases u) (simp_all add: valkey_Adapter_def all_ready_def valkey_ExtractStatus_eq Let_def split: if_splits)
  show "key_of L d = (extra_GVK x, ns, extra_Name x) \<and> GetLabels L d = operator_labels (FieldManager (valkey_Adapter L)) owner"
    if "x \<in> set (extras_at (valkey_Adapter L) cr t ns owner)" and "extra_Desired x = Some d" for x cr t ns owner d
    using that valkey_extra_header [of cr _ t ns owner]
    by (cases "vk_Expose (Spec cr)")
       (auto simp: extras_at_def valkey_Adapter_def key_of_header GetLabels_header valkey_ExtraResources_def [of _ cr] Let_def)
  show "map extra_key (extras_at (valkey_Adapter L) cr t ns owner) = [(valkey_externalServiceGVK, t @ ''-external'')]" for cr t ns owner
    by (cases "vk_Expose (Spec cr)") (simp_all add: extras_at_def valkey_Adapter_def valkey_ExtraResources_def Let_def)
qed (auto simp: adapter_defs valkey_header extras_at_def valid_gvk_def valkey_ExtractStatus_none valkey_ApplyStatus_def Let_def
  valkey_externalServiceGVK_def)

end
