(* ===== verification/Grafana.thy ===== *)
theory Grafana
  imports Vendor_Adapter
begin

text \<open>
  \<^verbatim>\<open>internal/grafana/grafana.go\<close>: the adapter of \<^verbatim>\<open>GrafanaInstance\<close> onto grafana-operator's \<^verbatim>\<open>Grafana\<close>. The definitions
  follow the Go functions; then the round trip of the manifest, the reading of the status and the
  adapter contract.
\<close>

section \<open>The adapter\<close>

definition grafana_GVK :: GroupVersionKind where
  "grafana_GVK = \<lparr>Group = ''grafana.integreatly.org'', Version = ''v1beta1'', Kind = ''Grafana''\<rparr>"

definition grafana_FieldManager :: string where
  "grafana_FieldManager = ''grafanainstance-operator''"

definition grafana_TargetName :: "string \<Rightarrow> string" where
  "grafana_TargetName crName = crName"

definition grafana_ObjectKind :: string where
  "grafana_ObjectKind = ''Grafana''"

definition grafana_specKey :: string where
  "grafana_specKey = ''spec''"

definition grafana_BuildManifest :: "k8s_libs \<Rightarrow> GrafanaInstance \<Rightarrow> string \<Rightarrow> string \<Rightarrow> string \<Rightarrow> unstructured" where
  "grafana_BuildManifest L cr name namespace ownerName =
     (let spec = Spec cr;
          deploymentSpec = fmap_of_list [(''replicas'', GInt (int64_of_int32 (gf_Replicas spec)))];
          grafanaSpec = fmap_of_list [(''deployment'', gomap_of [(grafana_specKey, GMap deploymentSpec)])];
          grafanaSpec = set_if (gf_Version spec \<noteq> []) ''version'' (GStr (gf_Version spec)) grafanaSpec;
          grafanaSpec = (case gf_Ingress spec of
              None \<Rightarrow> grafanaSpec
            | Some ingress \<Rightarrow>
                (let ingressSpec = fmap_of_list [(''rules'', GSlice [gomap_of [(''host'', GStr (ing_Host ingress))]])];
                     ingressSpec = set_if (ing_IngressClassName ingress \<noteq> []) ''ingressClassName''
                       (GStr (ing_IngressClassName ingress)) ingressSpec;
                     ingressSpec = set_if (ing_TLSSecretName ingress \<noteq> []) ''tls''
                       (GSlice [gomap_of [(''hosts'', GSlice [GStr (ing_Host ingress)]),
                         (''secretName'', GStr (ing_TLSSecretName ingress))]]) ingressSpec;
                     grafanaIngress = fmap_of_list [(grafana_specKey, GMap ingressSpec)];
                     grafanaIngress = set_if (ing_Annotations ingress \<noteq> fmempty) ''metadata''
                       (gomap_of [(''annotations'', GMap (fmmap GStr (ing_Annotations ingress)))]) grafanaIngress
                 in fmupd ''ingress'' (GMap grafanaIngress) grafanaSpec));
          grafanaSpec = (case gf_Persistence spec of
              None \<Rightarrow> grafanaSpec
            | Some persistence \<Rightarrow>
                (let pvcSpec = fmap_of_list
                       [(''accessModes'', GSlice [GStr ''ReadWriteOnce'']),
                        (''resources'', gomap_of [(''requests'', gomap_of [(''storage'', GStr (persistence_Size persistence))])])];
                     pvcSpec = set_if (persistence_StorageClass persistence \<noteq> []) ''storageClassName''
                       (GStr (persistence_StorageClass persistence)) pvcSpec
                 in fmupd ''persistentVolumeClaim'' (gomap_of [(grafana_specKey, GMap pvcSpec)]) grafanaSpec));
          u = SetGroupVersionKind L grafana_GVK new_unstructured;
          u = SetName L name u;
          u = SetNamespace L namespace u;
          u = SetLabels L (operator_labels grafana_FieldManager ownerName) u
      in put_object ''spec'' (GMap grafanaSpec) u)"

definition grafana_ExtractStatus :: "k8s_libs \<Rightarrow> unstructured option \<Rightarrow> TargetStatus" where
  "grafana_ExtractStatus L u =
     (case u of
        None \<Rightarrow> \<lparr>ts_Phase = ''Unknown'', ts_Ready = False, ts_ObservedCount = 0, ts_ReadyCount = 0\<rparr>
      | Some u \<Rightarrow>
          (let (stage, found, _) = NestedString L (Object u) [''status'', ''stage''];
               stage = (if \<not> found \<or> stage = [] then ''Unknown'' else stage);
               (stageStatus, _, _) = NestedString L (Object u) [''status'', ''stageStatus''];
               (replicas, _, _) = NestedInt64 L (Object u) [''status'', ''replicas''];
               (desired, found, _) = NestedInt64 L (Object u) [''spec'', ''deployment'', ''spec'', ''replicas''];
               desired = (if \<not> found then 1 else desired)
           in \<lparr>ts_Phase = stage @ ''/'' @ stageStatus, ts_Ready = (stage = ''complete'' \<and> stageStatus = ''success''),
               ts_ObservedCount = int32_of_int64 desired, ts_ReadyCount = int32_of_int64 replicas\<rparr>))"

definition grafana_ApplyStatus ::
    "k8s_libs \<Rightarrow> time \<Rightarrow> GrafanaInstance \<Rightarrow> string \<Rightarrow> TargetStatus \<Rightarrow> GrafanaInstance \<times> string" where
  "grafana_ApplyStatus L now cr targetName s =
     (let message =
            (if ts_Ready s
             then ''Grafana '' @ fmt_q targetName @ '' is ready ('' @ fmt_d (ts_ReadyCount s) @ ''/'' @
               fmt_d (ts_ObservedCount s) @ '' replicas)''
             else ''Waiting for Grafana '' @ fmt_q targetName @ '' (stage: '' @ ts_Phase s @ '')'');
          condition = \<lparr>cond_Type = ''Ready'', cond_Status = ConditionFalse,
            cond_ObservedGeneration = meta_Generation (ObjectMeta cr), cond_LastTransitionTime = 0,
            cond_Reason = ''GrafanaNotReady'', cond_Message = message\<rparr>;
          condition = (if ts_Ready s then condition\<lparr>cond_Status := ConditionTrue, cond_Reason := ''GrafanaReady''\<rparr>
            else condition);
          conditions = SetStatusCondition L now (gfst_Conditions (Status cr)) condition
      in (cr\<lparr>Status := \<lparr>gfst_Ready = ts_Ready s, gfst_Phase = ts_Phase s, gfst_Replicas = ts_ReadyCount s,
            gfst_Message = message, gfst_Conditions = conditions\<rparr>\<rparr>, message))"

definition grafana_Adapter :: "k8s_libs \<Rightarrow> (GrafanaInstanceSpec, GrafanaInstanceStatus) Adapter" where
  "grafana_Adapter L = \<lparr>GVK = grafana_GVK, TargetName = grafana_TargetName, ObjectKind = grafana_ObjectKind,
     FieldManager = grafana_FieldManager, BuildManifest = grafana_BuildManifest L, ExtractStatus = grafana_ExtractStatus L,
     ApplyStatus = grafana_ApplyStatus L, ExtraResources = None\<rparr>"

section \<open>The manifest\<close>

text \<open>The reference reader of the manifest.\<close>

definition grafana_decode :: "unstructured \<Rightarrow> GrafanaInstanceSpec" where
  "grafana_decode u =
     \<lparr>gf_Version = as_string (path_lookup (Object u) [''spec'', ''version'']),
      gf_Replicas = int32_of_int64 (as_int64 (path_lookup (Object u) [''spec'', ''deployment'', ''spec'', ''replicas''])),
      gf_Persistence = (case path_lookup (Object u) [''spec'', ''persistentVolumeClaim'', ''spec''] of
          Some (GMap pvc) \<Rightarrow> Some \<lparr>persistence_Size = as_string (path_lookup pvc [''resources'', ''requests'', ''storage'']),
            persistence_StorageClass = as_string (fmlookup pvc ''storageClassName'')\<rparr>
        | _ \<Rightarrow> None),
      gf_Ingress = (case path_lookup (Object u) [''spec'', ''ingress''] of
          Some (GMap i) \<Rightarrow> Some
            \<lparr>ing_Host = as_string (fmlookup (head_map (path_lookup i [''spec'', ''rules''])) ''host''),
             ing_IngressClassName = as_string (path_lookup i [''spec'', ''ingressClassName'']),
             ing_TLSSecretName = as_string (fmlookup (head_map (path_lookup i [''spec'', ''tls''])) ''secretName''),
             ing_Annotations = string_entries (path_lookup i [''metadata'', ''annotations''])\<rparr>
        | _ \<Rightarrow> None)\<rparr>"

lemma grafana_decode_BuildManifest:
  "grafana_decode (grafana_BuildManifest L cr name namespace owner) = Spec cr"
  by (cases "gf_Ingress (Spec cr)"; cases "gf_Persistence (Spec cr)")
     (simp_all add: grafana_decode_def grafana_BuildManifest_def grafana_specKey_def Let_def)

section \<open>Contract\<close>

lemma grafana_manifest_replicas:
  "path_lookup (Object (grafana_BuildManifest L cr name namespace owner)) [''spec'', ''deployment'', ''spec'', ''replicas''] =
     Some (GInt (int64_of_int32 (gf_Replicas (Spec cr))))"
  by (cases "gf_Ingress (Spec cr)"; cases "gf_Persistence (Spec cr)")
     (simp_all add: grafana_BuildManifest_def grafana_specKey_def Let_def)

lemma grafana_ExtractStatus_none:
  "grafana_ExtractStatus L None = \<lparr>ts_Phase = ''Unknown'', ts_Ready = False, ts_ObservedCount = 0, ts_ReadyCount = 0\<rparr>"
  by (simp add: grafana_ExtractStatus_def)

definition grafana_view :: "GrafanaInstanceStatus status_view" where
  "grafana_view = \<lparr>view_Ready = gfst_Ready, view_Phase = gfst_Phase, view_Message = gfst_Message,
     view_Conditions = gfst_Conditions\<rparr>"

lemmas grafana_defs [adapter_defs] = grafana_Adapter_def grafana_view_def grafana_GVK_def grafana_TargetName_def grafana_FieldManager_def

context k8s_libs_ok
begin

lemma grafana_header: "header L (grafana_BuildManifest L cr name ns owner) =
    \<lparr>hdr_GVK = grafana_GVK, hdr_Name = name, hdr_Namespace = ns,
     hdr_Labels = operator_labels grafana_FieldManager owner, hdr_Annotations = fmempty\<rparr>"
proof -
  have [simp]: "valid_gvk grafana_GVK" by (simp add: valid_gvk_def grafana_GVK_def)
  show ?thesis
    by (simp add: grafana_BuildManifest_def Let_def header_put header_keys_def grafana_FieldManager_def fold_built)
qed

text \<open>The status as a function of what is found in the object.\<close>

lemma grafana_ExtractStatus_eq:
  "grafana_ExtractStatus L (Some u) =
     (let stage = as_string (path_lookup (Object u) [''status'', ''stage'']);
          st = as_string (path_lookup (Object u) [''status'', ''stageStatus'']);
          d = path_lookup (Object u) [''spec'', ''deployment'', ''spec'', ''replicas'']
      in \<lparr>ts_Phase = (if stage = [] then ''Unknown'' else stage) @ ''/'' @ st,
          ts_Ready = (stage = ''complete'' \<and> st = ''success''),
          ts_ObservedCount = (if \<exists>i. d = Some (GInt i) then int32_of_int64 (as_int64 d) else 1),
          ts_ReadyCount = int32_of_int64 (as_int64 (path_lookup (Object u) [''status'', ''replicas'']))\<rparr>)"
proof -
  obtain f e where 1: "NestedString L (Object u) [''status'', ''stage''] =
      (as_string (path_lookup (Object u) [''status'', ''stage'']), f, e)"
    and f: "f \<or> as_string (path_lookup (Object u) [''status'', ''stage'']) = []"
    by (rule nested_string_obtain)
  obtain f2 e2 where 2: "NestedString L (Object u) [''status'', ''stageStatus''] =
      (as_string (path_lookup (Object u) [''status'', ''stageStatus'']), f2, e2)"
    by (rule nested_string_obtain)
  obtain f3 e3 where 3: "NestedInt64 L (Object u) [''status'', ''replicas''] =
      (as_int64 (path_lookup (Object u) [''status'', ''replicas'']), f3, e3)"
    by (rule nested_int64_obtain)
  obtain f4 e4 where 4: "NestedInt64 L (Object u) [''spec'', ''deployment'', ''spec'', ''replicas''] =
      (as_int64 (path_lookup (Object u) [''spec'', ''deployment'', ''spec'', ''replicas'']), f4, e4)"
    and f4: "f4 \<longleftrightarrow> (\<exists>i. path_lookup (Object u) [''spec'', ''deployment'', ''spec'', ''replicas''] = Some (GInt i))"
    by (rule nested_int64_obtain)
  have one: "int32_of_int64 1 = 1" by (simp add: int32_of_int64_def)
  show ?thesis
    unfolding grafana_ExtractStatus_def Let_def option.case 1 2 3 4 prod.case f4 using f one by auto
qed

lemma grafana_conditions:
  "view_Conditions grafana_view (Status (fst (grafana_ApplyStatus L now cr t s))) =
     set_condition now \<lparr>cond_Type = ''Ready'', cond_Status = (if ts_Ready s then ConditionTrue else ConditionFalse),
       cond_ObservedGeneration = meta_Generation (ObjectMeta cr), cond_LastTransitionTime = 0,
       cond_Reason = (if ts_Ready s then ''GrafanaReady'' else ''GrafanaNotReady''),
       cond_Message = snd (grafana_ApplyStatus L now cr t s)\<rparr> (view_Conditions grafana_view (Status cr))"
  by (simp add: grafana_ApplyStatus_def grafana_view_def Let_def set_status_condition)

end

sublocale k8s_libs_ok \<subseteq> grafana: vendor_adapter L "grafana_Adapter L" "\<lambda>_. []" grafana_view
proof
  show "\<exists>c. find_condition ''Ready'' (view_Conditions grafana_view (Status (fst (ApplyStatus (grafana_Adapter L) now cr t s)))) = Some c \<and>
      cond_Status c = (if ts_Ready s then ConditionTrue else ConditionFalse) \<and>
      cond_Message c = snd (ApplyStatus (grafana_Adapter L) now cr t s) \<and>
      cond_ObservedGeneration c = meta_Generation (ObjectMeta cr)" for now cr t s
    by (rule ready_conditionI) (simp add: grafana_Adapter_def grafana_conditions)
  show "find_condition ty (view_Conditions grafana_view (Status (fst (ApplyStatus (grafana_Adapter L) now cr t s)))) =
      find_condition ty (view_Conditions grafana_view (Status cr))" if "ty \<noteq> ''Ready''" for ty now cr t s
    using that by (simp add: grafana_Adapter_def grafana_conditions find_condition_set_other)
qed (auto simp: adapter_defs grafana_header extras_at_def valid_gvk_def grafana_ExtractStatus_none grafana_ApplyStatus_def Let_def)

end
