(* ===== verification/MariaDB.thy ===== *)
theory MariaDB
  imports Vendor_Adapter
begin

text \<open>
  \<^verbatim>\<open>internal/mariadb/mariadb.go\<close>: the adapter of \<^verbatim>\<open>MariaDBCluster\<close> onto mariadb-operator's \<^verbatim>\<open>MariaDB\<close>. The definitions
  follow the Go functions; then the round trip of the manifest, the reading of the status and the
  adapter contract.
\<close>

section \<open>The adapter\<close>

definition mariadb_GVK :: GroupVersionKind where
  "mariadb_GVK = \<lparr>Group = ''k8s.mariadb.com'', Version = ''v1alpha1'', Kind = ''MariaDB''\<rparr>"

definition mariadb_FieldManager :: string where
  "mariadb_FieldManager = ''mariadbcluster-operator''"

definition mariadb_TargetName :: "string \<Rightarrow> string" where
  "mariadb_TargetName crName = crName"

definition mariadb_ObjectKind :: string where
  "mariadb_ObjectKind = ''MariaDB''"

definition mariadb_resourceListJSON :: "ResourceList \<Rightarrow> gomap option" where
  "mariadb_resourceListJSON list =
     (if list = fmempty then None
      else
        (let out = fmempty;
             out = (case fmlookup list ResourceCPU of Some cpu \<Rightarrow> fmupd ''cpu'' (GStr (quantity_String cpu)) out | None \<Rightarrow> out);
             out = (case fmlookup list ResourceMemory of Some mem \<Rightarrow> fmupd ''memory'' (GStr (quantity_String mem)) out | None \<Rightarrow> out)
         in if out = fmempty then None else Some out))"

definition mariadb_BuildManifest :: "k8s_libs \<Rightarrow> MariaDBCluster \<Rightarrow> string \<Rightarrow> string \<Rightarrow> string \<Rightarrow> unstructured" where
  "mariadb_BuildManifest L cr name namespace ownerName =
     (let spec = Spec cr;
          storage = fmap_of_list [(''size'', GStr (storage_Size (md_Storage spec)))];
          storage = set_if (storage_StorageClass (md_Storage spec) \<noteq> []) ''storageClassName''
            (GStr (storage_StorageClass (md_Storage spec))) storage;
          clusterSpec = fmap_of_list
            [(''replicas'', GInt (int64_of_int32 (md_Replicas spec))),
             (''storage'', GMap storage),
             (''database'', GStr (db_Name (md_Database spec))),
             (''username'', GStr (db_Owner (md_Database spec))),
             (''passwordSecretKeyRef'', gomap_of
               [(''name'', GStr (name @ ''-app'')), (''key'', GStr ''password''), (''generate'', GBool True)]),
             (''rootPasswordSecretKeyRef'', gomap_of
               [(''name'', GStr (name @ ''-root'')), (''key'', GStr ''password''), (''generate'', GBool True)])];
          clusterSpec = set_if (1 < sint (md_Replicas spec)) ''galera'' (gomap_of [(''enabled'', GBool True)]) clusterSpec;
          clusterSpec = set_if (md_Image spec \<noteq> []) ''image'' (GStr (md_Image spec)) clusterSpec;
          resources = fmempty;
          resources = set_some ''requests'' (map_option GMap (mariadb_resourceListJSON (Requests (md_Resources spec)))) resources;
          resources = set_some ''limits'' (map_option GMap (mariadb_resourceListJSON (Limits (md_Resources spec)))) resources;
          clusterSpec = set_if (resources \<noteq> fmempty) ''resources'' (GMap resources) clusterSpec;
          clusterSpec = (case md_Expose spec of
              None \<Rightarrow> clusterSpec
            | Some expose \<Rightarrow>
                (let service = fmap_of_list [(''type'', GStr (exp_Type expose))];
                     service = set_if (exp_Annotations expose \<noteq> fmempty) ''metadata''
                       (gomap_of [(''annotations'', GMap (fmmap GStr (exp_Annotations expose)))]) service
                 in fmupd ''service'' (GMap service) clusterSpec));
          clusterSpec = set_if (EnablePodMonitor (md_Monitoring spec)) ''metrics''
            (gomap_of [(''enabled'', GBool True), (''serviceMonitor'', GMap fmempty)]) clusterSpec;
          u = SetGroupVersionKind L mariadb_GVK new_unstructured;
          u = SetName L name u;
          u = SetNamespace L namespace u;
          u = SetLabels L (operator_labels mariadb_FieldManager ownerName) u
      in put_object ''spec'' (GMap clusterSpec) u)"

text \<open>The loop over the target's conditions: \<open>continue\<close> goes on, \<open>break\<close> returns phase and readiness.\<close>

fun mariadb_scan :: "gval list \<Rightarrow> string \<Rightarrow> bool \<Rightarrow> string \<times> bool" where
  "mariadb_scan [] phase ready = (phase, ready)"
| "mariadb_scan (c # conditions) phase ready =
     (case c of
        GMap cond \<Rightarrow>
          (if as_string (fmlookup cond ''type'') \<noteq> ''Ready'' then mariadb_scan conditions phase ready
           else
             (let ready = (if as_string (fmlookup cond ''status'') = ''True'' then True else ready);
                  phase = (if as_string (fmlookup cond ''reason'') \<noteq> [] then as_string (fmlookup cond ''reason'') else phase)
              in (phase, ready)))
      | _ \<Rightarrow> mariadb_scan conditions phase ready)"

definition mariadb_ExtractStatus :: "k8s_libs \<Rightarrow> unstructured option \<Rightarrow> TargetStatus" where
  "mariadb_ExtractStatus L u =
     (case u of
        None \<Rightarrow> \<lparr>ts_Phase = ''Unknown'', ts_Ready = False, ts_ObservedCount = 0, ts_ReadyCount = 0\<rparr>
      | Some u \<Rightarrow>
          (let (replicas, _, _) = NestedInt64 L (Object u) [''status'', ''replicas''];
               observed = int32_of_int64 replicas;
               (conditions, _, _) = NestedSlice L (Object u) [''status'', ''conditions''];
               (phase, ready) = mariadb_scan conditions ''Unknown'' False;
               readyCount = (if ready then observed else 0)
           in \<lparr>ts_Phase = phase, ts_Ready = (ready \<and> 0 < sint observed), ts_ObservedCount = observed,
               ts_ReadyCount = readyCount\<rparr>))"

definition mariadb_ApplyStatus ::
    "k8s_libs \<Rightarrow> time \<Rightarrow> MariaDBCluster \<Rightarrow> string \<Rightarrow> TargetStatus \<Rightarrow> MariaDBCluster \<times> string" where
  "mariadb_ApplyStatus L now cr targetName s =
     (let message =
            (if ts_Ready s
             then ''MariaDB '' @ fmt_q targetName @ '' is ready ('' @ fmt_d (ts_ReadyCount s) @ ''/'' @
               fmt_d (ts_ObservedCount s) @ '' replicas)''
             else ''Waiting for MariaDB '' @ fmt_q targetName @ '' (phase: '' @ ts_Phase s @ '')'');
          condition = \<lparr>cond_Type = ''Ready'', cond_Status = ConditionFalse,
            cond_ObservedGeneration = meta_Generation (ObjectMeta cr), cond_LastTransitionTime = 0,
            cond_Reason = ''ClusterNotReady'', cond_Message = message\<rparr>;
          condition = (if ts_Ready s then condition\<lparr>cond_Status := ConditionTrue, cond_Reason := ''ClusterReady''\<rparr>
            else condition);
          conditions = SetStatusCondition L now (mdst_Conditions (Status cr)) condition
      in (cr\<lparr>Status := \<lparr>mdst_Ready = ts_Ready s, mdst_Phase = ts_Phase s, mdst_Replicas = ts_ObservedCount s,
            mdst_ReadyReplicas = ts_ReadyCount s,
            mdst_Message = message, mdst_Conditions = conditions\<rparr>\<rparr>, message))"

definition mariadb_Adapter :: "k8s_libs \<Rightarrow> (MariaDBClusterSpec, MariaDBClusterStatus) Adapter" where
  "mariadb_Adapter L = \<lparr>GVK = mariadb_GVK, TargetName = mariadb_TargetName, ObjectKind = mariadb_ObjectKind,
     FieldManager = mariadb_FieldManager, BuildManifest = mariadb_BuildManifest L, ExtractStatus = mariadb_ExtractStatus L,
     ApplyStatus = mariadb_ApplyStatus L, ExtraResources = None\<rparr>"

section \<open>The manifest\<close>

lemma mariadb_resourceListJSON_spec: "mariadb_resourceListJSON = resource_list_spec"
  by (rule resource_list_specI) (auto simp: mariadb_resourceListJSON_def Let_def set_simps split: option.splits)

text \<open>The reference reader of the manifest.\<close>

definition mariadb_decode :: "unstructured \<Rightarrow> MariaDBClusterSpec" where
  "mariadb_decode u =
     \<lparr>md_Replicas = int32_of_int64 (as_int64 (path_lookup (Object u) [''spec'', ''replicas''])),
      md_Image = as_string (path_lookup (Object u) [''spec'', ''image'']),
      md_Storage = \<lparr>storage_Size = as_string (path_lookup (Object u) [''spec'', ''storage'', ''size'']),
        storage_StorageClass = as_string (path_lookup (Object u) [''spec'', ''storage'', ''storageClassName''])\<rparr>,
      md_Database = \<lparr>db_Name = as_string (path_lookup (Object u) [''spec'', ''database'']),
        db_Owner = as_string (path_lookup (Object u) [''spec'', ''username''])\<rparr>,
      md_Resources = decode_resources (path_lookup (Object u) [''spec'', ''resources'']),
      md_Monitoring = \<lparr>EnablePodMonitor = (path_lookup (Object u) [''spec'', ''metrics'', ''enabled''] = Some (GBool True))\<rparr>,
      md_Expose = (case path_lookup (Object u) [''spec'', ''service''] of
          None \<Rightarrow> None
        | Some v \<Rightarrow> Some \<lparr>exp_Type = as_string (path_lookup (Object u) [''spec'', ''service'', ''type'']),
            exp_Annotations = string_entries (path_lookup (Object u) [''spec'', ''service'', ''metadata'', ''annotations''])\<rparr>)\<rparr>"

lemma mariadb_decode_BuildManifest:
  "mariadb_decode (mariadb_BuildManifest L cr name namespace owner) = (Spec cr)\<lparr>md_Resources := trim_resources (md_Resources (Spec cr))\<rparr>"
  by (cases "md_Expose (Spec cr)")
     (simp_all add: mariadb_decode_def mariadb_BuildManifest_def mariadb_resourceListJSON_spec Let_def flip: resources_block_def)

text \<open>A Galera cluster is asked for exactly when there is more than one replica.\<close>

lemma mariadb_galera_iff:
  "path_lookup (Object (mariadb_BuildManifest L cr name namespace owner)) [''spec'', ''galera'', ''enabled''] =
     (if 1 < sint (md_Replicas (Spec cr)) then Some (GBool True) else None)"
  by (cases "md_Expose (Spec cr)") (simp_all add: mariadb_BuildManifest_def Let_def)

section \<open>Contract\<close>

lemma mariadb_ExtractStatus_none:
  "mariadb_ExtractStatus L None = \<lparr>ts_Phase = ''Unknown'', ts_Ready = False, ts_ObservedCount = 0, ts_ReadyCount = 0\<rparr>"
  by (simp add: mariadb_ExtractStatus_def)

definition mariadb_view :: "MariaDBClusterStatus status_view" where
  "mariadb_view = \<lparr>view_Ready = mdst_Ready, view_Phase = mdst_Phase, view_Message = mdst_Message,
     view_Conditions = mdst_Conditions\<rparr>"

lemmas mariadb_defs [adapter_defs] = mariadb_Adapter_def mariadb_view_def mariadb_GVK_def mariadb_TargetName_def mariadb_FieldManager_def

context k8s_libs_ok
begin

lemma mariadb_header: "header L (mariadb_BuildManifest L cr name ns owner) =
    \<lparr>hdr_GVK = mariadb_GVK, hdr_Name = name, hdr_Namespace = ns,
     hdr_Labels = operator_labels mariadb_FieldManager owner, hdr_Annotations = fmempty\<rparr>"
proof -
  have [simp]: "valid_gvk mariadb_GVK" by (simp add: valid_gvk_def mariadb_GVK_def)
  show ?thesis
    by (simp add: mariadb_BuildManifest_def Let_def header_put header_keys_def mariadb_FieldManager_def fold_built)
qed

text \<open>The loop finds the first condition of its type.\<close>

lemma mariadb_scan_eq:
  "mariadb_scan vs ''Unknown'' False = (condition_phase (condition_in ''Ready'' vs), condition_true (condition_in ''Ready'' vs))"
  by (induction vs) (auto simp: condition_in_Cons condition_phase_def condition_true_def Let_def split: gval.splits)

lemma mariadb_ExtractStatus_eq:
  "mariadb_ExtractStatus L (Some u) =
     (let n = int32_of_int64 (as_int64 (path_lookup (Object u) [''status'', ''replicas'']));
          c = condition_in ''Ready'' (as_slice (path_lookup (Object u) [''status'', ''conditions'']))
      in \<lparr>ts_Phase = condition_phase c, ts_Ready = (condition_true c \<and> 0 < sint n),
          ts_ObservedCount = n, ts_ReadyCount = (if condition_true c then n else 0)\<rparr>)"
proof -
  obtain f e where 1: "NestedInt64 L (Object u) [''status'', ''replicas''] =
      (as_int64 (path_lookup (Object u) [''status'', ''replicas'']), f, e)"
    by (rule nested_int64_obtain)
  obtain f2 e2 where 2: "NestedSlice L (Object u) [''status'', ''conditions''] =
      (as_slice (path_lookup (Object u) [''status'', ''conditions'']), f2, e2)"
    by (rule nested_slice_obtain)
  show ?thesis
    unfolding mariadb_ExtractStatus_def Let_def option.case 1 2 prod.case mariadb_scan_eq by simp
qed

lemma mariadb_conditions:
  "view_Conditions mariadb_view (Status (fst (mariadb_ApplyStatus L now cr t s))) =
     set_condition now \<lparr>cond_Type = ''Ready'', cond_Status = (if ts_Ready s then ConditionTrue else ConditionFalse),
       cond_ObservedGeneration = meta_Generation (ObjectMeta cr), cond_LastTransitionTime = 0,
       cond_Reason = (if ts_Ready s then ''ClusterReady'' else ''ClusterNotReady''),
       cond_Message = snd (mariadb_ApplyStatus L now cr t s)\<rparr> (view_Conditions mariadb_view (Status cr))"
  by (simp add: mariadb_ApplyStatus_def mariadb_view_def Let_def set_status_condition)

end

sublocale k8s_libs_ok \<subseteq> mariadb: counting_adapter L "mariadb_Adapter L" "\<lambda>_. []" mariadb_view
proof
  show "\<exists>c. find_condition ''Ready'' (view_Conditions mariadb_view (Status (fst (ApplyStatus (mariadb_Adapter L) now cr t s)))) = Some c \<and>
      cond_Status c = (if ts_Ready s then ConditionTrue else ConditionFalse) \<and>
      cond_Message c = snd (ApplyStatus (mariadb_Adapter L) now cr t s) \<and>
      cond_ObservedGeneration c = meta_Generation (ObjectMeta cr)" for now cr t s
    by (rule ready_conditionI) (simp add: mariadb_Adapter_def mariadb_conditions)
  show "find_condition ty (view_Conditions mariadb_view (Status (fst (ApplyStatus (mariadb_Adapter L) now cr t s)))) =
      find_condition ty (view_Conditions mariadb_view (Status cr))" if "ty \<noteq> ''Ready''" for ty now cr t s
    using that by (simp add: mariadb_Adapter_def mariadb_conditions find_condition_set_other)
  show "all_ready (ExtractStatus (mariadb_Adapter L) u)" if "ts_Ready (ExtractStatus (mariadb_Adapter L) u)" for u
    using that mariadb_ExtractStatus_none
    by (cases u) (simp_all add: mariadb_Adapter_def all_ready_def mariadb_ExtractStatus_eq Let_def split: if_splits)
qed (auto simp: adapter_defs mariadb_header extras_at_def valid_gvk_def mariadb_ExtractStatus_none mariadb_ApplyStatus_def Let_def)

end
