(* ===== verification/RabbitMQ.thy ===== *)
theory RabbitMQ
  imports Vendor_Adapter
begin

text \<open>
  \<^verbatim>\<open>internal/rabbitmq/rabbitmq.go\<close>: the adapter of \<^verbatim>\<open>RabbitMQCluster\<close> onto the RabbitMQ Cluster Operator's \<^verbatim>\<open>RabbitmqCluster\<close>. The definitions
  follow the Go functions; then the round trip of the manifest, the reading of the status and the
  adapter contract.
\<close>

section \<open>The adapter\<close>

definition rabbitmq_GVK :: GroupVersionKind where
  "rabbitmq_GVK = \<lparr>Group = ''rabbitmq.com'', Version = ''v1beta1'', Kind = ''RabbitmqCluster''\<rparr>"

definition rabbitmq_FieldManager :: string where
  "rabbitmq_FieldManager = ''rabbitmqcluster-operator''"

definition rabbitmq_TargetName :: "string \<Rightarrow> string" where
  "rabbitmq_TargetName crName = crName"

definition rabbitmq_ObjectKind :: string where
  "rabbitmq_ObjectKind = ''RabbitmqCluster''"

definition rabbitmq_conditionTypeAllReplicasReady :: string where
  "rabbitmq_conditionTypeAllReplicasReady = ''AllReplicasReady''"

definition rabbitmq_managementPort :: int32 where
  "rabbitmq_managementPort = 15672"

definition rabbitmq_resourceListJSON :: "ResourceList \<Rightarrow> gomap option" where
  "rabbitmq_resourceListJSON list =
     (if list = fmempty then None
      else
        (let out = fmempty;
             out = (case fmlookup list ResourceCPU of Some cpu \<Rightarrow> fmupd ''cpu'' (GStr (quantity_String cpu)) out | None \<Rightarrow> out);
             out = (case fmlookup list ResourceMemory of Some mem \<Rightarrow> fmupd ''memory'' (GStr (quantity_String mem)) out | None \<Rightarrow> out)
         in if out = fmempty then None else Some out))"

definition rabbitmq_BuildManifest :: "k8s_libs \<Rightarrow> RabbitMQCluster \<Rightarrow> string \<Rightarrow> string \<Rightarrow> string \<Rightarrow> unstructured" where
  "rabbitmq_BuildManifest L cr name namespace ownerName =
     (let spec = Spec cr;
          persistence = fmap_of_list [(''storage'', GStr (storage_Size (rmq_Storage spec)))];
          persistence = set_if (storage_StorageClass (rmq_Storage spec) \<noteq> []) ''storageClassName''
            (GStr (storage_StorageClass (rmq_Storage spec))) persistence;
          clusterSpec = fmap_of_list
            [(''replicas'', GInt (int64_of_int32 (rmq_Replicas spec))), (''persistence'', GMap persistence)];
          clusterSpec = set_if (rmq_Image spec \<noteq> []) ''image'' (GStr (rmq_Image spec)) clusterSpec;
          resources = fmempty;
          resources = set_some ''requests'' (map_option GMap (rabbitmq_resourceListJSON (Requests (rmq_Resources spec)))) resources;
          resources = set_some ''limits'' (map_option GMap (rabbitmq_resourceListJSON (Limits (rmq_Resources spec)))) resources;
          clusterSpec = set_if (resources \<noteq> fmempty) ''resources'' (GMap resources) clusterSpec;
          u = SetGroupVersionKind L rabbitmq_GVK new_unstructured;
          u = SetName L name u;
          u = SetNamespace L namespace u;
          u = SetLabels L (operator_labels rabbitmq_FieldManager ownerName) u
      in put_object ''spec'' (GMap clusterSpec) u)"

definition rabbitmq_ExtraResources :: "k8s_libs \<Rightarrow> RabbitMQCluster \<Rightarrow> string \<Rightarrow> string \<Rightarrow> string \<Rightarrow> ExtraResource list" where
  "rabbitmq_ExtraResources L cr targetName namespace owner =
     (let name = targetName @ ''-ingress'';
          desired = (case rmq_Ingress (Spec cr) of
              None \<Rightarrow> None
            | Some ingress \<Rightarrow> Some (ingress_Build L ingress name namespace owner rabbitmq_FieldManager targetName rabbitmq_managementPort))
      in [\<lparr>extra_GVK = ingress_GVK, extra_Name = name, extra_Desired = desired\<rparr>])"

text \<open>The loop over the target's conditions: \<open>continue\<close> goes on, \<open>break\<close> returns phase and readiness.\<close>

fun rabbitmq_scan :: "gval list \<Rightarrow> string \<Rightarrow> bool \<Rightarrow> string \<times> bool" where
  "rabbitmq_scan [] phase ready = (phase, ready)"
| "rabbitmq_scan (c # conditions) phase ready =
     (case c of
        GMap cond \<Rightarrow>
          (if as_string (fmlookup cond ''type'') \<noteq> rabbitmq_conditionTypeAllReplicasReady then rabbitmq_scan conditions phase ready
           else
             (let ready = (if as_string (fmlookup cond ''status'') = ''True'' then True else ready);
                  phase = (if as_string (fmlookup cond ''reason'') \<noteq> [] then as_string (fmlookup cond ''reason'') else phase)
              in (phase, ready)))
      | _ \<Rightarrow> rabbitmq_scan conditions phase ready)"

definition rabbitmq_ExtractStatus :: "k8s_libs \<Rightarrow> unstructured option \<Rightarrow> TargetStatus" where
  "rabbitmq_ExtractStatus L u =
     (case u of
        None \<Rightarrow> \<lparr>ts_Phase = ''Unknown'', ts_Ready = False, ts_ObservedCount = 0, ts_ReadyCount = 0\<rparr>
      | Some u \<Rightarrow>
          (let (replicas, _, _) = NestedInt64 L (Object u) [''spec'', ''replicas''];
               observed = int32_of_int64 replicas;
               (conditions, _, _) = NestedSlice L (Object u) [''status'', ''conditions''];
               (phase, ready) = rabbitmq_scan conditions ''Unknown'' False;
               readyCount = (if ready then observed else 0)
           in \<lparr>ts_Phase = phase, ts_Ready = (ready \<and> 0 < sint observed), ts_ObservedCount = observed,
               ts_ReadyCount = readyCount\<rparr>))"

definition rabbitmq_ApplyStatus ::
    "k8s_libs \<Rightarrow> time \<Rightarrow> RabbitMQCluster \<Rightarrow> string \<Rightarrow> TargetStatus \<Rightarrow> RabbitMQCluster \<times> string" where
  "rabbitmq_ApplyStatus L now cr targetName s =
     (let message =
            (if ts_Ready s
             then ''RabbitmqCluster '' @ fmt_q targetName @ '' is ready ('' @ fmt_d (ts_ReadyCount s) @ ''/'' @
               fmt_d (ts_ObservedCount s) @ '' replicas)''
             else ''Waiting for RabbitmqCluster '' @ fmt_q targetName @ '' (phase: '' @ ts_Phase s @ '')'');
          condition = \<lparr>cond_Type = ''Ready'', cond_Status = ConditionFalse,
            cond_ObservedGeneration = meta_Generation (ObjectMeta cr), cond_LastTransitionTime = 0,
            cond_Reason = ''ClusterNotReady'', cond_Message = message\<rparr>;
          condition = (if ts_Ready s then condition\<lparr>cond_Status := ConditionTrue, cond_Reason := ''ClusterReady''\<rparr>
            else condition);
          conditions = SetStatusCondition L now (rmqst_Conditions (Status cr)) condition
      in (cr\<lparr>Status := \<lparr>rmqst_Ready = ts_Ready s, rmqst_Phase = ts_Phase s, rmqst_Replicas = ts_ObservedCount s,
            rmqst_ReadyReplicas = ts_ReadyCount s,
            rmqst_Message = message, rmqst_Conditions = conditions\<rparr>\<rparr>, message))"

definition rabbitmq_Adapter :: "k8s_libs \<Rightarrow> (RabbitMQClusterSpec, RabbitMQClusterStatus) Adapter" where
  "rabbitmq_Adapter L = \<lparr>GVK = rabbitmq_GVK, TargetName = rabbitmq_TargetName, ObjectKind = rabbitmq_ObjectKind,
     FieldManager = rabbitmq_FieldManager, BuildManifest = rabbitmq_BuildManifest L, ExtractStatus = rabbitmq_ExtractStatus L,
     ApplyStatus = rabbitmq_ApplyStatus L, ExtraResources = Some (rabbitmq_ExtraResources L)\<rparr>"

section \<open>The manifest\<close>

lemma rabbitmq_resourceListJSON_spec: "rabbitmq_resourceListJSON = resource_list_spec"
  by (rule resource_list_specI) (auto simp: rabbitmq_resourceListJSON_def Let_def set_simps split: option.splits)

text \<open>The reference reader of the manifest and of the Ingress.\<close>

definition rabbitmq_decode :: "k8s_libs \<Rightarrow> unstructured \<Rightarrow> unstructured option \<Rightarrow> RabbitMQClusterSpec" where
  "rabbitmq_decode L u ing =
     \<lparr>rmq_Replicas = int32_of_int64 (as_int64 (path_lookup (Object u) [''spec'', ''replicas''])),
      rmq_Image = as_string (path_lookup (Object u) [''spec'', ''image'']),
      rmq_Storage = \<lparr>storage_Size = as_string (path_lookup (Object u) [''spec'', ''persistence'', ''storage'']),
        storage_StorageClass = as_string (path_lookup (Object u) [''spec'', ''persistence'', ''storageClassName''])\<rparr>,
      rmq_Resources = decode_resources (path_lookup (Object u) [''spec'', ''resources'']),
      rmq_Ingress = map_option (ingress_decode L) ing\<rparr>"

section \<open>Contract\<close>

lemma rabbitmq_ExtractStatus_none:
  "rabbitmq_ExtractStatus L None = \<lparr>ts_Phase = ''Unknown'', ts_Ready = False, ts_ObservedCount = 0, ts_ReadyCount = 0\<rparr>"
  by (simp add: rabbitmq_ExtractStatus_def)

definition rabbitmq_view :: "RabbitMQClusterStatus status_view" where
  "rabbitmq_view = \<lparr>view_Ready = rmqst_Ready, view_Phase = rmqst_Phase, view_Message = rmqst_Message,
     view_Conditions = rmqst_Conditions\<rparr>"

lemmas rabbitmq_defs [adapter_defs] = rabbitmq_Adapter_def rabbitmq_view_def rabbitmq_GVK_def rabbitmq_TargetName_def rabbitmq_FieldManager_def

context k8s_libs_ok
begin

lemma rabbitmq_header: "header L (rabbitmq_BuildManifest L cr name ns owner) =
    \<lparr>hdr_GVK = rabbitmq_GVK, hdr_Name = name, hdr_Namespace = ns,
     hdr_Labels = operator_labels rabbitmq_FieldManager owner, hdr_Annotations = fmempty\<rparr>"
proof -
  have [simp]: "valid_gvk rabbitmq_GVK" by (simp add: valid_gvk_def rabbitmq_GVK_def)
  show ?thesis
    by (simp add: rabbitmq_BuildManifest_def Let_def header_put header_keys_def rabbitmq_FieldManager_def fold_built)
qed

text \<open>The loop finds the first condition of its type.\<close>

lemma rabbitmq_scan_eq:
  "rabbitmq_scan vs ''Unknown'' False = (condition_phase (condition_in rabbitmq_conditionTypeAllReplicasReady vs), condition_true (condition_in rabbitmq_conditionTypeAllReplicasReady vs))"
  by (induction vs) (auto simp: condition_in_Cons condition_phase_def condition_true_def Let_def split: gval.splits)

lemma rabbitmq_ExtractStatus_eq:
  "rabbitmq_ExtractStatus L (Some u) =
     (let n = int32_of_int64 (as_int64 (path_lookup (Object u) [''spec'', ''replicas'']));
          c = condition_in rabbitmq_conditionTypeAllReplicasReady (as_slice (path_lookup (Object u) [''status'', ''conditions'']))
      in \<lparr>ts_Phase = condition_phase c, ts_Ready = (condition_true c \<and> 0 < sint n),
          ts_ObservedCount = n, ts_ReadyCount = (if condition_true c then n else 0)\<rparr>)"
proof -
  obtain f e where 1: "NestedInt64 L (Object u) [''spec'', ''replicas''] =
      (as_int64 (path_lookup (Object u) [''spec'', ''replicas'']), f, e)"
    by (rule nested_int64_obtain)
  obtain f2 e2 where 2: "NestedSlice L (Object u) [''status'', ''conditions''] =
      (as_slice (path_lookup (Object u) [''status'', ''conditions'']), f2, e2)"
    by (rule nested_slice_obtain)
  show ?thesis
    unfolding rabbitmq_ExtractStatus_def Let_def option.case 1 2 prod.case rabbitmq_scan_eq by simp
qed

lemma rabbitmq_conditions:
  "view_Conditions rabbitmq_view (Status (fst (rabbitmq_ApplyStatus L now cr t s))) =
     set_condition now \<lparr>cond_Type = ''Ready'', cond_Status = (if ts_Ready s then ConditionTrue else ConditionFalse),
       cond_ObservedGeneration = meta_Generation (ObjectMeta cr), cond_LastTransitionTime = 0,
       cond_Reason = (if ts_Ready s then ''ClusterReady'' else ''ClusterNotReady''),
       cond_Message = snd (rabbitmq_ApplyStatus L now cr t s)\<rparr> (view_Conditions rabbitmq_view (Status cr))"
  by (simp add: rabbitmq_ApplyStatus_def rabbitmq_view_def Let_def set_status_condition)

lemma rabbitmq_decode_BuildManifest:
  "map (\<lambda>x. rabbitmq_decode L (rabbitmq_BuildManifest L cr name namespace owner) (extra_Desired x))
     (rabbitmq_ExtraResources L cr name namespace owner) =
   [(Spec cr)\<lparr>rmq_Resources := trim_resources (rmq_Resources (Spec cr))\<rparr>]"
  by (cases "rmq_Ingress (Spec cr)")
     (simp_all add: rabbitmq_decode_def rabbitmq_ExtraResources_def rabbitmq_BuildManifest_def ingress_decode_Build
      rabbitmq_resourceListJSON_spec Let_def flip: resources_block_def)

text \<open>The Ingress routes to the Service of the target's name, on the management port.\<close>

lemma rabbitmq_backend:
  assumes "x \<in> set (rabbitmq_ExtraResources L cr t ns owner)" and "extra_Desired x = Some u"
  shows "ingress_backend u = (t, 15672)"
proof -
  have "int64_of_int32 rabbitmq_managementPort = 15672"
    by (simp add: int64_of_int32_def rabbitmq_managementPort_def)
  with assms show ?thesis
    by (auto simp: rabbitmq_ExtraResources_def Let_def ingress_backend_Build split: option.splits)
qed

end

sublocale k8s_libs_ok \<subseteq> rabbitmq: counting_adapter L "rabbitmq_Adapter L" "\<lambda>t. [(ingress_GVK, t @ ''-ingress'')]" rabbitmq_view
proof
  show "\<exists>c. find_condition ''Ready'' (view_Conditions rabbitmq_view (Status (fst (ApplyStatus (rabbitmq_Adapter L) now cr t s)))) = Some c \<and>
      cond_Status c = (if ts_Ready s then ConditionTrue else ConditionFalse) \<and>
      cond_Message c = snd (ApplyStatus (rabbitmq_Adapter L) now cr t s) \<and>
      cond_ObservedGeneration c = meta_Generation (ObjectMeta cr)" for now cr t s
    by (rule ready_conditionI) (simp add: rabbitmq_Adapter_def rabbitmq_conditions)
  show "find_condition ty (view_Conditions rabbitmq_view (Status (fst (ApplyStatus (rabbitmq_Adapter L) now cr t s)))) =
      find_condition ty (view_Conditions rabbitmq_view (Status cr))" if "ty \<noteq> ''Ready''" for ty now cr t s
    using that by (simp add: rabbitmq_Adapter_def rabbitmq_conditions find_condition_set_other)
  show "all_ready (ExtractStatus (rabbitmq_Adapter L) u)" if "ts_Ready (ExtractStatus (rabbitmq_Adapter L) u)" for u
    using that rabbitmq_ExtractStatus_none
    by (cases u) (simp_all add: rabbitmq_Adapter_def all_ready_def rabbitmq_ExtractStatus_eq Let_def split: if_splits)
  show "key_of L d = (extra_GVK x, ns, extra_Name x) \<and> GetLabels L d = operator_labels (FieldManager (rabbitmq_Adapter L)) owner"
    if "x \<in> set (extras_at (rabbitmq_Adapter L) cr t ns owner)" and "extra_Desired x = Some d" for x cr t ns owner d
    using that
    by (auto simp: extras_at_def rabbitmq_Adapter_def key_of_header GetLabels_header ingress_Build_header
      rabbitmq_ExtraResources_def Let_def split: option.splits)
  show "map extra_key (extras_at (rabbitmq_Adapter L) cr t ns owner) = [(ingress_GVK, t @ ''-ingress'')]" for cr t ns owner
    by (simp add: extras_at_def rabbitmq_Adapter_def rabbitmq_ExtraResources_def Let_def)
qed (auto simp: adapter_defs rabbitmq_header extras_at_def valid_gvk_def rabbitmq_ExtractStatus_none rabbitmq_ApplyStatus_def Let_def
  ingress_GVK_def)

end
