(* ===== verification/Prometheus.thy ===== *)
theory Prometheus
  imports Vendor_Adapter
begin

text \<open>
  \<^verbatim>\<open>internal/prometheus/prometheus.go\<close>: the adapter of \<^verbatim>\<open>PrometheusInstance\<close> onto the Prometheus Operator's \<^verbatim>\<open>Prometheus\<close>. The definitions
  follow the Go functions; then the round trip of the manifest, the reading of the status and the
  adapter contract.
\<close>

section \<open>The adapter\<close>

definition prometheus_GVK :: GroupVersionKind where
  "prometheus_GVK = \<lparr>Group = ''monitoring.coreos.com'', Version = ''v1'', Kind = ''Prometheus''\<rparr>"

definition prometheus_FieldManager :: string where
  "prometheus_FieldManager = ''prometheusinstance-operator''"

definition prometheus_TargetName :: "string \<Rightarrow> string" where
  "prometheus_TargetName crName = crName"

definition prometheus_ObjectKind :: string where
  "prometheus_ObjectKind = ''Prometheus''"

definition prometheus_webPort :: int32 where
  "prometheus_webPort = 9090"

definition prometheus_podSelectorLabel :: string where
  "prometheus_podSelectorLabel = ''operator.prometheus.io/name''"

definition prometheus_serviceGVK :: GroupVersionKind where
  "prometheus_serviceGVK = \<lparr>Group = [], Version = ''v1'', Kind = ''Service''\<rparr>"

definition prometheus_resourceListJSON :: "ResourceList \<Rightarrow> gomap option" where
  "prometheus_resourceListJSON list =
     (if list = fmempty then None
      else
        (let out = fmempty;
             out = (case fmlookup list ResourceCPU of Some cpu \<Rightarrow> fmupd ''cpu'' (GStr (quantity_String cpu)) out | None \<Rightarrow> out);
             out = (case fmlookup list ResourceMemory of Some mem \<Rightarrow> fmupd ''memory'' (GStr (quantity_String mem)) out | None \<Rightarrow> out)
         in if out = fmempty then None else Some out))"

definition prometheus_BuildManifest :: "k8s_libs \<Rightarrow> PrometheusInstance \<Rightarrow> string \<Rightarrow> string \<Rightarrow> string \<Rightarrow> unstructured" where
  "prometheus_BuildManifest L cr name namespace ownerName =
     (let spec = Spec cr;
          promSpec = fmap_of_list
            [(''replicas'', GInt (int64_of_int32 (prom_Replicas spec))),
             (''serviceMonitorSelector'', GMap fmempty),
             (''podMonitorSelector'', GMap fmempty),
             (''securityContext'', gomap_of
               [(''fsGroup'', GInt 2000), (''runAsGroup'', GInt 2000), (''runAsNonRoot'', GBool True), (''runAsUser'', GInt 1000)])];
          promSpec = set_if (prom_Version spec \<noteq> []) ''version'' (GStr (prom_Version spec)) promSpec;
          promSpec = set_if (prom_Retention spec \<noteq> []) ''retention'' (GStr (prom_Retention spec)) promSpec;
          promSpec = (case prom_Storage spec of
              None \<Rightarrow> promSpec
            | Some storage \<Rightarrow>
                (let pvcSpec = fmap_of_list
                       [(''accessModes'', GSlice [GStr ''ReadWriteOnce'']),
                        (''resources'', gomap_of [(''requests'', gomap_of [(''storage'', GStr (storage_Size storage))])])];
                     pvcSpec = set_if (storage_StorageClass storage \<noteq> []) ''storageClassName''
                       (GStr (storage_StorageClass storage)) pvcSpec
                 in fmupd ''storage'' (gomap_of [(''volumeClaimTemplate'', gomap_of [(''spec'', GMap pvcSpec)])]) promSpec));
          resources = fmempty;
          resources = set_some ''requests'' (map_option GMap (prometheus_resourceListJSON (Requests (prom_Resources spec)))) resources;
          resources = set_some ''limits'' (map_option GMap (prometheus_resourceListJSON (Limits (prom_Resources spec)))) resources;
          promSpec = set_if (resources \<noteq> fmempty) ''resources'' (GMap resources) promSpec;
          u = SetGroupVersionKind L prometheus_GVK new_unstructured;
          u = SetName L name u;
          u = SetNamespace L namespace u;
          u = SetLabels L (operator_labels prometheus_FieldManager ownerName) u
      in put_object ''spec'' (GMap promSpec) u)"

definition prometheus_ExtraResources :: "k8s_libs \<Rightarrow> PrometheusInstance \<Rightarrow> string \<Rightarrow> string \<Rightarrow> string \<Rightarrow> ExtraResource list" where
  "prometheus_ExtraResources L cr targetName namespace owner =
     (let serviceName = targetName @ ''-web'';
          ingressName = targetName @ ''-ingress''
      in case prom_Ingress (Spec cr) of
           None \<Rightarrow>
             [\<lparr>extra_GVK = prometheus_serviceGVK, extra_Name = serviceName, extra_Desired = None\<rparr>,
              \<lparr>extra_GVK = ingress_GVK, extra_Name = ingressName, extra_Desired = None\<rparr>]
         | Some ingress \<Rightarrow>
             (let service = SetGroupVersionKind L prometheus_serviceGVK new_unstructured;
                  service = SetName L serviceName service;
                  service = SetNamespace L namespace service;
                  service = SetLabels L (operator_labels prometheus_FieldManager owner) service;
                  service = put_object ''spec'' (gomap_of
                    [(''type'', GStr ''ClusterIP''),
                     (''selector'', gomap_of [(prometheus_podSelectorLabel, GStr targetName)]),
                     (''ports'', GSlice [gomap_of
                       [(''name'', GStr ''web''), (''port'', GInt (int64_of_int32 prometheus_webPort)), (''targetPort'', GStr ''web'')]])]) service;
                  desiredIngress = ingress_Build L ingress ingressName namespace owner prometheus_FieldManager serviceName prometheus_webPort
              in [\<lparr>extra_GVK = prometheus_serviceGVK, extra_Name = serviceName, extra_Desired = Some service\<rparr>,
                  \<lparr>extra_GVK = ingress_GVK, extra_Name = ingressName, extra_Desired = Some desiredIngress\<rparr>]))"

definition prometheus_ExtractStatus :: "k8s_libs \<Rightarrow> unstructured option \<Rightarrow> TargetStatus" where
  "prometheus_ExtractStatus L u =
     (case u of
        None \<Rightarrow> \<lparr>ts_Phase = ''Unknown'', ts_Ready = False, ts_ObservedCount = 0, ts_ReadyCount = 0\<rparr>
      | Some u \<Rightarrow>
          (let (replicas, _, _) = NestedInt64 L (Object u) [''status'', ''replicas''];
               (available, _, _) = NestedInt64 L (Object u) [''status'', ''availableReplicas''];
               observed = int32_of_int64 replicas;
               ready = int32_of_int64 available;
               (paused, found, _) = NestedBool L (Object u) [''status'', ''paused''];
               phase = (if found \<and> paused then ''Paused'' else if 0 < sint observed then ''Progressing'' else ''Unknown'')
           in \<lparr>ts_Phase = phase, ts_Ready = (0 < sint observed \<and> sint ready \<ge> sint observed),
               ts_ObservedCount = observed, ts_ReadyCount = ready\<rparr>))"

definition prometheus_ApplyStatus ::
    "k8s_libs \<Rightarrow> time \<Rightarrow> PrometheusInstance \<Rightarrow> string \<Rightarrow> TargetStatus \<Rightarrow> PrometheusInstance \<times> string" where
  "prometheus_ApplyStatus L now cr targetName s =
     (let message =
            (if ts_Ready s
             then ''Prometheus '' @ fmt_q targetName @ '' is ready ('' @ fmt_d (ts_ReadyCount s) @ ''/'' @
               fmt_d (ts_ObservedCount s) @ '' replicas)''
             else ''Waiting for Prometheus '' @ fmt_q targetName @ '' (phase: '' @ ts_Phase s @ '')'');
          condition = \<lparr>cond_Type = ''Ready'', cond_Status = ConditionFalse,
            cond_ObservedGeneration = meta_Generation (ObjectMeta cr), cond_LastTransitionTime = 0,
            cond_Reason = ''PrometheusNotReady'', cond_Message = message\<rparr>;
          condition = (if ts_Ready s then condition\<lparr>cond_Status := ConditionTrue, cond_Reason := ''PrometheusReady''\<rparr>
            else condition);
          conditions = SetStatusCondition L now (promst_Conditions (Status cr)) condition
      in (cr\<lparr>Status := \<lparr>promst_Ready = ts_Ready s, promst_Phase = ts_Phase s, promst_Replicas = ts_ObservedCount s,
            promst_ReadyReplicas = ts_ReadyCount s,
            promst_Message = message, promst_Conditions = conditions\<rparr>\<rparr>, message))"

definition prometheus_Adapter :: "k8s_libs \<Rightarrow> (PrometheusInstanceSpec, PrometheusInstanceStatus) Adapter" where
  "prometheus_Adapter L = \<lparr>GVK = prometheus_GVK, TargetName = prometheus_TargetName, ObjectKind = prometheus_ObjectKind,
     FieldManager = prometheus_FieldManager, BuildManifest = prometheus_BuildManifest L, ExtractStatus = prometheus_ExtractStatus L,
     ApplyStatus = prometheus_ApplyStatus L, ExtraResources = Some (prometheus_ExtraResources L)\<rparr>"

section \<open>The manifest\<close>

lemma prometheus_resourceListJSON_spec: "prometheus_resourceListJSON = resource_list_spec"
  by (rule resource_list_specI) (auto simp: prometheus_resourceListJSON_def Let_def set_simps split: option.splits)

text \<open>
  Monitors are selected in the namespace of the Prometheus only: the selectors are empty (they match everything)
  and the namespace selectors, which would widen the search, are never set.
\<close>

definition prometheus_spec_at :: "unstructured \<Rightarrow> string \<Rightarrow> gval option" where
  "prometheus_spec_at u k = path_lookup (Object u) [''spec'', k]"

lemma prometheus_namespace_scoped_aux:
  fixes L cr name namespace owner
  defines "m \<equiv> prometheus_spec_at (prometheus_BuildManifest L cr name namespace owner)"
  shows "m ''serviceMonitorSelector'' = Some (GMap fmempty) \<and> m ''podMonitorSelector'' = Some (GMap fmempty) \<and>
    map m [''serviceMonitorNamespaceSelector'', ''podMonitorNamespaceSelector'', ''probeSelector'',
      ''probeNamespaceSelector'', ''ruleSelector'', ''ruleNamespaceSelector'', ''scrapeConfigSelector'',
      ''scrapeConfigNamespaceSelector''] = replicate 8 None"
  by (cases "prom_Storage (Spec cr)")
     (simp_all add: m_def prometheus_spec_at_def prometheus_BuildManifest_def Let_def numeral_eq_Suc)

text \<open>The reference reader of the manifest and of the Ingress.\<close>

definition prometheus_decode :: "k8s_libs \<Rightarrow> unstructured \<Rightarrow> unstructured option \<Rightarrow> PrometheusInstanceSpec" where
  "prometheus_decode L u ing =
     \<lparr>prom_Version = as_string (path_lookup (Object u) [''spec'', ''version'']),
      prom_Replicas = int32_of_int64 (as_int64 (path_lookup (Object u) [''spec'', ''replicas''])),
      prom_Retention = as_string (path_lookup (Object u) [''spec'', ''retention'']),
      prom_Storage = (case path_lookup (Object u) [''spec'', ''storage'', ''volumeClaimTemplate'', ''spec''] of
          Some (GMap pvc) \<Rightarrow> Some \<lparr>storage_Size = as_string (path_lookup pvc [''resources'', ''requests'', ''storage'']),
            storage_StorageClass = as_string (fmlookup pvc ''storageClassName'')\<rparr>
        | _ \<Rightarrow> None),
      prom_Resources = decode_resources (path_lookup (Object u) [''spec'', ''resources'']),
      prom_Ingress = map_option (ingress_decode L) ing\<rparr>"

section \<open>Contract\<close>

lemma prometheus_ExtractStatus_none:
  "prometheus_ExtractStatus L None = \<lparr>ts_Phase = ''Unknown'', ts_Ready = False, ts_ObservedCount = 0, ts_ReadyCount = 0\<rparr>"
  by (simp add: prometheus_ExtractStatus_def)

definition prometheus_view :: "PrometheusInstanceStatus status_view" where
  "prometheus_view = \<lparr>view_Ready = promst_Ready, view_Phase = promst_Phase, view_Message = promst_Message,
     view_Conditions = promst_Conditions\<rparr>"

lemmas prometheus_defs [adapter_defs] = prometheus_Adapter_def prometheus_view_def prometheus_GVK_def prometheus_TargetName_def prometheus_FieldManager_def

context k8s_libs_ok
begin

lemma prometheus_header: "header L (prometheus_BuildManifest L cr name ns owner) =
    \<lparr>hdr_GVK = prometheus_GVK, hdr_Name = name, hdr_Namespace = ns,
     hdr_Labels = operator_labels prometheus_FieldManager owner, hdr_Annotations = fmempty\<rparr>"
proof -
  have [simp]: "valid_gvk prometheus_GVK" by (simp add: valid_gvk_def prometheus_GVK_def)
  show ?thesis
    by (simp add: prometheus_BuildManifest_def Let_def header_put header_keys_def prometheus_FieldManager_def fold_built)
qed

text \<open>The status as a function of the two counts and the paused flag found in the object.\<close>

lemma prometheus_ExtractStatus_eq:
  "prometheus_ExtractStatus L (Some u) =
     (let n = int32_of_int64 (as_int64 (path_lookup (Object u) [''status'', ''replicas'']));
          m = int32_of_int64 (as_int64 (path_lookup (Object u) [''status'', ''availableReplicas'']))
      in \<lparr>ts_Phase = (if path_lookup (Object u) [''status'', ''paused''] = Some (GBool True) then ''Paused''
            else if 0 < sint n then ''Progressing'' else ''Unknown''),
          ts_Ready = (0 < sint n \<and> sint n \<le> sint m), ts_ObservedCount = n, ts_ReadyCount = m\<rparr>)"
proof -
  obtain f e b where 1: "NestedBool L (Object u) [''status'', ''paused''] = (b, f, e)"
    and f: "f \<and> b \<longleftrightarrow> path_lookup (Object u) [''status'', ''paused''] = Some (GBool True)"
    by (rule nested_bool_obtain)
  obtain f2 e2 where 2: "NestedInt64 L (Object u) [''status'', ''replicas''] =
      (as_int64 (path_lookup (Object u) [''status'', ''replicas'']), f2, e2)"
    by (rule nested_int64_obtain)
  obtain f3 e3 where 3: "NestedInt64 L (Object u) [''status'', ''availableReplicas''] =
      (as_int64 (path_lookup (Object u) [''status'', ''availableReplicas'']), f3, e3)"
    by (rule nested_int64_obtain)
  show ?thesis
    unfolding prometheus_ExtractStatus_def Let_def option.case 1 2 3 prod.case f by simp
qed

lemma prometheus_conditions:
  "view_Conditions prometheus_view (Status (fst (prometheus_ApplyStatus L now cr t s))) =
     set_condition now \<lparr>cond_Type = ''Ready'', cond_Status = (if ts_Ready s then ConditionTrue else ConditionFalse),
       cond_ObservedGeneration = meta_Generation (ObjectMeta cr), cond_LastTransitionTime = 0,
       cond_Reason = (if ts_Ready s then ''PrometheusReady'' else ''PrometheusNotReady''),
       cond_Message = snd (prometheus_ApplyStatus L now cr t s)\<rparr> (view_Conditions prometheus_view (Status cr))"
  by (simp add: prometheus_ApplyStatus_def prometheus_view_def Let_def set_status_condition)

lemma prometheus_decode_BuildManifest:
  "prometheus_decode L (prometheus_BuildManifest L cr name namespace owner)
     (extra_Desired (prometheus_ExtraResources L cr name namespace owner ! 1)) =
   (Spec cr)\<lparr>prom_Resources := trim_resources (prom_Resources (Spec cr))\<rparr>"
  by (cases "prom_Ingress (Spec cr)"; cases "prom_Storage (Spec cr)")
     (simp_all add: prometheus_decode_def prometheus_ExtraResources_def prometheus_BuildManifest_def ingress_decode_Build
      prometheus_resourceListJSON_spec Let_def flip: resources_block_def)

text \<open>The Service selects the pods of the target and the Ingress routes to that Service.\<close>

lemma prometheus_front:
  assumes "prom_Ingress (Spec cr) = Some ingress"
  shows "\<exists>svc ing. map extra_Desired (prometheus_ExtraResources L cr t ns owner) = [Some svc, Some ing] \<and>
    header L svc = \<lparr>hdr_GVK = prometheus_serviceGVK, hdr_Name = t @ ''-web'', hdr_Namespace = ns,
      hdr_Labels = operator_labels prometheus_FieldManager owner, hdr_Annotations = fmempty\<rparr> \<and>
    path_lookup (Object svc) [''spec'', ''selector''] = Some (gomap_of [(prometheus_podSelectorLabel, GStr t)]) \<and>
    as_int64 (path_lookup (head_map (path_lookup (Object svc) [''spec'', ''ports''])) [''port'']) = snd (ingress_backend ing) \<and>
    fst (ingress_backend ing) = hdr_Name (header L svc) \<and>
    ing = ingress_Build L ingress (t @ ''-ingress'') ns owner prometheus_FieldManager (t @ ''-web'') prometheus_webPort"
proof -
  have [simp]: "valid_gvk prometheus_serviceGVK" by (simp add: valid_gvk_def prometheus_serviceGVK_def)
  show ?thesis
    using assms
    by (simp add: prometheus_ExtraResources_def Let_def header_put header_keys_def ingress_backend_Build fold_built)
qed

end

sublocale k8s_libs_ok \<subseteq> prometheus: counting_adapter L "prometheus_Adapter L" "\<lambda>t. [(prometheus_serviceGVK, t @ ''-web''), (ingress_GVK, t @ ''-ingress'')]" prometheus_view
proof
  show "\<exists>c. find_condition ''Ready'' (view_Conditions prometheus_view (Status (fst (ApplyStatus (prometheus_Adapter L) now cr t s)))) = Some c \<and>
      cond_Status c = (if ts_Ready s then ConditionTrue else ConditionFalse) \<and>
      cond_Message c = snd (ApplyStatus (prometheus_Adapter L) now cr t s) \<and>
      cond_ObservedGeneration c = meta_Generation (ObjectMeta cr)" for now cr t s
    by (rule ready_conditionI) (simp add: prometheus_Adapter_def prometheus_conditions)
  show "find_condition ty (view_Conditions prometheus_view (Status (fst (ApplyStatus (prometheus_Adapter L) now cr t s)))) =
      find_condition ty (view_Conditions prometheus_view (Status cr))" if "ty \<noteq> ''Ready''" for ty now cr t s
    using that by (simp add: prometheus_Adapter_def prometheus_conditions find_condition_set_other)
  show "all_ready (ExtractStatus (prometheus_Adapter L) u)" if "ts_Ready (ExtractStatus (prometheus_Adapter L) u)" for u
    using that prometheus_ExtractStatus_none
    by (cases u) (simp_all add: prometheus_Adapter_def all_ready_def prometheus_ExtractStatus_eq Let_def split: if_splits)
  show "key_of L d = (extra_GVK x, ns, extra_Name x) \<and> GetLabels L d = operator_labels (FieldManager (prometheus_Adapter L)) owner"
    if "x \<in> set (extras_at (prometheus_Adapter L) cr t ns owner)" and "extra_Desired x = Some d" for x cr t ns owner d
    using that prometheus_front [of cr _ t ns owner]
    by (cases "prom_Ingress (Spec cr)")
       (auto simp: extras_at_def prometheus_Adapter_def key_of_header GetLabels_header ingress_Build_header
          prometheus_ExtraResources_def [of _ cr] Let_def)
  show "map extra_key (extras_at (prometheus_Adapter L) cr t ns owner) =
      [(prometheus_serviceGVK, t @ ''-web''), (ingress_GVK, t @ ''-ingress'')]" for cr t ns owner
    by (cases "prom_Ingress (Spec cr)") (simp_all add: extras_at_def prometheus_Adapter_def prometheus_ExtraResources_def Let_def)
qed (auto simp: adapter_defs prometheus_header extras_at_def valid_gvk_def prometheus_ExtractStatus_none prometheus_ApplyStatus_def Let_def
  ingress_GVK_def prometheus_serviceGVK_def)

end
