(* ===== verification/Controllers.thy ===== *)
theory Controllers
  imports Cnpg Valkey Grafana MariaDB RabbitMQ Prometheus
begin

text \<open>
  \<^verbatim>\<open>internal/controller/*_controller.go\<close>: the six controllers, each the generic engine wired to its adapter
  under its controller name. The scheme argument is only handed on and is left out.
\<close>

definition PostgresClusterControllerName :: string where
  "PostgresClusterControllerName = ''postgrescluster''"

definition NewPostgresClusterReconciler ::
    "k8s_libs \<Rightarrow> ('w, PostgresCluster) Client \<Rightarrow> (event \<Rightarrow> 'w \<Rightarrow> 'w) \<Rightarrow> ('w, PostgresClusterSpec, PostgresClusterStatus) GenericReconciler" where
  "NewPostgresClusterReconciler L c recorder =
     \<lparr>gr_Client = c, gr_Recorder = recorder, gr_Adapter = cnpg_Adapter L, gr_Name = PostgresClusterControllerName\<rparr>"

definition ValkeyClusterControllerName :: string where
  "ValkeyClusterControllerName = ''valkeycluster''"

definition NewValkeyClusterReconciler ::
    "k8s_libs \<Rightarrow> ('w, ValkeyCluster) Client \<Rightarrow> (event \<Rightarrow> 'w \<Rightarrow> 'w) \<Rightarrow> ('w, ValkeyClusterSpec, ValkeyClusterStatus) GenericReconciler" where
  "NewValkeyClusterReconciler L c recorder =
     \<lparr>gr_Client = c, gr_Recorder = recorder, gr_Adapter = valkey_Adapter L, gr_Name = ValkeyClusterControllerName\<rparr>"

definition GrafanaInstanceControllerName :: string where
  "GrafanaInstanceControllerName = ''grafanainstance''"

definition NewGrafanaInstanceReconciler ::
    "k8s_libs \<Rightarrow> ('w, GrafanaInstance) Client \<Rightarrow> (event \<Rightarrow> 'w \<Rightarrow> 'w) \<Rightarrow> ('w, GrafanaInstanceSpec, GrafanaInstanceStatus) GenericReconciler" where
  "NewGrafanaInstanceReconciler L c recorder =
     \<lparr>gr_Client = c, gr_Recorder = recorder, gr_Adapter = grafana_Adapter L, gr_Name = GrafanaInstanceControllerName\<rparr>"

definition MariaDBClusterControllerName :: string where
  "MariaDBClusterControllerName = ''mariadbcluster''"

definition NewMariaDBClusterReconciler ::
    "k8s_libs \<Rightarrow> ('w, MariaDBCluster) Client \<Rightarrow> (event \<Rightarrow> 'w \<Rightarrow> 'w) \<Rightarrow> ('w, MariaDBClusterSpec, MariaDBClusterStatus) GenericReconciler" where
  "NewMariaDBClusterReconciler L c recorder =
     \<lparr>gr_Client = c, gr_Recorder = recorder, gr_Adapter = mariadb_Adapter L, gr_Name = MariaDBClusterControllerName\<rparr>"

definition RabbitMQClusterControllerName :: string where
  "RabbitMQClusterControllerName = ''rabbitmqcluster''"

definition NewRabbitMQClusterReconciler ::
    "k8s_libs \<Rightarrow> ('w, RabbitMQCluster) Client \<Rightarrow> (event \<Rightarrow> 'w \<Rightarrow> 'w) \<Rightarrow> ('w, RabbitMQClusterSpec, RabbitMQClusterStatus) GenericReconciler" where
  "NewRabbitMQClusterReconciler L c recorder =
     \<lparr>gr_Client = c, gr_Recorder = recorder, gr_Adapter = rabbitmq_Adapter L, gr_Name = RabbitMQClusterControllerName\<rparr>"

definition PrometheusInstanceControllerName :: string where
  "PrometheusInstanceControllerName = ''prometheusinstance''"

definition NewPrometheusInstanceReconciler ::
    "k8s_libs \<Rightarrow> ('w, PrometheusInstance) Client \<Rightarrow> (event \<Rightarrow> 'w \<Rightarrow> 'w) \<Rightarrow> ('w, PrometheusInstanceSpec, PrometheusInstanceStatus) GenericReconciler" where
  "NewPrometheusInstanceReconciler L c recorder =
     \<lparr>gr_Client = c, gr_Recorder = recorder, gr_Adapter = prometheus_Adapter L, gr_Name = PrometheusInstanceControllerName\<rparr>"

lemmas controller_defs = NewPostgresClusterReconciler_def NewValkeyClusterReconciler_def NewGrafanaInstanceReconciler_def NewMariaDBClusterReconciler_def NewRabbitMQClusterReconciler_def NewPrometheusInstanceReconciler_def

end
