(* ===== verification/Kube_Api.thy ===== *)
theory Kube_Api
  imports Vendor_Adapter
begin

text \<open>
  The API server as the engine may rely on it, and what the store holds after a reconcile. The locale
  \<open>kube_api\<close> states the documented effect of a successful call on the stored objects and that a call
  touches no other object; nothing is promised of a call that fails, and a deleted object may linger
  while its own finalizers run (it is then no longer \<open>live\<close>). An update stores what the JSON of the sent spec
  becomes, \<open>wire\<close>; a write of the status leaves the spec alone. The client lemmas combine it with the
  adapter contract; the in-memory server of \<open>Ref_Server\<close> satisfies it.
\<close>

section \<open>What is stored\<close>

text \<open>The stored object has every scalar that was applied (server-side apply with forced ownership).\<close>

definition covers :: "unstructured \<Rightarrow> unstructured \<Rightarrow> bool" where
  "covers u u' \<longleftrightarrow> (\<forall>ks v. path_lookup (Object u) ks = Some v \<and> is_scalar v \<longrightarrow> path_lookup (Object u') ks = Some v)"

lemma coversD: "covers u u' \<Longrightarrow> path_lookup (Object u) ks = Some v \<Longrightarrow> is_scalar v \<Longrightarrow> path_lookup (Object u') ks = Some v"
  by (auto simp: covers_def)

text \<open>An extra is as the spec asks: stored with everything applied, or not there (any more).\<close>

definition settled ::
    "(object_key \<Rightarrow> 'w \<Rightarrow> unstructured option) \<Rightarrow> (object_key \<Rightarrow> 'w \<Rightarrow> bool) \<Rightarrow> string \<Rightarrow> ExtraResource \<Rightarrow> 'w \<Rightarrow> bool" where
  "settled obj_at live ns x w \<longleftrightarrow> (case extra_Desired x of
      Some d \<Rightarrow> (\<exists>u. obj_at (extra_GVK x, ns, extra_Name x) w = Some u \<and> covers d u)
    | None \<Rightarrow> \<not> live (extra_GVK x, ns, extra_Name x) w)"

text \<open>What a write of the status leaves alone.\<close>

definition same_but_status :: "('spec, 'status) paas_object \<Rightarrow> ('spec, 'status) paas_object \<Rightarrow> bool" where
  "same_but_status x y \<longleftrightarrow> Spec x = Spec y \<and> cr_namespace x = cr_namespace y \<and> cr_name x = cr_name y \<and>
     meta_Finalizers (ObjectMeta x) = meta_Finalizers (ObjectMeta y) \<and>
     meta_DeletionTimestamp (ObjectMeta x) = meta_DeletionTimestamp (ObjectMeta y)"

text \<open>The state a normal pass leads to: target, extras and status agree with the CR.\<close>

definition converged ::
    "k8s_libs \<Rightarrow> ('spec, 'status) Adapter \<Rightarrow> 'status status_view \<Rightarrow>
     (NamespacedName \<Rightarrow> 'w \<Rightarrow> ('spec, 'status) paas_object option) \<Rightarrow> (object_key \<Rightarrow> 'w \<Rightarrow> unstructured option) \<Rightarrow>
     (object_key \<Rightarrow> 'w \<Rightarrow> bool) \<Rightarrow> ('spec, 'status) paas_object \<Rightarrow> 'w \<Rightarrow> Result \<Rightarrow> bool" where
  "converged L A V cr_at obj_at live cr w res \<longleftrightarrow>
     (\<exists>u x o'. obj_at (key_of L (manifest_of A cr)) w = Some u \<and> covers (manifest_of A cr) u \<and>
       (\<forall>x \<in> set (extras_of A cr). settled obj_at live (cr_namespace cr) x w) \<and>
       cr_at (cr_namespace cr, cr_name cr) w = Some x \<and> Status x = Status o' \<and> same_but_status x cr \<and>
       ObjectMeta (o' :: ('spec, 'status) paas_object) = ObjectMeta cr \<and>
       mirrors V o' (ExtractStatus A (Some u)) \<and> res = requeue_for (ExtractStatus A (Some u)))"

lemma settled_frame:
  assumes "\<And>k. obj_at k w' = obj_at k w \<and> live k w' = live k w"
  shows "settled obj_at live ns x w' = settled obj_at live ns x w"
  using assms by (simp add: settled_def split: option.splits)

section \<open>The server\<close>

locale kube_api =
  fixes L :: k8s_libs
    and c :: "('w, ('spec, 'status) paas_object) Client"
    and record_event :: "event \<Rightarrow> 'w \<Rightarrow> 'w"
    and cr_at :: "NamespacedName \<Rightarrow> 'w \<Rightarrow> ('spec, 'status) paas_object option"
    and obj_at :: "object_key \<Rightarrow> 'w \<Rightarrow> unstructured option"
    and live :: "object_key \<Rightarrow> 'w \<Rightarrow> bool"
    and wire :: "'spec \<Rightarrow> 'spec"
  assumes get_frame: "Client_Get c n w = (a, w') \<Longrightarrow> cr_at m w' = cr_at m w \<and> obj_at k w' = obj_at k w \<and> live k w' = live k w"
    and get_ok: "Client_Get c n w = (Inr cr, w') \<Longrightarrow> cr_at n w = Some cr"
    and get_missing: "Client_Get c n w = (Inl e, w') \<Longrightarrow> IsNotFound L (Some e) \<Longrightarrow> cr_at n w = None"
    and stored_name: "cr_at n w = Some cr \<Longrightarrow> n = (cr_namespace cr, cr_name cr)"
    and look_frame: "Client_GetUnstructured c n u w = (b, w') \<Longrightarrow>
      cr_at m w' = cr_at m w \<and> obj_at k w' = obj_at k w \<and> live k w' = live k w"
    and look_ok: "Client_GetUnstructured c n u w = (Inr u', w') \<Longrightarrow> obj_at (GetGroupVersionKind L u, n) w = Some u'"
    and look_missing: "Client_GetUnstructured c n u w = (Inl e, w') \<Longrightarrow> IsNotFound L (Some e) \<Longrightarrow>
      obj_at (GetGroupVersionKind L u, n) w = None"
    and srv_apply_ok: "Client_Apply c u f force w = (Inr u', w') \<Longrightarrow> obj_at (key_of L u) w' = Some u' \<and> (force \<longrightarrow> covers u u')"
    and srv_apply_frame: "Client_Apply c u f force w = (b, w') \<Longrightarrow> cr_at m w' = cr_at m w \<and>
      (k \<noteq> key_of L u \<longrightarrow> obj_at k w' = obj_at k w \<and> live k w' = live k w)"
    and delete_gone: "Client_Delete c u w = (d, w') \<Longrightarrow> d = None \<or> IsNotFound L d \<Longrightarrow> \<not> live (key_of L u) w'"
    and delete_frame: "Client_Delete c u w = (d, w') \<Longrightarrow> cr_at m w' = cr_at m w \<and>
      (k \<noteq> key_of L u \<longrightarrow> obj_at k w' = obj_at k w \<and> live k w' = live k w)"
    and update_ok: "Client_Update c cr w = (Inr cr', w') \<Longrightarrow>
      (\<forall>x. cr_at (cr_namespace cr, cr_name cr) w' = Some x \<longrightarrow> meta_Finalizers (ObjectMeta x) = meta_Finalizers (ObjectMeta cr)
         \<and> meta_DeletionTimestamp (ObjectMeta x) = meta_DeletionTimestamp (ObjectMeta cr) \<and> Spec x = wire (Spec cr)) \<and>
      (meta_Finalizers (ObjectMeta cr) \<noteq> [] \<longrightarrow> cr_at (cr_namespace cr, cr_name cr) w' \<noteq> None)"
    and update_frame: "Client_Update c cr w = (a, w') \<Longrightarrow> obj_at k w' = obj_at k w \<and> live k w' = live k w"
    and status_ok: "Client_StatusUpdate c cr w = (Inr cr', w') \<Longrightarrow>
      \<exists>x y. cr_at (cr_namespace cr, cr_name cr) w = Some y \<and> cr_at (cr_namespace cr, cr_name cr) w' = Some x \<and>
        Status x = Status cr \<and> same_but_status x y"
    and status_frame: "Client_StatusUpdate c cr w = (a, w') \<Longrightarrow> obj_at k w' = obj_at k w \<and> live k w' = live k w"
    and event_frame: "cr_at m (record_event ev w) = cr_at m w \<and> obj_at k (record_event ev w) = obj_at k w \<and>
      live k (record_event ev w) = live k w"

text \<open>The engine of one kind against such a server.\<close>

locale engine = vendor_adapter L A extra_keys V + kube_api L c record_event cr_at obj_at live wire
  for L :: k8s_libs
    and A :: "('spec, 'status) Adapter"
    and extra_keys :: "string \<Rightarrow> (GroupVersionKind \<times> string) list"
    and V :: "'status status_view"
    and c :: "('w, ('spec, 'status) paas_object) Client"
    and record_event :: "event \<Rightarrow> 'w \<Rightarrow> 'w"
    and cr_at :: "NamespacedName \<Rightarrow> 'w \<Rightarrow> ('spec, 'status) paas_object option"
    and obj_at :: "object_key \<Rightarrow> 'w \<Rightarrow> unstructured option"
    and live :: "object_key \<Rightarrow> 'w \<Rightarrow> bool"
    and wire :: "'spec \<Rightarrow> 'spec" +
  fixes r :: "('w, 'spec, 'status) GenericReconciler"
  assumes wired: "gr_Client r = c" "gr_Recorder r = record_event" "gr_Adapter r = A"
begin

lemma extras_valid: "x \<in> set (extras_of A cr) \<Longrightarrow> valid_gvk (extra_GVK x)"
  by (rule extra_key_in(2))

lemma extras_distinct: "distinct (map extra_key (extras_of A cr))"
  and target_not_extra: "(GVK A, cr_name cr) \<notin> set (map extra_key (extras_of A cr))"
  using extra_keys_distinct [of "cr_name cr"] extra_keys_fixed [of cr "cr_name cr" "cr_namespace cr" "cr_name cr"]
  by (simp_all add: extras_of_at)

lemma Get_None: "fst (Client_Get c req w) = Inl e \<Longrightarrow> cr_at req w = Some cr \<Longrightarrow> \<not> IsNotFound L (Some e)"
  using get_missing [of req w e] by (cases "Client_Get c req w") auto

subsection \<open>One delete, one apply\<close>

lemma deleteExtra_effect:
  assumes "deleteExtra L r g ns n w = (None, w')" and "valid_gvk g"
  shows "\<not> live (g, ns, n) w'"
  using assms delete_gone [of "identify L g ns n" w]
  by (auto simp: deleteExtra_def wired key_of_identify split: prod.splits if_splits)

lemma deleteExtra_frame:
  assumes "deleteExtra L r g ns n w = (e, w')" and "valid_gvk g"
  shows "cr_at m w' = cr_at m w" and "k \<noteq> (g, ns, n) \<Longrightarrow> obj_at k w' = obj_at k w \<and> live k w' = live k w"
  using assms delete_frame [of "identify L g ns n" w]
  by (auto simp: deleteExtra_def wired key_of_identify split: prod.splits if_splits)

lemma deleteTarget_effect:
  assumes "deleteTarget L r ns n w = (Inr b, w')"
  shows "\<not> live (GVK A, ns, n) w'"
  using assms delete_gone [of "identify L (GVK A) ns n" w]
  by (auto simp: deleteTarget_def wired key_of_identify gvk_valid split: prod.splits if_splits option.splits)

lemma deleteTarget_frame:
  assumes "deleteTarget L r ns n w = (b, w')"
  shows "cr_at m w' = cr_at m w" and "k \<noteq> (GVK A, ns, n) \<Longrightarrow> obj_at k w' = obj_at k w \<and> live k w' = live k w"
  using assms delete_frame [of "identify L (GVK A) ns n" w]
  by (auto simp: deleteTarget_def wired key_of_identify gvk_valid split: prod.splits if_splits option.splits)

lemma getTarget_effect:
  assumes "getTarget L r ns n w = (b, w')"
  shows "cr_at m w' = cr_at m w" and "obj_at k w' = obj_at k w" and "live k w' = live k w"
    and "b = Inr existing \<Longrightarrow> existing = obj_at (GVK A, ns, n) w"
proof -
  have g: "GetGroupVersionKind L (SetGroupVersionKind L (GVK A) new_unstructured) = GVK A"
    using header_SetGVK [OF metadata_ok_new gvk_valid] by (simp add: header_def)
  show "cr_at m w' = cr_at m w" "obj_at k w' = obj_at k w" "live k w' = live k w"
    using assms look_frame [of "(ns, n)" "SetGroupVersionKind L (GVK A) new_unstructured" w]
    by (auto simp: getTarget_def GetTarget_def wired Let_def split: prod.splits sum.splits if_splits)
  show "b = Inr existing \<Longrightarrow> existing = obj_at (GVK A, ns, n) w"
    using assms look_ok [of "(ns, n)" "SetGroupVersionKind L (GVK A) new_unstructured" w]
      look_missing [of "(ns, n)" "SetGroupVersionKind L (GVK A) new_unstructured" w]
    by (auto simp: getTarget_def GetTarget_def wired Let_def g split: prod.splits sum.splits if_splits)
qed

subsection \<open>The loops over the extras\<close>

abbreviation at :: "string \<Rightarrow> ExtraResource \<Rightarrow> object_key" where
  "at ns x \<equiv> (extra_GVK x, ns, extra_Name x)"

definition placed :: "string \<Rightarrow> ExtraResource list \<Rightarrow> bool" where
  "placed ns xs \<longleftrightarrow> distinct (map extra_key xs) \<and> (\<forall>x \<in> set xs. valid_gvk (extra_GVK x) \<and>
     (\<forall>d. extra_Desired x = Some d \<longrightarrow> key_of L d = at ns x))"

lemma placed_Cons: "placed ns (x # xs) \<longleftrightarrow> (\<forall>y \<in> set xs. at ns x \<noteq> at ns y) \<and> valid_gvk (extra_GVK x) \<and>
    (\<forall>d. extra_Desired x = Some d \<longrightarrow> key_of L d = at ns x) \<and> placed ns xs"
  by (auto simp: placed_def)

lemma placed_extras: "placed (cr_namespace cr) (extras_of A cr)"
  using extras_distinct [of cr] extras_valid
    extra_desired [of _ cr "cr_name cr" "cr_namespace cr" "cr_name cr"]
  by (auto simp: placed_def extras_of_at)

lemma deleteExtras_loop_effect:
  "deleteExtras_loop L r ns xs w = (e, w') \<Longrightarrow> placed ns xs \<Longrightarrow>
   cr_at m w' = cr_at m w \<and> (\<forall>k. k \<notin> at ns ` set xs \<longrightarrow> obj_at k w' = obj_at k w \<and> live k w' = live k w) \<and>
   (e = None \<longrightarrow> (\<forall>x \<in> set xs. \<not> live (at ns x) w'))"
proof (induction xs arbitrary: w)
  case Nil
  then show ?case by simp
next
  case (Cons x xs)
  obtain e1 w1 where d: "deleteExtra L r (extra_GVK x) ns (extra_Name x) w = (e1, w1)"
    by (metis prod.exhaust)
  have v: "valid_gvk (extra_GVK x)" and p: "placed ns xs" and ne: "at ns x \<notin> at ns ` set xs"
    using Cons.prems(2) by (auto simp: placed_Cons)
  note F = deleteExtra_frame [OF d v]
  show ?case
  proof (cases e1)
    case (Some err)
    with Cons.prems(1) d F show ?thesis by auto
  next
    case None
    with Cons.prems(1) d have run: "deleteExtras_loop L r ns xs w1 = (e, w')" by simp
    from Cons.IH [OF this p] have IH: "cr_at m w' = cr_at m w1"
      "\<And>k. k \<notin> at ns ` set xs \<Longrightarrow> obj_at k w' = obj_at k w1 \<and> live k w' = live k w1"
      "e = None \<longrightarrow> (\<forall>x \<in> set xs. \<not> live (at ns x) w')" by auto
    have "\<not> live (at ns x) w'"
      using deleteExtra_effect [OF d [unfolded None] v] IH(2) [OF ne] by simp
    with IH F show ?thesis by auto
  qed
qed

lemma applyExtras_loop_effect:
  "applyExtras_loop L r ns xs w = (e, w') \<Longrightarrow> placed ns xs \<Longrightarrow>
   cr_at m w' = cr_at m w \<and> (\<forall>k. k \<notin> at ns ` set xs \<longrightarrow> obj_at k w' = obj_at k w \<and> live k w' = live k w) \<and>
   (e = None \<longrightarrow> (\<forall>x \<in> set xs. settled obj_at live ns x w'))"
proof (induction xs arbitrary: w)
  case Nil
  then show ?case by simp
next
  case (Cons x xs)
  have v: "valid_gvk (extra_GVK x)" and p: "placed ns xs" and ne: "at ns x \<notin> at ns ` set xs"
    and key: "\<And>d. extra_Desired x = Some d \<Longrightarrow> key_of L d = at ns x"
    using Cons.prems(2) by (auto simp: placed_Cons)
  \<comment> \<open>one step, then the rest\<close>
  have step: ?case
    if one: "\<And>k. k \<noteq> at ns x \<Longrightarrow> obj_at k w1 = obj_at k w \<and> live k w1 = live k w" "cr_at m w1 = cr_at m w"
      and rest: "(e \<noteq> None \<and> w' = w1) \<or> (applyExtras_loop L r ns xs w1 = (e, w') \<and> settled obj_at live ns x w1)" for w1
    using rest
  proof
    assume "e \<noteq> None \<and> w' = w1"
    with one show ?case by auto
  next
    assume R: "applyExtras_loop L r ns xs w1 = (e, w') \<and> settled obj_at live ns x w1"
    from Cons.IH [of w1] R p have IH: "cr_at m w' = cr_at m w1"
      "\<And>k. k \<notin> at ns ` set xs \<Longrightarrow> obj_at k w' = obj_at k w1 \<and> live k w' = live k w1"
      "e = None \<longrightarrow> (\<forall>x \<in> set xs. settled obj_at live ns x w')" by auto
    have "settled obj_at live ns x w'"
      using R IH(2) [OF ne] by (simp add: settled_def split: option.splits)
    with IH one show ?case by auto
  qed
  show ?case
  proof (cases "extra_Desired x")
    case None
    obtain e1 w1 where d: "deleteExtra L r (extra_GVK x) ns (extra_Name x) w = (e1, w1)"
      by (metis prod.exhaust)
    show ?thesis
      by (rule step [of w1])
         (use Cons.prems(1) None d deleteExtra_frame [OF d v] deleteExtra_effect [of _ ns _ w w1] v in
           \<open>auto simp: settled_def split: option.splits\<close>)
  next
    case (Some u)
    obtain a w1 where d: "Client_Apply c u (FieldManager A) True w = (a, w1)"
      by (metis prod.exhaust)
    show ?thesis
      by (rule step [of w1])
         (use Cons.prems(1) Some d key [OF Some] srv_apply_frame [OF d] srv_apply_ok [of u _ True w _ w1] in
           \<open>auto simp: settled_def applyTarget_def wired split: sum.splits\<close>)
  qed
qed

lemma deleteExtraResources_effect:
  "deleteExtraResources L r cr (cr_name cr) w = (e, w') \<Longrightarrow>
   cr_at m w' = cr_at m w \<and> (\<forall>k. k \<notin> at (cr_namespace cr) ` set (extras_of A cr) \<longrightarrow> obj_at k w' = obj_at k w \<and> live k w' = live k w) \<and>
   (e = None \<longrightarrow> (\<forall>x \<in> set (extras_of A cr). \<not> live (at (cr_namespace cr) x) w'))"
  using deleteExtras_loop_effect [of "cr_namespace cr" "extras_of A cr" w e w' m] placed_extras [of cr]
  by (auto simp: deleteExtraResources_def extras_of_def wired split: option.splits)

lemma applyExtraResources_effect:
  "applyExtraResources L r cr (cr_name cr) w = (e, w') \<Longrightarrow>
   cr_at m w' = cr_at m w \<and> (\<forall>k. k \<notin> at (cr_namespace cr) ` set (extras_of A cr) \<longrightarrow> obj_at k w' = obj_at k w \<and> live k w' = live k w) \<and>
   (e = None \<longrightarrow> (\<forall>x \<in> set (extras_of A cr). settled obj_at live (cr_namespace cr) x w'))"
  using applyExtras_loop_effect [of "cr_namespace cr" "extras_of A cr" w e w' m] placed_extras [of cr]
  by (auto simp: applyExtraResources_def extras_of_def wired split: option.splits)

subsection \<open>What a reconcile leaves behind\<close>

lemma Reconcile_reads:
  assumes "Reconcile L r req w = ((res, None), w')" and "cr_at req w = Some cr"
  shows "\<exists>w1. (\<forall>m k. cr_at m w1 = cr_at m w \<and> obj_at k w1 = obj_at k w \<and> live k w1 = live k w) \<and>
    (if terminating L cr then reconcile_deletion L r cr (cr_name cr) w1 else reconcile_normal L r cr (cr_name cr) w1) =
      ((res, None), w')"
proof -
  obtain a w1 where g: "Client_Get c req w = (a, w1)" by (metis prod.exhaust)
  show ?thesis
  proof (cases a)
    case (Inl e)
    with g assms have "IgnoreNotFound L (Some e) = None" by (auto simp: Reconcile_def wired)
    then have "IsNotFound L (Some e)" by (simp add: not_found_iff)
    with get_missing g Inl assms(2) show ?thesis by fastforce
  next
    case (Inr x)
    with get_ok g assms(2) have "x = cr" by fastforce
    with g Inr assms(1) have "(if terminating L cr then reconcile_deletion L r cr (cr_name cr) w1
        else reconcile_normal L r cr (cr_name cr) w1) = ((res, None), w')"
      by (simp add: Reconcile_def wired target_name terminating_def Let_def split: if_splits)
    with get_frame [OF g] show ?thesis by blast
  qed
qed

lemma req_of: "cr_at req w = Some cr \<Longrightarrow> (cr_namespace cr, cr_name cr) = req"
  using stored_name by simp

lemma owned_iff: "k \<in> owned (cr_namespace cr) (cr_name cr) \<longleftrightarrow>
    k = (GVK A, cr_namespace cr, cr_name cr) \<or> k \<in> at (cr_namespace cr) ` set (extras_of A cr)"
proof -
  have "set (extra_keys (cr_name cr)) = extra_key ` set (extras_of A cr)"
    using extra_keys_fixed [of cr "cr_name cr" "cr_namespace cr" "cr_name cr"]
    by (metis extras_of_at list.set_map target_of_eq)
  then show ?thesis by (auto simp: owned_keys_def)
qed

lemma target_not_at: "(GVK A, ns, cr_name cr) \<notin> at ns ` set (extras_of A cr)"
  using target_not_extra [of cr] by auto

lemma Reconcile_deletes:
  assumes R: "Reconcile L r req w = ((res, None), w')" and cr: "cr_at req w = Some cr"
    and t: "terminating L cr" and f: "has_finalizer L cr"
  shows "\<forall>k \<in> owned (cr_namespace cr) (cr_name cr). \<not> live k w'"
    and "\<forall>k. k \<notin> owned (cr_namespace cr) (cr_name cr) \<longrightarrow> obj_at k w' = obj_at k w \<and> live k w' = live k w"
    and "\<forall>x. cr_at req w' = Some x \<longrightarrow> FinalizerName \<notin> set (meta_Finalizers (ObjectMeta x)) \<and> terminating L x"
proof -
  obtain w1 where w1: "\<forall>m k. cr_at m w1 = cr_at m w \<and> obj_at k w1 = obj_at k w \<and> live k w1 = live k w"
    and D: "reconcile_deletion L r cr (cr_name cr) w1 = ((res, None), w')"
    using Reconcile_reads [OF R cr] t by (simp only: if_True if_False) blast
  obtain a w2 where d1: "deleteTarget L r (cr_namespace cr) (cr_name cr) w1 = (a, w2)" by (metis prod.exhaust)
  obtain e w3 where d2: "deleteExtraResources L r cr (cr_name cr) w2 = (e, w3)" by (metis prod.exhaust)
  let ?cr = "cr\<lparr>ObjectMeta := RemoveFinalizer L (ObjectMeta cr) FinalizerName\<rparr>"
  obtain b w4 where d3: "Client_Update c ?cr w3 = (b, w4)" by (metis prod.exhaust)
  from D f d1 d2 d3 obtain x y where a: "a = Inr x" and e: "e = None" and b: "b = Inr y" and w4: "w' = w4"
    by (auto simp: reconcile_deletion_def has_finalizer_def Let_def wired split: sum.splits option.splits)
  note T = deleteTarget_frame [OF d1] deleteTarget_effect [OF d1 [unfolded a]]
  note X = deleteExtraResources_effect [OF d2]
  note U = update_frame [OF d3]
  show "\<forall>k \<in> owned (cr_namespace cr) (cr_name cr). \<not> live k w'"
    using T(3) X U e w4 target_not_at [of "cr_namespace cr" cr] by (auto simp: owned_iff)
  show "\<forall>k. k \<notin> owned (cr_namespace cr) (cr_name cr) \<longrightarrow> obj_at k w' = obj_at k w \<and> live k w' = live k w"
    using T(2) X U w4 w1 by (auto simp: owned_iff)
  show "\<forall>x. cr_at req w' = Some x \<longrightarrow> FinalizerName \<notin> set (meta_Finalizers (ObjectMeta x)) \<and> terminating L x"
    using update_ok [OF d3 [unfolded b]] req_of [OF cr] w4 t by (auto simp: remove_finalizer terminating_def)
qed

lemma Reconcile_claims:
  assumes R: "Reconcile L r req w = ((res, None), w')" and cr: "cr_at req w = Some cr"
    and t: "\<not> terminating L cr" and f: "\<not> has_finalizer L cr"
  shows "res = \<lparr>Requeue = True, RequeueAfter = 0\<rparr>"
    and "obj_at k w' = obj_at k w \<and> live k w' = live k w"
    and "\<exists>x. cr_at req w' = Some x \<and> \<not> terminating L x \<and> has_finalizer L x \<and> Spec x = wire (Spec cr)"
proof -
  obtain w1 where w1: "\<forall>m k. cr_at m w1 = cr_at m w \<and> obj_at k w1 = obj_at k w \<and> live k w1 = live k w"
    and D: "reconcile_normal L r cr (cr_name cr) w1 = ((res, None), w')"
    using Reconcile_reads [OF R cr] t by (simp only: if_True if_False) blast
  let ?cr = "cr\<lparr>ObjectMeta := AddFinalizer L (ObjectMeta cr) FinalizerName\<rparr>"
  obtain b w2 where d: "Client_Update c ?cr w1 = (b, w2)" by (metis prod.exhaust)
  from D f d obtain y where b: "b = Inr y" and w2: "w' = w2" and res: "res = \<lparr>Requeue = True, RequeueAfter = 0\<rparr>"
    by (auto simp: reconcile_normal_def has_finalizer_def Let_def wired split: sum.splits)
  show "res = \<lparr>Requeue = True, RequeueAfter = 0\<rparr>" by (rule res)
  show "obj_at k w' = obj_at k w \<and> live k w' = live k w"
    using update_frame [OF d] w1 w2 by simp
  show "\<exists>x. cr_at req w' = Some x \<and> \<not> terminating L x \<and> has_finalizer L x \<and> Spec x = wire (Spec cr)"
  proof -
    have fin: "FinalizerName \<in> set (meta_Finalizers (ObjectMeta ?cr))"
      and name: "(cr_namespace ?cr, cr_name ?cr) = req"
      and del: "meta_DeletionTimestamp (ObjectMeta ?cr) = meta_DeletionTimestamp (ObjectMeta cr)"
      using req_of [OF cr] by (auto simp: add_finalizer)
    note U = update_ok [OF d [unfolded b], unfolded name]
    from fin have "meta_Finalizers (ObjectMeta ?cr) \<noteq> []" by auto
    with U obtain x where x: "cr_at req w2 = Some x" by blast
    with U have "Spec x = wire (Spec cr)" by simp
    moreover from x U fin del have "FinalizerName \<in> set (meta_Finalizers (ObjectMeta x))"
      "meta_DeletionTimestamp (ObjectMeta x) = meta_DeletionTimestamp (ObjectMeta cr)" by simp_all
    ultimately show ?thesis using x w2 t by (simp add: terminating_def has_finalizer_def contains_finalizer)
  qed
qed

abbreviation settled_for :: "('spec, 'status) paas_object \<Rightarrow> 'w \<Rightarrow> Result \<Rightarrow> bool" where
  "settled_for \<equiv> converged L A V cr_at obj_at live"

lemma Reconcile_converges:
  assumes R: "Reconcile L r req w = ((res, None), w')" and cr: "cr_at req w = Some cr"
    and t: "\<not> terminating L cr" and f: "has_finalizer L cr"
  shows "settled_for cr w' res"
    and "\<forall>k. k \<notin> owned (cr_namespace cr) (cr_name cr) \<longrightarrow> obj_at k w' = obj_at k w \<and> live k w' = live k w"
proof -
  let ?n = "cr_name cr" let ?ns = "cr_namespace cr"
  obtain w1 where w1: "\<forall>m k. cr_at m w1 = cr_at m w \<and> obj_at k w1 = obj_at k w \<and> live k w1 = live k w"
    and D: "reconcile_normal L r cr ?n w1 = ((res, None), w')"
    using Reconcile_reads [OF R cr] t by (simp only: if_True if_False) blast
  obtain a w2 where d1: "getTarget L r ?ns ?n w1 = (a, w2)" by (metis prod.exhaust)
  obtain b w3 where d2: "Client_Apply c (manifest_of A cr) (FieldManager A) True w2 = (b, w3)" by (metis prod.exhaust)
  from D f d1 d2 obtain existing u where a: "a = Inr existing" and b: "b = Inr u"
    by (auto simp: reconcile_normal_def has_finalizer_def Let_def wired applyTarget_def manifest_of_def split: sum.splits)
  define w4 where "w4 = (if existing = None then record_event (target_created cr (ObjectKind A) ?n) w3 else w3)"
  have S: "reconcile_status L r cr ?n u w4 = ((res, None), w')"
    using D f d1 d2 a b
    by (simp add: reconcile_normal_def has_finalizer_def Let_def wired applyTarget_def manifest_of_def w4_def cong: if_cong)
  obtain e w5 where d3: "applyExtraResources L r cr ?n w4 = (e, w5)" by (metis prod.exhaust)
  define o' where "o' = fst (ApplyStatus A (Client_Now c w5) cr ?n (ExtractStatus A (Some u)))"
  obtain d w6 where d4: "Client_StatusUpdate c o' w5 = (d, w6)" by (metis prod.exhaust)
  from S d3 d4 obtain y where e: "e = None" and d: "d = Inr y" and w6: "w' = w6"
    and res: "res = requeue_for (ExtractStatus A (Some u))"
    by (auto simp: reconcile_status_def Let_def wired o'_def requeue_for_def split: sum.splits option.splits)
  have w4: "obj_at k w4 = obj_at k w3" "live k w4 = live k w3" "cr_at m w4 = cr_at m w3" for k m
    using event_frame by (simp_all add: w4_def)
  note G = getTarget_effect [OF d1] and P = srv_apply_frame [OF d2] and X = applyExtraResources_effect [OF d3]
    and U = status_frame [OF d4]
  have o': "ObjectMeta o' = ObjectMeta cr" "mirrors V o' (ExtractStatus A (Some u))"
    by (simp_all add: o'_def apply_frame mirrors_ApplyStatus)
  have "cr_at (?ns, ?n) w5 = Some cr"
    using G(1) P X w4(3) w1 req_of [OF cr] cr by simp
  with status_ok [OF d4 [unfolded d]] w6 o'(1) obtain x where
    x: "cr_at (?ns, ?n) w' = Some x" "Status x = Status o'" "same_but_status x cr"
    by auto
  have "obj_at (GVK A, ?ns, ?n) w' = Some u" "covers (manifest_of A cr) u"
    using srv_apply_ok [OF d2 [unfolded b]] X U w6 w4 target_not_at [of ?ns cr] by (auto simp: key_of_manifest)
  moreover have "\<forall>x \<in> set (extras_of A cr). settled obj_at live ?ns x w'"
  proof
    fix x assume "x \<in> set (extras_of A cr)"
    with X e have "settled obj_at live ?ns x w5" by simp
    then show "settled obj_at live ?ns x w'" unfolding w6 by (simp only: settled_frame [OF U])
  qed
  ultimately show "settled_for cr w' res"
    unfolding converged_def key_of_manifest
    by (intro exI [of _ u] exI [of _ x] exI [of _ o']) (simp add: x o' res)
  show "\<forall>k. k \<notin> owned ?ns ?n \<longrightarrow> obj_at k w' = obj_at k w \<and> live k w' = live k w"
    using G P X U w6 w4 w1 by (auto simp: owned_iff key_of_manifest)
qed

text \<open>A fresh CR: the first pass claims it, the second converges on what is then stored.\<close>

lemma Reconcile_twice:
  assumes "Reconcile L r req w = ((res1, None), w1)" and "Reconcile L r req w1 = ((res2, None), w2)"
    and "cr_at req w = Some cr" and "\<not> terminating L cr" and "\<not> has_finalizer L cr"
  shows "\<exists>x. cr_at req w1 = Some x \<and> has_finalizer L x \<and> Spec x = wire (Spec cr) \<and> settled_for x w2 res2"
proof -
  from Reconcile_claims(3) [OF assms(1,3-5)] obtain x where
    x: "cr_at req w1 = Some x" "\<not> terminating L x" "has_finalizer L x" "Spec x = wire (Spec cr)" by auto
  from Reconcile_converges(1) [OF assms(2) x(1-3)] x show ?thesis by blast
qed

end

end
