(* ===== verification/Engine_Liveness.thy ===== *)
theory Engine_Liveness
  imports Kube_Api
begin

text \<open>
  The engine against a server that answers every call: it ends without error, settles a fresh CR in two passes, keeps it settled,
  releases a terminating one in one, and stops asking for an immediate requeue after the first pass.
\<close>

section \<open>How far a CR is from where its passes lead\<close>

text \<open>
  At most \<open>k\<close> passes are missing. With a goal, the CR is to be settled on that spec: it is live, and protected with that
  spec and settled, or protected with one pass to go, or to be claimed first. Without, it is to be released: it is terminating
  with the finalizer, or that is done and its objects are gone.
\<close>

definition on_course ::
    "k8s_libs \<Rightarrow> ('spec, 'status) Adapter \<Rightarrow> (string \<Rightarrow> (GroupVersionKind \<times> string) list) \<Rightarrow> 'status status_view \<Rightarrow>
     (NamespacedName \<Rightarrow> 'w \<Rightarrow> ('spec, 'status) paas_object option) \<Rightarrow> (object_key \<Rightarrow> 'w \<Rightarrow> unstructured option) \<Rightarrow>
     (object_key \<Rightarrow> 'w \<Rightarrow> bool) \<Rightarrow> ('spec \<Rightarrow> 'spec) \<Rightarrow> NamespacedName \<Rightarrow> 'spec option \<Rightarrow> nat \<Rightarrow> 'w \<Rightarrow> bool" where
  "on_course L A extra_keys V cr_at obj_at live wire n goal k w \<longleftrightarrow>
     (case goal of
        Some spec \<Rightarrow> (\<exists>cr. cr_at n w = Some cr \<and> \<not> terminating L cr \<and>
          (if has_finalizer L cr
           then Spec cr = spec \<and> (0 < k \<or> (\<exists>cr' res. same_but_status cr cr' \<and> converged L A V cr_at obj_at live cr' w res))
           else wire (Spec cr) = spec \<and> 1 < k))
      | None \<Rightarrow>
          (\<exists>cr. cr_at n w = Some cr \<and> terminating L cr \<and> has_finalizer L cr \<and> 0 < k) \<or>
          ((\<forall>cr. cr_at n w = Some cr \<longrightarrow> terminating L cr \<and> \<not> has_finalizer L cr) \<and>
           (\<forall>key \<in> owned_keys (GVK A) extra_keys (fst n) (snd n). \<not> live key w)))"

section \<open>A server that answers\<close>

text \<open>When no call fails (beyond not-found where it is the truth), a reconcile ends without error.\<close>

locale available_engine = engine +
  assumes get_answers: "cr_at n w = Some cr \<Longrightarrow> fst (Client_Get c n w) = Inr cr"
    and look_answers: "fst (Client_GetUnstructured c n u w) = Inl e \<Longrightarrow> IsNotFound L (Some e)"
    and apply_answers: "\<exists>u'. fst (Client_Apply c u f True w) = Inr u'"
    and delete_answers: "fst (Client_Delete c u w) = None \<or> IsNotFound L (fst (Client_Delete c u w))"
    and update_answers: "cr_at (cr_namespace cr, cr_name cr) w \<noteq> None \<Longrightarrow> \<exists>x. fst (Client_Update c cr w) = Inr x"
    and status_answers: "cr_at (cr_namespace cr, cr_name cr) w \<noteq> None \<Longrightarrow> \<exists>x. fst (Client_StatusUpdate c cr w) = Inr x"
begin

lemma deleteExtra_answers: "fst (deleteExtra L r g ns n w) = None"
  using delete_answers [of "identify L g ns n" w]
  by (auto simp: deleteExtra_def wired Let_def split: prod.splits)

lemma deleteTarget_answers: "\<exists>b. fst (deleteTarget L r ns n w) = Inr b"
  using delete_answers [of "identify L (GVK A) ns n" w]
  by (auto simp: deleteTarget_def wired Let_def split: prod.splits option.splits)

lemma getTarget_answers: "\<exists>b. fst (getTarget L r ns n w) = Inr b"
  using look_answers [of "(ns, n)" "SetGroupVersionKind L (GVK A) new_unstructured" w]
  by (auto simp: getTarget_def GetTarget_def wired Let_def split: prod.splits sum.splits)

lemma applyTarget_answers: "\<exists>b. fst (applyTarget r u w) = Inr b"
  using apply_answers [of u "FieldManager A" w] by (simp add: applyTarget_def wired)

lemma deleteExtras_loop_answers: "fst (deleteExtras_loop L r ns xs w) = None"
proof (induction xs arbitrary: w)
  case (Cons x xs)
  obtain e w1 where "deleteExtra L r (extra_GVK x) ns (extra_Name x) w = (e, w1)" by (metis prod.exhaust)
  with deleteExtra_answers [of "extra_GVK x" ns "extra_Name x" w] Cons.IH show ?case by simp
qed simp

lemma applyExtras_loop_answers: "fst (applyExtras_loop L r ns xs w) = None"
proof (induction xs arbitrary: w)
  case (Cons x xs)
  show ?case
  proof (cases "extra_Desired x")
    case None
    obtain e w1 where "deleteExtra L r (extra_GVK x) ns (extra_Name x) w = (e, w1)" by (metis prod.exhaust)
    with deleteExtra_answers [of "extra_GVK x" ns "extra_Name x" w] Cons.IH None show ?thesis by simp
  next
    case (Some u)
    obtain a w1 where "applyTarget r u w = (a, w1)" by (metis prod.exhaust)
    with applyTarget_answers [of u w] Cons.IH Some show ?thesis by auto
  qed
qed simp

lemma extraResources_answer:
  "fst (deleteExtraResources L r cr t w) = None" "fst (applyExtraResources L r cr t w) = None"
  by (simp_all add: deleteExtraResources_def applyExtraResources_def deleteExtras_loop_answers applyExtras_loop_answers
    split: option.splits)

lemma reconcile_deletion_answers:
  assumes "cr_at (cr_namespace cr, cr_name cr) w \<noteq> None"
  shows "snd (fst (reconcile_deletion L r cr (cr_name cr) w)) = None"
proof -
  obtain a w1 where 1: "deleteTarget L r (cr_namespace cr) (cr_name cr) w = (a, w1)" by (metis prod.exhaust)
  obtain e w2 where 2: "deleteExtraResources L r cr (cr_name cr) w1 = (e, w2)" by (metis prod.exhaust)
  let ?cr = "cr\<lparr>ObjectMeta := RemoveFinalizer L (ObjectMeta cr) FinalizerName\<rparr>"
  obtain b w3 where 3: "Client_Update c ?cr w2 = (b, w3)" by (metis prod.exhaust)
  from 1 deleteTarget_answers [of "cr_namespace cr" "cr_name cr" w] obtain x where a: "a = Inr x" by auto
  from 2 extraResources_answer(1) [of cr "cr_name cr" w1] have e: "e = None" by simp
  have "cr_at (cr_namespace ?cr, cr_name ?cr) w2 \<noteq> None"
    using assms deleteTarget_frame(1) [OF 1] deleteExtraResources_effect [OF 2] by (simp add: remove_finalizer)
  from update_answers [OF this] 3 obtain y where b: "b = Inr y" by auto
  from 1 2 3 a e b show ?thesis by (simp add: reconcile_deletion_def wired Let_def)
qed

lemma reconcile_status_answers:
  assumes "cr_at (cr_namespace cr, cr_name cr) w \<noteq> None"
  shows "snd (fst (reconcile_status L r cr (cr_name cr) u w)) = None"
proof -
  obtain e w1 where 1: "applyExtraResources L r cr (cr_name cr) w = (e, w1)" by (metis prod.exhaust)
  let ?cr = "fst (ApplyStatus A (Client_Now c w1) cr (cr_name cr) (ExtractStatus A (Some u)))"
  obtain b w2 where 2: "Client_StatusUpdate c ?cr w1 = (b, w2)" by (metis prod.exhaust)
  from 1 extraResources_answer(2) [of cr "cr_name cr" w] have e: "e = None" by simp
  have "cr_at (cr_namespace ?cr, cr_name ?cr) w1 \<noteq> None"
    using assms applyExtraResources_effect [OF 1] by (simp add: apply_frame)
  from status_answers [OF this] 2 obtain y where b: "b = Inr y" by auto
  from 1 2 e b show ?thesis by (simp add: reconcile_status_def wired Let_def)
qed

lemma reconcile_normal_answers:
  assumes "cr_at (cr_namespace cr, cr_name cr) w \<noteq> None"
  shows "snd (fst (reconcile_normal L r cr (cr_name cr) w)) = None"
proof (cases "has_finalizer L cr")
  case False
  let ?cr = "cr\<lparr>ObjectMeta := AddFinalizer L (ObjectMeta cr) FinalizerName\<rparr>"
  obtain b w1 where 1: "Client_Update c ?cr w = (b, w1)" by (metis prod.exhaust)
  have "cr_at (cr_namespace ?cr, cr_name ?cr) w \<noteq> None" using assms by (simp add: add_finalizer)
  from update_answers [OF this] 1 obtain y where "b = Inr y" by auto
  with 1 False show ?thesis by (simp add: reconcile_normal_def has_finalizer_def wired Let_def)
next
  case True
  let ?d = "BuildManifest A cr (cr_name cr) (cr_namespace cr) (cr_name cr)"
  obtain a w1 where 1: "getTarget L r (cr_namespace cr) (cr_name cr) w = (a, w1)" by (metis prod.exhaust)
  obtain b w2 where 2: "applyTarget r ?d w1 = (b, w2)" by (metis prod.exhaust)
  from 1 getTarget_answers [of "cr_namespace cr" "cr_name cr" w] obtain existing where a: "a = Inr existing" by auto
  from 2 applyTarget_answers [of ?d w1] obtain u where b: "b = Inr u" by auto
  define w3 where "w3 = (if existing = None then record_event (target_created cr (ObjectKind A) (cr_name cr)) w2 else w2)"
  have "cr_at (cr_namespace cr, cr_name cr) w3 \<noteq> None"
    using assms getTarget_effect(1) [OF 1] srv_apply_frame [of ?d "FieldManager A" True w1 b w2] 2 event_frame
    by (simp add: w3_def applyTarget_def wired)
  from reconcile_status_answers [OF this, of u] 1 2 a b True show ?thesis
    by (simp add: reconcile_normal_def has_finalizer_def wired Let_def w3_def cong: if_cong)
qed

lemma Reconcile_answers:
  assumes "cr_at req w = Some cr"
  shows "error_of L r req w = None"
proof -
  obtain w1 where g: "Client_Get c req w = (Inr cr, w1)"
    using get_answers [OF assms] by (cases "Client_Get c req w") simp
  have "cr_at (cr_namespace cr, cr_name cr) w1 \<noteq> None"
    using get_frame [OF g] assms req_of [OF assms] by simp
  from reconcile_deletion_answers [OF this] reconcile_normal_answers [OF this] g show ?thesis
    by (simp add: Reconcile_def wired target_name Let_def)
qed

text \<open>Liveness: a fresh CR is settled by two passes, whatever the store holds.\<close>

lemma two_passes:
  assumes "cr_at req w = Some cr" and "\<not> terminating L cr" and "\<not> has_finalizer L cr"
  defines "w1 \<equiv> snd (Reconcile L r req w)"
  shows "\<exists>x. cr_at req w1 = Some x \<and> has_finalizer L x \<and> Spec x = wire (Spec cr) \<and>
    settled_for x (snd (Reconcile L r req w1)) (result_of L r req w1)"
proof -
  have 1: "Reconcile L r req w = ((result_of L r req w, None), w1)"
    using Reconcile_answers [OF assms(1)] by (simp add: w1_def prod_eq_iff)
  from Reconcile_claims(3) [OF 1 assms(1-3)] obtain x where x: "cr_at req w1 = Some x" by blast
  have 2: "Reconcile L r req w1 = ((result_of L r req w1, None), snd (Reconcile L r req w1))"
    using Reconcile_answers [OF x] by (simp add: prod_eq_iff)
  from Reconcile_twice [OF 1 2 assms(1-3)] show ?thesis .
qed

text \<open>Stability: passes over a protected CR go on settling it, and touch no foreign object, for as long as they are made.\<close>

lemma passes_settle:
  assumes "cr_at req w = Some cr" and "\<not> terminating L cr" and "has_finalizer L cr"
  defines "pass \<equiv> \<lambda>w. snd (Reconcile L r req w)"
  shows "\<exists>x. cr_at req ((pass ^^ n) w) = Some x \<and> same_but_status x cr \<and>
    settled_for x ((pass ^^ Suc n) w) (result_of L r req ((pass ^^ n) w)) \<and>
    (\<forall>k. k \<in> owned (cr_namespace cr) (cr_name cr) \<or>
      (obj_at k ((pass ^^ Suc n) w) = obj_at k w \<and> live k ((pass ^^ Suc n) w) = live k w))"
proof (induction n)
  have one: "settled_for x (pass v) (result_of L r req v) \<and> (\<forall>k. k \<in> owned (cr_namespace x) (cr_name x) \<or>
      (obj_at k (pass v) = obj_at k v \<and> live k (pass v) = live k v))"
    if "cr_at req v = Some x" "same_but_status x cr" for v x
  proof -
    have "Reconcile L r req v = ((result_of L r req v, None), pass v)"
      using Reconcile_answers [OF that(1)] by (simp add: pass_def prod_eq_iff)
    moreover have "\<not> terminating L x" "has_finalizer L x"
      using that(2) assms(2,3) by (simp_all add: same_but_status_def terminating_def has_finalizer_def contains_finalizer)
    ultimately show ?thesis using Reconcile_converges [OF _ that(1)] by blast
  qed
  {
    case 0
    from one [OF assms(1)] assms(1) show ?case by (auto simp: same_but_status_def)
  next
    case (Suc n)
    then obtain x where x: "cr_at req ((pass ^^ n) w) = Some x" "same_but_status x cr"
      "settled_for x ((pass ^^ Suc n) w) (result_of L r req ((pass ^^ n) w))"
      and f: "\<forall>k. k \<in> owned (cr_namespace cr) (cr_name cr) \<or>
        (obj_at k ((pass ^^ Suc n) w) = obj_at k w \<and> live k ((pass ^^ Suc n) w) = live k w)" by blast
    from x(3) obtain y where y: "cr_at req ((pass ^^ Suc n) w) = Some y" "same_but_status y x"
      using req_of [OF x(1)] by (auto simp: converged_def)
    with x(2) have z: "same_but_status y cr" by (simp add: same_but_status_def)
    have p: "(pass ^^ Suc (Suc n)) w = pass ((pass ^^ Suc n) w)" by simp
    have o': "owned (cr_namespace y) (cr_name y) = owned (cr_namespace cr) (cr_name cr)"
      using z by (simp add: same_but_status_def)
    note step = one [OF y(1) z, unfolded o', folded p]
    show ?case
      by (rule exI [of _ y]) (intro conjI allI; use step f y(1) z in metis)
  }
qed

text \<open>A terminating CR that is held by the finalizer is released by one pass, its objects deleted.\<close>

lemma one_pass_deletes:
  assumes "cr_at req w = Some cr" and "terminating L cr" and "has_finalizer L cr"
  defines "w1 \<equiv> snd (Reconcile L r req w)"
  shows "(\<forall>k \<in> owned (cr_namespace cr) (cr_name cr). \<not> live k w1) \<and>
    (\<forall>x. cr_at req w1 = Some x \<longrightarrow> \<not> has_finalizer L x)"
proof -
  have 1: "Reconcile L r req w = ((result_of L r req w, None), w1)"
    using Reconcile_answers [OF assms(1)] by (simp add: w1_def prod_eq_iff)
  from Reconcile_deletes [OF 1 assms(1-3)] show ?thesis
    by (auto simp: has_finalizer_def contains_finalizer)
qed

text \<open>Immediate requeues end: after any pass the CR is gone, terminating or claimed, and such a CR is not requeued at once.\<close>

definition quiet where
  "quiet req w \<longleftrightarrow> (case cr_at req w of None \<Rightarrow> True | Some cr \<Rightarrow> terminating L cr \<or> has_finalizer L cr)"

lemma Reconcile_pass:
  assumes "cr_at req w = Some cr"
  shows "Reconcile L r req w = ((result_of L r req w, None), snd (Reconcile L r req w))"
  using Reconcile_answers [OF assms] by (simp add: prod_eq_iff)

lemma Reconcile_missing:
  assumes "cr_at req w = None"
  shows "result_of L r req w = no_result" and "cr_at req (snd (Reconcile L r req w)) = None"
proof -
  obtain a w1 where g: "Client_Get c req w = (a, w1)" by (metis prod.exhaust)
  with get_ok assms obtain e where "a = Inl e" by (cases a) fastforce+
  with g get_frame [OF g] assms show "result_of L r req w = no_result" "cr_at req (snd (Reconcile L r req w)) = None"
    by (simp_all add: Reconcile_def wired)
qed

lemma Reconcile_leaves_alone:
  assumes "cr_at req w = Some cr" and "terminating L cr" and "\<not> has_finalizer L cr"
  shows "result_of L r req w = no_result" and "cr_at req (snd (Reconcile L r req w)) = Some cr"
proof -
  obtain w1 where g: "Client_Get c req w = (Inr cr, w1)"
    using get_answers [OF assms(1)] by (cases "Client_Get c req w") simp
  with get_frame [OF g] assms
  show "result_of L r req w = no_result" "cr_at req (snd (Reconcile L r req w)) = Some cr"
    by (simp_all add: Reconcile_def wired target_name Let_def terminating_def has_finalizer_def reconcile_deletion_def)
qed

lemma terminating_result:
  assumes "cr_at req w = Some cr" and "terminating L cr"
  shows "result_of L r req w = no_result"
proof -
  obtain w1 where g: "Client_Get c req w = (Inr cr, w1)"
    using get_answers [OF assms(1)] by (cases "Client_Get c req w") simp
  with assms show ?thesis
    by (auto simp: Reconcile_def wired target_name Let_def terminating_def reconcile_deletion_def
      split: sum.splits option.splits prod.splits)
qed

lemma quiet_result:
  assumes "quiet req w"
  shows "\<not> Requeue (result_of L r req w)"
proof (cases "cr_at req w")
  case None
  from Reconcile_missing(1) [OF this] show ?thesis by (simp add: no_result_def)
next
  case (Some cr)
  show ?thesis
  proof (cases "terminating L cr")
    case True
    from terminating_result [OF Some True] show ?thesis by (simp add: no_result_def)
  next
    case False
    with assms Some have "has_finalizer L cr" by (simp add: quiet_def)
    from Reconcile_converges(1) [OF Reconcile_pass [OF Some] Some False this] show ?thesis
      by (auto simp: converged_def requeue_for_def)
  qed
qed

lemma quiet_after: "quiet req (snd (Reconcile L r req w))"
proof (cases "cr_at req w")
  case None
  from Reconcile_missing(2) [OF this] show ?thesis by (simp add: quiet_def)
next
  case (Some cr)
  note R = Reconcile_pass [OF Some]
  consider "terminating L cr" "has_finalizer L cr" | "terminating L cr" "\<not> has_finalizer L cr"
    | "\<not> terminating L cr" "has_finalizer L cr" | "\<not> terminating L cr" "\<not> has_finalizer L cr" by blast
  then show ?thesis
  proof cases
    case 1
    from Reconcile_deletes(3) [OF R Some 1] show ?thesis by (auto simp: quiet_def split: option.split)
  next
    case 2
    from Reconcile_leaves_alone(2) [OF Some 2] 2 show ?thesis by (simp add: quiet_def)
  next
    case 3
    from Reconcile_converges(1) [OF R Some 3] req_of [OF Some] obtain x where
      "cr_at req (snd (Reconcile L r req w)) = Some x" "same_but_status x cr" by (auto simp: converged_def)
    with 3 show ?thesis by (simp add: quiet_def same_but_status_def has_finalizer_def contains_finalizer)
  next
    case 4
    from Reconcile_claims(3) [OF R Some 4] show ?thesis by (auto simp: quiet_def)
  qed
qed

lemma requeues_end:
  assumes "0 < n"
  shows "\<not> Requeue (result_of L r req (((\<lambda>w. snd (Reconcile L r req w)) ^^ n) w))"
proof -
  from assms obtain m where "n = Suc m" by (cases n) auto
  then show ?thesis using quiet_result [OF quiet_after] by simp
qed

text \<open>How far a CR is from where its passes lead.\<close>

abbreviation course where
  "course \<equiv> on_course L A extra_keys V cr_at obj_at live wire"

text \<open>A pass of its own brings a CR one step further.\<close>

lemma course_pass:
  assumes "course n goal k w"
  shows "course n goal (k - 1) (snd (Reconcile L r n w))"
proof (cases goal)
  case (Some spec)
  with assms obtain cr where cr: "cr_at n w = Some cr" "\<not> terminating L cr"
    and c: "if has_finalizer L cr then Spec cr = spec else wire (Spec cr) = spec \<and> 1 < k"
    by (auto simp: on_course_def split: if_splits)
  show ?thesis
  proof (cases "has_finalizer L cr")
    case True
    from Reconcile_converges(1) [OF Reconcile_pass [OF cr(1)] cr True] req_of [OF cr(1)] obtain x where
      x: "cr_at n (snd (Reconcile L r n w)) = Some x" "same_but_status x cr"
      and S: "settled_for cr (snd (Reconcile L r n w)) (result_of L r n w)"
      by (auto simp: converged_def)
    from x(2) cr(2) True c have "\<not> terminating L x" "has_finalizer L x" "Spec x = spec"
      by (simp_all add: same_but_status_def terminating_def has_finalizer_def contains_finalizer)
    with x S Some show ?thesis by (auto simp: on_course_def)
  next
    case False
    from Reconcile_claims(3) [OF Reconcile_pass [OF cr(1)] cr False] False c Some show ?thesis
      by (auto simp: on_course_def)
  qed
next
  case None
  show ?thesis
  proof (cases "\<exists>cr. cr_at n w = Some cr \<and> terminating L cr \<and> has_finalizer L cr")
    case True
    then obtain cr where cr: "cr_at n w = Some cr" "terminating L cr" "has_finalizer L cr" by blast
    note D = Reconcile_deletes [OF Reconcile_pass [OF cr(1)] cr]
    have "owned_keys (GVK A) extra_keys (fst n) (snd n) = owned (cr_namespace cr) (cr_name cr)"
      using req_of [OF cr(1)] by auto
    with D(1,3) None show ?thesis by (auto simp: on_course_def has_finalizer_def contains_finalizer)
  next
    case False
    with assms None have off: "\<forall>cr. cr_at n w = Some cr \<longrightarrow> terminating L cr \<and> \<not> has_finalizer L cr"
      "\<forall>key \<in> owned (fst n) (snd n). \<not> live key w" by (auto simp: on_course_def)
    obtain a w1 where g: "Client_Get c n w = (a, w1)" by (metis prod.exhaust)
    have "snd (Reconcile L r n w) = w1"
    proof (cases a)
      case (Inl e)
      with g show ?thesis by (simp add: Reconcile_def wired)
    next
      case (Inr cr)
      with g get_ok off(1) have "terminating L cr" "\<not> has_finalizer L cr" by blast+
      with g Inr show ?thesis
        by (simp add: Reconcile_def wired terminating_def has_finalizer_def reconcile_deletion_def)
    qed
    with get_frame [OF g] off None show ?thesis by (simp add: on_course_def)
  qed
qed

text \<open>Its state depends on the CR and its objects alone.\<close>

lemma course_cong:
  assumes "cr_at n w' = cr_at n w"
    and "\<And>key. key \<in> owned (fst n) (snd n) \<Longrightarrow> obj_at key w' = obj_at key w \<and> live key w' = live key w"
  shows "course n goal k w' = course n goal k w"
proof -
  have "settled_for cr' w' res = settled_for cr' w res"
    if cr: "cr_at n w = Some cr" "same_but_status cr cr'" for cr cr' res
  proof -
    have n: "(cr_namespace cr', cr_name cr') = n"
      using req_of [OF cr(1)] cr(2) by (auto simp: same_but_status_def)
    have key: "obj_at key w' = obj_at key w \<and> live key w' = live key w"
      if "key \<in> owned (cr_namespace cr') (cr_name cr')" for key
      using assms(2) [of key] that n by auto
    have "settled obj_at live (cr_namespace cr') x w' = settled obj_at live (cr_namespace cr') x w"
      if "x \<in> set (extras_of A cr')" for x
      using key [OF owned_extra [OF that]] by (simp add: settled_def split: option.split)
    then show ?thesis
      using key [OF owned_target] assms(1) n by (simp add: converged_def key_of_manifest)
  qed
  then show ?thesis
    using assms by (auto simp: on_course_def split: option.split cong: conj_cong)
qed

end

end
