(* ===== verification/Api_Json.thy ===== *)
theory Api_Json
  imports Manifest_Lib
begin

text \<open>
  The specs as JSON (\<^verbatim>\<open>api/v1alpha1/*_types.go\<close>): what the field tags make \<^verbatim>\<open>encoding/json\<close> write and read, and what the
  \<^verbatim>\<open>+kubebuilder\<close> markers make the API server fill in (\<open>default\<close>) and accept (\<open>validation\<close>) before it stores
  an object. A client that updates a CR sends the JSON of its Go value, so the spec that is stored is the one that
  comes out at the end of this pipe: \<open>wire\<close> of the kind.
\<close>

section \<open>Tags and markers\<close>

text \<open>\<open>omitempty\<close>: a string, an integer, a boolean or a map with its zero value is left out, as is a nil pointer.\<close>

definition string_omitempty :: "string \<Rightarrow> string \<Rightarrow> gomap \<Rightarrow> gomap" where
  "string_omitempty k s m = set_if (s \<noteq> '''') k (GStr s) m"

definition int32_omitempty :: "string \<Rightarrow> int32 \<Rightarrow> gomap \<Rightarrow> gomap" where
  "int32_omitempty k i m = set_if (i \<noteq> 0) k (GInt (int64_of_int32 i)) m"

definition bool_omitempty :: "string \<Rightarrow> bool \<Rightarrow> gomap \<Rightarrow> gomap" where
  "bool_omitempty k b m = set_if b k (GBool b) m"

definition strings_omitempty :: "string \<Rightarrow> string_map \<Rightarrow> gomap \<Rightarrow> gomap" where
  "strings_omitempty k l m = set_if (l \<noteq> fmempty) k (GMap (fmmap GStr l)) m"

definition pointer_omitempty :: "string \<Rightarrow> ('a \<Rightarrow> gomap) \<Rightarrow> 'a option \<Rightarrow> gomap \<Rightarrow> gomap" where
  "pointer_omitempty k to_json x m = set_some k (map_option (\<lambda>v. GMap (to_json v)) x) m"

text \<open>\<open>omitzero\<close>: a struct with all fields zero is left out.\<close>

definition struct_omitzero :: "string \<Rightarrow> ('a \<Rightarrow> gomap) \<Rightarrow> 'a \<Rightarrow> 'a \<Rightarrow> gomap \<Rightarrow> gomap" where
  "struct_omitzero k to_json zero x m = set_if (x \<noteq> zero) k (GMap (to_json x)) m"

text \<open>Reading: a missing key leaves the zero value.\<close>

definition json_string :: "string \<Rightarrow> gomap \<Rightarrow> string" where
  "json_string k m = as_string (fmlookup m k)"

definition json_int32 :: "string \<Rightarrow> gomap \<Rightarrow> int32" where
  "json_int32 k m = int32_of_int64 (as_int64 (fmlookup m k))"

definition json_bool :: "string \<Rightarrow> gomap \<Rightarrow> bool" where
  "json_bool k m = (case fmlookup m k of Some (GBool b) \<Rightarrow> b | _ \<Rightarrow> False)"

definition json_struct :: "string \<Rightarrow> (gomap \<Rightarrow> 'a) \<Rightarrow> gomap \<Rightarrow> 'a" where
  "json_struct k of_json m = of_json (case fmlookup m k of Some (GMap v) \<Rightarrow> v | _ \<Rightarrow> fmempty)"

definition json_pointer :: "string \<Rightarrow> (gomap \<Rightarrow> 'a) \<Rightarrow> gomap \<Rightarrow> 'a option" where
  "json_pointer k of_json m = (case fmlookup m k of Some (GMap v) \<Rightarrow> Some (of_json v) | _ \<Rightarrow> None)"

text \<open>The marker \<open>default=v\<close> on a field, and the markers inside a nested object, which apply only where that is present.\<close>

definition default_field :: "string \<Rightarrow> gval \<Rightarrow> gomap \<Rightarrow> gomap" where
  "default_field k v m = set_if (fmlookup m k = None) k v m"

definition default_in :: "string \<Rightarrow> (gomap \<Rightarrow> gomap) \<Rightarrow> gomap \<Rightarrow> gomap" where
  "default_in k defaults m = (case fmlookup m k of Some (GMap v) \<Rightarrow> fmupd k (GMap (defaults v)) m | _ \<Rightarrow> m)"

text \<open>The schema of a field: its type, presence of a required one, \<open>Minimum\<close>, \<open>Enum\<close>. An integer field has the format of its Go type,
  \<^verbatim>\<open>int32\<close>.\<close>

definition valid_string :: "string \<Rightarrow> gomap \<Rightarrow> bool" where
  "valid_string k m = (case fmlookup m k of None \<Rightarrow> True | Some (GStr _) \<Rightarrow> True | _ \<Rightarrow> False)"

definition valid_bool :: "string \<Rightarrow> gomap \<Rightarrow> bool" where
  "valid_bool k m = (case fmlookup m k of None \<Rightarrow> True | Some (GBool _) \<Rightarrow> True | _ \<Rightarrow> False)"

definition valid_required :: "string \<Rightarrow> gomap \<Rightarrow> bool" where
  "valid_required k m = (fmlookup m k \<noteq> None)"

definition valid_minimum :: "string \<Rightarrow> int \<Rightarrow> gomap \<Rightarrow> bool" where
  "valid_minimum k least m = (case fmlookup m k of
      None \<Rightarrow> True
    | Some (GInt i) \<Rightarrow> least \<le> sint i \<and> sint i < 2 ^ 31
    | _ \<Rightarrow> False)"

definition valid_enum :: "string \<Rightarrow> string list \<Rightarrow> gomap \<Rightarrow> bool" where
  "valid_enum k values m = (case fmlookup m k of None \<Rightarrow> True | Some (GStr s) \<Rightarrow> s \<in> set values | _ \<Rightarrow> False)"

fun is_string :: "gval \<Rightarrow> bool" where
  "is_string (GStr _) = True"
| "is_string _ = False"

definition valid_strings :: "string \<Rightarrow> gomap \<Rightarrow> bool" where
  "valid_strings k m = (case fmlookup m k of
      None \<Rightarrow> True
    | Some (GMap v) \<Rightarrow> fmpred (\<lambda>_ x. is_string x) v
    | _ \<Rightarrow> False)"

definition valid_in :: "string \<Rightarrow> (gomap \<Rightarrow> bool) \<Rightarrow> gomap \<Rightarrow> bool" where
  "valid_in k valid m = (case fmlookup m k of None \<Rightarrow> True | Some (GMap v) \<Rightarrow> valid v | _ \<Rightarrow> False)"

lemmas tag_defs = string_omitempty_def int32_omitempty_def bool_omitempty_def strings_omitempty_def pointer_omitempty_def
  struct_omitzero_def json_string_def json_int32_def json_bool_def json_struct_def json_pointer_def
  default_field_def default_in_def

lemmas marker_defs = valid_string_def valid_bool_def valid_required_def valid_minimum_def valid_enum_def valid_strings_def valid_in_def

section \<open>Shared blocks\<close>

text \<open>\<^verbatim>\<open>corev1.ResourceRequirements\<close>, a type of the Kubernetes API: both lists are optional maps of quantities in string form.\<close>

definition quantities :: "ResourceList \<Rightarrow> string_map" where
  "quantities l = fmmap quantity_String l"

definition ResourceRequirements_to_json :: "ResourceRequirements \<Rightarrow> gomap" where
  "ResourceRequirements_to_json r =
     strings_omitempty ''limits'' (quantities (Limits r)) (strings_omitempty ''requests'' (quantities (Requests r)) fmempty)"

definition ResourceRequirements_of_json :: "gomap \<Rightarrow> ResourceRequirements" where
  "ResourceRequirements_of_json m = \<lparr>Limits = decode_list (fmlookup m ''limits''), Requests = decode_list (fmlookup m ''requests'')\<rparr>"

definition no_resources :: ResourceRequirements where
  "no_resources = \<lparr>Limits = fmempty, Requests = fmempty\<rparr>"

definition ResourceRequirements_valid :: "gomap \<Rightarrow> bool" where
  "ResourceRequirements_valid m \<longleftrightarrow> valid_strings ''limits'' m \<and> valid_strings ''requests'' m"

text \<open>\<^verbatim>\<open>StorageSpec\<close>.\<close>

definition StorageSpec_to_json :: "StorageSpec \<Rightarrow> gomap" where
  "StorageSpec_to_json s =
    string_omitempty ''storageClass'' (storage_StorageClass s)
    (fmupd ''size'' (GStr (storage_Size s))
    fmempty)"

definition StorageSpec_of_json :: "gomap \<Rightarrow> StorageSpec" where
  "StorageSpec_of_json m =
    \<lparr>storage_Size = json_string ''size'' m,
     storage_StorageClass = json_string ''storageClass'' m\<rparr>"

definition StorageSpec_valid :: "gomap \<Rightarrow> bool" where
  "StorageSpec_valid m \<longleftrightarrow>
    valid_required ''size'' m \<and> valid_string ''size'' m \<and>
    valid_string ''storageClass'' m"

text \<open>\<^verbatim>\<open>DatabaseSpec\<close>.\<close>

definition DatabaseSpec_to_json :: "DatabaseSpec \<Rightarrow> gomap" where
  "DatabaseSpec_to_json s =
    fmupd ''owner'' (GStr (db_Owner s))
    (fmupd ''name'' (GStr (db_Name s))
    fmempty)"

definition DatabaseSpec_of_json :: "gomap \<Rightarrow> DatabaseSpec" where
  "DatabaseSpec_of_json m =
    \<lparr>db_Name = json_string ''name'' m,
     db_Owner = json_string ''owner'' m\<rparr>"

definition DatabaseSpec_valid :: "gomap \<Rightarrow> bool" where
  "DatabaseSpec_valid m \<longleftrightarrow>
    valid_required ''name'' m \<and> valid_string ''name'' m \<and>
    valid_required ''owner'' m \<and> valid_string ''owner'' m"

text \<open>\<^verbatim>\<open>MonitoringSpec\<close>.\<close>

definition MonitoringSpec_to_json :: "MonitoringSpec \<Rightarrow> gomap" where
  "MonitoringSpec_to_json s =
    bool_omitempty ''enablePodMonitor'' (EnablePodMonitor s)
    fmempty"

definition MonitoringSpec_of_json :: "gomap \<Rightarrow> MonitoringSpec" where
  "MonitoringSpec_of_json m =
    \<lparr>EnablePodMonitor = json_bool ''enablePodMonitor'' m\<rparr>"

definition MonitoringSpec_defaults :: "gomap \<Rightarrow> gomap" where
  "MonitoringSpec_defaults m =
    default_field ''enablePodMonitor'' (GBool True) m"

definition MonitoringSpec_valid :: "gomap \<Rightarrow> bool" where
  "MonitoringSpec_valid m \<longleftrightarrow>
    valid_bool ''enablePodMonitor'' m"

text \<open>\<^verbatim>\<open>PersistenceSpec\<close>.\<close>

definition PersistenceSpec_to_json :: "PersistenceSpec \<Rightarrow> gomap" where
  "PersistenceSpec_to_json s =
    string_omitempty ''storageClass'' (persistence_StorageClass s)
    (fmupd ''size'' (GStr (persistence_Size s))
    fmempty)"

definition PersistenceSpec_of_json :: "gomap \<Rightarrow> PersistenceSpec" where
  "PersistenceSpec_of_json m =
    \<lparr>persistence_Size = json_string ''size'' m,
     persistence_StorageClass = json_string ''storageClass'' m\<rparr>"

definition PersistenceSpec_valid :: "gomap \<Rightarrow> bool" where
  "PersistenceSpec_valid m \<longleftrightarrow>
    valid_required ''size'' m \<and> valid_string ''size'' m \<and>
    valid_string ''storageClass'' m"

text \<open>\<^verbatim>\<open>IngressSpec\<close>.\<close>

definition IngressSpec_to_json :: "IngressSpec \<Rightarrow> gomap" where
  "IngressSpec_to_json s =
    strings_omitempty ''annotations'' (ing_Annotations s)
    (string_omitempty ''tlsSecretName'' (ing_TLSSecretName s)
    (string_omitempty ''ingressClassName'' (ing_IngressClassName s)
    (fmupd ''host'' (GStr (ing_Host s))
    fmempty)))"

definition IngressSpec_of_json :: "gomap \<Rightarrow> IngressSpec" where
  "IngressSpec_of_json m =
    \<lparr>ing_Host = json_string ''host'' m,
     ing_IngressClassName = json_string ''ingressClassName'' m,
     ing_TLSSecretName = json_string ''tlsSecretName'' m,
     ing_Annotations = string_entries (fmlookup m ''annotations'')\<rparr>"

definition IngressSpec_valid :: "gomap \<Rightarrow> bool" where
  "IngressSpec_valid m \<longleftrightarrow>
    valid_required ''host'' m \<and> valid_string ''host'' m \<and>
    valid_string ''ingressClassName'' m \<and>
    valid_string ''tlsSecretName'' m \<and>
    valid_strings ''annotations'' m"

text \<open>\<^verbatim>\<open>ServiceExposeSpec\<close>.\<close>

definition ServiceExposeSpec_to_json :: "ServiceExposeSpec \<Rightarrow> gomap" where
  "ServiceExposeSpec_to_json s =
    strings_omitempty ''annotations'' (exp_Annotations s)
    (string_omitempty ''type'' (exp_Type s)
    fmempty)"

definition ServiceExposeSpec_of_json :: "gomap \<Rightarrow> ServiceExposeSpec" where
  "ServiceExposeSpec_of_json m =
    \<lparr>exp_Type = json_string ''type'' m,
     exp_Annotations = string_entries (fmlookup m ''annotations'')\<rparr>"

definition ServiceExposeSpec_defaults :: "gomap \<Rightarrow> gomap" where
  "ServiceExposeSpec_defaults m =
    default_field ''type'' (GStr ''LoadBalancer'') m"

definition ServiceExposeSpec_valid :: "gomap \<Rightarrow> bool" where
  "ServiceExposeSpec_valid m \<longleftrightarrow>
    valid_enum ''type'' [''LoadBalancer'', ''NodePort''] m \<and>
    valid_strings ''annotations'' m"

definition no_monitoring :: MonitoringSpec where
  "no_monitoring = \<lparr>EnablePodMonitor = False\<rparr>"

section \<open>The six specs\<close>

text \<open>\<^verbatim>\<open>PostgresClusterSpec\<close>.\<close>

definition PostgresClusterSpec_to_json :: "PostgresClusterSpec \<Rightarrow> gomap" where
  "PostgresClusterSpec_to_json s =
    pointer_omitempty ''expose'' ServiceExposeSpec_to_json (pg_Expose s)
    (struct_omitzero ''monitoring'' MonitoringSpec_to_json no_monitoring (pg_Monitoring s)
    (struct_omitzero ''resources'' ResourceRequirements_to_json no_resources (pg_Resources s)
    (fmupd ''database'' (GMap (DatabaseSpec_to_json (pg_Database s)))
    (fmupd ''storage'' (GMap (StorageSpec_to_json (pg_Storage s)))
    (string_omitempty ''image'' (pg_Image s)
    (int32_omitempty ''instances'' (pg_Instances s)
    fmempty))))))"

definition PostgresClusterSpec_of_json :: "gomap \<Rightarrow> PostgresClusterSpec" where
  "PostgresClusterSpec_of_json m =
    \<lparr>pg_Instances = json_int32 ''instances'' m,
     pg_Image = json_string ''image'' m,
     pg_Storage = json_struct ''storage'' StorageSpec_of_json m,
     pg_Database = json_struct ''database'' DatabaseSpec_of_json m,
     pg_Resources = json_struct ''resources'' ResourceRequirements_of_json m,
     pg_Monitoring = json_struct ''monitoring'' MonitoringSpec_of_json m,
     pg_Expose = json_pointer ''expose'' ServiceExposeSpec_of_json m\<rparr>"

definition PostgresClusterSpec_defaults :: "gomap \<Rightarrow> gomap" where
  "PostgresClusterSpec_defaults m =
    default_in ''expose'' ServiceExposeSpec_defaults
    (default_in ''monitoring'' MonitoringSpec_defaults
    (default_field ''instances'' (GInt 1) m))"

definition PostgresClusterSpec_valid :: "gomap \<Rightarrow> bool" where
  "PostgresClusterSpec_valid m \<longleftrightarrow>
    valid_minimum ''instances'' 1 m \<and>
    valid_string ''image'' m \<and>
    valid_required ''storage'' m \<and> valid_in ''storage'' StorageSpec_valid m \<and>
    valid_required ''database'' m \<and> valid_in ''database'' DatabaseSpec_valid m \<and>
    valid_in ''resources'' ResourceRequirements_valid m \<and>
    valid_in ''monitoring'' MonitoringSpec_valid m \<and>
    valid_in ''expose'' ServiceExposeSpec_valid m"

text \<open>\<^verbatim>\<open>ValkeyClusterSpec\<close>.\<close>

definition ValkeyClusterSpec_to_json :: "ValkeyClusterSpec \<Rightarrow> gomap" where
  "ValkeyClusterSpec_to_json s =
    pointer_omitempty ''expose'' ServiceExposeSpec_to_json (vk_Expose s)
    (struct_omitzero ''resources'' ResourceRequirements_to_json no_resources (vk_Resources s)
    (fmupd ''persistence'' (GMap (PersistenceSpec_to_json (vk_Persistence s)))
    (string_omitempty ''image'' (vk_Image s)
    (int32_omitempty ''replicas'' (vk_Replicas s)
    (int32_omitempty ''shards'' (vk_Shards s)
    fmempty)))))"

definition ValkeyClusterSpec_of_json :: "gomap \<Rightarrow> ValkeyClusterSpec" where
  "ValkeyClusterSpec_of_json m =
    \<lparr>vk_Shards = json_int32 ''shards'' m,
     vk_Replicas = json_int32 ''replicas'' m,
     vk_Image = json_string ''image'' m,
     vk_Persistence = json_struct ''persistence'' PersistenceSpec_of_json m,
     vk_Resources = json_struct ''resources'' ResourceRequirements_of_json m,
     vk_Expose = json_pointer ''expose'' ServiceExposeSpec_of_json m\<rparr>"

definition ValkeyClusterSpec_defaults :: "gomap \<Rightarrow> gomap" where
  "ValkeyClusterSpec_defaults m =
    default_in ''expose'' ServiceExposeSpec_defaults
    (default_field ''replicas'' (GInt 0)
    (default_field ''shards'' (GInt 1) m))"

definition ValkeyClusterSpec_valid :: "gomap \<Rightarrow> bool" where
  "ValkeyClusterSpec_valid m \<longleftrightarrow>
    valid_minimum ''shards'' 1 m \<and>
    valid_minimum ''replicas'' 0 m \<and>
    valid_string ''image'' m \<and>
    valid_required ''persistence'' m \<and> valid_in ''persistence'' PersistenceSpec_valid m \<and>
    valid_in ''resources'' ResourceRequirements_valid m \<and>
    valid_in ''expose'' ServiceExposeSpec_valid m"

text \<open>\<^verbatim>\<open>GrafanaInstanceSpec\<close>.\<close>

definition GrafanaInstanceSpec_to_json :: "GrafanaInstanceSpec \<Rightarrow> gomap" where
  "GrafanaInstanceSpec_to_json s =
    pointer_omitempty ''ingress'' IngressSpec_to_json (gf_Ingress s)
    (pointer_omitempty ''persistence'' PersistenceSpec_to_json (gf_Persistence s)
    (int32_omitempty ''replicas'' (gf_Replicas s)
    (string_omitempty ''version'' (gf_Version s)
    fmempty)))"

definition GrafanaInstanceSpec_of_json :: "gomap \<Rightarrow> GrafanaInstanceSpec" where
  "GrafanaInstanceSpec_of_json m =
    \<lparr>gf_Version = json_string ''version'' m,
     gf_Replicas = json_int32 ''replicas'' m,
     gf_Persistence = json_pointer ''persistence'' PersistenceSpec_of_json m,
     gf_Ingress = json_pointer ''ingress'' IngressSpec_of_json m\<rparr>"

definition GrafanaInstanceSpec_defaults :: "gomap \<Rightarrow> gomap" where
  "GrafanaInstanceSpec_defaults m =
    default_field ''replicas'' (GInt 1) m"

definition GrafanaInstanceSpec_valid :: "gomap \<Rightarrow> bool" where
  "GrafanaInstanceSpec_valid m \<longleftrightarrow>
    valid_string ''version'' m \<and>
    valid_minimum ''replicas'' 0 m \<and>
    valid_in ''persistence'' PersistenceSpec_valid m \<and>
    valid_in ''ingress'' IngressSpec_valid m"

text \<open>\<^verbatim>\<open>MariaDBClusterSpec\<close>.\<close>

definition MariaDBClusterSpec_to_json :: "MariaDBClusterSpec \<Rightarrow> gomap" where
  "MariaDBClusterSpec_to_json s =
    pointer_omitempty ''expose'' ServiceExposeSpec_to_json (md_Expose s)
    (struct_omitzero ''monitoring'' MonitoringSpec_to_json no_monitoring (md_Monitoring s)
    (struct_omitzero ''resources'' ResourceRequirements_to_json no_resources (md_Resources s)
    (fmupd ''database'' (GMap (DatabaseSpec_to_json (md_Database s)))
    (fmupd ''storage'' (GMap (StorageSpec_to_json (md_Storage s)))
    (string_omitempty ''image'' (md_Image s)
    (int32_omitempty ''replicas'' (md_Replicas s)
    fmempty))))))"

definition MariaDBClusterSpec_of_json :: "gomap \<Rightarrow> MariaDBClusterSpec" where
  "MariaDBClusterSpec_of_json m =
    \<lparr>md_Replicas = json_int32 ''replicas'' m,
     md_Image = json_string ''image'' m,
     md_Storage = json_struct ''storage'' StorageSpec_of_json m,
     md_Database = json_struct ''database'' DatabaseSpec_of_json m,
     md_Resources = json_struct ''resources'' ResourceRequirements_of_json m,
     md_Monitoring = json_struct ''monitoring'' MonitoringSpec_of_json m,
     md_Expose = json_pointer ''expose'' ServiceExposeSpec_of_json m\<rparr>"

definition MariaDBClusterSpec_defaults :: "gomap \<Rightarrow> gomap" where
  "MariaDBClusterSpec_defaults m =
    default_in ''expose'' ServiceExposeSpec_defaults
    (default_in ''monitoring'' MonitoringSpec_defaults
    (default_field ''replicas'' (GInt 1) m))"

definition MariaDBClusterSpec_valid :: "gomap \<Rightarrow> bool" where
  "MariaDBClusterSpec_valid m \<longleftrightarrow>
    valid_minimum ''replicas'' 1 m \<and>
    valid_string ''image'' m \<and>
    valid_required ''storage'' m \<and> valid_in ''storage'' StorageSpec_valid m \<and>
    valid_required ''database'' m \<and> valid_in ''database'' DatabaseSpec_valid m \<and>
    valid_in ''resources'' ResourceRequirements_valid m \<and>
    valid_in ''monitoring'' MonitoringSpec_valid m \<and>
    valid_in ''expose'' ServiceExposeSpec_valid m"

text \<open>\<^verbatim>\<open>RabbitMQClusterSpec\<close>.\<close>

definition RabbitMQClusterSpec_to_json :: "RabbitMQClusterSpec \<Rightarrow> gomap" where
  "RabbitMQClusterSpec_to_json s =
    pointer_omitempty ''ingress'' IngressSpec_to_json (rmq_Ingress s)
    (struct_omitzero ''resources'' ResourceRequirements_to_json no_resources (rmq_Resources s)
    (fmupd ''storage'' (GMap (StorageSpec_to_json (rmq_Storage s)))
    (string_omitempty ''image'' (rmq_Image s)
    (int32_omitempty ''replicas'' (rmq_Replicas s)
    fmempty))))"

definition RabbitMQClusterSpec_of_json :: "gomap \<Rightarrow> RabbitMQClusterSpec" where
  "RabbitMQClusterSpec_of_json m =
    \<lparr>rmq_Replicas = json_int32 ''replicas'' m,
     rmq_Image = json_string ''image'' m,
     rmq_Storage = json_struct ''storage'' StorageSpec_of_json m,
     rmq_Resources = json_struct ''resources'' ResourceRequirements_of_json m,
     rmq_Ingress = json_pointer ''ingress'' IngressSpec_of_json m\<rparr>"

definition RabbitMQClusterSpec_defaults :: "gomap \<Rightarrow> gomap" where
  "RabbitMQClusterSpec_defaults m =
    default_field ''replicas'' (GInt 1) m"

definition RabbitMQClusterSpec_valid :: "gomap \<Rightarrow> bool" where
  "RabbitMQClusterSpec_valid m \<longleftrightarrow>
    valid_minimum ''replicas'' 1 m \<and>
    valid_string ''image'' m \<and>
    valid_required ''storage'' m \<and> valid_in ''storage'' StorageSpec_valid m \<and>
    valid_in ''resources'' ResourceRequirements_valid m \<and>
    valid_in ''ingress'' IngressSpec_valid m"

text \<open>\<^verbatim>\<open>PrometheusInstanceSpec\<close>.\<close>

definition PrometheusInstanceSpec_to_json :: "PrometheusInstanceSpec \<Rightarrow> gomap" where
  "PrometheusInstanceSpec_to_json s =
    pointer_omitempty ''ingress'' IngressSpec_to_json (prom_Ingress s)
    (struct_omitzero ''resources'' ResourceRequirements_to_json no_resources (prom_Resources s)
    (pointer_omitempty ''storage'' StorageSpec_to_json (prom_Storage s)
    (string_omitempty ''retention'' (prom_Retention s)
    (int32_omitempty ''replicas'' (prom_Replicas s)
    (string_omitempty ''version'' (prom_Version s)
    fmempty)))))"

definition PrometheusInstanceSpec_of_json :: "gomap \<Rightarrow> PrometheusInstanceSpec" where
  "PrometheusInstanceSpec_of_json m =
    \<lparr>prom_Version = json_string ''version'' m,
     prom_Replicas = json_int32 ''replicas'' m,
     prom_Retention = json_string ''retention'' m,
     prom_Storage = json_pointer ''storage'' StorageSpec_of_json m,
     prom_Resources = json_struct ''resources'' ResourceRequirements_of_json m,
     prom_Ingress = json_pointer ''ingress'' IngressSpec_of_json m\<rparr>"

definition PrometheusInstanceSpec_defaults :: "gomap \<Rightarrow> gomap" where
  "PrometheusInstanceSpec_defaults m =
    default_field ''replicas'' (GInt 1) m"

definition PrometheusInstanceSpec_valid :: "gomap \<Rightarrow> bool" where
  "PrometheusInstanceSpec_valid m \<longleftrightarrow>
    valid_string ''version'' m \<and>
    valid_minimum ''replicas'' 0 m \<and>
    valid_string ''retention'' m \<and>
    valid_in ''storage'' StorageSpec_valid m \<and>
    valid_in ''resources'' ResourceRequirements_valid m \<and>
    valid_in ''ingress'' IngressSpec_valid m"

section \<open>Through the wire\<close>

text \<open>What the server stores when a client sends this spec, and whether it accepts it.\<close>

definition pg_wire :: "PostgresClusterSpec \<Rightarrow> PostgresClusterSpec" where
  "pg_wire s = PostgresClusterSpec_of_json (PostgresClusterSpec_defaults (PostgresClusterSpec_to_json s))"

definition pg_accepted :: "PostgresClusterSpec \<Rightarrow> bool" where
  "pg_accepted s \<longleftrightarrow> PostgresClusterSpec_valid (PostgresClusterSpec_defaults (PostgresClusterSpec_to_json s))"

definition vk_wire :: "ValkeyClusterSpec \<Rightarrow> ValkeyClusterSpec" where
  "vk_wire s = ValkeyClusterSpec_of_json (ValkeyClusterSpec_defaults (ValkeyClusterSpec_to_json s))"

definition vk_accepted :: "ValkeyClusterSpec \<Rightarrow> bool" where
  "vk_accepted s \<longleftrightarrow> ValkeyClusterSpec_valid (ValkeyClusterSpec_defaults (ValkeyClusterSpec_to_json s))"

definition gf_wire :: "GrafanaInstanceSpec \<Rightarrow> GrafanaInstanceSpec" where
  "gf_wire s = GrafanaInstanceSpec_of_json (GrafanaInstanceSpec_defaults (GrafanaInstanceSpec_to_json s))"

definition gf_accepted :: "GrafanaInstanceSpec \<Rightarrow> bool" where
  "gf_accepted s \<longleftrightarrow> GrafanaInstanceSpec_valid (GrafanaInstanceSpec_defaults (GrafanaInstanceSpec_to_json s))"

definition md_wire :: "MariaDBClusterSpec \<Rightarrow> MariaDBClusterSpec" where
  "md_wire s = MariaDBClusterSpec_of_json (MariaDBClusterSpec_defaults (MariaDBClusterSpec_to_json s))"

definition md_accepted :: "MariaDBClusterSpec \<Rightarrow> bool" where
  "md_accepted s \<longleftrightarrow> MariaDBClusterSpec_valid (MariaDBClusterSpec_defaults (MariaDBClusterSpec_to_json s))"

definition rmq_wire :: "RabbitMQClusterSpec \<Rightarrow> RabbitMQClusterSpec" where
  "rmq_wire s = RabbitMQClusterSpec_of_json (RabbitMQClusterSpec_defaults (RabbitMQClusterSpec_to_json s))"

definition rmq_accepted :: "RabbitMQClusterSpec \<Rightarrow> bool" where
  "rmq_accepted s \<longleftrightarrow> RabbitMQClusterSpec_valid (RabbitMQClusterSpec_defaults (RabbitMQClusterSpec_to_json s))"

definition prom_wire :: "PrometheusInstanceSpec \<Rightarrow> PrometheusInstanceSpec" where
  "prom_wire s = PrometheusInstanceSpec_of_json (PrometheusInstanceSpec_defaults (PrometheusInstanceSpec_to_json s))"

definition prom_accepted :: "PrometheusInstanceSpec \<Rightarrow> bool" where
  "prom_accepted s \<longleftrightarrow> PrometheusInstanceSpec_valid (PrometheusInstanceSpec_defaults (PrometheusInstanceSpec_to_json s))"

subsection \<open>What comes out\<close>

text \<open>Each block survives writing and reading; an expose block gets its default type.\<close>

definition unzero :: "int32 \<Rightarrow> int32 \<Rightarrow> int32" where
  "unzero d i = (if i = 0 then d else i)"

definition typed_expose :: "ServiceExposeSpec \<Rightarrow> ServiceExposeSpec" where
  "typed_expose e = e\<lparr>exp_Type := (if exp_Type e = '''' then ''LoadBalancer'' else exp_Type e)\<rparr>"

lemma lookup_tags [simp]:
  "fmlookup (string_omitempty k s m) k' = (if s \<noteq> '''' \<and> k = k' then Some (GStr s) else fmlookup m k')"
  "fmlookup (int32_omitempty k i m) k' = (if i \<noteq> 0 \<and> k = k' then Some (GInt (int64_of_int32 i)) else fmlookup m k')"
  "fmlookup (bool_omitempty k b m) k' = (if b \<and> k = k' then Some (GBool b) else fmlookup m k')"
  "fmlookup (strings_omitempty k l m) k' = (if l \<noteq> fmempty \<and> k = k' then Some (GMap (fmmap GStr l)) else fmlookup m k')"
  "fmlookup (pointer_omitempty k f x m) k' =
    (if x \<noteq> None \<and> k = k' then map_option (\<lambda>v. GMap (f v)) x else fmlookup m k')"
  "fmlookup (struct_omitzero k g z y m) k' = (if y \<noteq> z \<and> k = k' then Some (GMap (g y)) else fmlookup m k')"
  "fmlookup (default_field k v m) k' = (if fmlookup m k = None \<and> k = k' then Some v else fmlookup m k')"
  by (auto simp: tag_defs)

lemma lookup_default_in [simp]:
  "fmlookup (default_in k d m) k' =
     (if k = k' then (case fmlookup m k of Some (GMap v) \<Rightarrow> Some (GMap (d v)) | x \<Rightarrow> x) else fmlookup m k')"
  by (auto simp: default_in_def split: option.splits gval.splits)

lemma decode_quantities [simp]: "decode_list (Some (GMap (fmmap GStr (quantities l)))) = l"
  by (auto simp: decode_list_def quantities_def option.map_comp comp_def option.map_ident intro!: fmap_ext)

lemma quantities_empty [simp]: "quantities l = fmempty \<longleftrightarrow> l = fmempty"
proof
  assume "quantities l = fmempty"
  then have "map_option quantity_String (fmlookup l k) = None" for k
    by (metis fmempty_lookup fmlookup_map quantities_def)
  then show "l = fmempty" by (intro fmap_ext) simp
qed (simp add: quantities_def)

lemma blocks_survive [simp]:
  "StorageSpec_of_json (StorageSpec_to_json a) = a"
  "DatabaseSpec_of_json (DatabaseSpec_to_json b) = b"
  "PersistenceSpec_of_json (PersistenceSpec_to_json p) = p"
  "IngressSpec_of_json (IngressSpec_to_json i) = i"
  "ResourceRequirements_of_json (ResourceRequirements_to_json r) = r"
  by (simp_all add: StorageSpec_of_json_def StorageSpec_to_json_def DatabaseSpec_of_json_def DatabaseSpec_to_json_def
    PersistenceSpec_of_json_def PersistenceSpec_to_json_def IngressSpec_of_json_def IngressSpec_to_json_def
    ResourceRequirements_of_json_def ResourceRequirements_to_json_def json_string_def)

lemma expose_survives [simp]:
  "ServiceExposeSpec_of_json (ServiceExposeSpec_defaults (ServiceExposeSpec_to_json e)) = typed_expose e"
  by (simp add: ServiceExposeSpec_of_json_def ServiceExposeSpec_to_json_def ServiceExposeSpec_defaults_def json_string_def
    typed_expose_def)

lemma monitoring_survives [simp]:
  "x \<noteq> no_monitoring \<Longrightarrow> MonitoringSpec_of_json (MonitoringSpec_defaults (MonitoringSpec_to_json x)) = x"
  "MonitoringSpec_of_json fmempty = no_monitoring"
  by (cases x; simp add: MonitoringSpec_of_json_def MonitoringSpec_to_json_def MonitoringSpec_defaults_def json_bool_def
    no_monitoring_def)+

lemma nothing_read [simp]: "ResourceRequirements_of_json fmempty = no_resources"
  by (simp add: ResourceRequirements_of_json_def no_resources_def)

lemma pointers_survive [simp]:
  "json_pointer k f (pointer_omitempty k g x m) =
     (case x of None \<Rightarrow> json_pointer k f m | Some v \<Rightarrow> Some (f (g v)))"
  by (simp add: json_pointer_def split: option.splits)

lemmas spec_json_defs =
  PostgresClusterSpec_of_json_def PostgresClusterSpec_to_json_def PostgresClusterSpec_defaults_def
  ValkeyClusterSpec_of_json_def ValkeyClusterSpec_to_json_def ValkeyClusterSpec_defaults_def
  GrafanaInstanceSpec_of_json_def GrafanaInstanceSpec_to_json_def GrafanaInstanceSpec_defaults_def
  MariaDBClusterSpec_of_json_def MariaDBClusterSpec_to_json_def MariaDBClusterSpec_defaults_def
  RabbitMQClusterSpec_of_json_def RabbitMQClusterSpec_to_json_def RabbitMQClusterSpec_defaults_def
  PrometheusInstanceSpec_of_json_def PrometheusInstanceSpec_to_json_def PrometheusInstanceSpec_defaults_def

lemmas readers = json_string_def json_int32_def json_struct_def json_pointer_def

lemma default_counts [simp]: "int32_of_int64 1 = 1" "int32_of_int64 0 = 0"
  by (simp_all add: int32_of_int64_def)

lemma pg_wire_eq: "pg_wire s = s\<lparr>pg_Instances := unzero 1 (pg_Instances s), pg_Expose := map_option typed_expose (pg_Expose s)\<rparr>"
  by (cases s) (auto simp: pg_wire_def spec_json_defs readers unzero_def split: option.splits)

lemma vk_wire_eq: "vk_wire s = s\<lparr>vk_Shards := unzero 1 (vk_Shards s), vk_Expose := map_option typed_expose (vk_Expose s)\<rparr>"
  by (cases s) (auto simp: vk_wire_def spec_json_defs readers unzero_def split: option.splits)

lemma gf_wire_eq: "gf_wire s = s\<lparr>gf_Replicas := unzero 1 (gf_Replicas s)\<rparr>"
  by (cases s) (auto simp: gf_wire_def spec_json_defs readers unzero_def split: option.splits)

lemma md_wire_eq: "md_wire s = s\<lparr>md_Replicas := unzero 1 (md_Replicas s), md_Expose := map_option typed_expose (md_Expose s)\<rparr>"
  by (cases s) (auto simp: md_wire_def spec_json_defs readers unzero_def split: option.splits)

lemma rmq_wire_eq: "rmq_wire s = s\<lparr>rmq_Replicas := unzero 1 (rmq_Replicas s)\<rparr>"
  by (cases s) (auto simp: rmq_wire_def spec_json_defs readers unzero_def split: option.splits)

lemma prom_wire_eq: "prom_wire s = s\<lparr>prom_Replicas := unzero 1 (prom_Replicas s)\<rparr>"
  by (cases s) (auto simp: prom_wire_def spec_json_defs readers unzero_def split: option.splits)

lemmas wire_eqs = pg_wire_eq vk_wire_eq gf_wire_eq md_wire_eq rmq_wire_eq prom_wire_eq

subsection \<open>What the server accepts\<close>

text \<open>The JSON of a CR as a user sends it is filled in, checked and stored; these are the specs the operator meets.\<close>

lemma accepted_count:
  assumes "valid_minimum k least m" and "fmlookup m k \<noteq> None" and "0 \<le> least"
  shows "least \<le> sint (json_int32 k m)"
proof -
  from assms obtain i where i: "fmlookup m k = Some (GInt i)" "least \<le> sint i" "sint i < 2 ^ 31"
    by (auto simp: valid_minimum_def split: option.splits gval.splits)
  with assms(3) show ?thesis by (simp add: json_int32_def sint_int32_of_int64)
qed

lemma unzero_id: "0 < sint i \<Longrightarrow> unzero d i = i"
  by (auto simp: unzero_def)

lemma accepted_expose:
  assumes "valid_in k ServiceExposeSpec_valid (default_in k ServiceExposeSpec_defaults m)"
  shows "map_option typed_expose (json_pointer k ServiceExposeSpec_of_json (default_in k ServiceExposeSpec_defaults m)) =
    json_pointer k ServiceExposeSpec_of_json (default_in k ServiceExposeSpec_defaults m)"
  using assms
  by (auto simp: valid_in_def ServiceExposeSpec_valid_def valid_enum_def ServiceExposeSpec_defaults_def json_pointer_def
    ServiceExposeSpec_of_json_def typed_expose_def json_string_def split: option.splits gval.splits if_splits)

lemma pg_stored:
  assumes "PostgresClusterSpec_valid (PostgresClusterSpec_defaults m)"
  defines "s \<equiv> PostgresClusterSpec_of_json (PostgresClusterSpec_defaults m)"
  shows "1 \<le> sint (pg_Instances s)" and "pg_wire s = s"
proof -
  let ?d = "PostgresClusterSpec_defaults m"
  show 1: "1 \<le> sint (pg_Instances s)"
    using assms(1) accepted_count [of "''instances''" 1 ?d]
    by (simp add: s_def PostgresClusterSpec_of_json_def PostgresClusterSpec_valid_def PostgresClusterSpec_defaults_def)
  have "map_option typed_expose (pg_Expose s) = pg_Expose s"
    using assms(1) accepted_expose
    by (simp add: s_def PostgresClusterSpec_of_json_def PostgresClusterSpec_valid_def PostgresClusterSpec_defaults_def)
  with 1 show "pg_wire s = s" by (simp add: pg_wire_eq unzero_id)
qed

lemma vk_stored:
  assumes "ValkeyClusterSpec_valid (ValkeyClusterSpec_defaults m)"
  defines "s \<equiv> ValkeyClusterSpec_of_json (ValkeyClusterSpec_defaults m)"
  shows "1 \<le> sint (vk_Shards s)" and "vk_wire s = s"
proof -
  let ?d = "ValkeyClusterSpec_defaults m"
  show 1: "1 \<le> sint (vk_Shards s)"
    using assms(1) accepted_count [of "''shards''" 1 ?d]
    by (simp add: s_def ValkeyClusterSpec_of_json_def ValkeyClusterSpec_valid_def ValkeyClusterSpec_defaults_def)
  have "map_option typed_expose (vk_Expose s) = vk_Expose s"
    using assms(1) accepted_expose
    by (simp add: s_def ValkeyClusterSpec_of_json_def ValkeyClusterSpec_valid_def ValkeyClusterSpec_defaults_def)
  with 1 show "vk_wire s = s" by (simp add: vk_wire_eq unzero_id)
qed

lemma md_stored:
  assumes "MariaDBClusterSpec_valid (MariaDBClusterSpec_defaults m)"
  defines "s \<equiv> MariaDBClusterSpec_of_json (MariaDBClusterSpec_defaults m)"
  shows "1 \<le> sint (md_Replicas s)" and "md_wire s = s"
proof -
  let ?d = "MariaDBClusterSpec_defaults m"
  show 1: "1 \<le> sint (md_Replicas s)"
    using assms(1) accepted_count [of "''replicas''" 1 ?d]
    by (simp add: s_def MariaDBClusterSpec_of_json_def MariaDBClusterSpec_valid_def MariaDBClusterSpec_defaults_def)
  have "map_option typed_expose (md_Expose s) = md_Expose s"
    using assms(1) accepted_expose
    by (simp add: s_def MariaDBClusterSpec_of_json_def MariaDBClusterSpec_valid_def MariaDBClusterSpec_defaults_def)
  with 1 show "md_wire s = s" by (simp add: md_wire_eq unzero_id)
qed

lemma rmq_stored:
  assumes "RabbitMQClusterSpec_valid (RabbitMQClusterSpec_defaults m)"
  defines "s \<equiv> RabbitMQClusterSpec_of_json (RabbitMQClusterSpec_defaults m)"
  shows "1 \<le> sint (rmq_Replicas s)" and "rmq_wire s = s"
proof -
  show 1: "1 \<le> sint (rmq_Replicas s)"
    using assms(1) accepted_count [of "''replicas''" 1 "RabbitMQClusterSpec_defaults m"]
    by (simp add: s_def RabbitMQClusterSpec_of_json_def RabbitMQClusterSpec_valid_def RabbitMQClusterSpec_defaults_def)
  then show "rmq_wire s = s" by (simp add: rmq_wire_eq unzero_id)
qed

lemma gf_stored:
  assumes "GrafanaInstanceSpec_valid (GrafanaInstanceSpec_defaults m)"
  defines "s \<equiv> GrafanaInstanceSpec_of_json (GrafanaInstanceSpec_defaults m)"
  shows "0 \<le> sint (gf_Replicas s)" and "gf_Replicas s \<noteq> 0 \<Longrightarrow> gf_wire s = s"
proof -
  show "0 \<le> sint (gf_Replicas s)"
    using assms(1) accepted_count [of "''replicas''" 0 "GrafanaInstanceSpec_defaults m"]
    by (simp add: s_def GrafanaInstanceSpec_of_json_def GrafanaInstanceSpec_valid_def GrafanaInstanceSpec_defaults_def)
  show "gf_wire s = s" if "gf_Replicas s \<noteq> 0"
    using that by (simp add: gf_wire_eq unzero_def)
qed

lemma prom_stored:
  assumes "PrometheusInstanceSpec_valid (PrometheusInstanceSpec_defaults m)"
  defines "s \<equiv> PrometheusInstanceSpec_of_json (PrometheusInstanceSpec_defaults m)"
  shows "0 \<le> sint (prom_Replicas s)" and "prom_Replicas s \<noteq> 0 \<Longrightarrow> prom_wire s = s"
proof -
  show "0 \<le> sint (prom_Replicas s)"
    using assms(1) accepted_count [of "''replicas''" 0 "PrometheusInstanceSpec_defaults m"]
    by (simp add: s_def PrometheusInstanceSpec_of_json_def PrometheusInstanceSpec_valid_def PrometheusInstanceSpec_defaults_def)
  show "prom_wire s = s" if "prom_Replicas s \<noteq> 0"
    using that by (simp add: prom_wire_eq unzero_def)
qed

text \<open>What the operator sends is accepted in turn: it has the types, the required fields and the ranges of the schema.\<close>

lemma int32_below [simp]: "sint (x :: int32) < 2147483648"
  using sint_less [of x] by simp

lemma valid_field_simps [simp]:
  "valid_minimum k n (int32_omitempty k i m) = (if i = 0 then valid_minimum k n m else n \<le> sint i)"
  "StorageSpec_valid (StorageSpec_to_json a)"
  "DatabaseSpec_valid (DatabaseSpec_to_json b)"
  "PersistenceSpec_valid (PersistenceSpec_to_json p)"
  "IngressSpec_valid (IngressSpec_to_json i')"
  "ResourceRequirements_valid (ResourceRequirements_to_json r)"
  "MonitoringSpec_valid (MonitoringSpec_defaults (MonitoringSpec_to_json x))"
  "ServiceExposeSpec_valid (ServiceExposeSpec_defaults (ServiceExposeSpec_to_json e)) \<longleftrightarrow>
     exp_Type (typed_expose e) \<in> set [''LoadBalancer'', ''NodePort'']"
  by (auto simp: marker_defs StorageSpec_valid_def StorageSpec_to_json_def DatabaseSpec_valid_def DatabaseSpec_to_json_def
    PersistenceSpec_valid_def PersistenceSpec_to_json_def IngressSpec_valid_def IngressSpec_to_json_def
    ResourceRequirements_valid_def ResourceRequirements_to_json_def MonitoringSpec_valid_def MonitoringSpec_defaults_def
    MonitoringSpec_to_json_def ServiceExposeSpec_valid_def ServiceExposeSpec_defaults_def ServiceExposeSpec_to_json_def
    typed_expose_def split: option.splits)

lemma pg_accepted_iff: "pg_accepted s \<longleftrightarrow> 1 \<le> sint (unzero 1 (pg_Instances s)) \<and> (\<forall>e. pg_Expose s = Some e \<longrightarrow> exp_Type (typed_expose e) \<in> set [''LoadBalancer'', ''NodePort''])"
  by (auto simp: pg_accepted_def PostgresClusterSpec_valid_def spec_json_defs marker_defs unzero_def split: option.splits)

lemma vk_accepted_iff: "vk_accepted s \<longleftrightarrow> 1 \<le> sint (unzero 1 (vk_Shards s)) \<and> 0 \<le> sint (vk_Replicas s) \<and> (\<forall>e. vk_Expose s = Some e \<longrightarrow> exp_Type (typed_expose e) \<in> set [''LoadBalancer'', ''NodePort''])"
  by (auto simp: vk_accepted_def ValkeyClusterSpec_valid_def spec_json_defs marker_defs unzero_def split: option.splits)

lemma gf_accepted_iff: "gf_accepted s \<longleftrightarrow> 0 \<le> sint (gf_Replicas s)"
  by (auto simp: gf_accepted_def GrafanaInstanceSpec_valid_def spec_json_defs marker_defs unzero_def split: option.splits)

lemma md_accepted_iff: "md_accepted s \<longleftrightarrow> 1 \<le> sint (unzero 1 (md_Replicas s)) \<and> (\<forall>e. md_Expose s = Some e \<longrightarrow> exp_Type (typed_expose e) \<in> set [''LoadBalancer'', ''NodePort''])"
  by (auto simp: md_accepted_def MariaDBClusterSpec_valid_def spec_json_defs marker_defs unzero_def split: option.splits)

lemma rmq_accepted_iff: "rmq_accepted s \<longleftrightarrow> 1 \<le> sint (unzero 1 (rmq_Replicas s))"
  by (auto simp: rmq_accepted_def RabbitMQClusterSpec_valid_def spec_json_defs marker_defs unzero_def split: option.splits)

lemma prom_accepted_iff: "prom_accepted s \<longleftrightarrow> 0 \<le> sint (prom_Replicas s)"
  by (auto simp: prom_accepted_def PrometheusInstanceSpec_valid_def spec_json_defs marker_defs unzero_def split: option.splits)

lemma accepted_type:
  assumes "valid_in k ServiceExposeSpec_valid (default_in k ServiceExposeSpec_defaults m)"
    and "json_pointer k ServiceExposeSpec_of_json (default_in k ServiceExposeSpec_defaults m) = Some e"
  shows "exp_Type e \<in> set [''LoadBalancer'', ''NodePort''] \<and> exp_Type (typed_expose e) = exp_Type e"
  using assms
  by (auto simp: valid_in_def ServiceExposeSpec_valid_def valid_enum_def ServiceExposeSpec_defaults_def json_pointer_def
    ServiceExposeSpec_of_json_def typed_expose_def json_string_def split: option.splits gval.splits if_splits)

lemma rmq_stored_accepted: "RabbitMQClusterSpec_valid (RabbitMQClusterSpec_defaults m) \<Longrightarrow>
    rmq_accepted (RabbitMQClusterSpec_of_json (RabbitMQClusterSpec_defaults m))"
  using rmq_stored(1) [of m] by (simp add: rmq_accepted_iff unzero_id)

lemma gf_stored_accepted: "GrafanaInstanceSpec_valid (GrafanaInstanceSpec_defaults m) \<Longrightarrow>
    gf_accepted (GrafanaInstanceSpec_of_json (GrafanaInstanceSpec_defaults m))"
  using gf_stored(1) [of m] by (simp add: gf_accepted_iff)

lemma prom_stored_accepted: "PrometheusInstanceSpec_valid (PrometheusInstanceSpec_defaults m) \<Longrightarrow>
    prom_accepted (PrometheusInstanceSpec_of_json (PrometheusInstanceSpec_defaults m))"
  using prom_stored(1) [of m] by (simp add: prom_accepted_iff)

lemma pg_stored_accepted: "PostgresClusterSpec_valid (PostgresClusterSpec_defaults m) \<Longrightarrow>
    pg_accepted (PostgresClusterSpec_of_json (PostgresClusterSpec_defaults m))"
  using pg_stored(1) [of m] accepted_type [of "''expose''"]
  by (fastforce simp: pg_accepted_iff unzero_id PostgresClusterSpec_of_json_def PostgresClusterSpec_valid_def PostgresClusterSpec_defaults_def)

lemma md_stored_accepted: "MariaDBClusterSpec_valid (MariaDBClusterSpec_defaults m) \<Longrightarrow>
    md_accepted (MariaDBClusterSpec_of_json (MariaDBClusterSpec_defaults m))"
  using md_stored(1) [of m] accepted_type [of "''expose''"]
  by (fastforce simp: md_accepted_iff unzero_id MariaDBClusterSpec_of_json_def MariaDBClusterSpec_valid_def MariaDBClusterSpec_defaults_def)

lemma vk_stored_accepted: "ValkeyClusterSpec_valid (ValkeyClusterSpec_defaults m) \<Longrightarrow>
    vk_accepted (ValkeyClusterSpec_of_json (ValkeyClusterSpec_defaults m))"
  using vk_stored(1) [of m] accepted_type [of "''expose''"] accepted_count [of "''replicas''" 0 "ValkeyClusterSpec_defaults m"]
  by (fastforce simp: vk_accepted_iff unzero_id ValkeyClusterSpec_of_json_def ValkeyClusterSpec_valid_def ValkeyClusterSpec_defaults_def)

end
