(* ===== verification/Ref_Server.thy ===== *)
theory Ref_Server
  imports Controllers Engine_Liveness Api_Json
begin

text \<open>
  A reference API server in memory, and the interpretation of the server contract of \<open>Kube_Api\<close> on it
  for all six controllers: the contract can hold, and the theorems about convergence and
  cleanup have concrete runs.
\<close>

record ('spec, 'status) server =
  srv_crs :: "NamespacedName \<Rightarrow> ('spec, 'status) paas_object option"
  srv_objs :: "object_key \<Rightarrow> unstructured option"
  srv_clock :: time
  srv_events :: "event list"

abbreviation not_found :: gerror where "not_found \<equiv> StatusError ''NotFound''"

text \<open>A CR is stored under its own name.\<close>

definition server_cr :: "NamespacedName \<Rightarrow> ('spec, 'status) server \<Rightarrow> ('spec, 'status) paas_object option" where
  "server_cr n w = (case srv_crs w n of
      Some cr \<Rightarrow> (if (cr_namespace cr, cr_name cr) = n then Some cr else None)
    | None \<Rightarrow> None)"

definition server_obj :: "object_key \<Rightarrow> ('spec, 'status) server \<Rightarrow> unstructured option" where
  "server_obj k w = srv_objs w k"

definition server_live :: "object_key \<Rightarrow> ('spec, 'status) server \<Rightarrow> bool" where
  "server_live k w \<longleftrightarrow> srv_objs w k \<noteq> None"

definition put_cr :: "('spec, 'status) paas_object \<Rightarrow> ('spec, 'status) server \<Rightarrow> ('spec, 'status) server" where
  "put_cr cr w = w\<lparr>srv_crs := (srv_crs w)((cr_namespace cr, cr_name cr) := Some cr)\<rparr>"

text \<open>Applying keeps the fields of the stored object that the applied one does not have.\<close>

definition merged :: "unstructured option \<Rightarrow> unstructured \<Rightarrow> unstructured" where
  "merged old u = (case old of None \<Rightarrow> u | Some o' \<Rightarrow> u\<lparr>Object := Object o' ++\<^sub>f Object u\<rparr>)"

definition ref_client :: "('spec \<Rightarrow> 'spec) \<Rightarrow> (('spec, 'status) server, ('spec, 'status) paas_object) Client" where
  "ref_client wire = \<lparr>
     Client_Get = (\<lambda>n w. (case server_cr n w of None \<Rightarrow> Inl not_found | Some cr \<Rightarrow> Inr cr, w)),
     Client_GetUnstructured = (\<lambda>n u w.
       (case srv_objs w (GetGroupVersionKind ref_libs u, n) of None \<Rightarrow> Inl not_found | Some x \<Rightarrow> Inr x, w)),
     Client_Apply = (\<lambda>u owner force w.
       let k = key_of ref_libs u; x = merged (srv_objs w k) u in (Inr x, w\<lparr>srv_objs := (srv_objs w)(k := Some x)\<rparr>)),
     Client_Delete = (\<lambda>u w.
       let k = key_of ref_libs u
       in case srv_objs w k of
            None \<Rightarrow> (Some not_found, w)
          | Some _ \<Rightarrow> (None, w\<lparr>srv_objs := (srv_objs w)(k := None)\<rparr>)),
     Client_Update = (\<lambda>cr w.
       case server_cr (cr_namespace cr, cr_name cr) w of
         None \<Rightarrow> (Inl not_found, w)
       | Some old \<Rightarrow>
           if meta_DeletionTimestamp (ObjectMeta cr) \<noteq> None \<and> meta_Finalizers (ObjectMeta cr) = []
           then (Inr cr, w\<lparr>srv_crs := (srv_crs w)((cr_namespace cr, cr_name cr) := None)\<rparr>)
           else (Inr cr, put_cr (cr\<lparr>Spec := wire (Spec cr), Status := Status old\<rparr>) w)),
     Client_StatusUpdate = (\<lambda>cr w.
       case server_cr (cr_namespace cr, cr_name cr) w of
         None \<Rightarrow> (Inl not_found, w)
       | Some old \<Rightarrow> (Inr cr, put_cr (old\<lparr>Status := Status cr\<rparr>) w)),
     Client_Now = srv_clock\<rparr>"

definition ref_recorder :: "event \<Rightarrow> ('spec, 'status) server \<Rightarrow> ('spec, 'status) server" where
  "ref_recorder e w = w\<lparr>srv_events := srv_events w @ [e]\<rparr>"

lemmas server_defs = server_cr_def server_obj_def server_live_def put_cr_def ref_recorder_def

lemma covers_merged: "covers u (merged old u)"
proof -
  have "path_lookup (Object (merged old u)) ks = Some v" if "path_lookup (Object u) ks = Some v" "is_scalar v" for ks v
    using that
    by (cases ks) (auto simp: merged_def path_lookup.simps(2) split: option.splits if_splits gval.splits)
  then show ?thesis by (auto simp: covers_def)
qed

lemma server_cr_name: "server_cr n w = Some cr \<Longrightarrow> (cr_namespace cr, cr_name cr) = n"
  by (auto simp: server_cr_def split: option.splits if_splits)

text \<open>What each call does, one rule per call.\<close>

lemma ref_get: "Client_Get (ref_client wire) n w = (a, w') \<longleftrightarrow>
    w' = w \<and> a = (case server_cr n w of None \<Rightarrow> Inl not_found | Some cr \<Rightarrow> Inr cr)"
  by (auto simp: ref_client_def)

lemma ref_look: "Client_GetUnstructured (ref_client wire) n u w = (b, w') \<longleftrightarrow>
    w' = w \<and> b = (case srv_objs w (GetGroupVersionKind ref_libs u, n) of None \<Rightarrow> Inl not_found | Some x \<Rightarrow> Inr x)"
  by (auto simp: ref_client_def)

lemma ref_apply: "Client_Apply (ref_client wire) u f force w = (b, w') \<longleftrightarrow>
    b = Inr (merged (srv_objs w (key_of ref_libs u)) u) \<and>
    w' = w\<lparr>srv_objs := (srv_objs w)(key_of ref_libs u := Some (merged (srv_objs w (key_of ref_libs u)) u))\<rparr>"
  by (auto simp: ref_client_def Let_def)

lemma ref_delete: "Client_Delete (ref_client wire) u w = (d, w') \<longleftrightarrow>
    (if srv_objs w (key_of ref_libs u) = None then d = Some not_found \<and> w' = w
     else d = None \<and> w' = w\<lparr>srv_objs := (srv_objs w)(key_of ref_libs u := None)\<rparr>)"
  by (auto simp: ref_client_def Let_def split: option.splits)

lemma ref_update_objs: "Client_Update (ref_client wire) cr w = (a, w') \<Longrightarrow> srv_objs w' = srv_objs w"
  by (auto simp: ref_client_def put_cr_def split: option.splits if_splits)

lemma ref_status_objs: "Client_StatusUpdate (ref_client wire) cr w = (a, w') \<Longrightarrow> srv_objs w' = srv_objs w"
  by (auto simp: ref_client_def put_cr_def split: option.splits if_splits)

lemma ref_update: "Client_Update (ref_client wire) cr w = (Inr cr', w') \<Longrightarrow>
    server_cr (cr_namespace cr, cr_name cr) w' =
      (if meta_DeletionTimestamp (ObjectMeta cr) \<noteq> None \<and> meta_Finalizers (ObjectMeta cr) = [] then None
       else Some (cr\<lparr>Spec := wire (Spec cr), Status := Status (the (server_cr (cr_namespace cr, cr_name cr) w))\<rparr>))"
  by (auto simp: ref_client_def put_cr_def server_cr_def split: option.splits if_splits)

lemma ref_status:
  assumes "Client_StatusUpdate (ref_client wire) cr w = (Inr cr', w')"
  shows "\<exists>x y. server_cr (cr_namespace cr, cr_name cr) w = Some y \<and> server_cr (cr_namespace cr, cr_name cr) w' = Some x \<and>
    Status x = Status cr \<and> same_but_status x y"
proof -
  from assms obtain old where old: "server_cr (cr_namespace cr, cr_name cr) w = Some old"
    and w': "w' = put_cr (old\<lparr>Status := Status cr\<rparr>) w"
    by (auto simp: ref_client_def split: option.splits)
  from server_cr_name [OF old] w' old show ?thesis
    by (auto simp: put_cr_def server_cr_def same_but_status_def)
qed

lemma ref_not_found: "IsNotFound ref_libs (Some not_found)"
  by (simp add: ref_libs_def)

lemma server_frame: "server_cr m (w\<lparr>srv_objs := x\<rparr>) = server_cr m w" "server_cr m (w\<lparr>srv_events := y\<rparr>) = server_cr m w"
  by (simp_all add: server_cr_def)

interpretation ref_server: kube_api ref_libs "ref_client wire" ref_recorder server_cr server_obj server_live wire for wire
proof
  fix wire and cr :: "('a, 'b) paas_object" and cr' w w'
  assume U: "Client_Update (ref_client wire) cr w = (Inr cr', w')"
  show "(\<forall>x. server_cr (cr_namespace cr, cr_name cr) w' = Some x \<longrightarrow>
      meta_Finalizers (ObjectMeta x) = meta_Finalizers (ObjectMeta cr) \<and>
      meta_DeletionTimestamp (ObjectMeta x) = meta_DeletionTimestamp (ObjectMeta cr) \<and> Spec x = wire (Spec cr)) \<and>
    (meta_Finalizers (ObjectMeta cr) \<noteq> [] \<longrightarrow> server_cr (cr_namespace cr, cr_name cr) w' \<noteq> None)"
    using ref_update [OF U] by auto
next
  fix wire and cr :: "('a, 'b) paas_object" and cr' w w'
  assume "Client_StatusUpdate (ref_client wire) cr w = (Inr cr', w')"
  then show "\<exists>x y. server_cr (cr_namespace cr, cr_name cr) w = Some y \<and> server_cr (cr_namespace cr, cr_name cr) w' = Some x \<and>
      Status x = Status cr \<and> same_but_status x y"
    by (rule ref_status)
qed (auto simp: ref_get ref_look ref_apply ref_delete covers_merged server_obj_def server_live_def ref_recorder_def
    server_frame ref_not_found dest: ref_update_objs ref_status_objs server_cr_name split: option.splits if_splits)

text \<open>The server answers every call.\<close>

lemma ref_client_answers:
  "server_cr n w = Some cr \<Longrightarrow> fst (Client_Get (ref_client wire) n w) = Inr cr"
  "fst (Client_GetUnstructured (ref_client wire) n u w) = Inl e \<Longrightarrow> IsNotFound ref_libs (Some e)"
  "\<exists>u'. fst (Client_Apply (ref_client wire) u f True w) = Inr u'"
  "fst (Client_Delete (ref_client wire) u w) = None \<or> IsNotFound ref_libs (fst (Client_Delete (ref_client wire) u w))"
  "server_cr (cr_namespace x, cr_name x) w = Some cr \<Longrightarrow> \<exists>y. fst (Client_Update (ref_client wire) x w) = Inr y"
  "server_cr (cr_namespace x, cr_name x) w = Some cr \<Longrightarrow> \<exists>y. fst (Client_StatusUpdate (ref_client wire) x w) = Inr y"
  by (auto simp: ref_client_def Let_def ref_not_found split: option.splits)

interpretation pg_server: available_engine ref_libs "cnpg_Adapter ref_libs" "\<lambda>_. []" cnpg_view
  "ref_client pg_wire" ref_recorder server_cr server_obj server_live pg_wire
  "NewPostgresClusterReconciler ref_libs (ref_client pg_wire) ref_recorder"
  by unfold_locales (auto simp: controller_defs ref_client_answers)

interpretation vk_server: available_engine ref_libs "valkey_Adapter ref_libs" "\<lambda>t. [(valkey_externalServiceGVK, t @ ''-external'')]" valkey_view
  "ref_client vk_wire" ref_recorder server_cr server_obj server_live vk_wire
  "NewValkeyClusterReconciler ref_libs (ref_client vk_wire) ref_recorder"
  by unfold_locales (auto simp: controller_defs ref_client_answers)

interpretation gf_server: available_engine ref_libs "grafana_Adapter ref_libs" "\<lambda>_. []" grafana_view
  "ref_client gf_wire" ref_recorder server_cr server_obj server_live gf_wire
  "NewGrafanaInstanceReconciler ref_libs (ref_client gf_wire) ref_recorder"
  by unfold_locales (auto simp: controller_defs ref_client_answers)

interpretation md_server: available_engine ref_libs "mariadb_Adapter ref_libs" "\<lambda>_. []" mariadb_view
  "ref_client md_wire" ref_recorder server_cr server_obj server_live md_wire
  "NewMariaDBClusterReconciler ref_libs (ref_client md_wire) ref_recorder"
  by unfold_locales (auto simp: controller_defs ref_client_answers)

interpretation rmq_server: available_engine ref_libs "rabbitmq_Adapter ref_libs" "\<lambda>t. [(ingress_GVK, t @ ''-ingress'')]" rabbitmq_view
  "ref_client rmq_wire" ref_recorder server_cr server_obj server_live rmq_wire
  "NewRabbitMQClusterReconciler ref_libs (ref_client rmq_wire) ref_recorder"
  by unfold_locales (auto simp: controller_defs ref_client_answers)

interpretation prom_server: available_engine ref_libs "prometheus_Adapter ref_libs" "\<lambda>t. [(prometheus_serviceGVK, t @ ''-web''), (ingress_GVK, t @ ''-ingress'')]" prometheus_view
  "ref_client prom_wire" ref_recorder server_cr server_obj server_live prom_wire
  "NewPrometheusInstanceReconciler ref_libs (ref_client prom_wire) ref_recorder"
  by unfold_locales (auto simp: controller_defs ref_client_answers)

end
