(* ===== verification/Engine_Properties.thy ===== *)
theory Engine_Properties
  imports Ref_Server
begin

text \<open>
  The properties of the reconciliation engine, for any adapter, any client and any world. Each is stated
  over \<open>calls\<close>, the calls one \<open>Reconcile\<close> makes, or over the store of an API server. The
  witnesses run the Valkey controller on the reference server.
\<close>

section \<open>Inputs of the witnesses\<close>

definition demo_meta :: "time option \<Rightarrow> string list \<Rightarrow> object_meta" where
  "demo_meta deleted finalizers = \<lparr>meta_Name = ''cache'', meta_Namespace = ''shop'', meta_Generation = 2,
     meta_DeletionTimestamp = deleted, meta_Finalizers = finalizers\<rparr>"

definition demo_expose :: ServiceExposeSpec where
  "demo_expose = \<lparr>exp_Type = ''LoadBalancer'', exp_Annotations = fmempty\<rparr>"

definition demo_vk :: "time option \<Rightarrow> string list \<Rightarrow> ServiceExposeSpec option \<Rightarrow> ValkeyCluster" where
  "demo_vk deleted finalizers expose = \<lparr>ObjectMeta = demo_meta deleted finalizers,
     Spec = \<lparr>vk_Shards = 3, vk_Replicas = 1, vk_Image = '''',
       vk_Persistence = \<lparr>persistence_Size = ''1Gi'', persistence_StorageClass = ''''\<rparr>,
       vk_Resources = \<lparr>Limits = fmempty, Requests = fmempty\<rparr>, vk_Expose = expose\<rparr>,
     Status = \<lparr>vkst_Ready = False, vkst_Phase = '''', vkst_Shards = 0, vkst_ReadyShards = 0, vkst_Message = '''',
       vkst_Conditions = []\<rparr>\<rparr>"

definition demo_world :: "('spec, 'status) paas_object \<Rightarrow> ('spec, 'status) server" where
  "demo_world cr = \<lparr>srv_crs = (\<lambda>_. None)((cr_namespace cr, cr_name cr) := Some cr), srv_objs = (\<lambda>_. None),
     srv_clock = 100, srv_events = []\<rparr>"

text \<open>The same with a Valkey cluster that reports all its shards ready.\<close>

definition demo_ready_world :: "(ValkeyClusterSpec, ValkeyClusterStatus) server" where
  "demo_ready_world = (demo_world (demo_vk None [FinalizerName] None))\<lparr>srv_objs :=
     (\<lambda>_. None)((valkey_GVK, ''shop'', ''cache'') := Some \<lparr>Object = fmap_of_list [(''status'', gomap_of
       [(''state'', GStr ''Ready''), (''shards'', GInt 3), (''readyShards'', GInt 3)])]\<rparr>)\<rparr>"

abbreviation demo_req :: NamespacedName where "demo_req \<equiv> (''shop'', ''cache'')"

abbreviation demo_r :: "((ValkeyClusterSpec, ValkeyClusterStatus) server, ValkeyClusterSpec, ValkeyClusterStatus) GenericReconciler" where
  "demo_r \<equiv> NewValkeyClusterReconciler ref_libs (ref_client vk_wire) ref_recorder"

abbreviation demo_terminating :: "(ValkeyClusterSpec, ValkeyClusterStatus) server" where
  "demo_terminating \<equiv> demo_world (demo_vk (Some 5) [FinalizerName] None)"

abbreviation demo_live :: "(ValkeyClusterSpec, ValkeyClusterStatus) server" where
  "demo_live \<equiv> demo_world (demo_vk None [FinalizerName] (Some demo_expose))"

abbreviation demo_fresh :: "(ValkeyClusterSpec, ValkeyClusterStatus) server" where
  "demo_fresh \<equiv> demo_world (demo_vk None [] None)"

section \<open>Order of calls\<close>

text \<open>C1: the engine refines the protocol. Whatever the API server answers, the calls \<open>Reconcile\<close> makes form a
  complete run of the state machine \<open>protocol_step\<close> from \<open>Read\<close> to \<open>Done\<close>, with the result and the error it returns.\<close>

theorem Reconcile_refines_protocol:
  "protocol_run L (gr_Adapter r) req Read (calls L r req w) (Done (result_of L r req w) (error_of L r req w))"
  by (rule calls_run)

text \<open>C2: the finalizer is released only after cleanup. An update that writes the CR without the finalizer is the
  last call of a run that read a CR with a deletion timestamp, and before it the target and every extra were deleted
  (or found missing).\<close>

theorem finalizer_released_after_cleanup:
  assumes "k8s_libs_ok L" and "CUpdate o' a \<in> set (calls L r req w)"
    and "FinalizerName \<notin> set (meta_Finalizers (ObjectMeta o'))"
  shows "\<exists>cr pre. calls L r req w = CGet req (Inr cr) # pre @ [CUpdate o' a] \<and> terminating L cr \<and>
    deleted_in L (GVK (gr_Adapter r)) (cr_namespace cr) (target_of (gr_Adapter r) cr) pre \<and>
    (\<forall>x \<in> set (extras_of (gr_Adapter r) cr). deleted_in L (extra_GVK x) (cr_namespace cr) (extra_Name x) pre)"
  by (rule run_release [OF assms(1) calls_run assms(2,3)])

theorem finalizer_released_after_cleanup_witness:
  "\<exists>cr pre. calls ref_libs demo_r demo_req demo_terminating =
      CGet demo_req (Inr cr) # pre @ [CUpdate (demo_vk (Some 5) [] None) (Inr (demo_vk (Some 5) [] None))] \<and>
    terminating ref_libs cr \<and>
    deleted_in ref_libs (GVK (gr_Adapter demo_r)) (cr_namespace cr) (target_of (gr_Adapter demo_r) cr) pre \<and>
    (\<forall>x \<in> set (extras_of (gr_Adapter demo_r) cr). deleted_in ref_libs (extra_GVK x) (cr_namespace cr) (extra_Name x) pre)"
  by (rule finalizer_released_after_cleanup [OF ref.k8s_libs_ok_axioms]) code_simp+

text \<open>C12: nothing is written for a CR that is terminating or not yet protected. A run that applies an object or
  writes the status read a CR without a deletion timestamp that already has the finalizer, and it does not update
  the CR itself.\<close>

theorem writes_need_finalizer:
  assumes "c \<in> set (calls L r req w)" and "is_apply c"
  shows "\<exists>cr cs. calls L r req w = CGet req (Inr cr) # cs \<and> \<not> terminating L cr \<and> has_finalizer L cr \<and>
    (\<forall>d \<in> set (calls L r req w). \<not> is_update d)"
  by (rule run_writes_guarded [OF calls_run assms])

theorem writes_need_finalizer_witness:
  "\<exists>cr cs. calls ref_libs demo_r demo_req demo_live = CGet demo_req (Inr cr) # cs \<and> \<not> terminating ref_libs cr \<and>
    has_finalizer ref_libs cr \<and> (\<forall>d \<in> set (calls ref_libs demo_r demo_req demo_live). \<not> is_update d)"
proof -
  have "list_ex is_apply (calls ref_libs demo_r demo_req demo_live)" by code_simp
  then obtain c where "c \<in> set (calls ref_libs demo_r demo_req demo_live)" and "is_apply c"
    by (auto simp: list_ex_iff)
  then show ?thesis by (rule writes_need_finalizer)
qed

text \<open>C11: the status written is that of the object the API server returned for this pass. A status write is the
  last call; the target was applied before it, every extra brought to its desired state in between; the CR
  written is \<open>ApplyStatus\<close> of the status extracted from the applied object, and if the write succeeds the result asks
  for the requeue that status calls for.\<close>

theorem status_of_applied_target:
  fixes r :: "('w, 'spec, 'status) GenericReconciler"
  assumes "CStatusUpdate o' a \<in> set (calls L r req w)"
  shows "\<exists>cr g u pre now. calls L r req w =
      CGet req (Inr cr) # g # CApply (manifest_of (gr_Adapter r) cr) (FieldManager (gr_Adapter r)) True (Inr u) #
        pre @ [CStatusUpdate o' a] \<and>
    o' = fst (ApplyStatus (gr_Adapter r) now cr (target_of (gr_Adapter r) cr) (ExtractStatus (gr_Adapter r) (Some u))) \<and>
    list_all (\<lambda>x. extra_done L (gr_Adapter r) (cr_namespace cr) x pre) (extras_of (gr_Adapter r) cr) \<and>
    (case a of Inl e \<Rightarrow> error_of L r req w = Some e
     | Inr _ \<Rightarrow> error_of L r req w = None \<and> result_of L r req w = requeue_for (ExtractStatus (gr_Adapter r) (Some u)))"
proof -
  from run_status [OF calls_run assms] obtain cr g u pre now where
    *: "calls L r req w = CGet req (Inr cr) # g #
        CApply (manifest_of (gr_Adapter r) cr) (FieldManager (gr_Adapter r)) True (Inr u) # pre @ [CStatusUpdate o' a]"
      "o' = fst (ApplyStatus (gr_Adapter r) now cr (target_of (gr_Adapter r) cr) (ExtractStatus (gr_Adapter r) (Some u)))"
      "\<forall>x \<in> set (extras_of (gr_Adapter r) cr). extra_done L (gr_Adapter r) (cr_namespace cr) x pre"
    and "answer (requeue_for (ExtractStatus (gr_Adapter r) (Some u))) a =
      (Done (result_of L r req w) (error_of L r req w) :: ('spec, 'status) phase)" by auto
  then have "case a of Inl e \<Rightarrow> error_of L r req w = Some e
     | Inr _ \<Rightarrow> error_of L r req w = None \<and> result_of L r req w = requeue_for (ExtractStatus (gr_Adapter r) (Some u))"
    by (cases a) auto
  with * show ?thesis
    unfolding list_all_iff by (intro exI [of _ cr] exI [of _ g] exI [of _ u] exI [of _ pre] exI [of _ now] conjI)
qed

theorem status_of_applied_target_witness:
  "\<exists>o' a cr g u pre now. calls ref_libs demo_r demo_req demo_live =
      CGet demo_req (Inr cr) # g # CApply (manifest_of (gr_Adapter demo_r) cr) (FieldManager (gr_Adapter demo_r)) True (Inr u) #
        pre @ [CStatusUpdate o' a] \<and>
    o' = fst (ApplyStatus (gr_Adapter demo_r) now cr (target_of (gr_Adapter demo_r) cr) (ExtractStatus (gr_Adapter demo_r) (Some u)))"
proof -
  have "list_ex is_status (calls ref_libs demo_r demo_req demo_live)" by code_simp
  then obtain c where "c \<in> set (calls ref_libs demo_r demo_req demo_live)" "is_status c"
    by (auto simp: list_ex_iff)
  then obtain o' a where "CStatusUpdate o' a \<in> set (calls ref_libs demo_r demo_req demo_live)"
    by (auto elim: is_status.elims)
  from status_of_applied_target [OF this] show ?thesis by blast
qed

text \<open>A created event means the target was created by this pass: the lookup of the target found nothing, the
  manifest was applied successfully right after, and the event names that target.\<close>

theorem event_only_on_create:
  assumes "CEvent ev \<in> set (calls L r req w)"
  shows "\<exists>cr u err u' cs. calls L r req w = CGet req (Inr cr) #
      CGetTarget (cr_namespace cr, target_of (gr_Adapter r) cr) u (Inl err) #
      CApply (manifest_of (gr_Adapter r) cr) (FieldManager (gr_Adapter r)) True (Inr u') # CEvent ev # cs \<and>
    IsNotFound L (Some err) \<and> ev = target_created cr (ObjectKind (gr_Adapter r)) (target_of (gr_Adapter r) cr)"
  using run_event [OF calls_run assms] by blast

text \<open>C13: an error ends the run and is what it returns. Every call but the last succeeds (a missing object counts as
  success for lookups and deletes); the error returned is that of the last call; with an error the result asks for nothing.\<close>

theorem first_error_is_returned:
  "calls L r req w \<noteq> [] \<and> list_all (\<lambda>c. call_error L c = None) (butlast (calls L r req w)) \<and>
   error_of L r req w = call_error L (last (calls L r req w)) \<and>
   (error_of L r req w = None \<or> result_of L r req w = no_result)"
  using run_call_errors [OF calls_run, of L r req w] by (auto simp: list_all_iff)

text \<open>C24: a run is short: at most five calls plus one per extra resource, and a single one if the CR cannot be read.\<close>

theorem bounded_calls:
  "case hd (calls L r req w) of
     CGet n (Inr cr) \<Rightarrow> length (calls L r req w) \<le> 5 + length (extras_of (gr_Adapter r) cr)
   | _ \<Rightarrow> length (calls L r req w) = 1"
  using run_Read [OF calls_run, of L r req w]
proof (elim disjE exE conjE)
  fix cr cs assume c: "calls L r req w = CGet req (Inr cr) # cs"
  from run_length [OF calls_run [of L r req w, unfolded c]] c show ?thesis by simp
qed simp

section \<open>Ownership\<close>

text \<open>C14: a run touches only what belongs to its CR. Every object applied or deleted is the target or one of
  the fixed extras of the CR read, in the CR's namespace; which keys these are does not depend on the spec.\<close>

theorem stays_within_owned_keys:
  assumes "vendor_adapter L (gr_Adapter r) extra_keys V"
    and "c \<in> set (calls L r req w)" and "changed_key L c = Some k"
  shows "\<exists>cr cs. calls L r req w = CGet req (Inr cr) # cs \<and>
    k \<in> owned_keys (GVK (gr_Adapter r)) extra_keys (cr_namespace cr) (cr_name cr)"
  by (rule vendor_adapter.run_scope [OF assms(1) calls_run assms(2,3)])

abbreviation demo_service :: object_key where
  "demo_service \<equiv> (valkey_externalServiceGVK, ''shop'', ''cache-external'')"

lemma demo_adapter: "vendor_adapter ref_libs (gr_Adapter demo_r) (\<lambda>t. [(valkey_externalServiceGVK, t @ ''-external'')]) valkey_view"
  using ref.valkey.vendor_adapter_axioms by (simp add: NewValkeyClusterReconciler_def)

lemma demo_service_applied:
  obtains c where "c \<in> set (calls ref_libs demo_r demo_req demo_live)" and "changed_key ref_libs c = Some demo_service"
proof -
  have "list_ex (\<lambda>c. changed_key ref_libs c = Some demo_service) (calls ref_libs demo_r demo_req demo_live)"
    by code_simp
  then show thesis by (auto simp: list_ex_iff intro: that)
qed

theorem stays_within_owned_keys_witness:
  "\<exists>cr cs. calls ref_libs demo_r demo_req demo_live = CGet demo_req (Inr cr) # cs \<and>
    demo_service \<in> owned_keys (GVK (gr_Adapter demo_r)) (\<lambda>t. [(valkey_externalServiceGVK, t @ ''-external'')])
      (cr_namespace cr) (cr_name cr)"
proof -
  obtain c where c: "c \<in> set (calls ref_libs demo_r demo_req demo_live)" "changed_key ref_libs c = Some demo_service"
    by (rule demo_service_applied)
  show ?thesis by (rule stays_within_owned_keys [OF demo_adapter c])
qed

text \<open>C5: cleanup survives spec changes. Every object that any run for a CR applied or deleted, under whatever spec the
  CR had then, has been deleted (or found missing) in the run that releases the finalizer of the CR of
  that namespace and name.\<close>

theorem cleanup_survives_spec_changes:
  assumes "vendor_adapter L (gr_Adapter r) extra_keys V"
    and "c \<in> set (calls L r req w)" and "changed_key L c = Some k"
    and "CUpdate o' a \<in> set (calls L r req w')" and "FinalizerName \<notin> set (meta_Finalizers (ObjectMeta o'))"
    and "hd (calls L r req w) = CGet req (Inr cr)" and "hd (calls L r req w') = CGet req (Inr cr')"
    and "cr_namespace cr = cr_namespace cr'" and "cr_name cr = cr_name cr'"
  shows "key_deleted_in L k (calls L r req w')"
proof -
  from vendor_adapter.run_scope [OF assms(1) calls_run assms(2,3)] assms(6,8,9)
  have k: "k \<in> owned_keys (GVK (gr_Adapter r)) extra_keys (cr_namespace cr') (cr_name cr')" by auto
  from vendor_adapter.run_release_owned [OF assms(1) calls_run assms(4,5)] assms(7) obtain pre where
    "calls L r req w' = CGet req (Inr cr') # pre @ [CUpdate o' a]"
    "\<forall>k \<in> owned_keys (GVK (gr_Adapter r)) extra_keys (cr_namespace cr') (cr_name cr'). key_deleted_in L k pre"
    by auto
  with k show ?thesis by (auto simp: key_deleted_in_def)
qed

theorem cleanup_survives_spec_changes_witness:
  "key_deleted_in ref_libs demo_service (calls ref_libs demo_r demo_req demo_terminating)"
proof -
  obtain c where c: "c \<in> set (calls ref_libs demo_r demo_req demo_live)" "changed_key ref_libs c = Some demo_service"
    by (rule demo_service_applied)
  have 1: "CUpdate (demo_vk (Some 5) [] None) (Inr (demo_vk (Some 5) [] None)) \<in> set (calls ref_libs demo_r demo_req demo_terminating)"
    by code_simp
  have 2: "FinalizerName \<notin> set (meta_Finalizers (ObjectMeta (demo_vk (Some 5) [] None)))" by code_simp
  have 3: "hd (calls ref_libs demo_r demo_req demo_live) = CGet demo_req (Inr (demo_vk None [FinalizerName] (Some demo_expose)))"
    by code_simp
  have 4: "hd (calls ref_libs demo_r demo_req demo_terminating) = CGet demo_req (Inr (demo_vk (Some 5) [FinalizerName] None))"
    by code_simp
  show ?thesis
    by (rule cleanup_survives_spec_changes [OF demo_adapter c 1 2 3 4]) (simp_all add: demo_vk_def demo_meta_def)
qed

text \<open>C16: the slow requeue is earned. A run asks for the five-minute requeue only after it wrote a status that mirrors the applied target,
  and the adapter reads that target as ready; for an adapter that counts units, which all but Grafana's do, the target then has
  units and all of them are ready.\<close>

theorem slow_requeue_needs_ready:
  assumes "vendor_adapter L (gr_Adapter r) extra_keys V" and "RequeueAfter (result_of L r req w) = 5 * time_Minute"
  shows "\<exists>cr o' a u. CGet req (Inr cr) \<in> set (calls L r req w) \<and> CStatusUpdate o' (Inr a) \<in> set (calls L r req w) \<and>
    CApply (manifest_of (gr_Adapter r) cr) (FieldManager (gr_Adapter r)) True (Inr u) \<in> set (calls L r req w) \<and>
    mirrors V o' (ExtractStatus (gr_Adapter r) (Some u)) \<and> ts_Ready (ExtractStatus (gr_Adapter r) (Some u)) \<and>
    (counting_adapter L (gr_Adapter r) extra_keys V \<longrightarrow> all_ready (ExtractStatus (gr_Adapter r) (Some u)))"
  using vendor_adapter.run_slow_requeue [OF assms(1) calls_run assms(2)] counting_adapter.ready_counts by meson

theorem slow_requeue_needs_ready_witness:
  "\<exists>cr o' a u. CGet demo_req (Inr cr) \<in> set (calls ref_libs demo_r demo_req demo_ready_world) \<and>
    CStatusUpdate o' (Inr a) \<in> set (calls ref_libs demo_r demo_req demo_ready_world) \<and>
    CApply (manifest_of (gr_Adapter demo_r) cr) (FieldManager (gr_Adapter demo_r)) True (Inr u) \<in>
      set (calls ref_libs demo_r demo_req demo_ready_world) \<and>
    mirrors valkey_view o' (ExtractStatus (gr_Adapter demo_r) (Some u)) \<and> all_ready (ExtractStatus (gr_Adapter demo_r) (Some u))"
proof -
  have 1: "counting_adapter ref_libs (gr_Adapter demo_r) (\<lambda>t. [(valkey_externalServiceGVK, t @ ''-external'')]) valkey_view"
    unfolding NewValkeyClusterReconciler_def GenericReconciler.simps by unfold_locales
  have 2: "RequeueAfter (result_of ref_libs demo_r demo_req demo_ready_world) = 5 * time_Minute" by code_simp
  show ?thesis using slow_requeue_needs_ready [OF counting_adapter.axioms(1) [OF 1] 2] 1 by blast
qed

section \<open>What the API server holds afterwards\<close>

text \<open>C8: a reconcile that returns no error has brought the store to the state the CR asks for: the target holds
  every scalar of the manifest, each extra is applied or gone, the CR's status mirrors the stored target, the requeue matches
  it, and no other object was touched.\<close>

theorem successful_reconcile_converges:
  assumes "engine L A extra_keys V c record_event cr_at obj_at live wire r"
    and "Reconcile L r req w = ((res, None), w')" and "cr_at req w = Some cr"
    and "\<not> terminating L cr" and "has_finalizer L cr"
  shows "converged L A V cr_at obj_at live cr w' res \<and>
    (\<forall>k. k \<in> owned_keys (GVK A) extra_keys (cr_namespace cr) (cr_name cr) \<or>
      (obj_at k w' = obj_at k w \<and> live k w' = live k w))"
  using engine.Reconcile_converges [OF assms] by blast

lemma demo_stored: "server_cr demo_req (demo_world (demo_vk deleted fins e)) = Some (demo_vk deleted fins e)"
  by (simp add: server_cr_def demo_world_def demo_vk_def demo_meta_def)

theorem successful_reconcile_converges_witness:
  "\<exists>res w'. converged ref_libs (valkey_Adapter ref_libs) valkey_view server_cr server_obj server_live
    (demo_vk None [FinalizerName] (Some demo_expose)) w' res"
proof -
  have "Reconcile ref_libs demo_r demo_req demo_live =
      ((result_of ref_libs demo_r demo_req demo_live, None), snd (Reconcile ref_libs demo_r demo_req demo_live))"
    using vk_server.Reconcile_answers [OF demo_stored] by (simp add: prod_eq_iff)
  from successful_reconcile_converges [OF vk_server.engine_axioms, OF this, OF demo_stored]
  show ?thesis by (auto simp: demo_vk_def demo_meta_def terminating_def has_finalizer_def ref.is_zero ref.contains_finalizer)
qed

text \<open>C6: a fresh CR is settled by two passes. On a server that answers every call, the first pass over a CR without the
  finalizer stores the CR with it and the spec as the wire leaves it, and the second brings the store to the state that CR asks
  for, whatever else the store held.\<close>

theorem two_passes_settle_a_fresh_CR:
  assumes "available_engine L A extra_keys V c record_event cr_at obj_at live wire r"
    and "cr_at req w = Some cr" and "\<not> terminating L cr" and "\<not> has_finalizer L cr"
  shows "\<exists>x. cr_at req (snd (Reconcile L r req w)) = Some x \<and> has_finalizer L x \<and> Spec x = wire (Spec cr) \<and>
    converged L A V cr_at obj_at live x (snd (Reconcile L r req (snd (Reconcile L r req w))))
      (result_of L r req (snd (Reconcile L r req w)))"
  by (rule available_engine.two_passes [OF assms])

theorem two_passes_settle_a_fresh_CR_witness:
  "\<exists>x. server_cr demo_req (snd (Reconcile ref_libs demo_r demo_req demo_fresh)) = Some x \<and> has_finalizer ref_libs x \<and>
    Spec x = vk_wire (Spec (demo_vk None [] None)) \<and>
    converged ref_libs (valkey_Adapter ref_libs) valkey_view server_cr server_obj server_live x
      (snd (Reconcile ref_libs demo_r demo_req (snd (Reconcile ref_libs demo_r demo_req demo_fresh))))
      (result_of ref_libs demo_r demo_req (snd (Reconcile ref_libs demo_r demo_req demo_fresh)))"
  by (rule two_passes_settle_a_fresh_CR [OF vk_server.available_engine_axioms, OF demo_stored])
     (simp_all add: demo_vk_def demo_meta_def terminating_def has_finalizer_def ref.is_zero ref.contains_finalizer)

text \<open>A protected CR stays settled. On a server that answers every call, every pass over a live CR with the finalizer, however
  many went before, again leaves target, extras and status as the CR asks; the passes change nothing of the CR but its status and
  no object that is not its own.\<close>

theorem passes_keep_settled:
  assumes "available_engine L A extra_keys V c record_event cr_at obj_at live wire r"
    and "cr_at req w = Some cr" and "\<not> terminating L cr" and "has_finalizer L cr"
  shows "\<exists>x. cr_at req (((\<lambda>w. snd (Reconcile L r req w)) ^^ n) w) = Some x \<and> same_but_status x cr \<and>
    converged L A V cr_at obj_at live x (((\<lambda>w. snd (Reconcile L r req w)) ^^ Suc n) w)
      (result_of L r req (((\<lambda>w. snd (Reconcile L r req w)) ^^ n) w)) \<and>
    (\<forall>k. k \<in> owned_keys (GVK A) extra_keys (cr_namespace cr) (cr_name cr) \<or>
      (obj_at k (((\<lambda>w. snd (Reconcile L r req w)) ^^ Suc n) w) = obj_at k w \<and>
       live k (((\<lambda>w. snd (Reconcile L r req w)) ^^ Suc n) w) = live k w))"
  by (rule available_engine.passes_settle [OF assms])

text \<open>C10: deletion completes. On a server that answers every call, one pass over a terminating CR held by the finalizer
  leaves none of its objects live and the CR, if it is still there for another finalizer, without ours.\<close>

theorem one_pass_completes_deletion:
  assumes "available_engine L A extra_keys V c record_event cr_at obj_at live wire r"
    and "cr_at req w = Some cr" and "terminating L cr" and "has_finalizer L cr"
  shows "(\<forall>k \<in> owned_keys (GVK A) extra_keys (cr_namespace cr) (cr_name cr). \<not> live k (snd (Reconcile L r req w))) \<and>
    (\<forall>x. cr_at req (snd (Reconcile L r req w)) = Some x \<longrightarrow> \<not> has_finalizer L x)"
  by (rule available_engine.one_pass_deletes [OF assms])

theorem one_pass_completes_deletion_witness:
  "\<not> server_live demo_service (snd (Reconcile ref_libs demo_r demo_req demo_terminating)) \<and>
   \<not> server_live (valkey_GVK, ''shop'', ''cache'') (snd (Reconcile ref_libs demo_r demo_req demo_terminating))"
proof -
  have "(\<forall>k \<in> owned_keys (GVK (valkey_Adapter ref_libs)) (\<lambda>t. [(valkey_externalServiceGVK, t @ ''-external'')])
      (cr_namespace (demo_vk (Some 5) [FinalizerName] None)) (cr_name (demo_vk (Some 5) [FinalizerName] None)).
      \<not> server_live k (snd (Reconcile ref_libs demo_r demo_req demo_terminating)))"
    by (rule one_pass_completes_deletion [OF vk_server.available_engine_axioms, OF demo_stored, THEN conjunct1])
       (simp_all add: demo_vk_def demo_meta_def terminating_def has_finalizer_def ref.is_zero ref.contains_finalizer)
  then show ?thesis
    by (simp add: owned_keys_def demo_vk_def demo_meta_def valkey_Adapter_def)
qed

text \<open>The first pass only claims. A pass over a live CR without the finalizer that returns no error asks for an
  immediate requeue, touches no object, and leaves the CR stored with the finalizer and the spec as the
  wire leaves it.\<close>

theorem first_pass_claims:
  assumes "engine L A extra_keys V c record_event cr_at obj_at live wire r"
    and "Reconcile L r req w = ((res, None), w')" and "cr_at req w = Some cr"
    and "\<not> terminating L cr" and "\<not> has_finalizer L cr"
  shows "res = \<lparr>Requeue = True, RequeueAfter = 0\<rparr> \<and> obj_at k w' = obj_at k w \<and>
    (\<exists>x. cr_at req w' = Some x \<and> \<not> terminating L x \<and> has_finalizer L x \<and> Spec x = wire (Spec cr))"
  using engine.Reconcile_claims [OF assms] by blast

text \<open>C9: the chain of immediate requeues ends. On a server that answers every call, only the first pass over a CR, in whatever state it is
  found and even if it is gone, can ask to be called again at once; every later one asks for a delay or for nothing.\<close>

theorem immediate_requeues_end:
  assumes "available_engine L A extra_keys V c record_event cr_at obj_at live wire r" and "0 < n"
  shows "\<not> Requeue (result_of L r req (((\<lambda>w. snd (Reconcile L r req w)) ^^ n) w))"
  by (rule available_engine.requeues_end [OF assms])

theorem immediate_requeues_end_witness:
  "\<not> Requeue (result_of ref_libs demo_r demo_req (((\<lambda>w. snd (Reconcile ref_libs demo_r demo_req w)) ^^ 1) demo_fresh)) \<and>
   Requeue (result_of ref_libs demo_r demo_req demo_fresh)"
proof
  show "\<not> Requeue (result_of ref_libs demo_r demo_req (((\<lambda>w. snd (Reconcile ref_libs demo_r demo_req w)) ^^ 1) demo_fresh))"
    by (rule immediate_requeues_end [OF vk_server.available_engine_axioms]) simp
  show "Requeue (result_of ref_libs demo_r demo_req demo_fresh)" by code_simp
qed

end
