(* ===== verification/Reconciler_Runs.thy ===== *)
theory Reconciler_Runs
  imports Reconciler_Protocol
begin

text \<open>
  The worlds a reconcile goes through. A property that every call of the client preserves is preserved by \<open>Reconcile\<close>
  (locale \<open>call_invariant\<close>); for the traced client this says that the final world is what the calls of the trace, made one by
  one, lead to. With the protocol this gives a proof rule: an assertion for each phase, kept by every call the protocol allows there,
  holds at the end of the run. The calls may meet a world others have changed, so this is a rely-guarantee argument.
\<close>

section \<open>What every call preserves\<close>

locale call_invariant =
  fixes r :: "('w, 'spec, 'status) GenericReconciler"
    and I :: "'w \<Rightarrow> bool"
  assumes get_preserves: "I w \<Longrightarrow> Client_Get (gr_Client r) k w = (a, w') \<Longrightarrow> I w'"
    and look_preserves: "I w \<Longrightarrow> Client_GetUnstructured (gr_Client r) k u w = (b, w') \<Longrightarrow> I w'"
    and apply_preserves: "I w \<Longrightarrow> Client_Apply (gr_Client r) u f force w = (b, w') \<Longrightarrow> I w'"
    and delete_preserves: "I w \<Longrightarrow> Client_Delete (gr_Client r) u w = (d, w') \<Longrightarrow> I w'"
    and update_preserves: "I w \<Longrightarrow> Client_Update (gr_Client r) cr w = (a, w') \<Longrightarrow> I w'"
    and status_preserves: "I w \<Longrightarrow> Client_StatusUpdate (gr_Client r) cr w = (a, w') \<Longrightarrow> I w'"
    and event_preserves: "I w \<Longrightarrow> I (gr_Recorder r e w)"
begin

lemma deleteExtra_preserves: "deleteExtra L r g ns n w = (e, w') \<Longrightarrow> I w \<Longrightarrow> I w'"
  by (auto simp: deleteExtra_def Let_def split: prod.splits if_splits dest: delete_preserves)

lemma deleteTarget_preserves: "deleteTarget L r ns n w = (e, w') \<Longrightarrow> I w \<Longrightarrow> I w'"
  by (auto simp: deleteTarget_def Let_def split: prod.splits if_splits option.splits dest: delete_preserves)

lemma getTarget_preserves: "getTarget L r ns n w = (b, w') \<Longrightarrow> I w \<Longrightarrow> I w'"
  by (auto simp: getTarget_def GetTarget_def Let_def split: prod.splits if_splits sum.splits dest: look_preserves)

lemma applyTarget_preserves: "applyTarget r u w = (b, w') \<Longrightarrow> I w \<Longrightarrow> I w'"
  by (auto simp: applyTarget_def dest: apply_preserves)

lemma deleteExtras_loop_preserves: "deleteExtras_loop L r ns xs w = (e, w') \<Longrightarrow> I w \<Longrightarrow> I w'"
proof (induction xs arbitrary: w)
  case (Cons x xs)
  then show ?case
    by (auto split: prod.splits option.splits dest: deleteExtra_preserves)
qed simp

lemma applyExtras_loop_preserves: "applyExtras_loop L r ns xs w = (e, w') \<Longrightarrow> I w \<Longrightarrow> I w'"
proof (induction xs arbitrary: w)
  case (Cons x xs)
  then show ?case
    by (auto split: prod.splits option.splits sum.splits dest: deleteExtra_preserves applyTarget_preserves)
qed simp

lemma extras_preserve:
  "deleteExtraResources L r cr t w = (e, w') \<Longrightarrow> I w \<Longrightarrow> I w'"
  "applyExtraResources L r cr t w = (e, w') \<Longrightarrow> I w \<Longrightarrow> I w'"
  by (auto simp: deleteExtraResources_def applyExtraResources_def split: option.splits
    dest: deleteExtras_loop_preserves applyExtras_loop_preserves)

lemma reconcile_deletion_preserves: "reconcile_deletion L r cr t w = (x, w') \<Longrightarrow> I w \<Longrightarrow> I w'"
  by (auto simp: reconcile_deletion_def Let_def split: prod.splits sum.splits option.splits if_splits
    dest!: deleteTarget_preserves extras_preserve(1) dest: update_preserves)

lemma reconcile_status_preserves: "reconcile_status L r cr t u w = (x, w') \<Longrightarrow> I w \<Longrightarrow> I w'"
  by (auto simp: reconcile_status_def Let_def split: prod.splits sum.splits option.splits
    dest!: extras_preserve(2) dest: status_preserves)

lemma reconcile_normal_preserves: "reconcile_normal L r cr t w = (x, w') \<Longrightarrow> I w \<Longrightarrow> I w'"
  by (auto simp: reconcile_normal_def Let_def split: prod.splits sum.splits if_splits
    dest!: getTarget_preserves applyTarget_preserves reconcile_status_preserves dest: update_preserves intro: event_preserves)

lemma Reconcile_preserves_after_get:
  assumes "Reconcile L r req w = (x, w')" and g: "Client_Get (gr_Client r) req w = (a, w1)" and "I w1"
  shows "I w'"
proof (cases a)
  case (Inl err)
  with assms show ?thesis by (simp add: Reconcile_def)
next
  case (Inr cr)
  with assms(1) g have "reconcile_deletion L r cr (TargetName (gr_Adapter r) (cr_name cr)) w1 = (x, w') \<or>
      reconcile_normal L r cr (TargetName (gr_Adapter r) (cr_name cr)) w1 = (x, w')"
    by (simp add: Reconcile_def Let_def split: if_splits)
  with assms(3) show ?thesis using reconcile_deletion_preserves reconcile_normal_preserves by blast
qed

lemma Reconcile_preserves:
  assumes "Reconcile L r req w = (x, w')" and "I w"
  shows "I w'"
proof -
  obtain a w1 where g: "Client_Get (gr_Client r) req w = (a, w1)" by (metis prod.exhaust)
  show ?thesis by (rule Reconcile_preserves_after_get [OF assms(1) g get_preserves [OF assms(2) g]])
qed

end

section \<open>The worlds of a trace\<close>

text \<open>The call was made in the one world, answered as logged, and left the other.\<close>

fun performed ::
    "('w, 'spec, 'status) GenericReconciler \<Rightarrow> ('spec, 'status) paas_object api_call \<Rightarrow> 'w \<Rightarrow> 'w \<Rightarrow> bool" where
  "performed r (CGet k a) w w' = (Client_Get (gr_Client r) k w = (a, w'))"
| "performed r (CGetTarget k u b) w w' = (Client_GetUnstructured (gr_Client r) k u w = (b, w'))"
| "performed r (CApply u owner force b) w w' = (Client_Apply (gr_Client r) u owner force w = (b, w'))"
| "performed r (CDelete u err) w w' = (Client_Delete (gr_Client r) u w = (err, w'))"
| "performed r (CUpdate cr a) w w' = (Client_Update (gr_Client r) cr w = (a, w'))"
| "performed r (CStatusUpdate cr a) w w' = (Client_StatusUpdate (gr_Client r) cr w = (a, w'))"
| "performed r (CEvent e) w w' = (w' = gr_Recorder r e w)"

inductive history ::
    "('w, 'spec, 'status) GenericReconciler \<Rightarrow> 'w \<Rightarrow> ('spec, 'status) paas_object api_call list \<Rightarrow> 'w \<Rightarrow> bool"
  for r where
  history_nil: "history r w [] w"
| history_step: "performed r c w w1 \<Longrightarrow> history r w1 cs w' \<Longrightarrow> history r w (c # cs) w'"

lemma history_snoc: "history r w cs w1 \<Longrightarrow> performed r c w1 w' \<Longrightarrow> history r w (cs @ [c]) w'"
  by (induction rule: history.induct) (auto intro: history.intros)

interpretation traced_history: call_invariant "traced r" "\<lambda>(w', t). history r w t w'" for r w
  by unfold_locales (auto intro: history_snoc)

text \<open>The calls of a reconcile, with their worlds: a run of the protocol from the world it started in to the one it ends in.\<close>

lemma Reconcile_history:
  assumes "Reconcile L r req w = ((res, e), w')"
  shows "\<exists>cs. protocol_run L (gr_Adapter r) req Read cs (Done res e) \<and> history r w cs w'"
proof -
  obtain x w1 cs where R: "Reconcile L (traced r) req (w, []) = (x, (w1, cs))" by (metis prod.exhaust)
  with untrace_Reconcile [of L r req "(w, [])"] assms have x: "x = (res, e)" "w1 = w'" by (simp_all add: untrace_def)
  from Reconcile_run [OF R [unfolded x]] have "protocol_run L (gr_Adapter r) req Read cs (Done res e)" .
  moreover have "history r w cs w'"
    using traced_history.Reconcile_preserves [OF R, of w] by (simp add: x history_nil)
  ultimately show ?thesis by blast
qed

section \<open>Assertions by phase\<close>

lemma history_coupled:
  assumes "protocol_run L A req p cs q" and "history r w cs w'" and "J p w"
    and step: "\<And>p c q w w'. J p w \<Longrightarrow> protocol_step L A req p c q \<Longrightarrow> performed r c w w' \<Longrightarrow> J q w'"
  shows "J q w'"
  using assms(1-3)
proof (induction arbitrary: w rule: protocol_run.induct)
  case (run_nil p)
  from run_nil(1) show ?case by (cases rule: history.cases) (auto intro: run_nil)
next
  case (run_step p c q cs p')
  from run_step.prems(1) obtain w1 where "performed r c w w1" "history r w1 cs w'"
    by (cases rule: history.cases) auto
  with run_step step show ?case by blast
qed

theorem Reconcile_coupled:
  assumes "Reconcile L r req w = ((res, e), w')" and "J Read w"
    and "\<And>p c q w w'. J p w \<Longrightarrow> protocol_step L (gr_Adapter r) req p c q \<Longrightarrow> performed r c w w' \<Longrightarrow> J q w'"
  shows "J (Done res e) w'"
proof -
  obtain cs where "protocol_run L (gr_Adapter r) req Read cs (Done res e)" "history r w cs w'"
    using Reconcile_history [OF assms(1)] by blast
  from history_coupled [of _ _ _ _ _ _ r _ _ J, OF this assms(2,3)] show ?thesis .
qed

end
