(* ===== verification/Cached_Api.thy ===== *)
theory Cached_Api
  imports Vendor_Adapter Reconciler_Runs
begin

text \<open>
  The engine among others. A controller reads its CR from a cache that lags behind the API server, users edit and delete
  the CR at any time, an update that comes too late is refused, and an answer may be lost after the write was made. The
  locale \<open>cached_api\<close> states this for the one CR under reconciliation: versions only grow, the cache shows
  one after another the versions that were stored, at any distance and perhaps not all of them, an update is written only over the version
  that was read. Every call meets a world in which others have acted since the last one.
\<close>

section \<open>Versions\<close>

definition holds_finalizer :: "('spec, 'status) paas_object \<Rightarrow> bool" where
  "holds_finalizer x \<longleftrightarrow> FinalizerName \<in> set (meta_Finalizers (ObjectMeta x))"

text \<open>
  The trail of a CR: the version in the cache, the versions written since, which the watch has yet to deliver, and at its
  end the version that is stored now; a deleted CR is \<open>None\<close>. Versions along it are in order and below the latest version
  given out, and a version names one CR.
\<close>

definition not_after :: "(nat \<times> 'cr) option \<Rightarrow> (nat \<times> 'cr) option \<Rightarrow> bool" where
  "not_after d s \<longleftrightarrow> (\<forall>u y v x. d = Some (u, y) \<longrightarrow> s = Some (v, x) \<longrightarrow> u \<le> v \<and> (u = v \<longrightarrow> y = x))"

definition upto :: "nat \<Rightarrow> (nat \<times> 'cr) option \<Rightarrow> bool" where
  "upto l s \<longleftrightarrow> (\<forall>v x. s = Some (v, x) \<longrightarrow> v \<le> l)"

definition in_order :: "(nat \<times> 'cr) option list \<Rightarrow> nat \<Rightarrow> bool" where
  "in_order t l \<longleftrightarrow> t \<noteq> [] \<and> sorted_wrt not_after t \<and> list_all (upto l) t"

text \<open>Everything on the trail is the CR that was read, under the version \<open>n\<close>, or a later version.\<close>

definition not_before :: "nat \<Rightarrow> 'cr \<Rightarrow> (nat \<times> 'cr) option \<Rightarrow> bool" where
  "not_before n cr s \<longleftrightarrow> (\<forall>v x. s = Some (v, x) \<longrightarrow> n \<le> v \<and> (v = n \<longrightarrow> x = cr))"

definition newer :: "nat \<Rightarrow> nat \<Rightarrow> (nat \<times> 'cr) option \<Rightarrow> bool" where
  "newer l l' s \<longleftrightarrow> (\<forall>v x. s = Some (v, x) \<longrightarrow> l < v \<and> v \<le> l')"

text \<open>How a trail goes on: the cache catches up by some steps, or there is a new version.\<close>

definition delivered :: "'a list \<Rightarrow> 'a list \<Rightarrow> bool" where
  "delivered t t' \<longleftrightarrow> (\<exists>n < length t. t' = drop n t)"

lemma delivered_refl: "t \<noteq> [] \<Longrightarrow> delivered t t"
  by (auto simp: delivered_def intro: exI [of _ 0])

lemma deliveredD: "delivered t t' \<Longrightarrow> set t' \<subseteq> set t \<and> last t' = last t"
  by (auto simp: delivered_def dest: in_set_dropD)

lemma in_order_deliver: "in_order t l \<Longrightarrow> delivered t t' \<Longrightarrow> l \<le> l' \<Longrightarrow> in_order t' l'"
  by (fastforce simp: in_order_def delivered_def sorted_wrt_drop list_all_iff upto_def dest: in_set_dropD)

lemma in_order_append: "in_order t l \<Longrightarrow> newer l l' s \<Longrightarrow> l \<le> l' \<Longrightarrow> in_order (t @ [s]) l'"
  by (fastforce simp: in_order_def sorted_wrt_append list_all_iff upto_def newer_def not_after_def)

lemma not_before_newer: "n \<le> l \<Longrightarrow> newer l l' s \<Longrightarrow> not_before n cr s"
  by (fastforce simp: not_before_def newer_def)

lemma in_order_read: "in_order (Some (n, cr) # t) l \<Longrightarrow> n \<le> l \<and> list_all (not_before n cr) (Some (n, cr) # t)"
  by (fastforce simp: in_order_def list_all_iff upto_def not_after_def not_before_def)

lemma in_order_last: "in_order t l \<Longrightarrow> d \<in> set t \<Longrightarrow> d = last t \<or> not_after d (last t)"
  by (cases t rule: rev_cases) (auto simp: in_order_def sorted_wrt_append)

text \<open>If the version that was read is still the stored one, nothing else is on the trail.\<close>

lemma trail_is_read:
  assumes "in_order t l" and "last t = Some (n, x)" and "list_all (not_before n cr) t" and "Some (v, y) \<in> set t"
  shows "y = cr"
proof -
  have "not_before n cr (Some (v, y))" using assms(3,4) by (simp add: list_all_iff)
  moreover have "v \<le> n" using in_order_last [OF assms(1,4)] assms(2) by (auto simp: not_after_def)
  ultimately show ?thesis by (simp add: not_before_def)
qed

section \<open>The server with its cache\<close>

text \<open>
  \<open>trail\<close> is the trail of the CR, with resource versions: its head is what the cache shows, its last what the server stores. \<open>held\<close>
  is the version of the CR last read, which travels with it into an update; \<open>latest\<close> bounds the versions given out so far. \<open>own\<close> are
  the keys of the objects of the CR. Others do what they like, in steps, with two exceptions: they do not take the finalizer off, and
  they do not create objects under these keys.
\<close>

locale cached_api =
  fixes L :: k8s_libs
    and c :: "('w, ('spec, 'status) paas_object) Client"
    and record_event :: "event \<Rightarrow> 'w \<Rightarrow> 'w"
    and req :: NamespacedName
    and own :: "object_key set"
    and trail :: "'w \<Rightarrow> (nat \<times> ('spec, 'status) paas_object) option list"
    and held :: "'w \<Rightarrow> nat"
    and latest :: "'w \<Rightarrow> nat"
    and live :: "object_key \<Rightarrow> 'w \<Rightarrow> bool"
    and others :: "'w \<Rightarrow> 'w \<Rightarrow> bool"
  assumes others_trail: "others w u \<Longrightarrow> delivered (trail w) (trail u) \<or>
      (\<exists>s. trail u = trail w @ [s] \<and> newer (latest w) (latest u) s)"
    and others_finalizer: "others w u \<Longrightarrow> last (trail w) = Some (v, x) \<Longrightarrow> holds_finalizer x \<Longrightarrow>
      \<exists>v' x'. last (trail u) = Some (v', x') \<and> holds_finalizer x'"
    and others_versions: "others w u \<Longrightarrow> latest w \<le> latest u \<and> held u = held w"
    and others_objects: "others w u \<Longrightarrow> k \<in> own \<Longrightarrow> live k u \<Longrightarrow> live k w"
    and trail_name: "Some (v, cr) \<in> set (trail w) \<Longrightarrow> (cr_namespace cr, cr_name cr) = req"
    and get_cached: "Client_Get c req w = (a, w') \<Longrightarrow>
      \<exists>u. others\<^sup>*\<^sup>* w u \<and> trail w' = trail u \<and> latest w' = latest u \<and>
        (\<forall>k. live k w' = live k u) \<and> (\<forall>cr. a = Inr cr \<longrightarrow> (\<exists>t. trail u = Some (held w', cr) # t))"
    and look_only: "Client_GetUnstructured c n o' w = (b, w') \<Longrightarrow> others\<^sup>*\<^sup>* w w'"
    and apply_one: "Client_Apply c o' f force w = (b, w') \<Longrightarrow>
      \<exists>u. others\<^sup>*\<^sup>* w u \<and> trail w' = trail u \<and> latest w' = latest u \<and> held w' = held u \<and>
        (\<forall>k. live k w' \<longrightarrow> live k u \<or> k = key_of L o')"
    and delete_one: "Client_Delete c o' w = (d, w') \<Longrightarrow>
      \<exists>u. others\<^sup>*\<^sup>* w u \<and> trail w' = trail u \<and> latest w' = latest u \<and> held w' = held u \<and>
        (\<forall>k. live k w' \<longrightarrow> live k u) \<and> (d = None \<or> IsNotFound L d \<longrightarrow> \<not> live (key_of L o') w')"
    and update_held: "Client_Update c cr w = (a, w') \<Longrightarrow> (cr_namespace cr, cr_name cr) = req \<Longrightarrow>
      \<exists>u. others\<^sup>*\<^sup>* w u \<and> latest u \<le> latest w' \<and> held w' = held u \<and> (\<forall>k. live k w' = live k u) \<and>
        (trail w' = trail u \<or>
         (\<exists>x. last (trail u) = Some (held u, x)) \<and>
         (\<exists>s. trail w' = trail u @ [s] \<and> newer (latest u) (latest w') s \<and>
           (case s of Some (v, x) \<Rightarrow> meta_Finalizers (ObjectMeta x) = meta_Finalizers (ObjectMeta cr)
            | None \<Rightarrow> meta_Finalizers (ObjectMeta cr) = [])))"
    and status_only: "Client_StatusUpdate c cr w = (a, w') \<Longrightarrow> (cr_namespace cr, cr_name cr) = req \<Longrightarrow>
      \<exists>u. others\<^sup>*\<^sup>* w u \<and> latest u \<le> latest w' \<and> held w' = held u \<and> (\<forall>k. live k w' = live k u) \<and>
        (trail w' = trail u \<or>
         (\<exists>v x v' x'. last (trail u) = Some (v, x) \<and> trail w' = trail u @ [Some (v', x')] \<and>
           newer (latest u) (latest w') (Some (v', x')) \<and>
           meta_Finalizers (ObjectMeta x') = meta_Finalizers (ObjectMeta x)))"
    and event_only: "others\<^sup>*\<^sup>* w (record_event ev w)"
begin

definition protected :: "'w \<Rightarrow> bool" where
  "protected w \<longleftrightarrow> (\<exists>v x. last (trail w) = Some (v, x) \<and> holds_finalizer x)"

text \<open>A version the operator may take for a CR to apply objects for.\<close>

definition active :: "(nat \<times> ('spec, 'status) paas_object) option \<Rightarrow> bool" where
  "active s \<longleftrightarrow> (\<exists>v y. s = Some (v, y) \<and> \<not> terminating L y \<and> holds_finalizer y)"

text \<open>No object without a CR that holds the finalizer, and the cache neither shows nor will show as protected and live a CR that has lost
  its protection.\<close>

definition sound :: "'w \<Rightarrow> bool" where
  "sound w \<longleftrightarrow> in_order (trail w) (latest w) \<and> (\<forall>k \<in> own. live k w \<longrightarrow> protected w) \<and>
     (\<forall>s \<in> set (trail w). active s \<longrightarrow> protected w)"

definition read_as :: "('spec, 'status) paas_object \<Rightarrow> 'w \<Rightarrow> bool" where
  "read_as cr w \<longleftrightarrow> held w \<le> latest w \<and> list_all (not_before (held w) cr) (trail w)"

lemma soundI:
  assumes "in_order (trail w) (latest w)" and "\<And>k. k \<in> own \<Longrightarrow> live k w \<Longrightarrow> protected w"
    and "\<And>s. s \<in> set (trail w) \<Longrightarrow> active s \<Longrightarrow> protected w"
  shows "sound w"
  using assms by (auto simp: sound_def)

lemma soundD:
  assumes "sound w"
  shows "in_order (trail w) (latest w)" and "k \<in> own \<Longrightarrow> live k w \<Longrightarrow> protected w"
    and "s \<in> set (trail w) \<Longrightarrow> active s \<Longrightarrow> protected w"
  using assms by (auto simp: sound_def)

lemma sound_view:
  assumes "sound u" and "trail w' = trail u" "latest w' = latest u"
    and "\<And>k. k \<in> own \<Longrightarrow> live k w' \<Longrightarrow> live k u \<or> protected u"
  shows "sound w'"
  using assms(1,4) by (auto simp: sound_def protected_def assms(2,3))

lemma active_protects: "last (trail w) = s \<Longrightarrow> active s \<Longrightarrow> protected w"
  by (auto simp: active_def protected_def)

subsection \<open>Stability under the steps of others\<close>

lemma others_protected: "others w u \<Longrightarrow> protected w \<Longrightarrow> protected u"
  using others_finalizer by (auto simp: protected_def)

lemma others_sound:
  assumes "others w u" and "sound w"
  shows "sound u"
proof (rule soundI)
  note T = others_trail [OF assms(1)] and V = others_versions [OF assms(1)] and S = soundD [OF assms(2)]
  show "in_order (trail u) (latest u)"
    using T V in_order_deliver [OF S(1)] in_order_append [OF S(1)] by metis
  show "protected u" if "k \<in> own" "live k u" for k
    using that others_objects [OF assms(1)] S(2) others_protected [OF assms(1)] by blast
  show "protected u" if "s \<in> set (trail u)" "active s" for s
  proof (cases "s \<in> set (trail w)")
    case True
    with S(3) that(2) others_protected [OF assms(1)] show ?thesis by blast
  next
    case False
    with T that(1) have "last (trail u) = s" by (auto dest: deliveredD)
    with that(2) show ?thesis by (rule active_protects [rotated])
  qed
qed

lemma others_read_as:
  assumes "others w u" and "read_as cr w"
  shows "read_as cr u"
  using assms(2) others_versions [OF assms(1)] others_trail [OF assms(1)]
  by (auto simp: read_as_def list_all_iff intro: not_before_newer dest: deliveredD)

lemma meanwhile:
  assumes "others\<^sup>*\<^sup>* w u"
  shows "protected w \<Longrightarrow> protected u" and "sound w \<Longrightarrow> sound u" and "read_as cr w \<Longrightarrow> read_as cr u"
    and "k \<in> own \<Longrightarrow> live k u \<Longrightarrow> live k w"
proof -
  show "protected w \<Longrightarrow> protected u" using assms by induction (auto dest: others_protected)
  show "sound w \<Longrightarrow> sound u" using assms by induction (auto dest: others_sound)
  show "read_as cr w \<Longrightarrow> read_as cr u" using assms by induction (auto dest: others_read_as)
  show "k \<in> own \<Longrightarrow> live k u \<Longrightarrow> live k w" using assms by induction (auto dest: others_objects)
qed

subsection \<open>What each call keeps\<close>

lemma get_keeps:
  assumes "Client_Get c req w = (a, w')" and "sound w"
  shows "sound w'" and "a = Inr cr \<Longrightarrow> (cr_namespace cr, cr_name cr) = req \<and> read_as cr w' \<and>
    (\<not> terminating L cr \<longrightarrow> holds_finalizer cr \<longrightarrow> protected w')"
proof -
  obtain u where u: "others\<^sup>*\<^sup>* w u" "trail w' = trail u" "latest w' = latest u"
    "\<And>k. live k w' = live k u" and got: "\<And>cr. a = Inr cr \<Longrightarrow> \<exists>t. trail u = Some (held w', cr) # t"
    using get_cached [OF assms(1)] by blast
  have S: "sound u" by (rule meanwhile(2) [OF u(1) assms(2)])
  show w': "sound w'"
    by (rule sound_view [OF S u(2,3)]) (simp add: u(4))
  assume "a = Inr cr"
  from got [OF this] u(2) obtain t where t: "trail w' = Some (held w', cr) # t" by auto
  then have "(cr_namespace cr, cr_name cr) = req" using trail_name [of "held w'" cr w'] by simp
  moreover have "read_as cr w'"
    using in_order_read [of "held w'" cr t "latest w'"] soundD(1) [OF w'] by (simp add: t read_as_def)
  moreover have "protected w'" if "\<not> terminating L cr" "holds_finalizer cr"
    using soundD(3) [OF w', of "Some (held w', cr)"] t that by (simp add: active_def)
  ultimately show "(cr_namespace cr, cr_name cr) = req \<and> read_as cr w' \<and>
    (\<not> terminating L cr \<longrightarrow> holds_finalizer cr \<longrightarrow> protected w')" by blast
qed

lemma apply_keeps:
  assumes "Client_Apply c o' f force w = (b, w')" and "sound w" and "protected w"
  shows "sound w'" and "protected w'"
proof -
  obtain u where u: "others\<^sup>*\<^sup>* w u" "trail w' = trail u" "latest w' = latest u"
    using apply_one [OF assms(1)] by blast
  show "protected w'" using meanwhile(1) [OF u(1) assms(3)] u(2) by (simp add: protected_def)
  then show "sound w'"
    by (intro sound_view [OF meanwhile(2) [OF u(1) assms(2)] u(2,3)]) (simp add: protected_def u(2))
qed

lemma delete_keeps:
  assumes "Client_Delete c o' w = (d, w')" and "sound w"
  shows "sound w'" and "protected w \<Longrightarrow> protected w'" and "read_as cr w \<Longrightarrow> read_as cr w'"
    and "k \<in> own \<Longrightarrow> live k w' \<Longrightarrow> live k w"
    and "d = None \<or> IsNotFound L d \<Longrightarrow> \<not> live (key_of L o') w'"
proof -
  obtain u where u: "others\<^sup>*\<^sup>* w u" "trail w' = trail u" "latest w' = latest u" "held w' = held u"
    "\<And>k. live k w' \<Longrightarrow> live k u" and gone: "d = None \<or> IsNotFound L d \<Longrightarrow> \<not> live (key_of L o') w'"
    using delete_one [OF assms(1)] by blast
  note M = meanwhile [OF u(1)]
  show "sound w'" by (rule sound_view [OF M(2) [OF assms(2)] u(2,3)]) (simp add: u(5))
  show "protected w \<Longrightarrow> protected w'" using M(1) u(2) by (simp add: protected_def)
  show "read_as cr w \<Longrightarrow> read_as cr w'" using M(3) [of cr] u(2-4) by (simp add: read_as_def)
  show "k \<in> own \<Longrightarrow> live k w' \<Longrightarrow> live k w" using M(4) u(5) by blast
  show "d = None \<or> IsNotFound L d \<Longrightarrow> \<not> live (key_of L o') w'" by (rule gone)
qed

text \<open>A write over a trail leaves a sound world if the CR written is protected.\<close>

lemma write_keeps:
  assumes "sound u" and "trail w' = trail u @ [s]" and "newer (latest u) (latest w') s" and "latest u \<le> latest w'" and "protected w'"
  shows "sound w'"
  using in_order_append [OF soundD(1) [OF assms(1)] assms(3,4)] assms(2,5) by (auto intro: soundI)

lemma kept_trail:
  assumes "sound u" and "trail w' = trail u" and "latest u \<le> latest w'" and "\<And>k. live k w' = live k u"
  shows "sound w'"
  using in_order_deliver [OF soundD(1) [OF assms(1)] delivered_refl assms(3)] assms
  by (auto simp: sound_def protected_def in_order_def)

lemma status_keeps:
  assumes "Client_StatusUpdate c cr w = (a, w')" and "(cr_namespace cr, cr_name cr) = req" and "sound w" and "protected w"
  shows "sound w'"
proof -
  obtain u where u: "others\<^sup>*\<^sup>* w u" "latest u \<le> latest w'" "\<And>k. live k w' = live k u"
    and s: "trail w' = trail u \<or> (\<exists>v x v' x'. last (trail u) = Some (v, x) \<and> trail w' = trail u @ [Some (v', x')] \<and>
      newer (latest u) (latest w') (Some (v', x')) \<and> meta_Finalizers (ObjectMeta x') = meta_Finalizers (ObjectMeta x))"
    using status_only [OF assms(1,2)] by blast
  note S = meanwhile(2) [OF u(1) assms(3)] and P = meanwhile(1) [OF u(1) assms(4)]
  from s show ?thesis
  proof
    assume "trail w' = trail u"
    from kept_trail [OF S this u(2,3)] show ?thesis .
  next
    assume "\<exists>v x v' x'. last (trail u) = Some (v, x) \<and> trail w' = trail u @ [Some (v', x')] \<and>
      newer (latest u) (latest w') (Some (v', x')) \<and> meta_Finalizers (ObjectMeta x') = meta_Finalizers (ObjectMeta x)"
    then obtain v x v' x' where n: "last (trail u) = Some (v, x)" "trail w' = trail u @ [Some (v', x')]"
      "newer (latest u) (latest w') (Some (v', x'))" "meta_Finalizers (ObjectMeta x') = meta_Finalizers (ObjectMeta x)" by blast
    with P have "protected w'" by (simp add: protected_def holds_finalizer_def)
    from write_keeps [OF S n(2,3) u(2) this] show ?thesis .
  qed
qed

text \<open>A refused or lost update changes nothing that matters; a written one went over the version that was read. So when the finalizer goes,
  the cache cannot show a version of the CR that was not terminating yet.\<close>

lemma update_keeps:
  assumes "Client_Update c cr' w = (a, w')" and "(cr_namespace cr', cr_name cr') = req" and "sound w"
    and "holds_finalizer cr' \<or> read_as cr w \<and> terminating L cr \<and> (\<forall>k \<in> own. \<not> live k w)"
  shows "sound w'"
proof -
  obtain u where u: "others\<^sup>*\<^sup>* w u" "latest u \<le> latest w'" "\<And>k. live k w' = live k u"
    and s: "trail w' = trail u \<or> (\<exists>x. last (trail u) = Some (held u, x)) \<and>
      (\<exists>s. trail w' = trail u @ [s] \<and> newer (latest u) (latest w') s \<and>
        (case s of Some (v, x) \<Rightarrow> meta_Finalizers (ObjectMeta x) = meta_Finalizers (ObjectMeta cr')
         | None \<Rightarrow> meta_Finalizers (ObjectMeta cr') = []))"
    using update_held [OF assms(1,2)] by blast
  note M = meanwhile [OF u(1)]
  note S = M(2) [OF assms(3)]
  show ?thesis
  proof (cases "trail w' = trail u")
    case True
    from kept_trail [OF S True u(2,3)] show ?thesis .
  next
    case False
    with s obtain x s where x: "last (trail u) = Some (held u, x)" and n: "trail w' = trail u @ [s]" "newer (latest u) (latest w') s"
      and fins: "case s of Some (v, x) \<Rightarrow> meta_Finalizers (ObjectMeta x) = meta_Finalizers (ObjectMeta cr')
        | None \<Rightarrow> meta_Finalizers (ObjectMeta cr') = []"
      by blast
    from assms(4) show ?thesis
    proof
      assume "holds_finalizer cr'"
      with fins n(1) have "protected w'" by (auto simp: protected_def holds_finalizer_def split: option.splits prod.splits)
      from write_keeps [OF S n u(2) this] show ?thesis .
    next
      assume R: "read_as cr w \<and> terminating L cr \<and> (\<forall>k \<in> own. \<not> live k w)"
      have "list_all (not_before (held u) cr) (trail u)" using M(3) R by (simp add: read_as_def)
      from trail_is_read [OF soundD(1) [OF S] x this] R have "\<not> active d" if "d \<in> set (trail u)" for d
        using that by (auto simp: active_def)
      then have "protected w'" if "d \<in> set (trail w')" "active d" for d
        using that n(1) active_protects [of w' s] by auto
      moreover have "\<not> live k w'" if "k \<in> own" for k using R M(4) [OF that] that u(3) by blast
      ultimately show ?thesis
        using in_order_append [OF soundD(1) [OF S] n(2) u(2)] n(1) by (auto intro!: soundI)
    qed
  qed
qed

end

section \<open>The engine\<close>

locale cached_engine = vendor_adapter L A extra_keys V +
    cached_api L c record_event req "owned_keys (GVK A) extra_keys (fst req) (snd req)" trail held latest live others
  for L :: k8s_libs
    and A :: "('spec, 'status) Adapter"
    and extra_keys :: "string \<Rightarrow> (GroupVersionKind \<times> string) list"
    and V :: "'status status_view"
    and c :: "('w, ('spec, 'status) paas_object) Client"
    and record_event :: "event \<Rightarrow> 'w \<Rightarrow> 'w"
    and req :: NamespacedName
    and trail :: "'w \<Rightarrow> (nat \<times> ('spec, 'status) paas_object) option list"
    and held :: "'w \<Rightarrow> nat"
    and latest :: "'w \<Rightarrow> nat"
    and live :: "object_key \<Rightarrow> 'w \<Rightarrow> bool"
    and others :: "'w \<Rightarrow> 'w \<Rightarrow> bool" +
  fixes r :: "('w, 'spec, 'status) GenericReconciler"
  assumes wired: "gr_Client r = c" "gr_Recorder r = record_event" "gr_Adapter r = A"
begin

abbreviation named :: "('spec, 'status) paas_object \<Rightarrow> bool" where
  "named cr \<equiv> (cr_namespace cr, cr_name cr) = req"

text \<open>On the deletion path the CR that was read is terminating and only the extras still listed can be live; on the normal path
  the stored CR is protected.\<close>

fun assertion :: "('spec, 'status) phase \<Rightarrow> 'w \<Rightarrow> bool" where
  "assertion (DelTarget cr) w = (sound w \<and> named cr \<and> read_as cr w \<and> terminating L cr)"
| "assertion (DelExtras cr xs) w = (sound w \<and> named cr \<and> read_as cr w \<and> terminating L cr \<and>
     (\<forall>x \<in> set xs. valid_gvk (extra_GVK x)) \<and>
     (\<forall>k \<in> owned (fst req) (snd req). live k w \<longrightarrow> k \<in> (\<lambda>x. (extra_GVK x, fst req, extra_Name x)) ` set xs))"
| "assertion (AddFin cr) w = (sound w \<and> named cr)"
| "assertion (Look cr) w = (sound w \<and> named cr \<and> protected w)"
| "assertion (Applying cr b) w = (sound w \<and> named cr \<and> protected w)"
| "assertion (Recording cr o') w = (sound w \<and> named cr \<and> protected w)"
| "assertion (Extras cr o' xs) w = (sound w \<and> named cr \<and> protected w)"
| "assertion p w = sound w"

lemma finalizer_iff: "has_finalizer L cr = holds_finalizer cr"
  by (simp add: has_finalizer_def holds_finalizer_def contains_finalizer)

lemma owned_listed:
  assumes "named cr" and "k \<in> owned (fst req) (snd req)"
  shows "k = (GVK A, fst req, snd req) \<or> k \<in> (\<lambda>x. (extra_GVK x, fst req, extra_Name x)) ` set (extras_of A cr)"
proof -
  have "set (extra_keys (cr_name cr)) = extra_key ` set (extras_of A cr)"
    using extra_keys_fixed [of cr "cr_name cr" "cr_namespace cr" "cr_name cr"]
    by (metis extras_of_at list.set_map target_of_eq)
  with assms show ?thesis by (auto simp: owned_keys_def)
qed

lemma delete_step:
  assumes "Client_Delete c (identify L (extra_GVK x) (fst req) (extra_Name x)) w = (d, w')" and "valid_gvk (extra_GVK x)"
    and "sound w" and "d = None \<or> IsNotFound L d"
    and "\<forall>k \<in> owned (fst req) (snd req). live k w \<longrightarrow> k \<in> (\<lambda>x. (extra_GVK x, fst req, extra_Name x)) ` set (x # xs)"
  shows "\<forall>k \<in> owned (fst req) (snd req). live k w' \<longrightarrow> k \<in> (\<lambda>x. (extra_GVK x, fst req, extra_Name x)) ` set xs"
  using delete_keeps(4,5) [OF assms(1,3)] assms(4,5) by (fastforce simp: key_of_identify [OF assms(2)])

lemma step_keeps:
  assumes "assertion p w" and "protocol_step L (gr_Adapter r) req p e q" and "performed r e w w'"
  shows "assertion q w'"
  using assms(2)
proof (cases rule: protocol_step.cases)
  case (read_ok cr)
  with assms(1,3) have g: "Client_Get c req w = (Inr cr, w')" and s: "sound w" by (simp_all add: wired)
  from get_keeps [OF g s] read_ok show ?thesis by (auto simp: after_read_def finalizer_iff)
next
  case (target_deleted err cr)
  with assms(1,3) have d: "Client_Delete c (identify L (GVK A) (fst req) (snd req)) w = (err, w')" and s: "sound w"
    and cr: "named cr" "read_as cr w" "terminating L cr" by (auto simp: wired)
  have "\<forall>k \<in> owned (fst req) (snd req). live k w' \<longrightarrow> k \<noteq> (GVK A, fst req, snd req)"
    using delete_keeps(5) [OF d s] target_deleted(4) by (auto simp: key_of_identify [OF gvk_valid])
  then have "\<forall>k \<in> owned (fst req) (snd req). live k w' \<longrightarrow> k \<in> (\<lambda>x. (extra_GVK x, fst req, extra_Name x)) ` set (extras_of A cr)"
    using owned_listed [OF cr(1)] by blast
  moreover have "\<forall>x \<in> set (extras_of A cr). valid_gvk (extra_GVK x)" using extra_key_in(2) by blast
  ultimately show ?thesis
    using delete_keeps(1,3) [OF d s] cr by (simp add: target_deleted(3) wired)
next
  case (extra_deleted err cr x xs)
  with assms(1,3) have d: "Client_Delete c (identify L (extra_GVK x) (fst req) (extra_Name x)) w = (err, w')"
    and s: "sound w" and v: "valid_gvk (extra_GVK x)" by (auto simp: wired)
  from delete_keeps(1,3) [OF d s] delete_step [OF d v s extra_deleted(4), of xs] assms(1) extra_deleted show ?thesis by simp
next
  case (finalizer_removed cr a)
  let ?cr = "cr\<lparr>ObjectMeta := RemoveFinalizer L (ObjectMeta cr) FinalizerName\<rparr>"
  have "Client_Update c ?cr w = (a, w')" and "(cr_namespace ?cr, cr_name ?cr) = req" and "sound w"
    and "read_as cr w \<and> terminating L cr \<and> (\<forall>k \<in> owned (fst req) (snd req). \<not> live k w)"
    using assms(1,3) finalizer_removed by (auto simp: wired remove_finalizer)
  from update_keeps [OF this(1-3), of cr] this(4) have "sound w'" by blast
  then show ?thesis by (cases a) (simp_all add: finalizer_removed(3))
next
  case (finalizer_added cr a)
  let ?cr = "cr\<lparr>ObjectMeta := AddFinalizer L (ObjectMeta cr) FinalizerName\<rparr>"
  have "Client_Update c ?cr w = (a, w')" and "(cr_namespace ?cr, cr_name ?cr) = req" and "sound w" and "holds_finalizer ?cr"
    using assms(1,3) finalizer_added by (auto simp: wired add_finalizer holds_finalizer_def)
  from update_keeps [OF this(1-3), of cr] this(4) have "sound w'" by blast
  then show ?thesis by (cases a) (simp_all add: finalizer_added(3))
next
  case (recorded cr o')
  with assms(1,3) meanwhile(1,2) [OF event_only] show ?thesis by (simp add: wired)
next
  case (status_written cr o' now a)
  let ?cr = "fst (ApplyStatus A now cr (target_of A cr) (ExtractStatus A (Some o')))"
  have "Client_StatusUpdate c ?cr w = (a, w')" and "(cr_namespace ?cr, cr_name ?cr) = req" and "sound w" and "protected w"
    using assms(1,3) status_written by (auto simp: wired apply_frame)
  from status_keeps [OF this] show ?thesis by (cases a) (simp_all add: status_written(3))
qed (use assms(1,3) in \<open>auto simp: wired dest: get_keeps(1) delete_keeps(1) delete_keeps(2) apply_keeps look_only meanwhile(1,2)\<close>)

lemma pass_keeps:
  assumes "Reconcile L r req w = (x, w')" and "sound w"
  shows "sound w'"
proof -
  obtain res e where "Reconcile L r req w = ((res, e), w')" using assms(1) by (cases x) simp
  from Reconcile_coupled [of L r req w res e w' assertion, OF this _ step_keeps] assms(2)
  have "assertion (Done res e) w'" by simp
  then show ?thesis by simp
qed

end

section \<open>Passes among others\<close>

text \<open>The world changes by passes over the CR, by what others do between and during them, and by passes that are cut short after some of
  their calls because the operator is killed.\<close>

inductive operated ::
    "k8s_libs \<Rightarrow> ('w, 'spec, 'status) GenericReconciler \<Rightarrow> NamespacedName \<Rightarrow> ('w \<Rightarrow> 'w \<Rightarrow> bool) \<Rightarrow> 'w \<Rightarrow> 'w \<Rightarrow> bool"
  for L r req others w where
  operated_start: "operated L r req others w w"
| operated_others: "operated L r req others w u \<Longrightarrow> others u u' \<Longrightarrow> operated L r req others w u'"
| operated_pass: "operated L r req others w u \<Longrightarrow> Reconcile L r req u = (x, u') \<Longrightarrow> operated L r req others w u'"
| operated_killed: "operated L r req others w u \<Longrightarrow> protocol_run L (gr_Adapter r) req Read cs p \<Longrightarrow> history r u cs u' \<Longrightarrow>
    operated L r req others w u'"

context cached_engine
begin

lemma assertion_sound: "assertion p w \<Longrightarrow> sound w"
  by (cases p) simp_all

lemma killed_keeps:
  assumes "protocol_run L (gr_Adapter r) req Read cs p" and "history r w cs w'" and "sound w"
  shows "sound w'"
proof -
  have "assertion Read w" using assms(3) by simp
  from history_coupled [of L "gr_Adapter r" req Read cs p r w w' assertion, OF assms(1,2) this step_keeps]
  have "assertion p w'" .
  then show ?thesis by (rule assertion_sound)
qed

lemma operated_keeps: "operated L r req others w w' \<Longrightarrow> sound w \<Longrightarrow> sound w'"
proof (induction rule: operated.induct)
  case (operated_pass u x u')
  from pass_keeps [OF operated_pass.hyps(2)] operated_pass show ?case by blast
next
  case (operated_killed u cs p u')
  from killed_keeps [OF operated_killed.hyps(2,3)] operated_killed show ?case by blast
qed (auto dest: others_sound)

text \<open>The state in which the operator starts to look after a CR: nothing cached, none of its objects live.\<close>

lemma sound_start:
  assumes "trail w = [None, s]" and "upto (latest w) s" and "\<forall>k \<in> owned (fst req) (snd req). \<not> live k w"
  shows "sound w"
  using assms active_protects [of w s] by (auto simp: sound_def in_order_def not_after_def upto_def active_def)

lemma no_orphans:
  assumes "operated L r req others w w'" and "sound w" and "k \<in> owned (fst req) (snd req)" and "live k w'"
  shows "\<exists>v x. last (trail w') = Some (v, x) \<and> has_finalizer L x"
  using soundD(2) [OF operated_keeps [OF assms(1,2)] assms(3,4)] by (auto simp: protected_def finalizer_iff)

end

end
