(* ===== verification/Cached_Server.thy ===== *)
theory Cached_Server
  imports Ref_Server Cached_Api
begin

text \<open>
  A reference server with a cache, other writers and faults, for one CR, and the interpretation of \<open>cached_api\<close> and \<open>cached_engine\<close> on it
  for all six controllers. What others do before each coming call, and whether the call works, is planned in the state of the server;
  the plan is arbitrary.
\<close>

text \<open>A user edits the spec, asks for the deletion of the CR or creates it; the watch delivers some of the versions the cache has not seen
  yet, one or several at once, or all; an object of the cluster disappears.\<close>

datatype ('spec, 'status) action =
    Edit 'spec
  | Expire time
  | Create "('spec, 'status) paas_object"
  | Deliver nat
  | Sync
  | Vanish object_key

text \<open>A call works, fails without effect, or has its effect and fails.\<close>

datatype fault = Works | Fails | AnswerLost

record ('spec, 'status) cached_server =
  cs_cached :: "(nat \<times> ('spec, 'status) paas_object) option"
  cs_feed :: "(nat \<times> ('spec, 'status) paas_object) option list"
  cs_held :: nat
  cs_latest :: nat
  cs_objs :: "object_key \<Rightarrow> unstructured option"
  cs_clock :: time
  cs_events :: "event list"
  cs_plan :: "(('spec, 'status) action list \<times> fault) list"

text \<open>What is stored is the last version the watch has to deliver; with none left it is what the cache shows.\<close>

definition cs_trail :: "('spec, 'status) cached_server \<Rightarrow> (nat \<times> ('spec, 'status) paas_object) option list" where
  "cs_trail w = cs_cached w # cs_feed w"

definition cs_stored :: "('spec, 'status) cached_server \<Rightarrow> (nat \<times> ('spec, 'status) paas_object) option" where
  "cs_stored w = last (cs_trail w)"

definition cs_write :: "('spec, 'status) paas_object \<Rightarrow> ('spec, 'status) cached_server \<Rightarrow> ('spec, 'status) cached_server" where
  "cs_write x w = w\<lparr>cs_feed := cs_feed w @ [Some (cs_latest w + 1, x)], cs_latest := cs_latest w + 1\<rparr>"

definition cs_remove :: "('spec, 'status) cached_server \<Rightarrow> ('spec, 'status) cached_server" where
  "cs_remove w = w\<lparr>cs_feed := cs_feed w @ [None]\<rparr>"

fun act :: "('spec, 'status) action \<Rightarrow> ('spec, 'status) cached_server \<Rightarrow> ('spec, 'status) cached_server" where
  "act (Edit s) w = (case cs_stored w of Some (v, x) \<Rightarrow> cs_write (x\<lparr>Spec := s\<rparr>) w | None \<Rightarrow> w)"
| "act (Expire t) w = (case cs_stored w of
      Some (v, x) \<Rightarrow>
        if meta_Finalizers (ObjectMeta x) = [] then cs_remove w
        else cs_write (x\<lparr>ObjectMeta := (ObjectMeta x)\<lparr>meta_DeletionTimestamp := Some t\<rparr>\<rparr>) w
    | None \<Rightarrow> w)"
| "act (Create x) w = (if cs_stored w = None then cs_write x w else w)"
| "act (Deliver n) w = (case drop n (cs_trail w) of [] \<Rightarrow> w | s # t \<Rightarrow> w\<lparr>cs_cached := s, cs_feed := t\<rparr>)"
| "act Sync w = w\<lparr>cs_cached := cs_stored w, cs_feed := []\<rparr>"
| "act (Vanish k) w = w\<lparr>cs_objs := (cs_objs w)(k := None)\<rparr>"

definition meet :: "('spec, 'status) cached_server \<Rightarrow> fault \<times> ('spec, 'status) cached_server" where
  "meet w = (case cs_plan w of [] \<Rightarrow> (Works, w) | (as, f) # p \<Rightarrow> (f, fold act as (w\<lparr>cs_plan := p\<rparr>)))"

definition of_req :: "NamespacedName \<Rightarrow> (nat \<times> ('spec, 'status) paas_object) option \<Rightarrow> (nat \<times> ('spec, 'status) paas_object) option" where
  "of_req req s = (case s of Some (v, x) \<Rightarrow> (if (cr_namespace x, cr_name x) = req then s else None) | None \<Rightarrow> None)"

abbreviation timeout :: gerror where "timeout \<equiv> StatusError ''Timeout''"
abbreviation conflict :: gerror where "conflict \<equiv> StatusError ''Conflict''"

definition reply :: "fault \<Rightarrow> 'a \<Rightarrow> gerror + 'a" where
  "reply f a = (if f = Works then Inr a else Inl timeout)"

definition cs_client :: "('spec \<Rightarrow> 'spec) \<Rightarrow> (('spec, 'status) cached_server, ('spec, 'status) paas_object) Client" where
  "cs_client wire = \<lparr>
     Client_Get = (\<lambda>n w. case meet w of (f, u) \<Rightarrow>
       if f \<noteq> Works then (Inl timeout, u)
       else (case of_req n (cs_cached u) of None \<Rightarrow> (Inl not_found, u) | Some (v, x) \<Rightarrow> (Inr x, u\<lparr>cs_held := v\<rparr>))),
     Client_GetUnstructured = (\<lambda>n o' w. case meet w of (f, u) \<Rightarrow>
       (if f \<noteq> Works then Inl timeout
        else (case cs_objs u (GetGroupVersionKind ref_libs o', n) of None \<Rightarrow> Inl not_found | Some x \<Rightarrow> Inr x), u)),
     Client_Apply = (\<lambda>o' owner force w. case meet w of (f, u) \<Rightarrow>
       if f = Fails then (Inl timeout, u)
       else (let k = key_of ref_libs o'; x = merged (cs_objs u k) o' in (reply f x, u\<lparr>cs_objs := (cs_objs u)(k := Some x)\<rparr>))),
     Client_Delete = (\<lambda>o' w. case meet w of (f, u) \<Rightarrow>
       if f = Fails then (Some timeout, u)
       else (let k = key_of ref_libs o'
             in (if f = AnswerLost then Some timeout else if cs_objs u k = None then Some not_found else None,
                 u\<lparr>cs_objs := (cs_objs u)(k := None)\<rparr>))),
     Client_Update = (\<lambda>cr w. case meet w of (f, u) \<Rightarrow>
       if f = Fails then (Inl timeout, u)
       else (case of_req (cr_namespace cr, cr_name cr) (cs_stored u) of
           None \<Rightarrow> (Inl not_found, u)
         | Some (v, x) \<Rightarrow>
             if v \<noteq> cs_held u then (Inl conflict, u)
             else if meta_DeletionTimestamp (ObjectMeta cr) \<noteq> None \<and> meta_Finalizers (ObjectMeta cr) = []
             then (reply f cr, cs_remove u)
             else (reply f cr, cs_write (cr\<lparr>Spec := wire (Spec cr), Status := Status x\<rparr>) u))),
     Client_StatusUpdate = (\<lambda>cr w. case meet w of (f, u) \<Rightarrow>
       if f = Fails then (Inl timeout, u)
       else (case of_req (cr_namespace cr, cr_name cr) (cs_stored u) of
           None \<Rightarrow> (Inl not_found, u)
         | Some (v, x) \<Rightarrow>
             if v \<noteq> cs_held u then (Inl conflict, u) else (reply f cr, cs_write (x\<lparr>Status := Status cr\<rparr>) u))),
     Client_Now = cs_clock\<rparr>"

definition cs_recorder :: "event \<Rightarrow> ('spec, 'status) cached_server \<Rightarrow> ('spec, 'status) cached_server" where
  "cs_recorder e w = w\<lparr>cs_events := cs_events w @ [e]\<rparr>"

text \<open>The steps of others, and the bookkeeping of the model.\<close>

definition cs_others :: "('spec, 'status) cached_server \<Rightarrow> ('spec, 'status) cached_server \<Rightarrow> bool" where
  "cs_others w u \<longleftrightarrow> (\<exists>a. u = act a w) \<or> (\<exists>p. u = w\<lparr>cs_plan := p\<rparr>) \<or> (\<exists>es. u = w\<lparr>cs_events := es\<rparr>)"

definition cs_live :: "object_key \<Rightarrow> ('spec, 'status) cached_server \<Rightarrow> bool" where
  "cs_live k w \<longleftrightarrow> cs_objs w k \<noteq> None"

abbreviation cs_view :: "NamespacedName \<Rightarrow> ('spec, 'status) cached_server \<Rightarrow> (nat \<times> ('spec, 'status) paas_object) option list" where
  "cs_view req w \<equiv> map (of_req req) (cs_trail w)"

lemma fold_act_others: "cs_others\<^sup>*\<^sup>* w (fold act as w)"
proof (induction as arbitrary: w)
  case (Cons a as)
  have "cs_others w (act a w)" by (auto simp: cs_others_def)
  with Cons show ?case by (auto intro: converse_rtranclp_into_rtranclp)
qed simp

lemma meet_others: "meet w = (f, u) \<Longrightarrow> cs_others\<^sup>*\<^sup>* w u"
proof (cases "cs_plan w")
  case (Cons x p)
  obtain as g where x: "x = (as, g)" by (cases x)
  assume "meet w = (f, u)"
  with Cons x have u: "u = fold act as (w\<lparr>cs_plan := p\<rparr>)" by (simp add: meet_def)
  have "cs_others w (w\<lparr>cs_plan := p\<rparr>)" by (auto simp: cs_others_def)
  then show ?thesis unfolding u by (rule converse_rtranclp_into_rtranclp [OF _ fold_act_others])
qed (simp add: meet_def)

lemma of_req_Some: "of_req req s = Some (v, x) \<longleftrightarrow> s = Some (v, x) \<and> (cr_namespace x, cr_name x) = req"
  by (auto simp: of_req_def split: option.splits if_splits)

lemma of_req_simps [simp]:
  "of_req req None = None"
  "of_req req (Some (v, x)) = (if (cr_namespace x, cr_name x) = req then Some (v, x) else None)"
  by (simp_all add: of_req_def)

lemma cs_write_simps [simp]:
  "cs_trail (cs_write x w) = cs_trail w @ [Some (cs_latest w + 1, x)]" "cs_latest (cs_write x w) = cs_latest w + 1"
  "cs_held (cs_write x w) = cs_held w" "cs_objs (cs_write x w) = cs_objs w" "cs_clock (cs_write x w) = cs_clock w"
  "cs_events (cs_write x w) = cs_events w" "cs_plan (cs_write x w) = cs_plan w"
  "cs_trail (cs_remove w) = cs_trail w @ [None]" "cs_latest (cs_remove w) = cs_latest w"
  "cs_held (cs_remove w) = cs_held w" "cs_objs (cs_remove w) = cs_objs w" "cs_clock (cs_remove w) = cs_clock w"
  "cs_events (cs_remove w) = cs_events w" "cs_plan (cs_remove w) = cs_plan w"
  by (simp_all add: cs_write_def cs_remove_def cs_trail_def)

lemma cs_trail_keeps [simp]:
  "cs_trail (w\<lparr>cs_held := v\<rparr>) = cs_trail w" "cs_trail (w\<lparr>cs_objs := x\<rparr>) = cs_trail w" "cs_trail (w\<lparr>cs_plan := p\<rparr>) = cs_trail w"
  "cs_trail (w\<lparr>cs_events := es\<rparr>) = cs_trail w" "cs_trail (w\<lparr>cs_cached := s, cs_feed := t\<rparr>) = s # t"
  by (simp_all add: cs_trail_def)

lemma cs_trail_not_Nil [simp]: "cs_trail w \<noteq> []"
  by (simp add: cs_trail_def)

lemma cs_stored_simps [simp]:
  "cs_stored (cs_write x w) = Some (cs_latest w + 1, x)" "cs_stored (cs_remove w) = None"
  "cs_stored (w\<lparr>cs_held := v\<rparr>) = cs_stored w" "cs_stored (w\<lparr>cs_objs := y\<rparr>) = cs_stored w" "cs_stored (w\<lparr>cs_plan := p\<rparr>) = cs_stored w"
  "cs_stored (w\<lparr>cs_events := es\<rparr>) = cs_stored w"
  by (simp_all add: cs_stored_def)

lemma last_view: "last (cs_view req w) = of_req req (cs_stored w)"
  by (simp add: cs_stored_def last_map)

lemma newer_of_req: "newer l l' s \<Longrightarrow> newer l l' (of_req req s)"
  by (auto simp: newer_def of_req_Some)

text \<open>One action: what it can do to the trail and the objects.\<close>

lemma drop_ConsE: "drop n t = s # t' \<Longrightarrow> delivered t (s # t')"
  unfolding delivered_def by (metis drop_all leI list.simps(3))

lemma act_trail: "delivered (cs_trail w) (cs_trail (act a w)) \<or>
    (\<exists>s. cs_trail (act a w) = cs_trail w @ [s] \<and> newer (cs_latest w) (cs_latest (act a w)) s)"
proof (cases a)
  case Sync
  have "[last (cs_trail w)] = drop (length (cs_feed w)) (cs_trail w)"
    by (cases "cs_feed w" rule: rev_cases) (simp_all add: cs_trail_def)
  then have "delivered (cs_trail w) [last (cs_trail w)]"
    unfolding delivered_def by (intro exI [of _ "length (cs_feed w)"]) (simp add: cs_trail_def)
  with Sync show ?thesis by (simp add: cs_stored_def)
next
  case (Deliver n)
  then show ?thesis by (cases "drop n (cs_trail w)") (auto simp: delivered_refl dest: drop_ConsE)
qed (auto simp: newer_def delivered_refl split: option.split)

lemma act_keeps_finalizer:
  assumes "cs_stored w = Some (v, x)" and "holds_finalizer x"
  shows "\<exists>v' x'. cs_stored (act a w) = Some (v', x') \<and> holds_finalizer x' \<and> cr_namespace x' = cr_namespace x \<and> cr_name x' = cr_name x"
proof (cases a)
  case (Deliver n)
  then have "cs_stored (act a w) = cs_stored w"
    by (cases "drop n (cs_trail w)") (auto simp: cs_stored_def dest!: drop_ConsE deliveredD)
  with assms show ?thesis by auto
qed (use assms in \<open>auto simp: holds_finalizer_def cs_stored_def [of "_\<lparr>cs_cached := _, cs_feed := _\<rparr>"]\<close>)

lemma act_rest:
  "cs_latest w \<le> cs_latest (act a w)" "cs_held (act a w) = cs_held w" "cs_live k (act a w) \<Longrightarrow> cs_live k w"
  by (cases a; auto simp: cs_live_def split: option.splits if_splits list.splits)+

text \<open>One call: others, then its own effect.\<close>

lemma cs_get:
  assumes "Client_Get (cs_client wire) req w = (a, w')"
  obtains u where "cs_others\<^sup>*\<^sup>* w u" "cs_trail w' = cs_trail u" "cs_latest w' = cs_latest u"
    "cs_objs w' = cs_objs u" "\<And>cr. a = Inr cr \<Longrightarrow> of_req req (cs_cached u) = Some (cs_held w', cr)"
proof -
  obtain f u where m: "meet w = (f, u)" by (metis prod.exhaust)
  show ?thesis
    by (rule that [OF meet_others [OF m]])
       (use assms m in \<open>auto simp: cs_client_def of_req_Some split: if_splits option.splits\<close>)
qed

lemma cs_look: "Client_GetUnstructured (cs_client wire) n o' w = (b, w') \<Longrightarrow> cs_others\<^sup>*\<^sup>* w w'"
  by (cases "meet w") (auto simp: cs_client_def dest: meet_others)

lemma cs_apply:
  assumes "Client_Apply (cs_client wire) o' owner force w = (b, w')"
  obtains u where "cs_others\<^sup>*\<^sup>* w u" "cs_trail w' = cs_trail u" "cs_latest w' = cs_latest u"
    "cs_held w' = cs_held u" "\<And>k. cs_live k w' \<Longrightarrow> cs_live k u \<or> k = key_of ref_libs o'"
proof -
  obtain f u where m: "meet w = (f, u)" by (metis prod.exhaust)
  show ?thesis
    by (rule that [OF meet_others [OF m]])
       (use assms m in \<open>auto simp: cs_client_def cs_live_def Let_def split: if_splits\<close>)
qed

lemma cs_delete:
  assumes "Client_Delete (cs_client wire) o' w = (d, w')"
  obtains u where "cs_others\<^sup>*\<^sup>* w u" "cs_trail w' = cs_trail u" "cs_latest w' = cs_latest u"
    "cs_held w' = cs_held u" "\<And>k. cs_live k w' \<Longrightarrow> cs_live k u"
    "d = None \<or> IsNotFound ref_libs d \<Longrightarrow> \<not> cs_live (key_of ref_libs o') w'"
proof -
  obtain f u where m: "meet w = (f, u)" by (metis prod.exhaust)
  have "\<not> IsNotFound ref_libs (Some timeout)" by (simp add: ref_libs_def)
  then show ?thesis
    by (intro that [OF meet_others [OF m]])
       (use assms m in \<open>auto simp: cs_client_def cs_live_def Let_def split: if_splits\<close>)
qed

lemma cs_update:
  assumes "Client_Update (cs_client wire) cr w = (a, w')" and "(cr_namespace cr, cr_name cr) = req"
  obtains u where "cs_others\<^sup>*\<^sup>* w u" "cs_latest u \<le> cs_latest w'" "cs_held w' = cs_held u" "cs_objs w' = cs_objs u"
    "cs_trail w' = cs_trail u \<or> (\<exists>x. of_req req (cs_stored u) = Some (cs_held u, x)) \<and>
      (cs_trail w' = cs_trail u @ [None] \<and> meta_Finalizers (ObjectMeta cr) = [] \<or>
       (\<exists>x. cs_trail w' = cs_trail u @ [Some (cs_latest u + 1, x)] \<and> cs_latest w' = cs_latest u + 1 \<and> ObjectMeta x = ObjectMeta cr))"
proof -
  obtain f u where m: "meet w = (f, u)" by (metis prod.exhaust)
  show ?thesis
    by (rule that [OF meet_others [OF m]])
       (use assms m in \<open>auto simp: cs_client_def Let_def split: if_splits option.splits\<close>)
qed

lemma cs_status:
  assumes "Client_StatusUpdate (cs_client wire) cr w = (a, w')" and "(cr_namespace cr, cr_name cr) = req"
  obtains u where "cs_others\<^sup>*\<^sup>* w u" "cs_latest u \<le> cs_latest w'" "cs_held w' = cs_held u" "cs_objs w' = cs_objs u"
    "cs_trail w' = cs_trail u \<or> (\<exists>v x x'. of_req req (cs_stored u) = Some (v, x) \<and> cs_trail w' = cs_trail u @ [Some (cs_latest u + 1, x')] \<and>
      cs_latest w' = cs_latest u + 1 \<and> ObjectMeta x' = ObjectMeta x)"
proof -
  obtain f u where m: "meet w = (f, u)" by (metis prod.exhaust)
  show ?thesis
    by (rule that [OF meet_others [OF m]])
       (use assms m in \<open>auto simp: cs_client_def Let_def split: if_splits option.splits\<close>)
qed

lemma cs_other_step:
  assumes "cs_others w u"
  obtains a where "cs_trail u = cs_trail (act a w)" "cs_latest u = cs_latest (act a w)"
      "cs_held u = cs_held (act a w)" "cs_objs u = cs_objs (act a w)"
    | "cs_trail u = cs_trail w" "cs_latest u = cs_latest w" "cs_held u = cs_held w" "cs_objs u = cs_objs w"
  using assms by (fastforce simp: cs_others_def)

lemma delivered_map: "delivered t t' \<Longrightarrow> delivered (map f t) (map f t')"
  by (auto simp: delivered_def drop_map)

interpretation cached_ref: cached_api ref_libs "cs_client wire" cs_recorder req own "cs_view req" cs_held cs_latest
  cs_live cs_others for wire req own
proof (rule cached_api.intro)
  fix w u :: "('a, 'b) cached_server"
  assume "cs_others w u"
  then show "delivered (cs_view req w) (cs_view req u) \<or>
      (\<exists>s. cs_view req u = cs_view req w @ [s] \<and> newer (cs_latest w) (cs_latest u) s)"
  proof (rule cs_other_step)
    fix a assume a: "cs_trail u = cs_trail (act a w)" "cs_latest u = cs_latest (act a w)"
    from act_trail [of w a] show ?thesis
      by (auto simp: a intro: delivered_map newer_of_req)
  qed (simp add: delivered_refl)
next
  fix w u :: "('a, 'b) cached_server" and v x
  assume O: "cs_others w u" and "last (cs_view req w) = Some (v, x)" and h: "holds_finalizer x"
  then have x: "cs_stored w = Some (v, x)" "(cr_namespace x, cr_name x) = req" unfolding last_view by (simp_all add: of_req_Some)
  from O have "\<exists>v' x'. cs_stored u = Some (v', x') \<and> holds_finalizer x' \<and> cr_namespace x' = cr_namespace x \<and> cr_name x' = cr_name x"
    by (rule cs_other_step) (use x h act_keeps_finalizer [of w v x] in \<open>fastforce simp: cs_stored_def\<close>)+
  with x(2) show "\<exists>v' x'. last (cs_view req u) = Some (v', x') \<and> holds_finalizer x'"
    unfolding last_view by (auto simp: of_req_Some)
next
  fix w u :: "('a, 'b) cached_server"
  assume "cs_others w u"
  then show "cs_latest w \<le> cs_latest u \<and> cs_held u = cs_held w"
    by (rule cs_other_step) (use act_rest(1,2) [where w = w] in simp_all)
next
  fix w u :: "('a, 'b) cached_server" and k
  assume "cs_others w u" and "cs_live k u"
  then show "cs_live k w"
    by (elim cs_other_step) (use act_rest(3) [of k _ w] in \<open>auto simp: cs_live_def\<close>)
next
  fix w :: "('a, 'b) cached_server" and v cr
  assume "Some (v, cr) \<in> set (cs_view req w)"
  then obtain s where "of_req req s = Some (v, cr)" by auto
  then show "(cr_namespace cr, cr_name cr) = req" by (simp add: of_req_Some)
next
  fix w w' :: "('a, 'b) cached_server" and a
  assume "Client_Get (cs_client wire) req w = (a, w')"
  then show "\<exists>u. cs_others\<^sup>*\<^sup>* w u \<and> cs_view req w' = cs_view req u \<and>
      cs_latest w' = cs_latest u \<and> (\<forall>k. cs_live k w' = cs_live k u) \<and> (\<forall>cr. a = Inr cr \<longrightarrow> (\<exists>t. cs_view req u = Some (cs_held w', cr) # t))"
    by (rule cs_get) (auto simp: cs_live_def, auto simp: cs_trail_def)
next
  fix n o' b and w w' :: "('a, 'b) cached_server"
  assume "Client_GetUnstructured (cs_client wire) n o' w = (b, w')"
  then show "cs_others\<^sup>*\<^sup>* w w'" by (rule cs_look)
next
  fix o' f force b and w w' :: "('a, 'b) cached_server"
  assume "Client_Apply (cs_client wire) o' f force w = (b, w')"
  then show "\<exists>u. cs_others\<^sup>*\<^sup>* w u \<and> cs_view req w' = cs_view req u \<and> cs_latest w' = cs_latest u \<and>
      cs_held w' = cs_held u \<and> (\<forall>k. cs_live k w' \<longrightarrow> cs_live k u \<or> k = key_of ref_libs o')"
    by (rule cs_apply) auto
next
  fix o' d and w w' :: "('a, 'b) cached_server"
  assume "Client_Delete (cs_client wire) o' w = (d, w')"
  then show "\<exists>u. cs_others\<^sup>*\<^sup>* w u \<and> cs_view req w' = cs_view req u \<and> cs_latest w' = cs_latest u \<and>
      cs_held w' = cs_held u \<and> (\<forall>k. cs_live k w' \<longrightarrow> cs_live k u) \<and>
      (d = None \<or> IsNotFound ref_libs d \<longrightarrow> \<not> cs_live (key_of ref_libs o') w')"
    by (rule cs_delete) auto
next
  fix cr a and w w' :: "('a, 'b) cached_server"
  assume "Client_Update (cs_client wire) cr w = (a, w')" and n: "(cr_namespace cr, cr_name cr) = req"
  then obtain u where u: "cs_others\<^sup>*\<^sup>* w u" "cs_latest u \<le> cs_latest w'" "cs_held w' = cs_held u" "cs_objs w' = cs_objs u"
    "cs_trail w' = cs_trail u \<or> (\<exists>x. of_req req (cs_stored u) = Some (cs_held u, x)) \<and>
      (cs_trail w' = cs_trail u @ [None] \<and> meta_Finalizers (ObjectMeta cr) = [] \<or>
       (\<exists>x. cs_trail w' = cs_trail u @ [Some (cs_latest u + 1, x)] \<and> cs_latest w' = cs_latest u + 1 \<and> ObjectMeta x = ObjectMeta cr))"
    by (rule cs_update)
  then show "\<exists>u. cs_others\<^sup>*\<^sup>* w u \<and> cs_latest u \<le> cs_latest w' \<and> cs_held w' = cs_held u \<and>
      (\<forall>k. cs_live k w' = cs_live k u) \<and> (cs_view req w' = cs_view req u \<or> (\<exists>x. last (cs_view req u) = Some (cs_held u, x)) \<and>
       (\<exists>s. cs_view req w' = cs_view req u @ [s] \<and> newer (cs_latest u) (cs_latest w') s \<and>
        (case s of None \<Rightarrow> meta_Finalizers (ObjectMeta cr) = []
         | Some (v, x) \<Rightarrow> meta_Finalizers (ObjectMeta x) = meta_Finalizers (ObjectMeta cr))))"
    unfolding last_view using n by (intro exI [of _ u]) (auto simp: cs_live_def newer_def)
next
  fix cr a and w w' :: "('a, 'b) cached_server"
  assume "Client_StatusUpdate (cs_client wire) cr w = (a, w')" and n: "(cr_namespace cr, cr_name cr) = req"
  then obtain u where u: "cs_others\<^sup>*\<^sup>* w u" "cs_latest u \<le> cs_latest w'" "cs_held w' = cs_held u" "cs_objs w' = cs_objs u"
    "cs_trail w' = cs_trail u \<or> (\<exists>v x x'. of_req req (cs_stored u) = Some (v, x) \<and> cs_trail w' = cs_trail u @ [Some (cs_latest u + 1, x')] \<and>
      cs_latest w' = cs_latest u + 1 \<and> ObjectMeta x' = ObjectMeta x)"
    by (rule cs_status)
  then show "\<exists>u. cs_others\<^sup>*\<^sup>* w u \<and> cs_latest u \<le> cs_latest w' \<and> cs_held w' = cs_held u \<and>
      (\<forall>k. cs_live k w' = cs_live k u) \<and> (cs_view req w' = cs_view req u \<or>
       (\<exists>v x v' x'. last (cs_view req u) = Some (v, x) \<and> cs_view req w' = cs_view req u @ [Some (v', x')] \<and>
         newer (cs_latest u) (cs_latest w') (Some (v', x')) \<and>
         meta_Finalizers (ObjectMeta x') = meta_Finalizers (ObjectMeta x)))"
    unfolding last_view using n by (intro exI [of _ u]) (auto simp: cs_live_def newer_def of_req_Some)
next
  fix ev and w :: "('a, 'b) cached_server"
  have "cs_others w (cs_recorder ev w)" by (auto simp: cs_others_def cs_recorder_def)
  then show "cs_others\<^sup>*\<^sup>* w (cs_recorder ev w)" by blast
qed

interpretation pg_cached: cached_engine ref_libs "cnpg_Adapter ref_libs" "\<lambda>_. []" cnpg_view
  "cs_client pg_wire" cs_recorder req "cs_view req" cs_held cs_latest cs_live cs_others
  "NewPostgresClusterReconciler ref_libs (cs_client pg_wire) cs_recorder" for req
  by unfold_locales (simp_all add: controller_defs)

interpretation vk_cached: cached_engine ref_libs "valkey_Adapter ref_libs" "\<lambda>t. [(valkey_externalServiceGVK, t @ ''-external'')]" valkey_view
  "cs_client vk_wire" cs_recorder req "cs_view req" cs_held cs_latest cs_live cs_others
  "NewValkeyClusterReconciler ref_libs (cs_client vk_wire) cs_recorder" for req
  by unfold_locales (simp_all add: controller_defs)

interpretation gf_cached: cached_engine ref_libs "grafana_Adapter ref_libs" "\<lambda>_. []" grafana_view
  "cs_client gf_wire" cs_recorder req "cs_view req" cs_held cs_latest cs_live cs_others
  "NewGrafanaInstanceReconciler ref_libs (cs_client gf_wire) cs_recorder" for req
  by unfold_locales (simp_all add: controller_defs)

interpretation md_cached: cached_engine ref_libs "mariadb_Adapter ref_libs" "\<lambda>_. []" mariadb_view
  "cs_client md_wire" cs_recorder req "cs_view req" cs_held cs_latest cs_live cs_others
  "NewMariaDBClusterReconciler ref_libs (cs_client md_wire) cs_recorder" for req
  by unfold_locales (simp_all add: controller_defs)

interpretation rmq_cached: cached_engine ref_libs "rabbitmq_Adapter ref_libs" "\<lambda>t. [(ingress_GVK, t @ ''-ingress'')]" rabbitmq_view
  "cs_client rmq_wire" cs_recorder req "cs_view req" cs_held cs_latest cs_live cs_others
  "NewRabbitMQClusterReconciler ref_libs (cs_client rmq_wire) cs_recorder" for req
  by unfold_locales (simp_all add: controller_defs)

interpretation prom_cached: cached_engine ref_libs "prometheus_Adapter ref_libs"
  "\<lambda>t. [(prometheus_serviceGVK, t @ ''-web''), (ingress_GVK, t @ ''-ingress'')]" prometheus_view
  "cs_client prom_wire" cs_recorder req "cs_view req" cs_held cs_latest cs_live cs_others
  "NewPrometheusInstanceReconciler ref_libs (cs_client prom_wire) cs_recorder" for req
  by unfold_locales (simp_all add: controller_defs)

end
