(* ===== verification/Cached_Liveness.thy ===== *)
theory Cached_Liveness
  imports Cached_Server
begin

text \<open>
  What the engine does behind a cache once the others come to rest. Until then they may have done anything, and any call may
  have failed. From then on the cache catches up before a pass, and such a server answers like one without a cache: the
  simulation carries the results of \<open>available_engine\<close> over. The six controllers on the server of \<open>Cached_Server\<close> are instances.
\<close>

text \<open>A pass; once nothing is pending, the cache catches up before it.\<close>

definition recovering_pass ::
    "k8s_libs \<Rightarrow> ('v, 'spec, 'status) GenericReconciler \<Rightarrow> ('v \<Rightarrow> nat) \<Rightarrow> ('v \<Rightarrow> 'v) \<Rightarrow> NamespacedName \<Rightarrow> 'v \<Rightarrow> 'v" where
  "recovering_pass L r pending catch_up req w = snd (Reconcile L r req (if pending w = 0 then catch_up w else w))"

text \<open>
  \<open>pending\<close> bounds how many calls of the client others still come before or make fail; every read takes one off. When none is left,
  the client of \<open>r\<close> answers as the one of \<open>q\<close> on the state of the server that \<open>seen\<close> extracts, for a world with a fresh cache.
\<close>

locale recovering_engine =
  available_engine L A extra_keys V c record_event cr_at obj_at live wire q +
  client_simulation r q "\<lambda>w s. pending w = 0 \<and> fresh w \<and> s = seen w" "\<lambda>w s. pending w = 0 \<and> holds w \<and> s = seen w"
    "\<lambda>w s. pending w = 0 \<and> s = seen w"
  for L :: k8s_libs
    and A :: "('spec, 'status) Adapter"
    and extra_keys :: "string \<Rightarrow> (GroupVersionKind \<times> string) list"
    and V :: "'status status_view"
    and c :: "('s, ('spec, 'status) paas_object) Client"
    and record_event :: "event \<Rightarrow> 's \<Rightarrow> 's"
    and cr_at :: "NamespacedName \<Rightarrow> 's \<Rightarrow> ('spec, 'status) paas_object option"
    and obj_at :: "object_key \<Rightarrow> 's \<Rightarrow> unstructured option"
    and live :: "object_key \<Rightarrow> 's \<Rightarrow> bool"
    and wire :: "'spec \<Rightarrow> 'spec"
    and q :: "('s, 'spec, 'status) GenericReconciler"
    and r :: "('v, 'spec, 'status) GenericReconciler"
    and pending :: "'v \<Rightarrow> nat" and fresh :: "'v \<Rightarrow> bool" and holds :: "'v \<Rightarrow> bool" and seen :: "'v \<Rightarrow> 's" +
  fixes catch_up :: "'v \<Rightarrow> 'v"
  assumes caught_up: "pending w = 0 \<Longrightarrow> pending (catch_up w) = 0 \<and> fresh (catch_up w) \<and> seen (catch_up w) = seen w"
    and get_consumes: "Client_Get (gr_Client r) k w = (a, w') \<Longrightarrow> pending w' \<le> pending w - 1"
    and calls_add_none: "call_invariant r (\<lambda>w. pending w \<le> n)"
begin

abbreviation pass where
  "pass \<equiv> recovering_pass L r pending catch_up"

lemma pass_at_rest:
  assumes "pending w = 0"
  shows "pending (pass req w) = 0" and "seen (pass req w) = snd (Reconcile L q req (seen w))"
proof -
  have "rel_prod (=) (\<lambda>w s. pending w = 0 \<and> s = seen w) (Reconcile L r req (catch_up w)) (Reconcile L q req (seen w))"
    using Reconcile_sim [of "catch_up w" "seen w" L req] caught_up [OF assms] by simp
  then show "pending (pass req w) = 0" "seen (pass req w) = snd (Reconcile L q req (seen w))"
    using assms by (auto simp: recovering_pass_def elim!: same_answerE)
qed

lemma pass_consumes: "pending (pass req w) \<le> pending w - 1"
proof (cases "pending w = 0")
  case True
  with pass_at_rest(1) show ?thesis by simp
next
  case False
  obtain a w1 where g: "Client_Get (gr_Client r) req w = (a, w1)" by (metis prod.exhaust)
  obtain x w' where R: "Reconcile L r req w = (x, w')" by (metis prod.exhaust)
  have "pending w' \<le> pending w - 1"
    by (rule call_invariant.Reconcile_preserves_after_get [OF calls_add_none R g get_consumes [OF g]])
  with R False show ?thesis by (simp add: recovering_pass_def)
qed

lemma others_come_to_rest: "pending ((pass req ^^ n) w) \<le> pending w - n"
proof (induction n)
  case (Suc n)
  with pass_consumes [of req "(pass req ^^ n) w"] show ?case by simp
qed simp

lemma course_after_rest:
  assumes "pending w = 0" and "course req goal k (seen w)"
  shows "pending ((pass req ^^ n) w) = 0 \<and> course req goal (k - n) (seen ((pass req ^^ n) w))"
proof (induction n)
  case 0
  from assms show ?case by simp
next
  case (Suc n)
  then have "pending ((pass req ^^ n) w) = 0" "course req goal (k - n) (seen ((pass req ^^ n) w))" by auto
  from pass_at_rest [OF this(1)] course_pass [OF this(2)] show ?case by simp
qed

text \<open>Every CR is at most two passes from where it is to be, or it waits for others' finalizers.\<close>

lemma course_start:
  assumes "cr_at req s = Some cr" and "terminating L cr \<longrightarrow> has_finalizer L cr"
  shows "course req (if terminating L cr then None else Some (if has_finalizer L cr then Spec cr else wire (Spec cr))) 2 s"
  using assms by (auto simp: on_course_def)

lemma recovers:
  assumes "cr_at req (seen ((pass req ^^ pending w) w)) = Some cr" and "terminating L cr \<longrightarrow> has_finalizer L cr"
    and "pending w + 2 \<le> n"
  shows "course req (if terminating L cr then None else Some (if has_finalizer L cr then Spec cr else wire (Spec cr))) 0
    (seen ((pass req ^^ n) w))"
proof -
  let ?w = "(pass req ^^ pending w) w"
  have "pending ?w = 0" using others_come_to_rest [where req = req and n = "pending w" and w = w] by simp
  note C = course_after_rest [OF this course_start [OF assms(1,2)], of "n - pending w"]
  have "(pass req ^^ n) w = (pass req ^^ (n - pending w)) ?w"
    using assms(3) by (simp flip: funpow_add [THEN fun_cong, unfolded o_apply])
  with C assms(3) show ?thesis by simp
qed

end

section \<open>The server with a cache\<close>

text \<open>The state of the server behind the cache. A cache that has caught up holds what is stored, and a read from it takes the current version.\<close>

definition srv_of :: "('spec, 'status) cached_server \<Rightarrow> ('spec, 'status) server" where
  "srv_of w = \<lparr>srv_crs = (\<lambda>n. map_option snd (of_req n (cs_stored w))), srv_objs = cs_objs w, srv_clock = cs_clock w,
     srv_events = cs_events w\<rparr>"

abbreviation cs_pending :: "('spec, 'status) cached_server \<Rightarrow> nat" where
  "cs_pending w \<equiv> length (cs_plan w)"

definition cs_fresh :: "('spec, 'status) cached_server \<Rightarrow> bool" where
  "cs_fresh w \<longleftrightarrow> cs_cached w = cs_stored w"

definition cs_holds :: "('spec, 'status) cached_server \<Rightarrow> bool" where
  "cs_holds w \<longleftrightarrow> (\<forall>v x. cs_stored w = Some (v, x) \<longrightarrow> v = cs_held w)"

lemma meet_at_rest: "cs_plan w = [] \<Longrightarrow> meet w = (Works, w)"
  by (simp add: meet_def)

lemma srv_of_sel [simp]:
  "srv_objs (srv_of w) = cs_objs w" "srv_clock (srv_of w) = cs_clock w" "srv_events (srv_of w) = cs_events w"
  "server_cr n (srv_of w) = map_option snd (of_req n (cs_stored w))"
  by (auto simp: srv_of_def server_cr_def of_req_def split: option.split)

lemma srv_of_upd:
  "srv_of (w\<lparr>cs_objs := x\<rparr>) = (srv_of w)\<lparr>srv_objs := x\<rparr>"
  "srv_of (w\<lparr>cs_events := es\<rparr>) = (srv_of w)\<lparr>srv_events := es\<rparr>"
  "srv_of (w\<lparr>cs_held := v\<rparr>) = srv_of w"
  "srv_of (w\<lparr>cs_cached := cs_stored w, cs_feed := []\<rparr>) = srv_of w"
  by (simp_all add: srv_of_def cs_stored_def)

lemma srv_objs_same: "cs_objs w k = None \<Longrightarrow> (srv_of w)\<lparr>srv_objs := (cs_objs w)(k := None)\<rparr> = srv_of w"
  by (simp add: srv_of_def fun_upd_idem)

lemma srv_of_write:
  assumes "of_req (cr_namespace y, cr_name y) (cs_stored w) = Some (v, x)"
  shows "srv_of (cs_write y w) = put_cr y (srv_of w)"
    and "srv_of (cs_remove w) = (srv_of w)\<lparr>srv_crs := (srv_crs (srv_of w))((cr_namespace y, cr_name y) := None)\<rparr>"
proof -
  from assms have "cs_stored w = Some (v, x)" "cr_namespace x = cr_namespace y" "cr_name x = cr_name y"
    by (auto simp: of_req_Some)
  then show "srv_of (cs_write y w) = put_cr y (srv_of w)"
    "srv_of (cs_remove w) = (srv_of w)\<lparr>srv_crs := (srv_crs (srv_of w))((cr_namespace y, cr_name y) := None)\<rparr>"
    by (auto simp: srv_of_def put_cr_def fun_eq_iff)
qed

text \<open>At rest, each call answers as on the server itself. A write needs the version that was read to be the current one.\<close>

lemma cs_get_at_rest:
  assumes "cs_plan w = []" and "cs_fresh w" and "Client_Get (cs_client wire) k w = (a, w')"
  shows "Client_Get (ref_client wire) k (srv_of w) = (a, srv_of w')" and "cs_plan w' = []" and "a = Inr cr \<Longrightarrow> cs_holds w'"
  using assms
  by (auto simp: cs_client_def ref_client_def meet_at_rest cs_fresh_def cs_holds_def srv_of_upd of_req_Some split: option.splits)

lemma cs_objects_at_rest:
  assumes "cs_plan w = []"
  shows "Client_GetUnstructured (ref_client wire) k u (srv_of w) =
      apsnd srv_of (Client_GetUnstructured (cs_client wire) k u w)"
    and "Client_Apply (ref_client wire) u f b (srv_of w) = apsnd srv_of (Client_Apply (cs_client wire) u f b w)"
    and "Client_Delete (ref_client wire) u (srv_of w) = apsnd srv_of (Client_Delete (cs_client wire) u w)"
  using assms
  by (auto simp: cs_client_def ref_client_def meet_at_rest Let_def srv_of_upd srv_objs_same reply_def split: option.split)

lemma cs_writes_at_rest:
  assumes "cs_plan w = []" and "cs_holds w"
  shows "Client_Update (ref_client wire) cr (srv_of w) = apsnd srv_of (Client_Update (cs_client wire) cr w)" (is ?U)
    and "Client_StatusUpdate (ref_client wire) cr (srv_of w) = apsnd srv_of (Client_StatusUpdate (cs_client wire) cr w)" (is ?S)
proof -
  have "?U \<and> ?S"
  proof (cases "of_req (cr_namespace cr, cr_name cr) (cs_stored w)")
    case None
    with assms show ?thesis by (simp add: cs_client_def ref_client_def meet_at_rest)
  next
    case (Some vx)
    then obtain v x where vx: "of_req (cr_namespace cr, cr_name cr) (cs_stored w) = Some (v, x)" by (cases vx) simp
    then have "v = cs_held w" "cr_namespace x = cr_namespace cr" "cr_name x = cr_name cr"
      using assms(2) by (auto simp: cs_holds_def of_req_Some)
    with assms(1) vx show ?thesis
      by (simp add: cs_client_def ref_client_def meet_at_rest reply_def srv_of_write)
  qed
  then show ?U ?S by simp_all
qed

text \<open>Others' plan survives a call unchanged, and after a read it is one entry shorter.\<close>

lemma meet_plan: "meet w = (f, u) \<Longrightarrow> cs_plan u = tl (cs_plan w)"
proof -
  have act: "cs_plan (act a v) = cs_plan v" for a and v :: "('a, 'b) cached_server"
    by (cases a) (auto split: option.split list.split)
  have "cs_plan (fold act as v) = cs_plan v" for as and v :: "('a, 'b) cached_server"
    by (induction as arbitrary: v) (simp_all add: act)
  then show "meet w = (f, u) \<Longrightarrow> cs_plan u = tl (cs_plan w)"
    by (auto simp: meet_def split: list.splits)
qed

lemma cs_calls_plan:
  "cs_plan (snd (Client_Get (cs_client wire) k w)) = tl (cs_plan w)"
  "cs_plan (snd (Client_GetUnstructured (cs_client wire) k o' w)) = tl (cs_plan w)"
  "cs_plan (snd (Client_Apply (cs_client wire) o' owner force w)) = tl (cs_plan w)"
  "cs_plan (snd (Client_Delete (cs_client wire) o' w)) = tl (cs_plan w)"
  "cs_plan (snd (Client_Update (cs_client wire) cr w)) = tl (cs_plan w)"
  "cs_plan (snd (Client_StatusUpdate (cs_client wire) cr w)) = tl (cs_plan w)"
proof -
  obtain f u where m: "meet w = (f, u)" by (metis prod.exhaust)
  from meet_plan [OF m] m
  show "cs_plan (snd (Client_Get (cs_client wire) k w)) = tl (cs_plan w)"
    "cs_plan (snd (Client_GetUnstructured (cs_client wire) k o' w)) = tl (cs_plan w)"
    "cs_plan (snd (Client_Apply (cs_client wire) o' owner force w)) = tl (cs_plan w)"
    "cs_plan (snd (Client_Delete (cs_client wire) o' w)) = tl (cs_plan w)"
    "cs_plan (snd (Client_Update (cs_client wire) cr w)) = tl (cs_plan w)"
    "cs_plan (snd (Client_StatusUpdate (cs_client wire) cr w)) = tl (cs_plan w)"
    by (simp_all add: cs_client_def Let_def split: option.split)
qed

lemma pending_le: "p = (a, w') \<Longrightarrow> cs_plan (snd p) = tl (cs_plan w) \<Longrightarrow> cs_pending w \<le> n \<Longrightarrow> cs_pending w' \<le> n"
  by auto

lemma cs_calls_add_none:
  "call_invariant \<lparr>gr_Client = cs_client wire, gr_Recorder = cs_recorder, gr_Adapter = A, gr_Name = N\<rparr> (\<lambda>w. cs_pending w \<le> n)"
proof (unfold_locales, goal_cases)
  case (7 w e)
  then show ?case by (simp add: cs_recorder_def)
qed (erule pending_le, simp add: cs_calls_plan, assumption)+

text \<open>Calls on objects keep the version that was read.\<close>

lemma cs_objects_keep:
  assumes "cs_plan w = []" and "cs_holds w"
  shows "cs_holds (snd (Client_GetUnstructured (cs_client wire) k u w))"
    and "cs_holds (snd (Client_Apply (cs_client wire) u f b w))"
    and "cs_holds (snd (Client_Delete (cs_client wire) u w))"
  using assms by (simp_all add: cs_client_def meet_at_rest Let_def cs_holds_def)

lemma same_answer_apsnd: "rel_prod (=) R p (apsnd h p) \<longleftrightarrow> R (snd p) (h (snd p))"
  by (cases p) simp

interpretation at_rest: client_simulation
  "\<lparr>gr_Client = cs_client wire, gr_Recorder = cs_recorder, gr_Adapter = A, gr_Name = N\<rparr>"
  "\<lparr>gr_Client = ref_client wire, gr_Recorder = ref_recorder, gr_Adapter = A, gr_Name = N\<rparr>"
  "\<lambda>w s. cs_pending w = 0 \<and> cs_fresh w \<and> s = srv_of w" "\<lambda>w s. cs_pending w = 0 \<and> cs_holds w \<and> s = srv_of w"
  "\<lambda>w s. cs_pending w = 0 \<and> s = srv_of w" for wire A N
proof (unfold_locales, goal_cases)
  case (3 w s k a w')
  then have "cs_plan w = []" "cs_fresh w" "Client_Get (cs_client wire) k w = (a, w')" "s = srv_of w" by simp_all
  with cs_get_at_rest [OF this(1-3)] show ?case by auto
next
  case (10 w s e)
  then show ?case by (simp add: cs_recorder_def ref_recorder_def cs_holds_def srv_of_upd)
qed (auto simp: same_answer_apsnd cs_objects_at_rest cs_writes_at_rest cs_objects_keep cs_calls_plan, simp add: cs_client_def ref_client_def)

lemma cs_recovers: "recovering_engine_axioms
    \<lparr>gr_Client = cs_client wire, gr_Recorder = cs_recorder, gr_Adapter = A, gr_Name = N\<rparr> cs_pending cs_fresh srv_of (act Sync)"
proof (rule recovering_engine_axioms.intro)
  show "call_invariant \<lparr>gr_Client = cs_client wire, gr_Recorder = cs_recorder, gr_Adapter = A, gr_Name = N\<rparr> (\<lambda>w. cs_pending w \<le> n)" for n
    by (rule cs_calls_add_none)
  show "cs_pending w' \<le> cs_pending w - 1"
    if "Client_Get (gr_Client \<lparr>gr_Client = cs_client wire, gr_Recorder = cs_recorder, gr_Adapter = A, gr_Name = N\<rparr>) k w = (a, w')"
    for k w a w'
    using that cs_calls_plan(1) [of wire k w] by simp
qed (auto simp: cs_fresh_def srv_of_upd, simp add: cs_stored_def)

interpretation pg_recovering: recovering_engine ref_libs "cnpg_Adapter ref_libs" "\<lambda>_. []" cnpg_view
  "ref_client pg_wire" ref_recorder server_cr server_obj server_live pg_wire
  "NewPostgresClusterReconciler ref_libs (ref_client pg_wire) ref_recorder" "NewPostgresClusterReconciler ref_libs (cs_client pg_wire) cs_recorder"
  cs_pending cs_fresh cs_holds srv_of "act Sync"
  unfolding controller_defs
  by (rule recovering_engine.intro [OF _ at_rest.client_simulation_axioms cs_recovers], fold controller_defs) unfold_locales

interpretation vk_recovering: recovering_engine ref_libs "valkey_Adapter ref_libs" "\<lambda>t. [(valkey_externalServiceGVK, t @ ''-external'')]" valkey_view
  "ref_client vk_wire" ref_recorder server_cr server_obj server_live vk_wire
  "NewValkeyClusterReconciler ref_libs (ref_client vk_wire) ref_recorder" "NewValkeyClusterReconciler ref_libs (cs_client vk_wire) cs_recorder"
  cs_pending cs_fresh cs_holds srv_of "act Sync"
  unfolding controller_defs
  by (rule recovering_engine.intro [OF _ at_rest.client_simulation_axioms cs_recovers], fold controller_defs) unfold_locales

interpretation gf_recovering: recovering_engine ref_libs "grafana_Adapter ref_libs" "\<lambda>_. []" grafana_view
  "ref_client gf_wire" ref_recorder server_cr server_obj server_live gf_wire
  "NewGrafanaInstanceReconciler ref_libs (ref_client gf_wire) ref_recorder" "NewGrafanaInstanceReconciler ref_libs (cs_client gf_wire) cs_recorder"
  cs_pending cs_fresh cs_holds srv_of "act Sync"
  unfolding controller_defs
  by (rule recovering_engine.intro [OF _ at_rest.client_simulation_axioms cs_recovers], fold controller_defs) unfold_locales

interpretation md_recovering: recovering_engine ref_libs "mariadb_Adapter ref_libs" "\<lambda>_. []" mariadb_view
  "ref_client md_wire" ref_recorder server_cr server_obj server_live md_wire
  "NewMariaDBClusterReconciler ref_libs (ref_client md_wire) ref_recorder" "NewMariaDBClusterReconciler ref_libs (cs_client md_wire) cs_recorder"
  cs_pending cs_fresh cs_holds srv_of "act Sync"
  unfolding controller_defs
  by (rule recovering_engine.intro [OF _ at_rest.client_simulation_axioms cs_recovers], fold controller_defs) unfold_locales

interpretation rmq_recovering: recovering_engine ref_libs "rabbitmq_Adapter ref_libs" "\<lambda>t. [(ingress_GVK, t @ ''-ingress'')]" rabbitmq_view
  "ref_client rmq_wire" ref_recorder server_cr server_obj server_live rmq_wire
  "NewRabbitMQClusterReconciler ref_libs (ref_client rmq_wire) ref_recorder" "NewRabbitMQClusterReconciler ref_libs (cs_client rmq_wire) cs_recorder"
  cs_pending cs_fresh cs_holds srv_of "act Sync"
  unfolding controller_defs
  by (rule recovering_engine.intro [OF _ at_rest.client_simulation_axioms cs_recovers], fold controller_defs) unfold_locales

interpretation prom_recovering: recovering_engine ref_libs "prometheus_Adapter ref_libs" "\<lambda>t. [(prometheus_serviceGVK, t @ ''-web''), (ingress_GVK, t @ ''-ingress'')]" prometheus_view
  "ref_client prom_wire" ref_recorder server_cr server_obj server_live prom_wire
  "NewPrometheusInstanceReconciler ref_libs (ref_client prom_wire) ref_recorder" "NewPrometheusInstanceReconciler ref_libs (cs_client prom_wire) cs_recorder"
  cs_pending cs_fresh cs_holds srv_of "act Sync"
  unfolding controller_defs
  by (rule recovering_engine.intro [OF _ at_rest.client_simulation_axioms cs_recovers], fold controller_defs) unfold_locales

end
