(* ===== verification/Concurrency_Properties.thy ===== *)
theory Concurrency_Properties
  imports Engine_Properties Cached_Liveness
begin

text \<open>
  The properties of the engine among others: with a lagging cache, refused updates, lost answers and users who act at any
  time, no object outlives the CR it was made for, and once the others rest two passes put everything right.
\<close>

text \<open>C3: no object outlives its CR. Let a CR be looked after by any number of passes. Meanwhile, between and during the calls, others may edit,
  delete and recreate the CR and delete its objects, with two exceptions, which are the hypotheses \<open>others_finalizer\<close> and
  \<open>others_objects\<close> of the locale: no one else takes the operator's finalizer off the CR, and no one else creates objects under the keys the
  operator owns. The cache may lag by any number of versions and catch up by any number at a time; calls may fail, be refused as
  conflicts, or succeed with the answer lost; the operator may be killed in the middle of a pass. Then an object of the CR is live only while the
  server stores the CR with the finalizer on it. At the start nothing is cached and none of the objects is live.\<close>

theorem no_object_outlives_its_CR:
  assumes "cached_engine L A extra_keys V c record_event req trail held latest live others r"
    and "trail w = [None, s]" and "upto (latest w) s"
    and "\<forall>k \<in> owned_keys (GVK A) extra_keys (fst req) (snd req). \<not> live k w"
    and "operated L r req others w w'"
    and "k \<in> owned_keys (GVK A) extra_keys (fst req) (snd req)" and "live k w'"
  shows "\<exists>v x. last (trail w') = Some (v, x) \<and> has_finalizer L x"
  by (rule cached_engine.no_orphans [OF assms(1,5) cached_engine.sound_start [OF assms(1-4)] assms(6,7)])

text \<open>An eventful life: the first update meets a conflict, the answer of the second is lost; the next pass reads the version before an edit
  the watch has yet to deliver and applies the objects while the CR is deleted, so its status is refused; then a
  delete fails, and the next pass releases the CR.\<close>

definition busy_start :: "(ValkeyClusterSpec, ValkeyClusterStatus) cached_server" where
  "busy_start = \<lparr>cs_cached = None, cs_feed = [Some (1, demo_vk None [] (Some demo_expose))], cs_held = 0, cs_latest = 1,
     cs_objs = (\<lambda>_. None), cs_clock = 100, cs_events = [],
     cs_plan =
      [([Sync], Works), ([Edit (Spec (demo_vk None [] (Some demo_expose)))], Works),
       ([Sync], Works), ([], AnswerLost),
       ([Edit (Spec (demo_vk None [] None)), Deliver 1], Works), ([], Works), ([Expire 5], Works), ([], Works), ([], Works),
       ([Sync], Works), ([], Works), ([], Fails),
       ([], Works), ([], Works), ([], Works), ([], Works)]\<rparr>"

abbreviation busy_r :: "((ValkeyClusterSpec, ValkeyClusterStatus) cached_server, ValkeyClusterSpec, ValkeyClusterStatus) GenericReconciler" where
  "busy_r \<equiv> NewValkeyClusterReconciler ref_libs (cs_client vk_wire) cs_recorder"

definition busy_after :: "nat \<Rightarrow> (ValkeyClusterSpec, ValkeyClusterStatus) cached_server" where
  "busy_after n = ((\<lambda>w. snd (Reconcile ref_libs busy_r demo_req w)) ^^ n) busy_start"

lemma busy_operated: "operated ref_libs busy_r demo_req cs_others busy_start (busy_after n)"
proof (induction n)
  case 0
  then show ?case by (simp add: busy_after_def operated_start)
next
  case (Suc n)
  obtain x u where "Reconcile ref_libs busy_r demo_req (busy_after n) = (x, u)" by (metis prod.exhaust)
  with operated_pass [OF Suc] show ?case by (simp add: busy_after_def)
qed

theorem no_object_outlives_its_CR_witness:
  "cs_live demo_service (busy_after 3) \<and> (\<exists>v x. last (cs_view demo_req (busy_after 3)) = Some (v, x) \<and> has_finalizer ref_libs x) \<and>
   cs_stored (busy_after 5) = None \<and> \<not> cs_live demo_service (busy_after 5)"
proof -
  let ?own = "owned_keys (GVK (valkey_Adapter ref_libs)) (\<lambda>t. [(valkey_externalServiceGVK, t @ ''-external'')]) (fst demo_req) (snd demo_req)"
  let ?s = "Some (1, demo_vk None [] (Some demo_expose)) :: (nat \<times> ValkeyCluster) option"
  have t: "cs_view demo_req busy_start = [None, ?s]"
    by (simp add: busy_start_def cs_trail_def demo_vk_def demo_meta_def)
  have u: "upto (cs_latest busy_start) ?s" by (simp add: upto_def busy_start_def)
  have n: "\<forall>k \<in> ?own. \<not> cs_live k busy_start" by (simp add: busy_start_def cs_live_def)
  have k: "demo_service \<in> ?own" by (simp add: owned_keys_def)
  have T: "\<exists>v x. last (cs_view demo_req (busy_after n)) = Some (v, x) \<and> has_finalizer ref_libs x"
    if "cs_live demo_service (busy_after n)" for n
    by (rule no_object_outlives_its_CR [OF vk_cached.cached_engine_axioms [of demo_req], of busy_start ?s "busy_after n", OF t u n busy_operated k that])
  have 3: "cs_live demo_service (busy_after 3)" by code_simp
  have 5: "cs_stored (busy_after 5) = None" by code_simp
  have "\<not> cs_live demo_service (busy_after 5)" using T [of 5] 5 by (auto simp: last_view)
  with T [OF 3] 3 5 show ?thesis by blast
qed

text \<open>C4: the operator recovers. Whatever others do before and between the calls of any number of passes, however stale the cache and whichever calls fail
  or lose their answer, once none of that is pending two more passes with a caught-up cache, and any number after them,
  leave the CR where it is to be: a live CR protected, with the spec it had when the others came to rest (as the wire leaves it)
  and target, extras and status settled on it; a terminating one that held the finalizer released with none of its objects live.\<close>

theorem operator_recovers:
  assumes "recovering_engine L A extra_keys V c record_event cr_at obj_at live wire q r pending fresh holds seen catch_up"
    and "cr_at req (seen ((recovering_pass L r pending catch_up req ^^ pending w) w)) = Some cr"
    and "terminating L cr \<longrightarrow> has_finalizer L cr" and "pending w + 2 \<le> n"
  shows "on_course L A extra_keys V cr_at obj_at live wire req
    (if terminating L cr then None else Some (if has_finalizer L cr then Spec cr else wire (Spec cr))) 0
    (seen ((recovering_pass L r pending catch_up req ^^ n) w))"
  by (rule recovering_engine.recovers [OF assms])

text \<open>A rough start: the CR is created exposed and edited before the operator can claim it, so its first update is refused, and the next read
  fails. Three calls are touched, so after three passes all is quiet.\<close>

definition rough_start :: "(ValkeyClusterSpec, ValkeyClusterStatus) cached_server" where
  "rough_start = \<lparr>cs_cached = None, cs_feed = [], cs_held = 0, cs_latest = 0,
     cs_objs = (\<lambda>_. None), cs_clock = 100, cs_events = [],
     cs_plan =
      [([Create (demo_vk None [] (Some demo_expose)), Sync], Works), ([Edit (Spec (demo_vk None [] None))], Works),
       ([Sync], Fails)]\<rparr>"

definition rough_after :: "nat \<Rightarrow> (ValkeyClusterSpec, ValkeyClusterStatus) cached_server" where
  "rough_after n = (recovering_pass ref_libs busy_r cs_pending (act Sync) demo_req ^^ n) rough_start"

theorem operator_recovers_witness:
  "on_course ref_libs (valkey_Adapter ref_libs) (\<lambda>t. [(valkey_externalServiceGVK, t @ ''-external'')]) valkey_view
    server_cr server_obj server_live vk_wire demo_req (Some (Spec (demo_vk None [] None))) 0 (srv_of (rough_after 20))"
proof -
  have n: "cs_pending rough_start = 3" by (simp add: rough_start_def)
  have "case server_cr demo_req (srv_of (rough_after 3)) of None \<Rightarrow> False
    | Some cr \<Rightarrow> \<not> terminating ref_libs cr \<and> has_finalizer ref_libs cr \<and> Spec cr = Spec (demo_vk None [] None)" by code_simp
  then obtain cr where cr: "server_cr demo_req (srv_of (rough_after (cs_pending rough_start))) = Some cr"
    "\<not> terminating ref_libs cr" "has_finalizer ref_libs cr" "Spec cr = Spec (demo_vk None [] None)"
    unfolding n by (auto split: option.splits)
  have t: "terminating ref_libs cr \<longrightarrow> has_finalizer ref_libs cr" and m: "cs_pending rough_start + 2 \<le> 20"
    using cr(2) by (simp_all add: n)
  note R = operator_recovers [OF vk_recovering.recovering_engine_axioms, of demo_req rough_start cr 20, folded rough_after_def]
  from R [OF cr(1) t m] show ?thesis by (simp only: cr if_True if_False)
qed

end
