(* ===== verification/Adapter_Properties.thy ===== *)
theory Adapter_Properties
  imports Ref_Server
begin

text \<open>
  The properties of the six adapters: they meet the engine's contract, their manifests carry the whole spec,
  their status readers report what the target says, their extras front the target.
\<close>

section \<open>The contract\<close>

context k8s_libs_ok
begin

lemma adapter_contracts:
  "counting_adapter L (cnpg_Adapter L) (\<lambda>_. []) cnpg_view"
  "counting_adapter L (valkey_Adapter L) (\<lambda>t. [(valkey_externalServiceGVK, t @ ''-external'')]) valkey_view"
  "vendor_adapter L (grafana_Adapter L) (\<lambda>_. []) grafana_view"
  "counting_adapter L (mariadb_Adapter L) (\<lambda>_. []) mariadb_view"
  "counting_adapter L (rabbitmq_Adapter L) (\<lambda>t. [(ingress_GVK, t @ ''-ingress'')]) rabbitmq_view"
  "counting_adapter L (prometheus_Adapter L)
     (\<lambda>t. [(prometheus_serviceGVK, t @ ''-web''), (ingress_GVK, t @ ''-ingress'')]) prometheus_view"
  by unfold_locales

end

text \<open>C15: every adapter meets the contract the engine relies on: a readable kind, the CR's own name as target name, a
  manifest that carries kind, name, namespace and the operator's labels, extras under fixed distinct keys, no status for a
  missing target, a status written that mirrors the target and changes nothing else. All but Grafana also report ready only if
  there are units and all of them are ready.\<close>

theorem adapters_meet_contract:
  assumes "k8s_libs_ok L"
  shows "counting_adapter L (cnpg_Adapter L) (\<lambda>_. []) cnpg_view \<and>
    counting_adapter L (valkey_Adapter L) (\<lambda>t. [(valkey_externalServiceGVK, t @ ''-external'')]) valkey_view \<and>
    vendor_adapter L (grafana_Adapter L) (\<lambda>_. []) grafana_view \<and>
    counting_adapter L (mariadb_Adapter L) (\<lambda>_. []) mariadb_view \<and>
    counting_adapter L (rabbitmq_Adapter L) (\<lambda>t. [(ingress_GVK, t @ ''-ingress'')]) rabbitmq_view \<and>
    counting_adapter L (prometheus_Adapter L)
      (\<lambda>t. [(prometheus_serviceGVK, t @ ''-web''), (ingress_GVK, t @ ''-ingress'')]) prometheus_view"
  by (intro conjI k8s_libs_ok.adapter_contracts [OF assms])

theorem adapters_meet_contract_witness:
  "vendor_adapter ref_libs (grafana_Adapter ref_libs) (\<lambda>_. []) grafana_view"
  using adapters_meet_contract [OF ref.k8s_libs_ok_axioms] by blast

section \<open>Manifests\<close>

definition demo_cache :: ValkeyCluster where
  "demo_cache = \<lparr>ObjectMeta = \<lparr>meta_Name = ''cache'', meta_Namespace = ''shop'', meta_Generation = 1,
       meta_DeletionTimestamp = None, meta_Finalizers = []\<rparr>,
     Spec = \<lparr>vk_Shards = 3, vk_Replicas = 1, vk_Image = ''valkey:8'',
       vk_Persistence = \<lparr>persistence_Size = ''1Gi'', persistence_StorageClass = ''fast''\<rparr>,
       vk_Resources = \<lparr>Limits = fmempty, Requests = fmap_of_list [(''cpu'', \<lparr>quantity_String = ''500m''\<rparr>)]\<rparr>,
       vk_Expose = Some \<lparr>exp_Type = ''NodePort'', exp_Annotations = fmap_of_list [(''a'', ''b'')]\<rparr>\<rparr>,
     Status = \<lparr>vkst_Ready = False, vkst_Phase = '''', vkst_Shards = 0, vkst_ReadyShards = 0, vkst_Message = '''',
       vkst_Conditions = []\<rparr>\<rparr>"

definition demo_ingress :: IngressSpec where
  "demo_ingress = \<lparr>ing_Host = ''mq.example.com'', ing_IngressClassName = ''nginx'', ing_TLSSecretName = ''mq-tls'',
     ing_Annotations = fmap_of_list [(''a'', ''b'')]\<rparr>"

definition demo_queue :: "IngressSpec option \<Rightarrow> RabbitMQCluster" where
  "demo_queue ing = \<lparr>ObjectMeta = \<lparr>meta_Name = ''web'', meta_Namespace = ''shop'', meta_Generation = 1,
       meta_DeletionTimestamp = None, meta_Finalizers = []\<rparr>,
     Spec = \<lparr>rmq_Replicas = 3, rmq_Image = '''', rmq_Storage = \<lparr>storage_Size = ''10Gi'', storage_StorageClass = ''''\<rparr>,
       rmq_Resources = \<lparr>Limits = fmempty, Requests = fmempty\<rparr>, rmq_Ingress = ing\<rparr>,
     Status = \<lparr>rmqst_Ready = False, rmqst_Phase = '''', rmqst_Replicas = 0, rmqst_ReadyReplicas = 0, rmqst_Message = '''',
       rmqst_Conditions = []\<rparr>\<rparr>"

definition demo_metrics :: "IngressSpec option \<Rightarrow> PrometheusInstance" where
  "demo_metrics ing = \<lparr>ObjectMeta = \<lparr>meta_Name = ''web'', meta_Namespace = ''shop'', meta_Generation = 1,
       meta_DeletionTimestamp = None, meta_Finalizers = []\<rparr>,
     Spec = \<lparr>prom_Version = '''', prom_Replicas = 2, prom_Retention = ''15d'',
       prom_Storage = Some \<lparr>storage_Size = ''10Gi'', storage_StorageClass = ''''\<rparr>,
       prom_Resources = \<lparr>Limits = fmempty, Requests = fmempty\<rparr>, prom_Ingress = ing\<rparr>,
     Status = \<lparr>promst_Ready = False, promst_Phase = '''', promst_Replicas = 0, promst_ReadyReplicas = 0, promst_Message = '''',
       promst_Conditions = []\<rparr>\<rparr>"

text \<open>C25: a manifest loses nothing. Reading the CNPG Cluster, the MariaDB or the Grafana back gives the spec of the CR it was
  built from, for Postgres and MariaDB with the resource lists cut down to cpu and memory.\<close>

theorem manifests_carry_specs:
  "cnpg_decode (cnpg_BuildManifest L db name namespace owner) =
     (Spec db)\<lparr>pg_Resources := trim_resources (pg_Resources (Spec db))\<rparr> \<and>
   mariadb_decode (mariadb_BuildManifest L md name namespace owner) =
     (Spec md)\<lparr>md_Resources := trim_resources (md_Resources (Spec md))\<rparr> \<and>
   grafana_decode (grafana_BuildManifest L gf name namespace owner) = Spec gf"
  by (simp add: cnpg_decode_BuildManifest mariadb_decode_BuildManifest grafana_decode_BuildManifest)

text \<open>C26: neither do a manifest and its extras. The ValkeyCluster with the external Service, the RabbitmqCluster with the
  Ingress, the Prometheus with its Ingress give back the spec, with the resource lists cut down to cpu and memory; Valkey and
  RabbitMQ have exactly one extra.\<close>

theorem manifests_and_extras_carry_specs:
  assumes "k8s_libs_ok L"
  shows "map (\<lambda>x. valkey_decode L (valkey_BuildManifest L vk name namespace owner) (extra_Desired x))
      (valkey_ExtraResources L vk name namespace owner) =
    [(Spec vk)\<lparr>vk_Resources := trim_resources (vk_Resources (Spec vk))\<rparr>] \<and>
   map (\<lambda>x. rabbitmq_decode L (rabbitmq_BuildManifest L mq name namespace owner) (extra_Desired x))
      (rabbitmq_ExtraResources L mq name namespace owner) =
    [(Spec mq)\<lparr>rmq_Resources := trim_resources (rmq_Resources (Spec mq))\<rparr>] \<and>
   prometheus_decode L (prometheus_BuildManifest L prom name namespace owner)
      (extra_Desired (prometheus_ExtraResources L prom name namespace owner ! 1)) =
    (Spec prom)\<lparr>prom_Resources := trim_resources (prom_Resources (Spec prom))\<rparr>"
  by (intro conjI k8s_libs_ok.valkey_decode_BuildManifest [OF assms] k8s_libs_ok.rabbitmq_decode_BuildManifest [OF assms]
    k8s_libs_ok.prometheus_decode_BuildManifest [OF assms])

theorem manifests_and_extras_carry_specs_witness:
  "map (\<lambda>x. valkey_decode ref_libs (valkey_BuildManifest ref_libs demo_cache ''cache'' ''shop'' ''cache'') (extra_Desired x))
      (valkey_ExtraResources ref_libs demo_cache ''cache'' ''shop'' ''cache'') =
    [(Spec demo_cache)\<lparr>vk_Resources := trim_resources (vk_Resources (Spec demo_cache))\<rparr>] \<and>
   prometheus_decode ref_libs (prometheus_BuildManifest ref_libs (demo_metrics (Some demo_ingress)) ''cache'' ''shop'' ''cache'')
      (extra_Desired (prometheus_ExtraResources ref_libs (demo_metrics (Some demo_ingress)) ''cache'' ''shop'' ''cache'' ! 1)) =
    (Spec (demo_metrics (Some demo_ingress)))\<lparr>prom_Resources := trim_resources (prom_Resources (Spec (demo_metrics (Some demo_ingress))))\<rparr>"
  using manifests_and_extras_carry_specs [OF ref.k8s_libs_ok_axioms, of demo_cache "''cache''" "''shop''" "''cache''"
    "demo_queue None" "demo_metrics (Some demo_ingress)"] by blast

text \<open>The five copies of \<open>resourceListJSON\<close> all compute the same thing: no map if neither cpu nor memory is listed, and otherwise
  exactly those entries of the two that are, as strings.\<close>

theorem resourceListJSON_copies:
  "list_all (\<lambda>f. f l = resource_list_spec l)
    [cnpg_resourceListJSON, valkey_resourceListJSON, mariadb_resourceListJSON, rabbitmq_resourceListJSON,
     prometheus_resourceListJSON]"
  by (simp add: cnpg_resourceListJSON_spec valkey_resourceListJSON_spec mariadb_resourceListJSON_spec
    rabbitmq_resourceListJSON_spec prometheus_resourceListJSON_spec)

text \<open>MariaDB runs as a Galera cluster exactly when more than one replica is asked for (as a signed number).\<close>

theorem mariadb_galera:
  "path_lookup (Object (mariadb_BuildManifest L cr name namespace owner)) [''spec'', ''galera'', ''enabled''] =
     (if 1 < sint (md_Replicas (Spec cr)) then Some (GBool True) else None)"
  by (rule mariadb_galera_iff)

text \<open>A Prometheus watches its own namespace only. The ServiceMonitor and PodMonitor selectors are there and empty, so
  they match everything; no namespace selector and no other selector is ever set.\<close>

theorem prometheus_namespace_scoped:
  "prometheus_spec_at (prometheus_BuildManifest L cr name namespace owner) ''serviceMonitorSelector'' = Some (GMap fmempty) \<and>
   prometheus_spec_at (prometheus_BuildManifest L cr name namespace owner) ''podMonitorSelector'' = Some (GMap fmempty) \<and>
   map (prometheus_spec_at (prometheus_BuildManifest L cr name namespace owner))
     [''serviceMonitorNamespaceSelector'', ''podMonitorNamespaceSelector'', ''probeSelector'',
      ''probeNamespaceSelector'', ''ruleSelector'', ''ruleNamespaceSelector'', ''scrapeConfigSelector'',
      ''scrapeConfigNamespaceSelector''] = replicate 8 None"
  by (rule prometheus_namespace_scoped_aux)

section \<open>Status\<close>

text \<open>What a CNPG Cluster's status is read as: the phase, \<open>Unknown\<close> if missing or empty, and the two instance
  counts; ready if there are instances and at least as many ready ones.\<close>

theorem cnpg_status:
  assumes "k8s_libs_ok L"
  shows "cnpg_ExtractStatus L (Some u) =
     (let phase = as_string (path_lookup (Object u) [''status'', ''phase'']);
          n = int32_of_int64 (as_int64 (path_lookup (Object u) [''status'', ''instances'']));
          m = int32_of_int64 (as_int64 (path_lookup (Object u) [''status'', ''readyInstances'']))
      in \<lparr>ts_Phase = (if phase = '''' then ''Unknown'' else phase), ts_Ready = (0 < sint n \<and> sint n \<le> sint m),
          ts_ObservedCount = n, ts_ReadyCount = m\<rparr>)"
  by (rule k8s_libs_ok.cnpg_ExtractStatus_eq [OF assms])

definition demo_target :: "(string \<times> gval) list \<Rightarrow> unstructured" where
  "demo_target status = \<lparr>Object = fmap_of_list [(''status'', gomap_of status)]\<rparr>"

theorem cnpg_status_witness:
  "cnpg_ExtractStatus ref_libs (Some (demo_target [(''instances'', GInt 3), (''readyInstances'', GInt 2)])) =
     \<lparr>ts_Phase = ''Unknown'', ts_Ready = False, ts_ObservedCount = 3, ts_ReadyCount = 2\<rparr>"
  by (subst cnpg_status [OF ref.k8s_libs_ok_axioms]) code_simp

text \<open>What a valkey-operator ValkeyCluster's status is read as.\<close>

theorem valkey_status:
  assumes "k8s_libs_ok L"
  shows "valkey_ExtractStatus L (Some u) =
     (let state = as_string (path_lookup (Object u) [''status'', ''state'']);
          n = int32_of_int64 (as_int64 (path_lookup (Object u) [''status'', ''shards'']));
          m = int32_of_int64 (as_int64 (path_lookup (Object u) [''status'', ''readyShards'']))
      in \<lparr>ts_Phase = (if state = '''' then ''Unknown'' else state), ts_Ready = (0 < sint n \<and> sint n \<le> sint m),
          ts_ObservedCount = n, ts_ReadyCount = m\<rparr>)"
  by (rule k8s_libs_ok.valkey_ExtractStatus_eq [OF assms])

theorem valkey_status_witness:
  "valkey_ExtractStatus ref_libs (Some (demo_target [(''state'', GStr ''Ready''), (''shards'', GInt 3), (''readyShards'', GInt 3)])) =
     \<lparr>ts_Phase = ''Ready'', ts_Ready = True, ts_ObservedCount = 3, ts_ReadyCount = 3\<rparr>"
  by (subst valkey_status [OF ref.k8s_libs_ok_axioms]) code_simp

text \<open>What a Prometheus's status is read as: the phase is made up from the paused flag and the replica count.\<close>

theorem prometheus_status:
  assumes "k8s_libs_ok L"
  shows "prometheus_ExtractStatus L (Some u) =
     (let n = int32_of_int64 (as_int64 (path_lookup (Object u) [''status'', ''replicas'']));
          m = int32_of_int64 (as_int64 (path_lookup (Object u) [''status'', ''availableReplicas'']))
      in \<lparr>ts_Phase = (if path_lookup (Object u) [''status'', ''paused''] = Some (GBool True) then ''Paused''
            else if 0 < sint n then ''Progressing'' else ''Unknown''),
          ts_Ready = (0 < sint n \<and> sint n \<le> sint m), ts_ObservedCount = n, ts_ReadyCount = m\<rparr>)"
  by (rule k8s_libs_ok.prometheus_ExtractStatus_eq [OF assms])

definition demo_condition :: "string \<Rightarrow> string \<Rightarrow> string \<Rightarrow> gval" where
  "demo_condition ty st reason = gomap_of [(''type'', GStr ty), (''status'', GStr st), (''reason'', GStr reason)]"

text \<open>C27: a loop with \<open>break\<close> is a search. The loops over the conditions of a MariaDB and of a RabbitmqCluster report the first
  condition of type \<open>Ready\<close> or \<open>AllReplicasReady\<close>, whatever else is in the list: phase from its reason, readiness from its
  status; ready also needs a positive replica count, RabbitMQ's from the spec.\<close>

theorem condition_loops_find_first:
  assumes "k8s_libs_ok L"
  shows "mariadb_ExtractStatus L (Some u) =
     (let n = int32_of_int64 (as_int64 (path_lookup (Object u) [''status'', ''replicas'']));
          c = condition_in ''Ready'' (as_slice (path_lookup (Object u) [''status'', ''conditions'']))
      in \<lparr>ts_Phase = condition_phase c, ts_Ready = (condition_true c \<and> 0 < sint n),
          ts_ObservedCount = n, ts_ReadyCount = (if condition_true c then n else 0)\<rparr>) \<and>
   rabbitmq_ExtractStatus L (Some u) =
     (let n = int32_of_int64 (as_int64 (path_lookup (Object u) [''spec'', ''replicas'']));
          c = condition_in ''AllReplicasReady'' (as_slice (path_lookup (Object u) [''status'', ''conditions'']))
      in \<lparr>ts_Phase = condition_phase c, ts_Ready = (condition_true c \<and> 0 < sint n),
          ts_ObservedCount = n, ts_ReadyCount = (if condition_true c then n else 0)\<rparr>)"
  using k8s_libs_ok.mariadb_ExtractStatus_eq [OF assms]
    k8s_libs_ok.rabbitmq_ExtractStatus_eq [OF assms, unfolded rabbitmq_conditionTypeAllReplicasReady_def] by blast

theorem condition_loops_find_first_witness:
  "mariadb_ExtractStatus ref_libs (Some (demo_target [(''replicas'', GInt 3), (''conditions'', GSlice
       [GStr ''x'', demo_condition ''Other'' ''False'' ''r'', demo_condition ''Ready'' ''True'' ''Up'',
        demo_condition ''Ready'' ''False'' ''Down''])])) =
     \<lparr>ts_Phase = ''Up'', ts_Ready = True, ts_ObservedCount = 3, ts_ReadyCount = 3\<rparr>"
  unfolding conjunct1 [OF condition_loops_find_first [OF ref.k8s_libs_ok_axioms]]
  by (simp add: demo_target_def demo_condition_def condition_in_Cons condition_phase_def condition_true_def int32_of_int64_def Let_def)

text \<open>What a Grafana's status is read as: phase \<open>stage/stageStatus\<close>, ready when these are \<open>complete\<close> and \<open>success\<close>; the
  observed count is the desired one of the spec, or one.\<close>

theorem grafana_status:
  assumes "k8s_libs_ok L"
  shows "grafana_ExtractStatus L (Some u) =
     (let stage = as_string (path_lookup (Object u) [''status'', ''stage'']);
          st = as_string (path_lookup (Object u) [''status'', ''stageStatus'']);
          d = path_lookup (Object u) [''spec'', ''deployment'', ''spec'', ''replicas'']
      in \<lparr>ts_Phase = (if stage = '''' then ''Unknown'' else stage) @ ''/'' @ st,
          ts_Ready = (stage = ''complete'' \<and> st = ''success''),
          ts_ObservedCount = (if \<exists>i. d = Some (GInt i) then int32_of_int64 (as_int64 d) else 1),
          ts_ReadyCount = int32_of_int64 (as_int64 (path_lookup (Object u) [''status'', ''replicas'']))\<rparr>)"
  by (rule k8s_libs_ok.grafana_ExtractStatus_eq [OF assms])

text \<open>Grafana's readiness says nothing about replicas: an instance none of whose replicas is up is reported ready once its
  stage is complete, against the comment on \<open>TargetStatus.Ready\<close>.\<close>

theorem grafana_ready_without_replicas:
  "ts_Ready (grafana_ExtractStatus ref_libs (Some (demo_target
      [(''stage'', GStr ''complete''), (''stageStatus'', GStr ''success''), (''replicas'', GInt 0)]))) \<and>
   \<not> all_ready (grafana_ExtractStatus ref_libs (Some (demo_target
      [(''stage'', GStr ''complete''), (''stageStatus'', GStr ''success''), (''replicas'', GInt 0)])))"
  by code_simp

text \<open>C28: within the range of an \<open>int32\<close> the truncation of the counts does no harm: CNPG readiness is exactly that of the
  64-bit counts in the object.\<close>

theorem cnpg_ready_exact_in_range:
  assumes "k8s_libs_ok L"
    and "path_lookup (Object u) [''status'', ''instances''] = Some (GInt n)" and "- (2 ^ 31) \<le> sint n" and "sint n < 2 ^ 31"
    and "path_lookup (Object u) [''status'', ''readyInstances''] = Some (GInt m)" and "- (2 ^ 31) \<le> sint m" and "sint m < 2 ^ 31"
  shows "ts_Ready (cnpg_ExtractStatus L (Some u)) = (0 < sint n \<and> sint n \<le> sint m)"
proof -
  have "sint (int32_of_int64 n) = sint n" "sint (int32_of_int64 m) = sint m"
    using assms by (simp_all add: sint_int32_of_int64)
  then show ?thesis
    unfolding k8s_libs_ok.cnpg_ExtractStatus_eq [OF assms(1)] Let_def assms(2,5) by simp
qed

theorem cnpg_ready_exact_in_range_witness:
  "ts_Ready (cnpg_ExtractStatus ref_libs (Some (demo_target [(''instances'', GInt 3), (''readyInstances'', GInt 3)]))) =
     (0 < sint (3 :: int64) \<and> sint (3 :: int64) \<le> sint (3 :: int64))"
  by (rule cnpg_ready_exact_in_range [OF ref.k8s_libs_ok_axioms]) (simp_all add: demo_target_def)

text \<open>Outside that range it does: a cluster that reports 4294967297 instances of which one is ready counts as ready.\<close>

theorem cnpg_ready_truncated:
  "ts_Ready (cnpg_ExtractStatus ref_libs (Some (demo_target [(''instances'', GInt 4294967297), (''readyInstances'', GInt 1)])))"
  by code_simp

text \<open>The replica counts of RabbitMQ and Grafana are the CR's own. In any object that holds what the manifest applied, the
  observed count read back is the number of replicas in the CR's spec.\<close>

theorem observed_count_is_requested:
  assumes "k8s_libs_ok L"
  shows "(covers (rabbitmq_BuildManifest L rmq n ns ow) u \<longrightarrow>
      ts_ObservedCount (rabbitmq_ExtractStatus L (Some u)) = rmq_Replicas (Spec rmq)) \<and>
    (covers (grafana_BuildManifest L gf n ns ow) v \<longrightarrow>
      ts_ObservedCount (grafana_ExtractStatus L (Some v)) = gf_Replicas (Spec gf))"
proof (intro conjI impI)
  have "path_lookup (Object (rabbitmq_BuildManifest L rmq n ns ow)) [''spec'', ''replicas''] =
      Some (GInt (int64_of_int32 (rmq_Replicas (Spec rmq))))"
    by (simp add: rabbitmq_BuildManifest_def Let_def)
  moreover assume "covers (rabbitmq_BuildManifest L rmq n ns ow) u"
  ultimately have "path_lookup (Object u) [''spec'', ''replicas''] = Some (GInt (int64_of_int32 (rmq_Replicas (Spec rmq))))"
    by (auto dest: coversD simp del: path_lookup_step)
  then show "ts_ObservedCount (rabbitmq_ExtractStatus L (Some u)) = rmq_Replicas (Spec rmq)"
    unfolding k8s_libs_ok.rabbitmq_ExtractStatus_eq [OF assms] Let_def by (simp del: path_lookup_step)
next
  have "path_lookup (Object (grafana_BuildManifest L gf n ns ow)) [''spec'', ''deployment'', ''spec'', ''replicas''] =
      Some (GInt (int64_of_int32 (gf_Replicas (Spec gf))))"
    by (rule grafana_manifest_replicas)
  moreover assume "covers (grafana_BuildManifest L gf n ns ow) v"
  ultimately have "path_lookup (Object v) [''spec'', ''deployment'', ''spec'', ''replicas''] =
      Some (GInt (int64_of_int32 (gf_Replicas (Spec gf))))"
    by (auto dest: coversD simp del: path_lookup_step)
  then show "ts_ObservedCount (grafana_ExtractStatus L (Some v)) = gf_Replicas (Spec gf)"
    unfolding k8s_libs_ok.grafana_ExtractStatus_eq [OF assms] Let_def by (simp del: path_lookup_step)
qed

theorem observed_count_is_requested_witness:
  "ts_ObservedCount (rabbitmq_ExtractStatus ref_libs (Some (rabbitmq_BuildManifest ref_libs (demo_queue None) ''web'' ''shop'' ''web''))) =
     rmq_Replicas (Spec (demo_queue None))"
  using observed_count_is_requested [OF ref.k8s_libs_ok_axioms, of "demo_queue None" "''web''" "''shop''" "''web''"
    "rabbitmq_BuildManifest ref_libs (demo_queue None) ''web'' ''shop'' ''web''"] by (simp add: covers_def)

text \<open>The counts of the target status land in the CR's status under the kind's own names.\<close>

theorem counts_are_mirrored:
  "pgst_Instances (Status (fst (cnpg_ApplyStatus L now pg t s))) = ts_ObservedCount s \<and>
   pgst_ReadyInstances (Status (fst (cnpg_ApplyStatus L now pg t s))) = ts_ReadyCount s \<and>
   vkst_Shards (Status (fst (valkey_ApplyStatus L now vk t s))) = ts_ObservedCount s \<and>
   vkst_ReadyShards (Status (fst (valkey_ApplyStatus L now vk t s))) = ts_ReadyCount s \<and>
   gfst_Replicas (Status (fst (grafana_ApplyStatus L now gf t s))) = ts_ReadyCount s \<and>
   mdst_Replicas (Status (fst (mariadb_ApplyStatus L now md t s))) = ts_ObservedCount s \<and>
   mdst_ReadyReplicas (Status (fst (mariadb_ApplyStatus L now md t s))) = ts_ReadyCount s \<and>
   rmqst_Replicas (Status (fst (rabbitmq_ApplyStatus L now rmq t s))) = ts_ObservedCount s \<and>
   rmqst_ReadyReplicas (Status (fst (rabbitmq_ApplyStatus L now rmq t s))) = ts_ReadyCount s \<and>
   promst_Replicas (Status (fst (prometheus_ApplyStatus L now prom t s))) = ts_ObservedCount s \<and>
   promst_ReadyReplicas (Status (fst (prometheus_ApplyStatus L now prom t s))) = ts_ReadyCount s"
  by (simp add: cnpg_ApplyStatus_def valkey_ApplyStatus_def grafana_ApplyStatus_def mariadb_ApplyStatus_def
    rabbitmq_ApplyStatus_def prometheus_ApplyStatus_def Let_def)

text \<open>The transition time of the \<open>Ready\<close> condition is kept while its status is, and is the time of writing when it flips.\<close>

definition keeps_transition_time :: "('spec, 'status) Adapter \<Rightarrow> 'status status_view \<Rightarrow> bool" where
  "keeps_transition_time A V \<longleftrightarrow> (\<forall>now cr t s d.
     find_condition ''Ready'' (view_Conditions V (Status cr)) = Some d \<longrightarrow>
     (\<exists>c. find_condition ''Ready'' (view_Conditions V (Status (fst (ApplyStatus A now cr t s)))) = Some c \<and>
        cond_LastTransitionTime c = (if cond_Status c = cond_Status d then cond_LastTransitionTime d else now)))"

lemma keeps_transition_timeI:
  assumes "\<And>now cr t s. \<exists>st g h m. view_Conditions V (Status (fst (ApplyStatus A now cr t s))) =
    set_condition now \<lparr>cond_Type = ''Ready'', cond_Status = st, cond_ObservedGeneration = g,
      cond_LastTransitionTime = 0, cond_Reason = h, cond_Message = m\<rparr> (view_Conditions V (Status cr))"
  shows "keeps_transition_time A V"
proof -
  have "\<exists>c. find_condition ''Ready'' (view_Conditions V (Status (fst (ApplyStatus A now cr t s)))) = Some c \<and>
      cond_LastTransitionTime c = (if cond_Status c = cond_Status d then cond_LastTransitionTime d else now)"
    if d: "find_condition ''Ready'' (view_Conditions V (Status cr)) = Some d" for now cr t s d
  proof -
    obtain st g h m where "view_Conditions V (Status (fst (ApplyStatus A now cr t s))) =
      set_condition now \<lparr>cond_Type = ''Ready'', cond_Status = st, cond_ObservedGeneration = g,
        cond_LastTransitionTime = 0, cond_Reason = h, cond_Message = m\<rparr> (view_Conditions V (Status cr))"
      using assms by blast
    with d find_condition_set [of "\<lparr>cond_Type = ''Ready'', cond_Status = st, cond_ObservedGeneration = g,
        cond_LastTransitionTime = 0, cond_Reason = h, cond_Message = m\<rparr>" now "view_Conditions V (Status cr)"]
    show ?thesis by (auto simp: stamp_def)
  qed
  then show ?thesis by (simp add: keeps_transition_time_def)
qed

context k8s_libs_ok
begin

lemma cnpg_keeps_transition_time: "keeps_transition_time (cnpg_Adapter L) cnpg_view"
  by (rule keeps_transition_timeI, unfold cnpg_Adapter_def Adapter.simps, intro exI, rule cnpg_conditions)

lemma valkey_keeps_transition_time: "keeps_transition_time (valkey_Adapter L) valkey_view"
  by (rule keeps_transition_timeI, unfold valkey_Adapter_def Adapter.simps, intro exI, rule valkey_conditions)

lemma grafana_keeps_transition_time: "keeps_transition_time (grafana_Adapter L) grafana_view"
  by (rule keeps_transition_timeI, unfold grafana_Adapter_def Adapter.simps, intro exI, rule grafana_conditions)

lemma mariadb_keeps_transition_time: "keeps_transition_time (mariadb_Adapter L) mariadb_view"
  by (rule keeps_transition_timeI, unfold mariadb_Adapter_def Adapter.simps, intro exI, rule mariadb_conditions)

lemma rabbitmq_keeps_transition_time: "keeps_transition_time (rabbitmq_Adapter L) rabbitmq_view"
  by (rule keeps_transition_timeI, unfold rabbitmq_Adapter_def Adapter.simps, intro exI, rule rabbitmq_conditions)

lemma prometheus_keeps_transition_time: "keeps_transition_time (prometheus_Adapter L) prometheus_view"
  by (rule keeps_transition_timeI, unfold prometheus_Adapter_def Adapter.simps, intro exI, rule prometheus_conditions)

end

text \<open>C29: no adapter restarts the clock of its \<open>Ready\<close> condition without cause: the transition time is kept while the condition's
  status is the same and set to the time of writing when it flips.\<close>

theorem transition_time_kept:
  assumes "k8s_libs_ok L"
  shows "keeps_transition_time (cnpg_Adapter L) cnpg_view \<and> keeps_transition_time (valkey_Adapter L) valkey_view \<and>
    keeps_transition_time (grafana_Adapter L) grafana_view \<and> keeps_transition_time (mariadb_Adapter L) mariadb_view \<and>
    keeps_transition_time (rabbitmq_Adapter L) rabbitmq_view \<and> keeps_transition_time (prometheus_Adapter L) prometheus_view"
  by (intro conjI k8s_libs_ok.cnpg_keeps_transition_time [OF assms] k8s_libs_ok.valkey_keeps_transition_time [OF assms]
    k8s_libs_ok.grafana_keeps_transition_time [OF assms] k8s_libs_ok.mariadb_keeps_transition_time [OF assms]
    k8s_libs_ok.rabbitmq_keeps_transition_time [OF assms] k8s_libs_ok.prometheus_keeps_transition_time [OF assms])

theorem transition_time_kept_witness:
  "keeps_transition_time (cnpg_Adapter ref_libs) cnpg_view"
  using transition_time_kept [OF ref.k8s_libs_ok_axioms] by blast

section \<open>Extras\<close>

text \<open>An Ingress says what its spec says: reading host, ingress class, TLS secret and annotations back gives the
  \<open>IngressSpec\<close>, and the one backend is the given service and port.\<close>

theorem ingress_roundtrip:
  assumes "k8s_libs_ok L"
  shows "ingress_decode L (ingress_Build L spec name namespace owner fm svc port) = spec \<and>
    ingress_backend (ingress_Build L spec name namespace owner fm svc port) = (svc, int64_of_int32 port)"
  by (intro conjI k8s_libs_ok.ingress_decode_Build [OF assms] k8s_libs_ok.ingress_backend_Build [OF assms])

text \<open>The RabbitMQ Ingress leads to the Service of the target's own name on the management port.\<close>

theorem rabbitmq_ingress_backend:
  assumes "k8s_libs_ok L" and "x \<in> set (rabbitmq_ExtraResources L cr t ns owner)" and "extra_Desired x = Some u"
  shows "ingress_backend u = (t, 15672)"
  by (rule k8s_libs_ok.rabbitmq_backend [OF assms])

theorem rabbitmq_ingress_backend_witness:
  "ingress_backend (ingress_Build ref_libs demo_ingress ''web-ingress'' ''shop'' ''web'' rabbitmq_FieldManager ''web''
     rabbitmq_managementPort) = (''web'', 15672)"
  by (rule rabbitmq_ingress_backend [OF ref.k8s_libs_ok_axioms, where cr = "demo_queue (Some demo_ingress)" and ns = "''shop''" and
        owner = "''web''" and x = "rabbitmq_ExtraResources ref_libs (demo_queue (Some demo_ingress)) ''web'' ''shop'' ''web'' ! 0"])
     (simp_all add: rabbitmq_ExtraResources_def demo_queue_def Let_def)

text \<open>C30: a Prometheus with an ingress gets a Service that selects its pods and an Ingress that leads to that Service on the
  same port.\<close>

theorem prometheus_service_and_ingress:
  assumes "k8s_libs_ok L" and "prom_Ingress (Spec cr) = Some ingress"
  shows "\<exists>svc ing. map extra_Desired (prometheus_ExtraResources L cr t ns owner) = [Some svc, Some ing] \<and>
    header L svc = \<lparr>hdr_GVK = prometheus_serviceGVK, hdr_Name = t @ ''-web'', hdr_Namespace = ns,
      hdr_Labels = operator_labels prometheus_FieldManager owner, hdr_Annotations = fmempty\<rparr> \<and>
    path_lookup (Object svc) [''spec'', ''selector''] = Some (gomap_of [(prometheus_podSelectorLabel, GStr t)]) \<and>
    as_int64 (path_lookup (head_map (path_lookup (Object svc) [''spec'', ''ports''])) [''port'']) = snd (ingress_backend ing) \<and>
    fst (ingress_backend ing) = hdr_Name (header L svc) \<and> ingress_decode L ing = ingress"
  using k8s_libs_ok.prometheus_front [OF assms, of t ns owner]
  by (metis k8s_libs_ok.ingress_decode_Build [OF assms(1)])

theorem prometheus_service_and_ingress_witness:
  "\<exists>svc ing. map extra_Desired (prometheus_ExtraResources ref_libs (demo_metrics (Some demo_ingress)) ''web'' ''shop'' ''web'') =
      [Some svc, Some ing] \<and> fst (ingress_backend ing) = ''web-web''"
  using prometheus_service_and_ingress [OF ref.k8s_libs_ok_axioms, of "demo_metrics (Some demo_ingress)" demo_ingress
      "''web''" "''shop''" "''web''"] by (auto simp: demo_metrics_def)

text \<open>An exposed ValkeyCluster gets one Service of the requested type under the name of the target with \<open>-external\<close>, with the
  requested annotations, that selects the target's pods.\<close>

theorem valkey_external_service:
  assumes "k8s_libs_ok L" and "vk_Expose (Spec cr) = Some expose"
  shows "\<exists>u. valkey_ExtraResources L cr t ns owner =
      [\<lparr>extra_GVK = valkey_externalServiceGVK, extra_Name = t @ ''-external'', extra_Desired = Some u\<rparr>] \<and>
    header L u = \<lparr>hdr_GVK = valkey_externalServiceGVK, hdr_Name = t @ ''-external'', hdr_Namespace = ns,
      hdr_Labels = operator_labels valkey_FieldManager owner, hdr_Annotations = exp_Annotations expose\<rparr> \<and>
    path_lookup (Object u) [''spec'', ''type''] = Some (GStr (exp_Type expose)) \<and>
    path_lookup (Object u) [''spec'', ''selector''] = Some (gomap_of [(valkey_clusterSelectorLabel, GStr t)])"
  by (rule k8s_libs_ok.valkey_extra_header [OF assms])

end
