(* ===== verification/Status_Json.thy ===== *)
theory Status_Json
  imports Api_Json Controllers
begin

text \<open>
  The statuses as JSON: what the tags of \<^verbatim>\<open>api/v1alpha1/*_types.go\<close> make of a status the engine writes, and what the
  schema of the status subresource asks of it (\<^verbatim>\<open>config/crd/bases\<close>; that of a condition comes with \<^verbatim>\<open>metav1.Condition\<close>). Text is
  counted in bytes, of which there are at least as many as characters, so what is accepted here is accepted.
\<close>

section \<open>Time\<close>

text \<open>
  \<^verbatim>\<open>metav1.Time\<close> writes an instant as RFC 3339 text in whole seconds, and the zero time as null. The text format is
  the library's: a parameter.
\<close>

record time_lib =
  time_print :: "time \<Rightarrow> string"
  time_parse :: "string \<Rightarrow> time"
  is_date_time :: "string \<Rightarrow> bool"

definition to_seconds :: "time \<Rightarrow> time" where
  "to_seconds t = t div 1000000000 * 1000000000"

locale time_format =
  fixes T :: time_lib
  assumes parse_print: "time_parse T (time_print T t) = to_seconds t"
    and print_valid: "is_date_time T (time_print T t)"

section \<open>Conditions\<close>

fun condition_status_text :: "condition_status \<Rightarrow> string" where
  "condition_status_text ConditionTrue = ''True''"
| "condition_status_text ConditionFalse = ''False''"
| "condition_status_text ConditionUnknown = ''Unknown''"

definition condition_status_of :: "string \<Rightarrow> condition_status" where
  "condition_status_of s =
     (if s = ''True'' then ConditionTrue else if s = ''False'' then ConditionFalse else ConditionUnknown)"

definition Condition_to_json :: "time_lib \<Rightarrow> condition \<Rightarrow> gomap" where
  "Condition_to_json T c =
    fmupd ''message'' (GStr (cond_Message c))
    (fmupd ''reason'' (GStr (cond_Reason c))
    (fmupd ''lastTransitionTime''
       (if cond_LastTransitionTime c = 0 then GNil else GStr (time_print T (cond_LastTransitionTime c)))
    (set_if (cond_ObservedGeneration c \<noteq> 0) ''observedGeneration'' (GInt (cond_ObservedGeneration c))
    (fmupd ''status'' (GStr (condition_status_text (cond_Status c)))
    (fmupd ''type'' (GStr (cond_Type c))
    fmempty)))))"

definition Condition_of_json :: "time_lib \<Rightarrow> gomap \<Rightarrow> condition" where
  "Condition_of_json T m =
    \<lparr>cond_Type = json_string ''type'' m,
     cond_Status = condition_status_of (json_string ''status'' m),
     cond_ObservedGeneration = as_int64 (fmlookup m ''observedGeneration''),
     cond_LastTransitionTime =
       (case fmlookup m ''lastTransitionTime'' of Some (GStr s) \<Rightarrow> time_parse T s | _ \<Rightarrow> 0),
     cond_Reason = json_string ''reason'' m,
     cond_Message = json_string ''message'' m\<rparr>"

text \<open>The patterns of the schema: \<open>reason\<close> is \<open>^[A-Za-z]([A-Za-z0-9_,:]*[A-Za-z0-9_])?$\<close>; \<open>type\<close> is a name of letters, digits and
  \<open>-_.\<close> inside, perhaps after a DNS subdomain and a slash.\<close>

definition is_letter :: "char \<Rightarrow> bool" where
  "is_letter c \<longleftrightarrow> (65 \<le> (of_char c :: nat) \<and> (of_char c :: nat) \<le> 90) \<or> (97 \<le> (of_char c :: nat) \<and> (of_char c :: nat) \<le> 122)"

definition is_digit :: "char \<Rightarrow> bool" where
  "is_digit c \<longleftrightarrow> 48 \<le> (of_char c :: nat) \<and> (of_char c :: nat) \<le> 57"

definition is_lower_alnum :: "char \<Rightarrow> bool" where
  "is_lower_alnum c \<longleftrightarrow> is_digit c \<or> (97 \<le> (of_char c :: nat) \<and> (of_char c :: nat) \<le> 122)"

definition reason_text :: "string \<Rightarrow> bool" where
  "reason_text s \<longleftrightarrow> s \<noteq> '''' \<and> is_letter (hd s) \<and> (tl s = '''' \<or>
     (list_all (\<lambda>c. is_letter c \<or> is_digit c \<or> c \<in> set ''_,:'') (butlast (tl s)) \<and>
      (is_letter (last s) \<or> is_digit (last s) \<or> last s = CHR ''_'')))"

definition name_text :: "string \<Rightarrow> bool" where
  "name_text s \<longleftrightarrow> s \<noteq> '''' \<and> (is_letter (hd s) \<or> is_digit (hd s)) \<and> (is_letter (last s) \<or> is_digit (last s)) \<and>
     list_all (\<lambda>c. is_letter c \<or> is_digit c \<or> c \<in> set ''-_.'') s"

definition dns_label :: "string \<Rightarrow> bool" where
  "dns_label s \<longleftrightarrow> s \<noteq> '''' \<and> is_lower_alnum (hd s) \<and> is_lower_alnum (last s) \<and>
     list_all (\<lambda>c. is_lower_alnum c \<or> c = CHR ''-'') s"

definition condition_type_text :: "string \<Rightarrow> bool" where
  "condition_type_text s \<longleftrightarrow> (case split_at CHR ''/'' s of
      [n] \<Rightarrow> name_text n
    | [d, n] \<Rightarrow> list_all dns_label (split_at CHR ''.'' d) \<and> name_text n
    | _ \<Rightarrow> False)"

definition valid_text :: "string \<Rightarrow> nat \<Rightarrow> (string \<Rightarrow> bool) \<Rightarrow> gomap \<Rightarrow> bool" where
  "valid_text k most ok m = (case fmlookup m k of Some (GStr s) \<Rightarrow> length s \<le> most \<and> ok s | _ \<Rightarrow> False)"

definition Condition_valid :: "time_lib \<Rightarrow> gomap \<Rightarrow> bool" where
  "Condition_valid T m \<longleftrightarrow>
    valid_text ''type'' 316 condition_type_text m \<and>
    valid_required ''status'' m \<and> valid_enum ''status'' [''True'', ''False'', ''Unknown''] m \<and>
    (case fmlookup m ''observedGeneration'' of None \<Rightarrow> True | Some (GInt i) \<Rightarrow> 0 \<le> sint i | _ \<Rightarrow> False) \<and>
    (case fmlookup m ''lastTransitionTime'' of Some (GStr s) \<Rightarrow> is_date_time T s | _ \<Rightarrow> False) \<and>
    valid_text ''reason'' 1024 reason_text m \<and>
    valid_text ''message'' 32768 (\<lambda>_. True) m"

text \<open>The list of conditions: left out if empty, keyed by type (\<open>listMapKey\<close>).\<close>

definition conditions_omitempty :: "time_lib \<Rightarrow> condition list \<Rightarrow> gomap \<Rightarrow> gomap" where
  "conditions_omitempty T cs m =
     set_if (cs \<noteq> []) ''conditions'' (GSlice (map (\<lambda>c. GMap (Condition_to_json T c)) cs)) m"

fun as_object :: "gval \<Rightarrow> gomap" where
  "as_object (GMap m) = m"
| "as_object _ = fmempty"

definition json_conditions :: "time_lib \<Rightarrow> gomap \<Rightarrow> condition list" where
  "json_conditions T m = (case fmlookup m ''conditions'' of
      Some (GSlice vs) \<Rightarrow> map (\<lambda>v. Condition_of_json T (as_object v)) vs
    | _ \<Rightarrow> [])"

definition valid_conditions :: "time_lib \<Rightarrow> gomap \<Rightarrow> bool" where
  "valid_conditions T m = (case fmlookup m ''conditions'' of
      None \<Rightarrow> True
    | Some (GSlice vs) \<Rightarrow>
        list_all (\<lambda>v. case v of GMap c \<Rightarrow> Condition_valid T c | _ \<Rightarrow> False) vs \<and>
        distinct (map (\<lambda>v. json_string ''type'' (as_object v)) vs)
    | _ \<Rightarrow> False)"

text \<open>An integer of format \<^verbatim>\<open>int32\<close>.\<close>

definition valid_int32 :: "string \<Rightarrow> gomap \<Rightarrow> bool" where
  "valid_int32 k m = valid_minimum k (- (2 ^ 31)) m"

section \<open>The six statuses\<close>

text \<open>\<^verbatim>\<open>PostgresClusterStatus\<close>.\<close>

definition PostgresClusterStatus_to_json :: "time_lib \<Rightarrow> PostgresClusterStatus \<Rightarrow> gomap" where
  "PostgresClusterStatus_to_json T s =
    conditions_omitempty T (pgst_Conditions s)
    (string_omitempty ''message'' (pgst_Message s)
    (int32_omitempty ''readyInstances'' (pgst_ReadyInstances s)
    (int32_omitempty ''instances'' (pgst_Instances s)
    (string_omitempty ''phase'' (pgst_Phase s)
    (bool_omitempty ''ready'' (pgst_Ready s)
    fmempty)))))"

definition PostgresClusterStatus_of_json :: "time_lib \<Rightarrow> gomap \<Rightarrow> PostgresClusterStatus" where
  "PostgresClusterStatus_of_json T m =
    \<lparr>pgst_Ready = json_bool ''ready'' m,
     pgst_Phase = json_string ''phase'' m,
     pgst_Instances = json_int32 ''instances'' m,
     pgst_ReadyInstances = json_int32 ''readyInstances'' m,
     pgst_Message = json_string ''message'' m,
     pgst_Conditions = json_conditions T m\<rparr>"

definition PostgresClusterStatus_valid :: "time_lib \<Rightarrow> gomap \<Rightarrow> bool" where
  "PostgresClusterStatus_valid T m \<longleftrightarrow>
    valid_bool ''ready'' m \<and>
    valid_string ''phase'' m \<and>
    valid_int32 ''instances'' m \<and>
    valid_int32 ''readyInstances'' m \<and>
    valid_string ''message'' m \<and>
    valid_conditions T m"

text \<open>\<^verbatim>\<open>ValkeyClusterStatus\<close>.\<close>

definition ValkeyClusterStatus_to_json :: "time_lib \<Rightarrow> ValkeyClusterStatus \<Rightarrow> gomap" where
  "ValkeyClusterStatus_to_json T s =
    conditions_omitempty T (vkst_Conditions s)
    (string_omitempty ''message'' (vkst_Message s)
    (int32_omitempty ''readyShards'' (vkst_ReadyShards s)
    (int32_omitempty ''shards'' (vkst_Shards s)
    (string_omitempty ''phase'' (vkst_Phase s)
    (bool_omitempty ''ready'' (vkst_Ready s)
    fmempty)))))"

definition ValkeyClusterStatus_of_json :: "time_lib \<Rightarrow> gomap \<Rightarrow> ValkeyClusterStatus" where
  "ValkeyClusterStatus_of_json T m =
    \<lparr>vkst_Ready = json_bool ''ready'' m,
     vkst_Phase = json_string ''phase'' m,
     vkst_Shards = json_int32 ''shards'' m,
     vkst_ReadyShards = json_int32 ''readyShards'' m,
     vkst_Message = json_string ''message'' m,
     vkst_Conditions = json_conditions T m\<rparr>"

definition ValkeyClusterStatus_valid :: "time_lib \<Rightarrow> gomap \<Rightarrow> bool" where
  "ValkeyClusterStatus_valid T m \<longleftrightarrow>
    valid_bool ''ready'' m \<and>
    valid_string ''phase'' m \<and>
    valid_int32 ''shards'' m \<and>
    valid_int32 ''readyShards'' m \<and>
    valid_string ''message'' m \<and>
    valid_conditions T m"

text \<open>\<^verbatim>\<open>GrafanaInstanceStatus\<close>.\<close>

definition GrafanaInstanceStatus_to_json :: "time_lib \<Rightarrow> GrafanaInstanceStatus \<Rightarrow> gomap" where
  "GrafanaInstanceStatus_to_json T s =
    conditions_omitempty T (gfst_Conditions s)
    (string_omitempty ''message'' (gfst_Message s)
    (int32_omitempty ''replicas'' (gfst_Replicas s)
    (string_omitempty ''phase'' (gfst_Phase s)
    (bool_omitempty ''ready'' (gfst_Ready s)
    fmempty))))"

definition GrafanaInstanceStatus_of_json :: "time_lib \<Rightarrow> gomap \<Rightarrow> GrafanaInstanceStatus" where
  "GrafanaInstanceStatus_of_json T m =
    \<lparr>gfst_Ready = json_bool ''ready'' m,
     gfst_Phase = json_string ''phase'' m,
     gfst_Replicas = json_int32 ''replicas'' m,
     gfst_Message = json_string ''message'' m,
     gfst_Conditions = json_conditions T m\<rparr>"

definition GrafanaInstanceStatus_valid :: "time_lib \<Rightarrow> gomap \<Rightarrow> bool" where
  "GrafanaInstanceStatus_valid T m \<longleftrightarrow>
    valid_bool ''ready'' m \<and>
    valid_string ''phase'' m \<and>
    valid_int32 ''replicas'' m \<and>
    valid_string ''message'' m \<and>
    valid_conditions T m"

text \<open>\<^verbatim>\<open>MariaDBClusterStatus\<close>.\<close>

definition MariaDBClusterStatus_to_json :: "time_lib \<Rightarrow> MariaDBClusterStatus \<Rightarrow> gomap" where
  "MariaDBClusterStatus_to_json T s =
    conditions_omitempty T (mdst_Conditions s)
    (string_omitempty ''message'' (mdst_Message s)
    (int32_omitempty ''readyReplicas'' (mdst_ReadyReplicas s)
    (int32_omitempty ''replicas'' (mdst_Replicas s)
    (string_omitempty ''phase'' (mdst_Phase s)
    (bool_omitempty ''ready'' (mdst_Ready s)
    fmempty)))))"

definition MariaDBClusterStatus_of_json :: "time_lib \<Rightarrow> gomap \<Rightarrow> MariaDBClusterStatus" where
  "MariaDBClusterStatus_of_json T m =
    \<lparr>mdst_Ready = json_bool ''ready'' m,
     mdst_Phase = json_string ''phase'' m,
     mdst_Replicas = json_int32 ''replicas'' m,
     mdst_ReadyReplicas = json_int32 ''readyReplicas'' m,
     mdst_Message = json_string ''message'' m,
     mdst_Conditions = json_conditions T m\<rparr>"

definition MariaDBClusterStatus_valid :: "time_lib \<Rightarrow> gomap \<Rightarrow> bool" where
  "MariaDBClusterStatus_valid T m \<longleftrightarrow>
    valid_bool ''ready'' m \<and>
    valid_string ''phase'' m \<and>
    valid_int32 ''replicas'' m \<and>
    valid_int32 ''readyReplicas'' m \<and>
    valid_string ''message'' m \<and>
    valid_conditions T m"

text \<open>\<^verbatim>\<open>RabbitMQClusterStatus\<close>.\<close>

definition RabbitMQClusterStatus_to_json :: "time_lib \<Rightarrow> RabbitMQClusterStatus \<Rightarrow> gomap" where
  "RabbitMQClusterStatus_to_json T s =
    conditions_omitempty T (rmqst_Conditions s)
    (string_omitempty ''message'' (rmqst_Message s)
    (int32_omitempty ''readyReplicas'' (rmqst_ReadyReplicas s)
    (int32_omitempty ''replicas'' (rmqst_Replicas s)
    (string_omitempty ''phase'' (rmqst_Phase s)
    (bool_omitempty ''ready'' (rmqst_Ready s)
    fmempty)))))"

definition RabbitMQClusterStatus_of_json :: "time_lib \<Rightarrow> gomap \<Rightarrow> RabbitMQClusterStatus" where
  "RabbitMQClusterStatus_of_json T m =
    \<lparr>rmqst_Ready = json_bool ''ready'' m,
     rmqst_Phase = json_string ''phase'' m,
     rmqst_Replicas = json_int32 ''replicas'' m,
     rmqst_ReadyReplicas = json_int32 ''readyReplicas'' m,
     rmqst_Message = json_string ''message'' m,
     rmqst_Conditions = json_conditions T m\<rparr>"

definition RabbitMQClusterStatus_valid :: "time_lib \<Rightarrow> gomap \<Rightarrow> bool" where
  "RabbitMQClusterStatus_valid T m \<longleftrightarrow>
    valid_bool ''ready'' m \<and>
    valid_string ''phase'' m \<and>
    valid_int32 ''replicas'' m \<and>
    valid_int32 ''readyReplicas'' m \<and>
    valid_string ''message'' m \<and>
    valid_conditions T m"

text \<open>\<^verbatim>\<open>PrometheusInstanceStatus\<close>.\<close>

definition PrometheusInstanceStatus_to_json :: "time_lib \<Rightarrow> PrometheusInstanceStatus \<Rightarrow> gomap" where
  "PrometheusInstanceStatus_to_json T s =
    conditions_omitempty T (promst_Conditions s)
    (string_omitempty ''message'' (promst_Message s)
    (int32_omitempty ''readyReplicas'' (promst_ReadyReplicas s)
    (int32_omitempty ''replicas'' (promst_Replicas s)
    (string_omitempty ''phase'' (promst_Phase s)
    (bool_omitempty ''ready'' (promst_Ready s)
    fmempty)))))"

definition PrometheusInstanceStatus_of_json :: "time_lib \<Rightarrow> gomap \<Rightarrow> PrometheusInstanceStatus" where
  "PrometheusInstanceStatus_of_json T m =
    \<lparr>promst_Ready = json_bool ''ready'' m,
     promst_Phase = json_string ''phase'' m,
     promst_Replicas = json_int32 ''replicas'' m,
     promst_ReadyReplicas = json_int32 ''readyReplicas'' m,
     promst_Message = json_string ''message'' m,
     promst_Conditions = json_conditions T m\<rparr>"

definition PrometheusInstanceStatus_valid :: "time_lib \<Rightarrow> gomap \<Rightarrow> bool" where
  "PrometheusInstanceStatus_valid T m \<longleftrightarrow>
    valid_bool ''ready'' m \<and>
    valid_string ''phase'' m \<and>
    valid_int32 ''replicas'' m \<and>
    valid_int32 ''readyReplicas'' m \<and>
    valid_string ''message'' m \<and>
    valid_conditions T m"

section \<open>Writing and reading\<close>

definition condition_seconds :: "condition \<Rightarrow> condition" where
  "condition_seconds c = c\<lparr>cond_LastTransitionTime := to_seconds (cond_LastTransitionTime c)\<rparr>"

text \<open>A condition the schema accepts, said of the Go value.\<close>

definition condition_ok :: "condition \<Rightarrow> bool" where
  "condition_ok c \<longleftrightarrow> length (cond_Type c) \<le> 316 \<and> condition_type_text (cond_Type c) \<and> 0 \<le> sint (cond_ObservedGeneration c) \<and>
     cond_LastTransitionTime c \<noteq> 0 \<and> length (cond_Reason c) \<le> 1024 \<and> reason_text (cond_Reason c) \<and>
     length (cond_Message c) \<le> 32768"

definition conditions_ok :: "condition list \<Rightarrow> bool" where
  "conditions_ok cs \<longleftrightarrow> list_all condition_ok cs \<and> distinct (map cond_Type cs)"

lemma condition_status_text_inverse [simp]: "condition_status_of (condition_status_text s) = s"
  by (cases s) (simp_all add: condition_status_of_def)

lemma lookup_conditions [simp]:
  "fmlookup (conditions_omitempty T cs m) k =
     (if cs \<noteq> [] \<and> k = ''conditions'' then Some (GSlice (map (\<lambda>c. GMap (Condition_to_json T c)) cs)) else fmlookup m k)"
  by (auto simp: conditions_omitempty_def)

lemma int32_json_bounds: "- 2147483648 \<le> sint (i :: int32)" "sint (i :: int32) < 2147483648"
  using sint_greater_eq [of i] sint_less [of i] by simp_all

context time_format
begin

lemma condition_survives:
  "Condition_of_json T (Condition_to_json T c) = condition_seconds c"
  by (cases c) (auto simp: Condition_of_json_def Condition_to_json_def condition_seconds_def json_string_def parse_print to_seconds_def)

lemma condition_accepted: "Condition_valid T (Condition_to_json T c) \<longleftrightarrow> condition_ok c"
  by (cases "cond_Status c")
    (auto simp: Condition_valid_def Condition_to_json_def condition_ok_def valid_text_def valid_required_def valid_enum_def print_valid)

lemma conditions_survive:
  "fmlookup m ''conditions'' = None \<Longrightarrow> json_conditions T (conditions_omitempty T cs m) = map condition_seconds cs"
  by (simp add: json_conditions_def condition_survives)

lemma conditions_accepted:
  "fmlookup m ''conditions'' = None \<Longrightarrow> valid_conditions T (conditions_omitempty T cs m) \<longleftrightarrow> conditions_ok cs"
  by (simp add: valid_conditions_def conditions_ok_def list_all_iff condition_accepted comp_def)
    (simp add: json_string_def Condition_to_json_def)

lemma pgst_survives:
  "PostgresClusterStatus_of_json T (PostgresClusterStatus_to_json T s) = s\<lparr>pgst_Conditions := map condition_seconds (pgst_Conditions s)\<rparr>"
  by (cases s) (simp add: PostgresClusterStatus_of_json_def PostgresClusterStatus_to_json_def conditions_survive json_bool_def json_string_def json_int32_def)

lemma pgst_accepted: "PostgresClusterStatus_valid T (PostgresClusterStatus_to_json T s) \<longleftrightarrow> conditions_ok (pgst_Conditions s)"
  by (simp add: PostgresClusterStatus_valid_def PostgresClusterStatus_to_json_def conditions_accepted valid_bool_def valid_string_def valid_int32_def
    valid_minimum_def int32_json_bounds)

lemma vkst_survives:
  "ValkeyClusterStatus_of_json T (ValkeyClusterStatus_to_json T s) = s\<lparr>vkst_Conditions := map condition_seconds (vkst_Conditions s)\<rparr>"
  by (cases s) (simp add: ValkeyClusterStatus_of_json_def ValkeyClusterStatus_to_json_def conditions_survive json_bool_def json_string_def json_int32_def)

lemma vkst_accepted: "ValkeyClusterStatus_valid T (ValkeyClusterStatus_to_json T s) \<longleftrightarrow> conditions_ok (vkst_Conditions s)"
  by (simp add: ValkeyClusterStatus_valid_def ValkeyClusterStatus_to_json_def conditions_accepted valid_bool_def valid_string_def valid_int32_def
    valid_minimum_def int32_json_bounds)

lemma gfst_survives:
  "GrafanaInstanceStatus_of_json T (GrafanaInstanceStatus_to_json T s) = s\<lparr>gfst_Conditions := map condition_seconds (gfst_Conditions s)\<rparr>"
  by (cases s) (simp add: GrafanaInstanceStatus_of_json_def GrafanaInstanceStatus_to_json_def conditions_survive json_bool_def json_string_def json_int32_def)

lemma gfst_accepted: "GrafanaInstanceStatus_valid T (GrafanaInstanceStatus_to_json T s) \<longleftrightarrow> conditions_ok (gfst_Conditions s)"
  by (simp add: GrafanaInstanceStatus_valid_def GrafanaInstanceStatus_to_json_def conditions_accepted valid_bool_def valid_string_def valid_int32_def
    valid_minimum_def int32_json_bounds)

lemma mdst_survives:
  "MariaDBClusterStatus_of_json T (MariaDBClusterStatus_to_json T s) = s\<lparr>mdst_Conditions := map condition_seconds (mdst_Conditions s)\<rparr>"
  by (cases s) (simp add: MariaDBClusterStatus_of_json_def MariaDBClusterStatus_to_json_def conditions_survive json_bool_def json_string_def json_int32_def)

lemma mdst_accepted: "MariaDBClusterStatus_valid T (MariaDBClusterStatus_to_json T s) \<longleftrightarrow> conditions_ok (mdst_Conditions s)"
  by (simp add: MariaDBClusterStatus_valid_def MariaDBClusterStatus_to_json_def conditions_accepted valid_bool_def valid_string_def valid_int32_def
    valid_minimum_def int32_json_bounds)

lemma rmqst_survives:
  "RabbitMQClusterStatus_of_json T (RabbitMQClusterStatus_to_json T s) = s\<lparr>rmqst_Conditions := map condition_seconds (rmqst_Conditions s)\<rparr>"
  by (cases s) (simp add: RabbitMQClusterStatus_of_json_def RabbitMQClusterStatus_to_json_def conditions_survive json_bool_def json_string_def json_int32_def)

lemma rmqst_accepted: "RabbitMQClusterStatus_valid T (RabbitMQClusterStatus_to_json T s) \<longleftrightarrow> conditions_ok (rmqst_Conditions s)"
  by (simp add: RabbitMQClusterStatus_valid_def RabbitMQClusterStatus_to_json_def conditions_accepted valid_bool_def valid_string_def valid_int32_def
    valid_minimum_def int32_json_bounds)

lemma promst_survives:
  "PrometheusInstanceStatus_of_json T (PrometheusInstanceStatus_to_json T s) = s\<lparr>promst_Conditions := map condition_seconds (promst_Conditions s)\<rparr>"
  by (cases s) (simp add: PrometheusInstanceStatus_of_json_def PrometheusInstanceStatus_to_json_def conditions_survive json_bool_def json_string_def json_int32_def)

lemma promst_accepted: "PrometheusInstanceStatus_valid T (PrometheusInstanceStatus_to_json T s) \<longleftrightarrow> conditions_ok (promst_Conditions s)"
  by (simp add: PrometheusInstanceStatus_valid_def PrometheusInstanceStatus_to_json_def conditions_accepted valid_bool_def valid_string_def valid_int32_def
    valid_minimum_def int32_json_bounds)

end

text \<open>Setting a condition keeps the list acceptable.\<close>

lemma set_condition_types: "cond_Type ` set (set_condition now c cs) = insert (cond_Type c) (cond_Type ` set cs)"
  by (induction cs) auto

lemma set_condition_ok:
  assumes "conditions_ok cs" and "\<And>t. t \<noteq> 0 \<Longrightarrow> condition_ok (c\<lparr>cond_LastTransitionTime := t\<rparr>)" and "now \<noteq> 0"
  shows "conditions_ok (set_condition now c cs)"
  using assms(1)
proof (induction cs)
  case Nil
  then show ?case using assms(2,3) by (simp add: conditions_ok_def stamp_def)
next
  case (Cons d ds)
  have "cond_LastTransitionTime d \<noteq> 0" using Cons.prems by (simp add: conditions_ok_def condition_ok_def)
  moreover have "cond_Type d \<notin> cond_Type ` set (set_condition now c ds)" if "cond_Type d \<noteq> cond_Type c"
    using Cons.prems that by (simp add: set_condition_types conditions_ok_def)
  ultimately show ?case using Cons assms(2,3) by (auto simp: conditions_ok_def stamp_def)
qed

text \<open>What the adapters set: a \<open>Ready\<close> condition with one of their own reasons.\<close>

lemma ready_condition_ok:
  assumes "reason_text reason" and "length reason \<le> 1024" and "length msg \<le> 32768" and "0 \<le> sint gen" and "t \<noteq> 0"
  shows "condition_ok \<lparr>cond_Type = ''Ready'', cond_Status = st, cond_ObservedGeneration = gen, cond_LastTransitionTime = t,
    cond_Reason = reason, cond_Message = msg\<rparr>"
proof -
  have "condition_type_text ''Ready''" by code_simp
  with assms show ?thesis by (simp add: condition_ok_def)
qed

lemma adapter_reasons:
  "list_all reason_text [''ClusterReady'', ''ClusterNotReady'', ''GrafanaReady'', ''GrafanaNotReady'', ''PrometheusReady'', ''PrometheusNotReady'']"
  by code_simp

section \<open>What the adapters write\<close>

lemma pgst_written:
  assumes "k8s_libs_ok L" and "now \<noteq> 0" and "conditions_ok (pgst_Conditions (Status cr))"
    and "0 \<le> sint (meta_Generation (ObjectMeta cr))" and "length (snd (cnpg_ApplyStatus L now cr t s)) \<le> 32768"
  shows "conditions_ok (pgst_Conditions (Status (fst (cnpg_ApplyStatus L now cr t s))))"
  by (cases "ts_Ready s") (use assms(5) adapter_reasons in \<open>auto simp: cnpg_ApplyStatus_def Let_def
    k8s_libs_ok.set_status_condition [OF assms(1)] intro!: set_condition_ok [OF assms(3) _ assms(2)] ready_condition_ok assms(4)\<close>)

lemma vkst_written:
  assumes "k8s_libs_ok L" and "now \<noteq> 0" and "conditions_ok (vkst_Conditions (Status cr))"
    and "0 \<le> sint (meta_Generation (ObjectMeta cr))" and "length (snd (valkey_ApplyStatus L now cr t s)) \<le> 32768"
  shows "conditions_ok (vkst_Conditions (Status (fst (valkey_ApplyStatus L now cr t s))))"
  by (cases "ts_Ready s") (use assms(5) adapter_reasons in \<open>auto simp: valkey_ApplyStatus_def Let_def
    k8s_libs_ok.set_status_condition [OF assms(1)] intro!: set_condition_ok [OF assms(3) _ assms(2)] ready_condition_ok assms(4)\<close>)

lemma gfst_written:
  assumes "k8s_libs_ok L" and "now \<noteq> 0" and "conditions_ok (gfst_Conditions (Status cr))"
    and "0 \<le> sint (meta_Generation (ObjectMeta cr))" and "length (snd (grafana_ApplyStatus L now cr t s)) \<le> 32768"
  shows "conditions_ok (gfst_Conditions (Status (fst (grafana_ApplyStatus L now cr t s))))"
  by (cases "ts_Ready s") (use assms(5) adapter_reasons in \<open>auto simp: grafana_ApplyStatus_def Let_def
    k8s_libs_ok.set_status_condition [OF assms(1)] intro!: set_condition_ok [OF assms(3) _ assms(2)] ready_condition_ok assms(4)\<close>)

lemma mdst_written:
  assumes "k8s_libs_ok L" and "now \<noteq> 0" and "conditions_ok (mdst_Conditions (Status cr))"
    and "0 \<le> sint (meta_Generation (ObjectMeta cr))" and "length (snd (mariadb_ApplyStatus L now cr t s)) \<le> 32768"
  shows "conditions_ok (mdst_Conditions (Status (fst (mariadb_ApplyStatus L now cr t s))))"
  by (cases "ts_Ready s") (use assms(5) adapter_reasons in \<open>auto simp: mariadb_ApplyStatus_def Let_def
    k8s_libs_ok.set_status_condition [OF assms(1)] intro!: set_condition_ok [OF assms(3) _ assms(2)] ready_condition_ok assms(4)\<close>)

lemma rmqst_written:
  assumes "k8s_libs_ok L" and "now \<noteq> 0" and "conditions_ok (rmqst_Conditions (Status cr))"
    and "0 \<le> sint (meta_Generation (ObjectMeta cr))" and "length (snd (rabbitmq_ApplyStatus L now cr t s)) \<le> 32768"
  shows "conditions_ok (rmqst_Conditions (Status (fst (rabbitmq_ApplyStatus L now cr t s))))"
  by (cases "ts_Ready s") (use assms(5) adapter_reasons in \<open>auto simp: rabbitmq_ApplyStatus_def Let_def
    k8s_libs_ok.set_status_condition [OF assms(1)] intro!: set_condition_ok [OF assms(3) _ assms(2)] ready_condition_ok assms(4)\<close>)

lemma promst_written:
  assumes "k8s_libs_ok L" and "now \<noteq> 0" and "conditions_ok (promst_Conditions (Status cr))"
    and "0 \<le> sint (meta_Generation (ObjectMeta cr))" and "length (snd (prometheus_ApplyStatus L now cr t s)) \<le> 32768"
  shows "conditions_ok (promst_Conditions (Status (fst (prometheus_ApplyStatus L now cr t s))))"
  by (cases "ts_Ready s") (use assms(5) adapter_reasons in \<open>auto simp: prometheus_ApplyStatus_def Let_def
    k8s_libs_ok.set_status_condition [OF assms(1)] intro!: set_condition_ok [OF assms(3) _ assms(2)] ready_condition_ok assms(4)\<close>)

section \<open>A reference format\<close>

text \<open>Seconds as a signed decimal: not RFC 3339, but a format that keeps the contract.\<close>

definition digits_value :: "string \<Rightarrow> nat" where
  "digits_value = foldl (\<lambda>n c. 10 * n + (of_char c - 48)) 0"

definition ref_time :: time_lib where
  "ref_time = \<lparr>
     time_print = (\<lambda>t. let s = t div 1000000000
       in if s < 0 then CHR ''-'' # nat_digits (nat (- s)) else nat_digits (nat s)),
     time_parse = (\<lambda>x. case x of
         [] \<Rightarrow> 0
       | c # cs \<Rightarrow> (if c = CHR ''-'' then - int (digits_value cs) else int (digits_value x)) * 1000000000),
     is_date_time = (\<lambda>x. x \<noteq> [])\<rparr>"

lemma digit_value: "n < 10 \<Longrightarrow> (of_char (''0123456789'' ! n) :: nat) = 48 + n"
proof -
  have "list_all (\<lambda>n. (of_char (''0123456789'' ! n) :: nat) = 48 + n) [0..<10]" by code_simp
  then show "n < 10 \<Longrightarrow> (of_char (''0123456789'' ! n) :: nat) = 48 + n" by (simp add: list_all_iff)
qed

lemma digits_value_digits: "digits_value (nat_digits n) = n"
proof (induction n rule: nat_digits.induct)
  case (1 n)
  show ?case
  proof (cases "n < 10")
    case True
    then show ?thesis by (subst nat_digits.simps) (simp add: digits_value_def digit_value)
  next
    case False
    have "(of_char (''0123456789'' ! (n mod 10)) :: nat) = 48 + n mod 10" by (rule digit_value) simp
    with False 1 show ?thesis by (subst nat_digits.simps) (simp add: digits_value_def)
  qed
qed

lemma nat_digits_head: "\<exists>c cs. nat_digits n = c # cs \<and> c \<noteq> CHR ''-''"
proof (induction n rule: nat_digits.induct)
  case (1 n)
  show ?case
  proof (cases "n < 10")
    case True
    have "(of_char (CHR ''-'') :: nat) = 45" by code_simp
    with digit_value [OF True] have "''0123456789'' ! n \<noteq> CHR ''-''" by auto
    with True show ?thesis by (subst nat_digits.simps) simp
  next
    case False
    with 1 show ?thesis by (subst nat_digits.simps) auto
  qed
qed

interpretation ref_times: time_format ref_time
proof
  fix t :: time
  let ?s = "t div 1000000000"
  obtain c cs where n: "nat_digits (nat ?s) = c # cs" "c \<noteq> CHR ''-''" using nat_digits_head by blast
  have "digits_value (c # cs) = nat ?s" using digits_value_digits [of "nat ?s"] n(1) by simp
  with n show "time_parse ref_time (time_print ref_time t) = to_seconds t"
    by (simp add: ref_time_def Let_def digits_value_digits to_seconds_def)
  show "is_date_time ref_time (time_print ref_time t)"
    using nat_digits_head [of "nat (t div 1000000000)"] by (auto simp: ref_time_def Let_def)
qed

end
