(* ===== verification/Api_Properties.thy ===== *)
theory Api_Properties
  imports Ref_Server Status_Json
begin

text \<open>
  The properties of the CRs on the wire: what the operator sends when it updates a CR keeps the spec of a CR the server has
  accepted and is accepted again, but for a count of zero, which it turns into one; the statuses it writes are accepted and read back.
\<close>

text \<open>C17: the operator's own update does not change the spec. Whatever JSON the server accepts as the spec of one of the four kinds that
  need at least one unit, the spec read from it has at least one unit and is stored unchanged when the CR is sent back; for the two kinds
  that may be scaled to zero this holds when they are not.\<close>

theorem updates_keep_specs:
  "(PostgresClusterSpec_valid (PostgresClusterSpec_defaults m) \<longrightarrow>
      (let s = PostgresClusterSpec_of_json (PostgresClusterSpec_defaults m) in 1 \<le> sint (pg_Instances s) \<and> pg_wire s = s)) \<and>
   (ValkeyClusterSpec_valid (ValkeyClusterSpec_defaults m) \<longrightarrow>
      (let s = ValkeyClusterSpec_of_json (ValkeyClusterSpec_defaults m) in 1 \<le> sint (vk_Shards s) \<and> vk_wire s = s)) \<and>
   (MariaDBClusterSpec_valid (MariaDBClusterSpec_defaults m) \<longrightarrow>
      (let s = MariaDBClusterSpec_of_json (MariaDBClusterSpec_defaults m) in 1 \<le> sint (md_Replicas s) \<and> md_wire s = s)) \<and>
   (RabbitMQClusterSpec_valid (RabbitMQClusterSpec_defaults m) \<longrightarrow>
      (let s = RabbitMQClusterSpec_of_json (RabbitMQClusterSpec_defaults m) in 1 \<le> sint (rmq_Replicas s) \<and> rmq_wire s = s)) \<and>
   (GrafanaInstanceSpec_valid (GrafanaInstanceSpec_defaults m) \<longrightarrow>
      (let s = GrafanaInstanceSpec_of_json (GrafanaInstanceSpec_defaults m)
       in 0 \<le> sint (gf_Replicas s) \<and> (gf_Replicas s \<noteq> 0 \<longrightarrow> gf_wire s = s))) \<and>
   (PrometheusInstanceSpec_valid (PrometheusInstanceSpec_defaults m) \<longrightarrow>
      (let s = PrometheusInstanceSpec_of_json (PrometheusInstanceSpec_defaults m)
       in 0 \<le> sint (prom_Replicas s) \<and> (prom_Replicas s \<noteq> 0 \<longrightarrow> prom_wire s = s)))"
  by (simp add: Let_def pg_stored vk_stored md_stored rmq_stored gf_stored prom_stored)

definition demo_json :: gomap where
  "demo_json = fmap_of_list
     [(''replicas'', GInt 3), (''storage'', gomap_of [(''size'', GStr ''1Gi'')]),
      (''database'', gomap_of [(''name'', GStr ''app''), (''owner'', GStr ''app'')]),
      (''persistence'', gomap_of [(''size'', GStr ''1Gi'')]), (''expose'', gomap_of []),
      (''monitoring'', gomap_of [])]"

lemma demo_json_accepted:
  "PostgresClusterSpec_valid (PostgresClusterSpec_defaults demo_json)"
  "ValkeyClusterSpec_valid (ValkeyClusterSpec_defaults demo_json)"
  "MariaDBClusterSpec_valid (MariaDBClusterSpec_defaults demo_json)"
  "RabbitMQClusterSpec_valid (RabbitMQClusterSpec_defaults demo_json)"
  "GrafanaInstanceSpec_valid (GrafanaInstanceSpec_defaults demo_json)"
  "PrometheusInstanceSpec_valid (PrometheusInstanceSpec_defaults demo_json)"
  by code_simp+

theorem updates_keep_specs_witness:
  "pg_wire (PostgresClusterSpec_of_json (PostgresClusterSpec_defaults demo_json)) = PostgresClusterSpec_of_json (PostgresClusterSpec_defaults demo_json) \<and>
   vk_wire (ValkeyClusterSpec_of_json (ValkeyClusterSpec_defaults demo_json)) = ValkeyClusterSpec_of_json (ValkeyClusterSpec_defaults demo_json) \<and>
   md_wire (MariaDBClusterSpec_of_json (MariaDBClusterSpec_defaults demo_json)) = MariaDBClusterSpec_of_json (MariaDBClusterSpec_defaults demo_json) \<and>
   rmq_wire (RabbitMQClusterSpec_of_json (RabbitMQClusterSpec_defaults demo_json)) = RabbitMQClusterSpec_of_json (RabbitMQClusterSpec_defaults demo_json)"
  using updates_keep_specs [of demo_json] demo_json_accepted by (simp add: Let_def)

text \<open>C20: what the operator sends back is well-typed. For a spec the server once accepted, the JSON the operator sends has the types, the
  required fields, the minimum counts and the service types of the schema, so its update is not rejected.\<close>

theorem updates_are_accepted:
  "(PostgresClusterSpec_valid (PostgresClusterSpec_defaults m) \<longrightarrow> pg_accepted (PostgresClusterSpec_of_json (PostgresClusterSpec_defaults m))) \<and>
   (ValkeyClusterSpec_valid (ValkeyClusterSpec_defaults m) \<longrightarrow> vk_accepted (ValkeyClusterSpec_of_json (ValkeyClusterSpec_defaults m))) \<and>
   (GrafanaInstanceSpec_valid (GrafanaInstanceSpec_defaults m) \<longrightarrow> gf_accepted (GrafanaInstanceSpec_of_json (GrafanaInstanceSpec_defaults m))) \<and>
   (MariaDBClusterSpec_valid (MariaDBClusterSpec_defaults m) \<longrightarrow> md_accepted (MariaDBClusterSpec_of_json (MariaDBClusterSpec_defaults m))) \<and>
   (RabbitMQClusterSpec_valid (RabbitMQClusterSpec_defaults m) \<longrightarrow> rmq_accepted (RabbitMQClusterSpec_of_json (RabbitMQClusterSpec_defaults m))) \<and>
   (PrometheusInstanceSpec_valid (PrometheusInstanceSpec_defaults m) \<longrightarrow> prom_accepted (PrometheusInstanceSpec_of_json (PrometheusInstanceSpec_defaults m)))"
  by (simp add: pg_stored_accepted vk_stored_accepted gf_stored_accepted md_stored_accepted rmq_stored_accepted prom_stored_accepted)

theorem updates_are_accepted_witness:
  "pg_accepted (PostgresClusterSpec_of_json (PostgresClusterSpec_defaults demo_json)) \<and>
   vk_accepted (ValkeyClusterSpec_of_json (ValkeyClusterSpec_defaults demo_json)) \<and>
   gf_accepted (GrafanaInstanceSpec_of_json (GrafanaInstanceSpec_defaults demo_json)) \<and>
   md_accepted (MariaDBClusterSpec_of_json (MariaDBClusterSpec_defaults demo_json)) \<and>
   rmq_accepted (RabbitMQClusterSpec_of_json (RabbitMQClusterSpec_defaults demo_json)) \<and>
   prom_accepted (PrometheusInstanceSpec_of_json (PrometheusInstanceSpec_defaults demo_json))"
  using updates_are_accepted [of demo_json] demo_json_accepted by simp

text \<open>C22: a count of zero is undone. A GrafanaInstance that asks for no replica, which the schema allows, is stored with one replica by the
  pass that adds the finalizer, and the next pass applies a Grafana with one.\<close>

theorem zero_replicas_become_one:
  assumes "available_engine L (grafana_Adapter L) extra_keys V c record_event cr_at obj_at live gf_wire r"
    and "cr_at req w = Some cr" and "\<not> terminating L cr" and "\<not> has_finalizer L cr" and "gf_Replicas (Spec cr) = 0"
  shows "\<exists>x u. cr_at req (snd (Reconcile L r req w)) = Some x \<and> gf_Replicas (Spec x) = 1 \<and>
    obj_at (grafana_GVK, req) (snd (Reconcile L r req (snd (Reconcile L r req w)))) = Some u \<and>
    path_lookup (Object u) [''spec'', ''deployment'', ''spec'', ''replicas''] = Some (GInt 1)"
proof -
  have vendor: "vendor_adapter L (grafana_Adapter L) extra_keys V"
    and api: "kube_api L c record_event cr_at obj_at live gf_wire"
    using available_engine.axioms(1) [OF assms(1)] by (simp_all add: engine_def)
  obtain x where x: "cr_at req (snd (Reconcile L r req w)) = Some x" "Spec x = gf_wire (Spec cr)"
    and conv: "converged L (grafana_Adapter L) V cr_at obj_at live x (snd (Reconcile L r req (snd (Reconcile L r req w))))
      (result_of L r req (snd (Reconcile L r req w)))"
    using available_engine.two_passes [OF assms(1-4)] by blast
  have one: "gf_Replicas (Spec x) = 1" by (simp add: x(2) gf_wire_eq unzero_def assms(5))
  have "key_of L (manifest_of (grafana_Adapter L) x) = (grafana_GVK, req)"
    unfolding vendor_adapter.key_of_manifest [OF vendor]
    by (simp add: kube_api.stored_name [OF api x(1)] grafana_Adapter_def)
  with conv obtain u where u: "obj_at (grafana_GVK, req) (snd (Reconcile L r req (snd (Reconcile L r req w)))) = Some u"
    "covers (manifest_of (grafana_Adapter L) x) u" by (auto simp: converged_def)
  have "path_lookup (Object (manifest_of (grafana_Adapter L) x)) [''spec'', ''deployment'', ''spec'', ''replicas''] = Some (GInt 1)"
    unfolding manifest_of_def grafana_Adapter_def Adapter.select_convs grafana_manifest_replicas one
    by (simp add: int64_of_int32_def)
  then have "path_lookup (Object u) [''spec'', ''deployment'', ''spec'', ''replicas''] = Some (GInt 1)"
    by (rule coversD [OF u(2)]) simp
  with x(1) one u(1) show ?thesis by blast
qed

definition demo_dashboard :: GrafanaInstance where
  "demo_dashboard = \<lparr>ObjectMeta = \<lparr>meta_Name = ''web'', meta_Namespace = ''shop'', meta_Generation = 1,
       meta_DeletionTimestamp = None, meta_Finalizers = []\<rparr>,
     Spec = \<lparr>gf_Version = '''', gf_Replicas = 0, gf_Persistence = None, gf_Ingress = None\<rparr>,
     Status = \<lparr>gfst_Ready = False, gfst_Phase = '''', gfst_Replicas = 0, gfst_Message = '''', gfst_Conditions = []\<rparr>\<rparr>"

definition dashboard_server :: "(GrafanaInstanceSpec, GrafanaInstanceStatus) server" where
  "dashboard_server = \<lparr>srv_crs = (\<lambda>_. None)((''shop'', ''web'') := Some demo_dashboard), srv_objs = (\<lambda>_. None),
     srv_clock = 100, srv_events = []\<rparr>"

abbreviation dashboard_r :: "((GrafanaInstanceSpec, GrafanaInstanceStatus) server, GrafanaInstanceSpec, GrafanaInstanceStatus) GenericReconciler" where
  "dashboard_r \<equiv> NewGrafanaInstanceReconciler ref_libs (ref_client gf_wire) ref_recorder"

theorem zero_replicas_become_one_witness:
  "\<exists>x. server_cr (''shop'', ''web'') (snd (Reconcile ref_libs dashboard_r (''shop'', ''web'') dashboard_server)) = Some x \<and>
    gf_Replicas (Spec demo_dashboard) = 0 \<and> gf_Replicas (Spec x) = 1"
proof -
  have 1: "server_cr (''shop'', ''web'') dashboard_server = Some demo_dashboard"
    by (simp add: server_cr_def dashboard_server_def demo_dashboard_def)
  have 2: "\<not> terminating ref_libs demo_dashboard" "\<not> has_finalizer ref_libs demo_dashboard"
    and 3: "gf_Replicas (Spec demo_dashboard) = 0"
    by (simp_all add: demo_dashboard_def terminating_def has_finalizer_def ref.is_zero ref.contains_finalizer)
  from zero_replicas_become_one [OF gf_server.available_engine_axioms, OF 1, OF 2 3] 3 show ?thesis by blast
qed

text \<open>C21: a status that is written is accepted and read back. If the status a CR has is one the schema accepts, so is the one each of the
  six adapters computes from it, types, patterns and keyed list included, as long as the message fits its 32768 bytes; and reading its JSON gives
  the status, with times in whole seconds.\<close>

theorem statuses_survive_the_wire:
  assumes "time_format T" and "k8s_libs_ok L" and "now \<noteq> 0"
  shows "(PostgresClusterStatus_valid T (PostgresClusterStatus_to_json T (Status pg)) \<and> 0 \<le> sint (meta_Generation (ObjectMeta pg)) \<and>
      length (snd (cnpg_ApplyStatus L now pg t s)) \<le> 32768 \<longrightarrow>
    (let st = Status (fst (cnpg_ApplyStatus L now pg t s))
     in PostgresClusterStatus_valid T (PostgresClusterStatus_to_json T st) \<and>
        PostgresClusterStatus_of_json T (PostgresClusterStatus_to_json T st) = st\<lparr>pgst_Conditions := map condition_seconds (pgst_Conditions st)\<rparr>)) \<and>
   (ValkeyClusterStatus_valid T (ValkeyClusterStatus_to_json T (Status vk)) \<and> 0 \<le> sint (meta_Generation (ObjectMeta vk)) \<and>
      length (snd (valkey_ApplyStatus L now vk t s)) \<le> 32768 \<longrightarrow>
    (let st = Status (fst (valkey_ApplyStatus L now vk t s))
     in ValkeyClusterStatus_valid T (ValkeyClusterStatus_to_json T st) \<and>
        ValkeyClusterStatus_of_json T (ValkeyClusterStatus_to_json T st) = st\<lparr>vkst_Conditions := map condition_seconds (vkst_Conditions st)\<rparr>)) \<and>
   (GrafanaInstanceStatus_valid T (GrafanaInstanceStatus_to_json T (Status gf)) \<and> 0 \<le> sint (meta_Generation (ObjectMeta gf)) \<and>
      length (snd (grafana_ApplyStatus L now gf t s)) \<le> 32768 \<longrightarrow>
    (let st = Status (fst (grafana_ApplyStatus L now gf t s))
     in GrafanaInstanceStatus_valid T (GrafanaInstanceStatus_to_json T st) \<and>
        GrafanaInstanceStatus_of_json T (GrafanaInstanceStatus_to_json T st) = st\<lparr>gfst_Conditions := map condition_seconds (gfst_Conditions st)\<rparr>)) \<and>
   (MariaDBClusterStatus_valid T (MariaDBClusterStatus_to_json T (Status md)) \<and> 0 \<le> sint (meta_Generation (ObjectMeta md)) \<and>
      length (snd (mariadb_ApplyStatus L now md t s)) \<le> 32768 \<longrightarrow>
    (let st = Status (fst (mariadb_ApplyStatus L now md t s))
     in MariaDBClusterStatus_valid T (MariaDBClusterStatus_to_json T st) \<and>
        MariaDBClusterStatus_of_json T (MariaDBClusterStatus_to_json T st) = st\<lparr>mdst_Conditions := map condition_seconds (mdst_Conditions st)\<rparr>)) \<and>
   (RabbitMQClusterStatus_valid T (RabbitMQClusterStatus_to_json T (Status rmq)) \<and> 0 \<le> sint (meta_Generation (ObjectMeta rmq)) \<and>
      length (snd (rabbitmq_ApplyStatus L now rmq t s)) \<le> 32768 \<longrightarrow>
    (let st = Status (fst (rabbitmq_ApplyStatus L now rmq t s))
     in RabbitMQClusterStatus_valid T (RabbitMQClusterStatus_to_json T st) \<and>
        RabbitMQClusterStatus_of_json T (RabbitMQClusterStatus_to_json T st) = st\<lparr>rmqst_Conditions := map condition_seconds (rmqst_Conditions st)\<rparr>)) \<and>
   (PrometheusInstanceStatus_valid T (PrometheusInstanceStatus_to_json T (Status prom)) \<and> 0 \<le> sint (meta_Generation (ObjectMeta prom)) \<and>
      length (snd (prometheus_ApplyStatus L now prom t s)) \<le> 32768 \<longrightarrow>
    (let st = Status (fst (prometheus_ApplyStatus L now prom t s))
     in PrometheusInstanceStatus_valid T (PrometheusInstanceStatus_to_json T st) \<and>
        PrometheusInstanceStatus_of_json T (PrometheusInstanceStatus_to_json T st) = st\<lparr>promst_Conditions := map condition_seconds (promst_Conditions st)\<rparr>))"
  using pgst_written [OF assms(2,3), of pg t s]
    vkst_written [OF assms(2,3), of vk t s]
    gfst_written [OF assms(2,3), of gf t s]
    mdst_written [OF assms(2,3), of md t s]
    rmqst_written [OF assms(2,3), of rmq t s]
    promst_written [OF assms(2,3), of prom t s]
  by (simp add: Let_def time_format.pgst_survives [OF assms(1)] time_format.pgst_accepted [OF assms(1)]
    time_format.vkst_survives [OF assms(1)] time_format.vkst_accepted [OF assms(1)]
    time_format.gfst_survives [OF assms(1)] time_format.gfst_accepted [OF assms(1)]
    time_format.mdst_survives [OF assms(1)] time_format.mdst_accepted [OF assms(1)]
    time_format.rmqst_survives [OF assms(1)] time_format.rmqst_accepted [OF assms(1)]
    time_format.promst_survives [OF assms(1)] time_format.promst_accepted [OF assms(1)])

theorem statuses_survive_the_wire_witness:
  "let st = Status (fst (grafana_ApplyStatus ref_libs 1500000000 demo_dashboard ''web''
       \<lparr>ts_Phase = ''complete/success'', ts_Ready = True, ts_ObservedCount = 1, ts_ReadyCount = 1\<rparr>))
   in GrafanaInstanceStatus_valid ref_time (GrafanaInstanceStatus_to_json ref_time st) \<and>
      map cond_LastTransitionTime (gfst_Conditions (GrafanaInstanceStatus_of_json ref_time (GrafanaInstanceStatus_to_json ref_time st))) =
        [1000000000]"
proof -
  let ?s = "\<lparr>ts_Phase = ''complete/success'', ts_Ready = True, ts_ObservedCount = 1, ts_ReadyCount = 1\<rparr>"
  let ?st = "Status (fst (grafana_ApplyStatus ref_libs 1500000000 demo_dashboard ''web'' ?s))"
  have "GrafanaInstanceStatus_valid ref_time (GrafanaInstanceStatus_to_json ref_time (Status demo_dashboard))"
    "0 \<le> sint (meta_Generation (ObjectMeta demo_dashboard))"
    "length (snd (grafana_ApplyStatus ref_libs 1500000000 demo_dashboard ''web'' ?s)) = 37" by code_simp+
  with statuses_survive_the_wire [OF ref_times.time_format_axioms ref.k8s_libs_ok_axioms, of 1500000000 _ "''web''" ?s _ demo_dashboard]
  have "GrafanaInstanceStatus_valid ref_time (GrafanaInstanceStatus_to_json ref_time ?st)"
    "GrafanaInstanceStatus_of_json ref_time (GrafanaInstanceStatus_to_json ref_time ?st) =
      ?st\<lparr>gfst_Conditions := map condition_seconds (gfst_Conditions ?st)\<rparr>" by (simp_all add: Let_def)
  moreover have "map (\<lambda>c. cond_LastTransitionTime (condition_seconds c)) (gfst_Conditions ?st) = [1000000000]" by code_simp
  ultimately show ?thesis by (simp add: Let_def comp_def)
qed

end
