(* ===== verification/Go_Memory.thy ===== *)
theory Go_Memory
  imports Prelude
begin

text \<open>
  Go values in memory, as far as the deep copies need them: a struct is held in place, a pointer, a slice and a map refer
  to a cell, and a copy of such a value by assignment shares the cell. A type describes how far a value reaches; \<open>deep_copy\<close>
  is the reference by recursion on it. The locale \<open>deep_copier\<close> says what a deep copy promises: the copy has the type and the
  contents of the original, lives in new cells only, and leaves every old cell as it was.
\<close>

section \<open>Memory\<close>

type_synonym addr = nat

datatype mem =
    MStr string
  | MInt int32
  | MBool bool
  | MNil
  | MRef addr
  | MStruct "(string \<times> mem) list"

text \<open>A cell is the target of a pointer, the elements of a slice, or the entries of a map.\<close>

datatype cell = CVal mem | CSlice "mem list" | CMap string_map

record memory =
  cells :: "addr \<Rightarrow> cell"
  limit :: addr

definition alloc :: "cell \<Rightarrow> memory \<Rightarrow> addr \<times> memory" where
  "alloc c h = (limit h, h\<lparr>cells := (cells h)(limit h := c), limit := limit h + 1\<rparr>)"

definition store :: "addr \<Rightarrow> cell \<Rightarrow> memory \<Rightarrow> memory" where
  "store a c h = h\<lparr>cells := (cells h)(a := c)\<rparr>"

definition field :: "string \<Rightarrow> mem \<Rightarrow> mem" where
  "field n m = (case m of MStruct fs \<Rightarrow> (case map_of fs n of Some v \<Rightarrow> v | None \<Rightarrow> MNil) | _ \<Rightarrow> MNil)"

definition set_field :: "string \<Rightarrow> mem \<Rightarrow> mem \<Rightarrow> mem" where
  "set_field n v m = (case m of MStruct fs \<Rightarrow> MStruct (map (\<lambda>(k, x). (k, if k = n then v else x)) fs) | _ \<Rightarrow> m)"

text \<open>What a value denotes once all references are followed.\<close>

datatype deep =
    DStr string
  | DInt int32
  | DBool bool
  | DNil
  | DPtr deep
  | DSlice "deep list"
  | DMap string_map
  | DStruct "(string \<times> deep) list"

section \<open>Types\<close>

datatype gotype =
    TString
  | TInt32
  | TBool
  | TStruct "(string \<times> gotype) list"
  | TPtr gotype
  | TSlice gotype
  | TMap
  | TForeign string

type_synonym copier = "mem \<Rightarrow> memory \<Rightarrow> mem \<times> memory"

text \<open>A type of another package, known by what its own deep copy works on.\<close>

record foreign_type =
  fo_zero :: mem
  fo_ok :: "memory \<Rightarrow> mem \<Rightarrow> bool"
  fo_value :: "memory \<Rightarrow> mem \<Rightarrow> deep"
  fo_foot :: "memory \<Rightarrow> mem \<Rightarrow> addr set"
  fo_copy :: copier

type_synonym packages = "string \<Rightarrow> foreign_type"

primrec zero :: "packages \<Rightarrow> gotype \<Rightarrow> mem" where
  "zero F TString = MStr ''''"
| "zero F TInt32 = MInt 0"
| "zero F TBool = MBool False"
| "zero F (TStruct fs) = MStruct (map (map_prod (\<lambda>n. n) (zero F)) fs)"
| "zero F (TPtr T) = MNil"
| "zero F (TSlice T) = MNil"
| "zero F TMap = MNil"
| "zero F (TForeign n) = fo_zero (F n)"

fun fields_ok :: "(string \<times> (memory \<Rightarrow> mem \<Rightarrow> bool)) list \<Rightarrow> memory \<Rightarrow> (string \<times> mem) list \<Rightarrow> bool" where
  "fields_ok [] h [] = True"
| "fields_ok ((n, p) # ps) h ((k, m) # ms) = (n = k \<and> p h m \<and> fields_ok ps h ms)"
| "fields_ok _ h _ = False"

definition struct_ok :: "(string \<times> (memory \<Rightarrow> mem \<Rightarrow> bool)) list \<Rightarrow> memory \<Rightarrow> mem \<Rightarrow> bool" where
  "struct_ok ps h m = (case m of MStruct ms \<Rightarrow> fields_ok ps h ms | _ \<Rightarrow> False)"

definition ptr_ok :: "(memory \<Rightarrow> mem \<Rightarrow> bool) \<Rightarrow> memory \<Rightarrow> mem \<Rightarrow> bool" where
  "ptr_ok p h m = (case m of MNil \<Rightarrow> True
     | MRef a \<Rightarrow> a < limit h \<and> (case cells h a of CVal v \<Rightarrow> p h v | _ \<Rightarrow> False) | _ \<Rightarrow> False)"

definition slice_ok :: "(memory \<Rightarrow> mem \<Rightarrow> bool) \<Rightarrow> memory \<Rightarrow> mem \<Rightarrow> bool" where
  "slice_ok p h m = (case m of MNil \<Rightarrow> True
     | MRef a \<Rightarrow> a < limit h \<and> (case cells h a of CSlice vs \<Rightarrow> list_all (p h) vs | _ \<Rightarrow> False) | _ \<Rightarrow> False)"

definition map_ok :: "memory \<Rightarrow> mem \<Rightarrow> bool" where
  "map_ok h m = (case m of MNil \<Rightarrow> True
     | MRef a \<Rightarrow> a < limit h \<and> (case cells h a of CMap _ \<Rightarrow> True | _ \<Rightarrow> False) | _ \<Rightarrow> False)"

primrec has_type :: "packages \<Rightarrow> gotype \<Rightarrow> memory \<Rightarrow> mem \<Rightarrow> bool" where
  "has_type F TString = (\<lambda>h m. case m of MStr _ \<Rightarrow> True | _ \<Rightarrow> False)"
| "has_type F TInt32 = (\<lambda>h m. case m of MInt _ \<Rightarrow> True | _ \<Rightarrow> False)"
| "has_type F TBool = (\<lambda>h m. case m of MBool _ \<Rightarrow> True | _ \<Rightarrow> False)"
| "has_type F (TStruct fs) = struct_ok (map (map_prod (\<lambda>n. n) (has_type F)) fs)"
| "has_type F (TPtr T) = ptr_ok (has_type F T)"
| "has_type F (TSlice T) = slice_ok (has_type F T)"
| "has_type F TMap = map_ok"
| "has_type F (TForeign n) = fo_ok (F n)"

text \<open>Contents and cells of a value of a type.\<close>

fun field_values :: "(string \<times> (memory \<Rightarrow> mem \<Rightarrow> deep)) list \<Rightarrow> memory \<Rightarrow> (string \<times> mem) list \<Rightarrow> (string \<times> deep) list" where
  "field_values ((n, f) # fs) h ((k, m) # ms) = (n, f h m) # field_values fs h ms"
| "field_values _ h _ = []"

definition struct_value :: "(string \<times> (memory \<Rightarrow> mem \<Rightarrow> deep)) list \<Rightarrow> memory \<Rightarrow> mem \<Rightarrow> deep" where
  "struct_value fs h m = (case m of MStruct ms \<Rightarrow> DStruct (field_values fs h ms) | _ \<Rightarrow> DNil)"

definition ptr_value :: "(memory \<Rightarrow> mem \<Rightarrow> deep) \<Rightarrow> memory \<Rightarrow> mem \<Rightarrow> deep" where
  "ptr_value f h m = (case m of MRef a \<Rightarrow> (case cells h a of CVal v \<Rightarrow> DPtr (f h v) | _ \<Rightarrow> DNil) | _ \<Rightarrow> DNil)"

definition slice_value :: "(memory \<Rightarrow> mem \<Rightarrow> deep) \<Rightarrow> memory \<Rightarrow> mem \<Rightarrow> deep" where
  "slice_value f h m = (case m of MRef a \<Rightarrow> (case cells h a of CSlice vs \<Rightarrow> DSlice (map (f h) vs) | _ \<Rightarrow> DNil) | _ \<Rightarrow> DNil)"

definition map_value :: "memory \<Rightarrow> mem \<Rightarrow> deep" where
  "map_value h m = (case m of MRef a \<Rightarrow> (case cells h a of CMap l \<Rightarrow> DMap l | _ \<Rightarrow> DNil) | _ \<Rightarrow> DNil)"

definition scalar_value :: "memory \<Rightarrow> mem \<Rightarrow> deep" where
  "scalar_value h m = (case m of MStr s \<Rightarrow> DStr s | MInt i \<Rightarrow> DInt i | MBool b \<Rightarrow> DBool b | _ \<Rightarrow> DNil)"

primrec deep_value :: "packages \<Rightarrow> gotype \<Rightarrow> memory \<Rightarrow> mem \<Rightarrow> deep" where
  "deep_value F TString = scalar_value"
| "deep_value F TInt32 = scalar_value"
| "deep_value F TBool = scalar_value"
| "deep_value F (TStruct fs) = struct_value (map (map_prod (\<lambda>n. n) (deep_value F)) fs)"
| "deep_value F (TPtr T) = ptr_value (deep_value F T)"
| "deep_value F (TSlice T) = slice_value (deep_value F T)"
| "deep_value F TMap = map_value"
| "deep_value F (TForeign n) = fo_value (F n)"

fun fields_foot :: "(string \<times> (memory \<Rightarrow> mem \<Rightarrow> addr set)) list \<Rightarrow> memory \<Rightarrow> (string \<times> mem) list \<Rightarrow> addr set" where
  "fields_foot ((n, f) # fs) h ((k, m) # ms) = f h m \<union> fields_foot fs h ms"
| "fields_foot _ h _ = {}"

definition struct_foot :: "(string \<times> (memory \<Rightarrow> mem \<Rightarrow> addr set)) list \<Rightarrow> memory \<Rightarrow> mem \<Rightarrow> addr set" where
  "struct_foot fs h m = (case m of MStruct ms \<Rightarrow> fields_foot fs h ms | _ \<Rightarrow> {})"

definition ptr_foot :: "(memory \<Rightarrow> mem \<Rightarrow> addr set) \<Rightarrow> memory \<Rightarrow> mem \<Rightarrow> addr set" where
  "ptr_foot f h m = (case m of MRef a \<Rightarrow> insert a (case cells h a of CVal v \<Rightarrow> f h v | _ \<Rightarrow> {}) | _ \<Rightarrow> {})"

definition slice_foot :: "(memory \<Rightarrow> mem \<Rightarrow> addr set) \<Rightarrow> memory \<Rightarrow> mem \<Rightarrow> addr set" where
  "slice_foot f h m = (case m of MRef a \<Rightarrow> insert a (case cells h a of CSlice vs \<Rightarrow> \<Union> (set (map (f h) vs)) | _ \<Rightarrow> {}) | _ \<Rightarrow> {})"

definition map_foot :: "memory \<Rightarrow> mem \<Rightarrow> addr set" where
  "map_foot h m = (case m of MRef a \<Rightarrow> {a} | _ \<Rightarrow> {})"

primrec foot :: "packages \<Rightarrow> gotype \<Rightarrow> memory \<Rightarrow> mem \<Rightarrow> addr set" where
  "foot F TString = (\<lambda>h m. {})"
| "foot F TInt32 = (\<lambda>h m. {})"
| "foot F TBool = (\<lambda>h m. {})"
| "foot F (TStruct fs) = struct_foot (map (map_prod (\<lambda>n. n) (foot F)) fs)"
| "foot F (TPtr T) = ptr_foot (foot F T)"
| "foot F (TSlice T) = slice_foot (foot F T)"
| "foot F TMap = map_foot"
| "foot F (TForeign n) = fo_foot (F n)"

section \<open>Copying\<close>

text \<open>The blocks of the generated code: \<^verbatim>\<open>new\<close> and copy into it, \<^verbatim>\<open>make\<close> and copy in a loop; nil stays nil.\<close>

definition copy_ptr :: "mem \<Rightarrow> copier \<Rightarrow> copier" where
  "copy_ptr z f m h =
     (case m of
        MRef a \<Rightarrow>
          (let (b, h) = alloc (CVal z) h;
               (v, h) = f (case cells h a of CVal v \<Rightarrow> v | _ \<Rightarrow> MNil) h
           in (MRef b, store b (CVal v) h))
      | _ \<Rightarrow> (MNil, h))"

fun copy_loop :: "copier \<Rightarrow> mem list \<Rightarrow> memory \<Rightarrow> mem list \<times> memory" where
  "copy_loop f [] h = ([], h)"
| "copy_loop f (m # ms) h = (let (v, h) = f m h; (vs, h) = copy_loop f ms h in (v # vs, h))"

definition copy_slice :: "mem \<Rightarrow> copier \<Rightarrow> copier" where
  "copy_slice z f m h =
     (case m of
        MRef a \<Rightarrow>
          (let xs = (case cells h a of CSlice xs \<Rightarrow> xs | _ \<Rightarrow> []);
               (b, h) = alloc (CSlice (replicate (length xs) z)) h;
               (vs, h) = copy_loop f xs h
           in (MRef b, store b (CSlice vs) h))
      | _ \<Rightarrow> (MNil, h))"

text \<open>The range loop over a map visits the entries in any order; the result is the same (\<open>copy_entries_any_order\<close>).\<close>

definition copy_map :: copier where
  "copy_map m h =
     (case m of
        MRef a \<Rightarrow> (let (b, h) = alloc (CMap (case cells h a of CMap l \<Rightarrow> l | _ \<Rightarrow> fmempty)) h in (MRef b, h))
      | _ \<Rightarrow> (MNil, h))"

fun copy_fields :: "(string \<times> copier) list \<Rightarrow> (string \<times> mem) list \<Rightarrow> memory \<Rightarrow> (string \<times> mem) list \<times> memory" where
  "copy_fields ((n, f) # fs) ((k, m) # ms) h =
     (let (v, h) = f m h; (vs, h) = copy_fields fs ms h in ((k, v) # vs, h))"
| "copy_fields _ ms h = (ms, h)"

definition copy_struct :: "(string \<times> copier) list \<Rightarrow> copier" where
  "copy_struct fs m h = (case m of MStruct ms \<Rightarrow> (let (vs, h) = copy_fields fs ms h in (MStruct vs, h)) | _ \<Rightarrow> (m, h))"

primrec deep_copy :: "packages \<Rightarrow> gotype \<Rightarrow> copier" where
  "deep_copy F TString = Pair"
| "deep_copy F TInt32 = Pair"
| "deep_copy F TBool = Pair"
| "deep_copy F (TStruct fs) = copy_struct (map (map_prod (\<lambda>n. n) (deep_copy F)) fs)"
| "deep_copy F (TPtr T) = copy_ptr (zero F T) (deep_copy F T)"
| "deep_copy F (TSlice T) = copy_slice (zero F T) (deep_copy F T)"
| "deep_copy F TMap = copy_map"
| "deep_copy F (TForeign n) = fo_copy (F n)"

end
