(* ===== verification/Deep_Copy.thy ===== *)
theory Deep_Copy
  imports Go_Memory
begin

text \<open>
  What a deep copy promises, as the locale \<open>deep_copier\<close>: contents kept, new cells only, old cells untouched. Pointers, slices, maps and
  structs of deep copiers are deep copiers, so \<open>deep_copy\<close> is one at every type if the foreign types bring their own
  (\<open>packages_ok\<close>); and a reader of one value is not affected by writes to the cells of a copy.
\<close>

definition extends :: "memory \<Rightarrow> memory \<Rightarrow> bool" where
  "extends h h' \<longleftrightarrow> limit h \<le> limit h' \<and> (\<forall>a < limit h. cells h' a = cells h a)"

lemma extends_refl [simp]: "extends h h"
  by (simp add: extends_def)

lemma extends_trans [trans]: "extends h h' \<Longrightarrow> extends h' h'' \<Longrightarrow> extends h h''"
  by (simp add: extends_def)

lemma extends_limit: "extends h h' \<Longrightarrow> limit h \<le> limit h'"
  by (simp add: extends_def)

lemma extends_cells: "extends h h' \<Longrightarrow> a < limit h \<Longrightarrow> cells h' a = cells h a"
  by (simp add: extends_def)

lemma limit_store [simp]: "limit (store a c h) = limit h"
  by (simp add: store_def)

lemma cells_store [simp]: "cells (store a c h) b = (if b = a then c else cells h b)"
  by (simp add: store_def)

lemma extends_alloc: "alloc c h = (b, h') \<Longrightarrow> extends h h' \<and> b = limit h \<and> limit h' = limit h + 1 \<and> cells h' b = c"
  by (auto simp: alloc_def extends_def)

text \<open>Cells allocated after \<open>h\<close> may be filled in.\<close>

lemma extends_store: "extends h h' \<Longrightarrow> limit h \<le> b \<Longrightarrow> extends h (store b c h')"
  by (auto simp: extends_def)

section \<open>The contract\<close>

locale deep_copier =
  fixes ok :: "memory \<Rightarrow> mem \<Rightarrow> bool"
    and val :: "memory \<Rightarrow> mem \<Rightarrow> deep"
    and area :: "memory \<Rightarrow> mem \<Rightarrow> addr set"
    and copy :: copier
  assumes allocated: "ok h m \<Longrightarrow> area h m \<subseteq> {..<limit h}"
    and local: "ok h m \<Longrightarrow> limit h \<le> limit h' \<Longrightarrow> (\<And>a. a \<in> area h m \<Longrightarrow> cells h' a = cells h a) \<Longrightarrow>
      ok h' m \<and> val h' m = val h m \<and> area h' m = area h m"
    and copies: "ok h m \<Longrightarrow> copy m h = (m', h') \<Longrightarrow>
      extends h h' \<and> ok h' m' \<and> val h' m' = val h m \<and> area h' m' \<subseteq> {limit h..<limit h'}"
begin

lemma stable:
  assumes "ok h m" and "extends h h'"
  shows "ok h' m" and "val h' m = val h m" and "area h' m = area h m"
  using local [OF assms(1) extends_limit [OF assms(2)]] allocated [OF assms(1)] extends_cells [OF assms(2)] by blast+

lemma copy_extends: "ok h m \<Longrightarrow> copy m h = (m', h') \<Longrightarrow> extends h h'"
  and copy_ok: "ok h m \<Longrightarrow> copy m h = (m', h') \<Longrightarrow> ok h' m'"
  and copy_val: "ok h m \<Longrightarrow> copy m h = (m', h') \<Longrightarrow> val h' m' = val h m"
  and copy_area: "ok h m \<Longrightarrow> copy m h = (m', h') \<Longrightarrow> area h' m' \<subseteq> {limit h..<limit h'}"
  using copies by blast+

text \<open>A filled-in cell outside a value does not change it.\<close>

lemma stable_store:
  assumes "ok h m" and "b \<notin> area h m"
  shows "ok (store b c h) m" and "val (store b c h) m = val h m" and "area (store b c h) m = area h m"
proof -
  have "cells (store b c h) a = cells h a" if "a \<in> area h m" for a using that assms(2) by auto
  from local [OF assms(1) _ this] show "ok (store b c h) m" "val (store b c h) m = val h m" "area (store b c h) m = area h m"
    by simp_all
qed

text \<open>Isolation: after the copy, whatever is written to the cells of the one, or allocated, leaves the other as it was.\<close>

lemma isolated:
  assumes "ok h m" and "copy m h = (m', h')"
  shows "area h m \<inter> area h' m' = {}"
    and "limit h' \<le> limit k \<Longrightarrow> (\<And>a. a < limit h' \<Longrightarrow> a \<notin> area h' m' \<Longrightarrow> cells k a = cells h' a) \<Longrightarrow>
      ok k m \<and> val k m = val h m"
    and "limit h' \<le> limit k \<Longrightarrow> (\<And>a. a < limit h' \<Longrightarrow> a \<notin> area h m \<Longrightarrow> cells k a = cells h' a) \<Longrightarrow>
      ok k m' \<and> val k m' = val h m"
proof -
  note E = copy_extends [OF assms]
  note S = stable [OF assms(1) E]
  note C = copy_ok [OF assms]
  show d: "area h m \<inter> area h' m' = {}"
    using allocated [OF assms(1)] copy_area [OF assms] by fastforce
  show "ok k m \<and> val k m = val h m"
    if "limit h' \<le> limit k" and eq: "\<And>a. a < limit h' \<Longrightarrow> a \<notin> area h' m' \<Longrightarrow> cells k a = cells h' a"
  proof -
    have "cells k a = cells h' a" if "a \<in> area h' m" for a
      using that eq [of a] d S(3) allocated [OF S(1)] by blast
    from local [OF S(1) \<open>limit h' \<le> limit k\<close> this] S(2) show ?thesis by simp
  qed
  show "ok k m' \<and> val k m' = val h m"
    if "limit h' \<le> limit k" and eq: "\<And>a. a < limit h' \<Longrightarrow> a \<notin> area h m \<Longrightarrow> cells k a = cells h' a"
  proof -
    have "cells k a = cells h' a" if "a \<in> area h' m'" for a
      using that eq [of a] d allocated [OF C] by blast
    from local [OF C \<open>limit h' \<le> limit k\<close> this] copy_val [OF assms] show ?thesis by simp
  qed
qed

end

text \<open>The contract speaks of the copy only at values of the type.\<close>

lemma deep_copier_cong:
  assumes "deep_copier ok val area copy" and "\<And>h m. ok h m \<Longrightarrow> copy' m h = copy m h"
  shows "deep_copier ok val area copy'"
  using deep_copier.copies [OF assms(1)] assms(2)
  by (intro deep_copier.intro deep_copier.allocated [OF assms(1)] deep_copier.local [OF assms(1)]) simp_all

section \<open>Building blocks\<close>

lemma scalar_copier:
  assumes "\<And>h h' m. ok h m = ok h' m"
  shows "deep_copier ok scalar_value (\<lambda>h m. {}) Pair"
  using assms by unfold_locales (auto simp: scalar_value_def)

lemma map_copier: "deep_copier map_ok map_value map_foot copy_map"
proof (rule deep_copier.intro)
  fix h m m' h'
  assume "map_ok h m" and "copy_map m h = (m', h')"
  then show "extends h h' \<and> map_ok h' m' \<and> map_value h' m' = map_value h m \<and> map_foot h' m' \<subseteq> {limit h..<limit h'}"
    by (cases m) (auto simp: map_ok_def copy_map_def map_value_def map_foot_def alloc_def extends_def Let_def split: cell.splits)
qed (auto simp: map_ok_def map_foot_def map_value_def split: mem.splits)

lemma ptr_copier:
  assumes D: "deep_copier ok val area copy"
  shows "deep_copier (ptr_ok ok) (ptr_value val) (ptr_foot area) (copy_ptr z copy)"
proof (rule deep_copier.intro)
  fix h m
  assume "ptr_ok ok h m"
  then show "ptr_foot area h m \<subseteq> {..<limit h}"
    using deep_copier.allocated [OF D] by (auto simp: ptr_ok_def ptr_foot_def split: mem.splits cell.splits)
next
  fix h h' :: memory and m
  assume "ptr_ok ok h m" "limit h \<le> limit h'" "\<And>a. a \<in> ptr_foot area h m \<Longrightarrow> cells h' a = cells h a"
  then show "ptr_ok ok h' m \<and> ptr_value val h' m = ptr_value val h m \<and> ptr_foot area h' m = ptr_foot area h m"
    using deep_copier.local [OF D, of h _ h']
    by (auto simp: ptr_ok_def ptr_foot_def ptr_value_def split: mem.splits cell.splits)
next
  fix h m m' h'
  assume ok: "ptr_ok ok h m" and cp: "copy_ptr z copy m h = (m', h')"
  show "extends h h' \<and> ptr_ok ok h' m' \<and> ptr_value val h' m' = ptr_value val h m \<and> ptr_foot area h' m' \<subseteq> {limit h..<limit h'}"
  proof (cases m)
    case (MRef a)
    with ok obtain v where v: "a < limit h" "cells h a = CVal v" "ok h v"
      by (auto simp: ptr_ok_def split: cell.splits)
    obtain b h1 where al: "alloc (CVal z) h = (b, h1)" by (metis prod.exhaust)
    note A = extends_alloc [OF al]
    have v1: "cells h1 a = CVal v" "ok h1 v" "val h1 v = val h v"
      using A extends_cells [of h h1] deep_copier.stable [OF D v(3), of h1] v by auto
    obtain w h2 where cv: "copy v h1 = (w, h2)" by (metis prod.exhaust)
    note C = deep_copier.copies [OF D v1(2) cv]
    have out: "m' = MRef b" "h' = store b (CVal w) h2"
      using cp MRef al v1(1) cv by (simp_all add: copy_ptr_def)
    have b: "b \<notin> area h2 w" "b < limit h2" using C A extends_limit [of h1 h2] by auto
    from C have w: "ok h2 w" by blast
    note S = deep_copier.stable_store [OF D w b(1), of "CVal w"]
    have "extends h h'" using extends_store [OF extends_trans [of h h1 h2]] A C by (simp add: out)
    moreover have "area h' w \<subseteq> {limit h..<limit h'}" using C S(3) A by (auto simp: out)
    ultimately show ?thesis
      using C S A b v v1 by (auto simp: ptr_ok_def ptr_value_def ptr_foot_def out MRef)
  qed (use ok cp in \<open>auto simp: ptr_ok_def copy_ptr_def ptr_value_def ptr_foot_def\<close>)
qed

lemma copy_loop_copies:
  assumes D: "deep_copier ok val area copy"
  shows "list_all (ok h) ms \<Longrightarrow> copy_loop copy ms h = (vs, h') \<Longrightarrow>
    extends h h' \<and> list_all (ok h') vs \<and> map (val h') vs = map (val h) ms \<and>
    (\<forall>v \<in> set vs. area h' v \<subseteq> {limit h..<limit h'})"
proof (induction ms arbitrary: h vs h')
  case (Cons m ms)
  obtain w h1 where c: "copy m h = (w, h1)" by (metis prod.exhaust)
  obtain ws h2 where l: "copy_loop copy ms h1 = (ws, h2)" by (metis prod.exhaust)
  from Cons.prems(2) c l have out: "vs = w # ws" "h' = h2" by simp_all
  from Cons.prems(1) have m: "ok h m" and ms: "list_all (ok h) ms" by simp_all
  note C = deep_copier.copies [OF D m c]
  have ms1: "list_all (ok h1) ms" "map (val h1) ms = map (val h) ms"
    using ms C deep_copier.stable [OF D, of h _ h1] by (auto simp: list_all_iff)
  note L = Cons.IH [OF ms1(1) l]
  have w: "ok h2 w" "val h2 w = val h1 w" "area h2 w = area h1 w"
    using C L deep_copier.stable [OF D, of h1 w h2] by blast+
  have "extends h h2" using C L extends_trans by blast
  then show ?case
    using C L w ms1(2) extends_limit [of h h1] extends_limit [of h1 h2] by (fastforce simp: out)
qed simp

lemma slice_copier:
  assumes D: "deep_copier ok val area copy"
  shows "deep_copier (slice_ok ok) (slice_value val) (slice_foot area) (copy_slice z copy)"
proof (rule deep_copier.intro)
  fix h m
  assume "slice_ok ok h m"
  then show "slice_foot area h m \<subseteq> {..<limit h}"
    using deep_copier.allocated [OF D] by (fastforce simp: slice_ok_def slice_foot_def list_all_iff split: mem.splits cell.splits)
next
  fix h h' :: memory and m
  assume ok: "slice_ok ok h m" and l: "limit h \<le> limit h'"
    and eq: "\<And>a. a \<in> slice_foot area h m \<Longrightarrow> cells h' a = cells h a"
  show "slice_ok ok h' m \<and> slice_value val h' m = slice_value val h m \<and> slice_foot area h' m = slice_foot area h m"
  proof (cases m)
    case (MRef a)
    with ok obtain vs where vs: "a < limit h" "cells h a = CSlice vs" "list_all (ok h) vs"
      by (auto simp: slice_ok_def split: cell.splits)
    from eq have "cells h' a = CSlice vs" by (simp add: MRef slice_foot_def vs(2))
    moreover have "ok h' v \<and> val h' v = val h v \<and> area h' v = area h v" if "v \<in> set vs" for v
      using that vs eq l by (intro deep_copier.local [OF D]) (auto simp: list_all_iff MRef slice_foot_def)
    ultimately show ?thesis
      using vs l by (simp add: slice_ok_def slice_value_def slice_foot_def MRef list_all_iff cong: map_cong)
  qed (use ok in \<open>auto simp: slice_ok_def slice_value_def slice_foot_def\<close>)
next
  fix h m m' h'
  assume ok: "slice_ok ok h m" and cp: "copy_slice z copy m h = (m', h')"
  show "extends h h' \<and> slice_ok ok h' m' \<and> slice_value val h' m' = slice_value val h m \<and>
    slice_foot area h' m' \<subseteq> {limit h..<limit h'}"
  proof (cases m)
    case (MRef a)
    with ok obtain xs where xs: "a < limit h" "cells h a = CSlice xs" "list_all (ok h) xs"
      by (auto simp: slice_ok_def split: cell.splits)
    obtain b h1 where al: "alloc (CSlice (replicate (length xs) z)) h = (b, h1)" by (metis prod.exhaust)
    note A = extends_alloc [OF al]
    have xs1: "list_all (ok h1) xs" "map (val h1) xs = map (val h) xs"
      using xs(3) A deep_copier.stable [OF D, of h _ h1] by (auto simp: list_all_iff)
    obtain ws h2 where cl: "copy_loop copy xs h1 = (ws, h2)" by (metis prod.exhaust)
    note C = copy_loop_copies [OF D xs1(1) cl]
    have out: "m' = MRef b" "h' = store b (CSlice ws) h2"
      using cp MRef al xs(2) cl by (simp_all add: copy_slice_def)
    have b: "b < limit h2" "b \<notin> area h2 w" if "w \<in> set ws" for w using C A extends_limit [of h1 h2] that by fastforce+
    have bl: "b < limit h2" using C A extends_limit [of h1 h2] by simp
    have W: "ok h' w" "val h' w = val h2 w" "area h' w = area h2 w" if "w \<in> set ws" for w
      using C b(2) [OF that] that deep_copier.stable_store [OF D, of h2 w b "CSlice ws"]
      by (auto simp: out list_all_iff)
    have "extends h h'" using extends_store [OF extends_trans [of h h1 h2]] A C by (simp add: out)
    moreover have "area h' w \<subseteq> {limit h..<limit h'}" if "w \<in> set ws" for w
      using C W(3) [OF that] A that by (fastforce simp: out)
    moreover have "map (val h') ws = map (val h) xs" using W(2) C xs1(2) by (metis map_cong)
    ultimately show ?thesis
      using W(1) A bl xs(2) by (auto simp: slice_ok_def slice_value_def slice_foot_def out MRef list_all_iff)
  qed (use ok cp in \<open>auto simp: slice_ok_def copy_slice_def slice_value_def slice_foot_def\<close>)
qed

section \<open>Every type\<close>

text \<open>The packages whose types occur as fields bring deep copies of their own.\<close>

locale packages_ok =
  fixes F :: packages
  assumes foreign: "deep_copier (fo_ok (F n)) (fo_value (F n)) (fo_foot (F n)) (fo_copy (F n))"
begin

definition copies_type :: "gotype \<Rightarrow> bool" where
  "copies_type T \<longleftrightarrow> deep_copier (has_type F T) (deep_value F T) (foot F T) (deep_copy F T)"

abbreviation types_of :: "(string \<times> gotype) list \<Rightarrow> (string \<times> (memory \<Rightarrow> mem \<Rightarrow> bool)) list" where
  "types_of \<equiv> map (map_prod (\<lambda>n. n) (has_type F))"

abbreviation values_of :: "(string \<times> gotype) list \<Rightarrow> (string \<times> (memory \<Rightarrow> mem \<Rightarrow> deep)) list" where
  "values_of \<equiv> map (map_prod (\<lambda>n. n) (deep_value F))"

abbreviation feet_of :: "(string \<times> gotype) list \<Rightarrow> (string \<times> (memory \<Rightarrow> mem \<Rightarrow> addr set)) list" where
  "feet_of \<equiv> map (map_prod (\<lambda>n. n) (foot F))"

abbreviation copies_of :: "(string \<times> gotype) list \<Rightarrow> (string \<times> copier) list" where
  "copies_of \<equiv> map (map_prod (\<lambda>n. n) (deep_copy F))"

lemma fields_okE:
  assumes "fields_ok (types_of (p # fs)) h ms"
  obtains m ms' where "ms = (fst p, m) # ms'" and "has_type F (snd p) h m" and "fields_ok (types_of fs) h ms'"
  using assms by (cases p; cases ms) auto

lemma copies_typeD:
  "copies_type T \<Longrightarrow> deep_copier (has_type F T) (deep_value F T) (foot F T) (deep_copy F T)"
  by (simp add: copies_type_def)

lemma fields_allocated:
  "list_all (\<lambda>p. copies_type (snd p)) fs \<Longrightarrow> fields_ok (types_of fs) h ms \<Longrightarrow> fields_foot (feet_of fs) h ms \<subseteq> {..<limit h}"
proof (induction fs arbitrary: ms)
  case Nil
  then show ?case by (cases ms) auto
next
  case (Cons p fs)
  from Cons.prems(2) obtain m ms' where m: "ms = (fst p, m) # ms'" "has_type F (snd p) h m" "fields_ok (types_of fs) h ms'"
    by (rule fields_okE)
  have D: "copies_type (snd p)" and fs: "list_all (\<lambda>p. copies_type (snd p)) fs" using Cons.prems(1) by simp_all
  from Cons.IH [OF fs m(3)] deep_copier.allocated [OF copies_typeD [OF D] m(2)] show ?case
    by (cases p) (simp add: m(1))
qed

lemma fields_local:
  "list_all (\<lambda>p. copies_type (snd p)) fs \<Longrightarrow> fields_ok (types_of fs) h ms \<Longrightarrow> limit h \<le> limit h' \<Longrightarrow>
   (\<forall>a \<in> fields_foot (feet_of fs) h ms. cells h' a = cells h a) \<Longrightarrow>
   fields_ok (types_of fs) h' ms \<and> field_values (values_of fs) h' ms = field_values (values_of fs) h ms \<and>
   fields_foot (feet_of fs) h' ms = fields_foot (feet_of fs) h ms"
proof (induction fs arbitrary: ms)
  case Nil
  then show ?case by (cases ms) auto
next
  case (Cons p fs)
  from Cons.prems(2) obtain m ms' where m: "ms = (fst p, m) # ms'" "has_type F (snd p) h m" "fields_ok (types_of fs) h ms'"
    by (rule fields_okE)
  have D: "copies_type (snd p)" and fs: "list_all (\<lambda>p. copies_type (snd p)) fs" using Cons.prems(1) by simp_all
  have foot: "fields_foot (feet_of (p # fs)) h ms = foot F (snd p) h m \<union> fields_foot (feet_of fs) h ms'"
    by (cases p) (simp add: m(1))
  have eq: "cells h' a = cells h a" if "a \<in> foot F (snd p) h m" for a
    using Cons.prems(4) that unfolding foot by blast
  have "\<forall>a \<in> fields_foot (feet_of fs) h ms'. cells h' a = cells h a"
    using Cons.prems(4) unfolding foot by blast
  with deep_copier.local [OF copies_typeD [OF D] m(2) Cons.prems(3) eq] Cons.IH [OF fs m(3) Cons.prems(3)]
  show ?case by (cases p) (simp add: m(1))
qed

lemma fields_stable:
  assumes "list_all (\<lambda>p. copies_type (snd p)) fs" and "fields_ok (types_of fs) h ms" and "extends h h'"
  shows "fields_ok (types_of fs) h' ms \<and> field_values (values_of fs) h' ms = field_values (values_of fs) h ms \<and>
    fields_foot (feet_of fs) h' ms = fields_foot (feet_of fs) h ms"
proof (rule fields_local [OF assms(1,2) extends_limit [OF assms(3)]])
  show "\<forall>a \<in> fields_foot (feet_of fs) h ms. cells h' a = cells h a"
    using fields_allocated [OF assms(1,2)] extends_cells [OF assms(3)] by blast
qed

lemma fields_copied:
  "list_all (\<lambda>p. copies_type (snd p)) fs \<Longrightarrow> fields_ok (types_of fs) h ms \<Longrightarrow>
   copy_fields (copies_of fs) ms h = (vs, h') \<Longrightarrow>
   extends h h' \<and> fields_ok (types_of fs) h' vs \<and> field_values (values_of fs) h' vs = field_values (values_of fs) h ms \<and>
   fields_foot (feet_of fs) h' vs \<subseteq> {limit h..<limit h'}"
proof (induction fs arbitrary: ms h vs h')
  case Nil
  then show ?case by (cases ms) auto
next
  case (Cons p fs)
  from Cons.prems(2) obtain m ms' where m: "ms = (fst p, m) # ms'" "has_type F (snd p) h m" "fields_ok (types_of fs) h ms'"
    by (rule fields_okE)
  have "copies_type (snd p)" and fs: "list_all (\<lambda>p. copies_type (snd p)) fs" using Cons.prems(1) by simp_all
  note D = copies_typeD [OF this(1)]
  obtain w h1 where c: "deep_copy F (snd p) m h = (w, h1)" by (metis prod.exhaust)
  obtain ws h2 where r: "copy_fields (copies_of fs) ms' h1 = (ws, h2)" by (metis prod.exhaust)
  have out: "vs = (fst p, w) # ws" "h' = h2" using Cons.prems(3) c r by (cases p; simp add: m(1))+
  note C = deep_copier.copies [OF D m(2) c]
  then have E: "extends h h1" by blast
  note S = fields_stable [OF fs m(3) E]
  then have "fields_ok (types_of fs) h1 ms'" by blast
  note R = Cons.IH [OF fs this r]
  have w: "has_type F (snd p) h2 w" "deep_value F (snd p) h2 w = deep_value F (snd p) h1 w" "foot F (snd p) h2 w = foot F (snd p) h1 w"
    using C R deep_copier.stable [OF D, of h1 w h2] by blast+
  have "extends h h2" using E R extends_trans by blast
  then show ?case
    using C S R w extends_limit [of h h1] extends_limit [of h1 h2] by (cases p) (fastforce simp: out m(1))
qed

lemma struct_copier:
  assumes "list_all (\<lambda>p. copies_type (snd p)) fs"
  shows "copies_type (TStruct fs)"
  unfolding copies_type_def
proof (rule deep_copier.intro)
  fix h m
  assume "has_type F (TStruct fs) h m"
  then show "foot F (TStruct fs) h m \<subseteq> {..<limit h}"
    using fields_allocated [OF assms] by (simp add: struct_ok_def struct_foot_def split: mem.splits)
next
  fix h h' :: memory and m
  assume "has_type F (TStruct fs) h m" "limit h \<le> limit h'"
    "\<And>a. a \<in> foot F (TStruct fs) h m \<Longrightarrow> cells h' a = cells h a"
  then show "has_type F (TStruct fs) h' m \<and> deep_value F (TStruct fs) h' m = deep_value F (TStruct fs) h m \<and>
      foot F (TStruct fs) h' m = foot F (TStruct fs) h m"
    using fields_local [OF assms, where h' = h'] by (auto simp: struct_ok_def struct_foot_def struct_value_def split: mem.splits)
next
  fix h m m' h'
  assume ok: "has_type F (TStruct fs) h m" and cp: "deep_copy F (TStruct fs) m h = (m', h')"
  from ok obtain ms where m: "m = MStruct ms" "fields_ok (types_of fs) h ms"
    by (auto simp: struct_ok_def split: mem.splits)
  obtain vs h1 where c: "copy_fields (copies_of fs) ms h = (vs, h1)" by (metis prod.exhaust)
  with cp m(1) have "m' = MStruct vs" "h' = h1" by (simp_all add: copy_struct_def)
  with fields_copied [OF assms m(2) c] m(1)
  show "extends h h' \<and> has_type F (TStruct fs) h' m' \<and> deep_value F (TStruct fs) h' m' = deep_value F (TStruct fs) h m \<and>
      foot F (TStruct fs) h' m' \<subseteq> {limit h..<limit h'}"
    by (simp add: struct_ok_def struct_foot_def struct_value_def)
qed

theorem deep_copy_copies: "deep_copier (has_type F T) (deep_value F T) (foot F T) (deep_copy F T)"
proof -
  have "copies_type T"
  proof (induction T)
    case (TStruct fs)
    then show ?case by (intro struct_copier) (auto simp: list_all_iff prod_set_defs)
  next
    case (TForeign n)
    show ?case by (simp add: copies_type_def foreign)
  qed (simp_all add: copies_type_def ptr_copier slice_copier map_copier scalar_copier split: mem.splits)
  then show ?thesis by (simp add: copies_type_def)
qed

end

end
