(* ===== verification/Copy_Statements.thy ===== *)
theory Copy_Statements
  imports Deep_Copy
begin

text \<open>
  The statements deep-copy functions are made of, and when such a function is the reference copy: it goes through the fields
  of its struct in order, assigning those that hold no reference and copying the others.
\<close>

named_theorems agree \<open>functions that are the reference copy at their type\<close>

section \<open>Statements\<close>

text \<open>The state of such a function is the value written so far and the memory. \<^verbatim>\<open>*out = *in\<close> starts with a copy of the
  struct, which shares what its fields refer to; the statements then replace fields.\<close>

definition assign :: "string \<Rightarrow> mem \<Rightarrow> mem \<times> memory \<Rightarrow> mem \<times> memory" where
  "assign n i s = (case s of (out, h) \<Rightarrow> (set_field n (field n i) out, h))"

definition copy_field :: "string \<Rightarrow> copier \<Rightarrow> mem \<Rightarrow> mem \<times> memory \<Rightarrow> mem \<times> memory" where
  "copy_field n f i s = (case s of (out, h) \<Rightarrow> (case f (field n i) h of (v, h) \<Rightarrow> (set_field n v out, h)))"

definition copy_if_set :: "string \<Rightarrow> copier \<Rightarrow> mem \<Rightarrow> mem \<times> memory \<Rightarrow> mem \<times> memory" where
  "copy_if_set n f i s = (if field n i \<noteq> MNil then copy_field n f i s else s)"

lemmas statement_defs = assign_def copy_field_def copy_if_set_def

lemma nil_copied [simp]:
  "copy_ptr z f MNil h = (MNil, h)" "copy_slice z f MNil h = (MNil, h)" "copy_map MNil h = (MNil, h)"
  by (simp_all add: copy_ptr_def copy_slice_def copy_map_def)

section \<open>Agreement with the reference\<close>

definition agrees :: "packages \<Rightarrow> gotype \<Rightarrow> copier \<Rightarrow> bool" where
  "agrees F T f \<longleftrightarrow> (\<forall>h m. has_type F T h m \<longrightarrow> f m h = deep_copy F T m h)"

lemma agreesD: "agrees F T f \<Longrightarrow> has_type F T h m \<Longrightarrow> f m h = deep_copy F T m h"
  by (simp add: agrees_def)

lemma agrees_builtin [agree]: "agrees F TMap copy_map" "agrees F (TForeign n) (fo_copy (F n))"
  by (simp_all add: agrees_def)

text \<open>Assignment is enough where nothing is referred to.\<close>

primrec ref_free :: "gotype \<Rightarrow> bool" where
  "ref_free TString = True"
| "ref_free TInt32 = True"
| "ref_free TBool = True"
| "ref_free (TStruct fs) = list_all snd (map (map_prod (\<lambda>n. n) ref_free) fs)"
| "ref_free (TPtr T) = False"
| "ref_free (TSlice T) = False"
| "ref_free TMap = False"
| "ref_free (TForeign n) = False"

lemma copy_fields_Pair: "list_all (\<lambda>p. snd p = Pair) fs \<Longrightarrow> copy_fields fs ms h = (ms, h)"
  by (induction fs ms h rule: copy_fields.induct) auto

lemma deep_copy_ref_free: "ref_free T \<Longrightarrow> deep_copy F T = Pair"
proof (induction T)
  case (TStruct fs)
  then have "list_all (\<lambda>p. snd p = Pair) (map (map_prod (\<lambda>n. n) (deep_copy F)) fs)"
    by (force simp: list_all_iff prod_set_defs)
  then show ?case by (simp add: copy_struct_def copy_fields_Pair fun_eq_iff split: mem.splits)
qed simp_all

lemma agrees_Pair [agree]: "ref_free T \<Longrightarrow> agrees F T Pair"
  by (simp add: agrees_def deep_copy_ref_free)

text \<open>A function that goes through all fields in order.\<close>

fun steps :: "(string \<times> copier) list \<Rightarrow> mem \<Rightarrow> mem \<times> memory \<Rightarrow> mem \<times> memory" where
  "steps [] i s = s"
| "steps ((n, f) # fs) i s = steps fs i (copy_field n f i s)"

lemma field_at: "n \<notin> fst ` set pre \<Longrightarrow> field n (MStruct (pre @ (n, m) # ms)) = m"
  by (simp add: field_def map_add_def map_of_eq_None_iff [THEN iffD2] split: option.splits)

lemma set_field_at:
  assumes "n \<notin> fst ` set pre" and "n \<notin> fst ` set ms"
  shows "set_field n v (MStruct (pre @ (n, m) # ms)) = MStruct (pre @ (n, v) # ms)"
proof -
  have "map (\<lambda>(k, x). (k, if k = n then v else x)) xs = xs" if "n \<notin> fst ` set xs" for xs
    using that by (intro map_idI) (auto simp: rev_image_eqI)
  with assms show ?thesis by (simp add: set_field_def)
qed

context packages_ok
begin

lemma agrees_ptr [agree]:
  assumes "agrees F T f"
  shows "agrees F (TPtr T) (copy_ptr (zero F T) f)"
  unfolding agrees_def
proof (intro allI impI)
  fix h m assume "has_type F (TPtr T) h m"
  then show "copy_ptr (zero F T) f m h = deep_copy F (TPtr T) m h"
  proof (cases m)
    case (MRef a)
    with \<open>has_type F (TPtr T) h m\<close> obtain v where v: "a < limit h" "cells h a = CVal v" "has_type F T h v"
      by (auto simp: ptr_ok_def split: cell.splits)
    obtain b h1 where al: "alloc (CVal (zero F T)) h = (b, h1)" by (metis prod.exhaust)
    note A = extends_alloc [OF al]
    then have "has_type F T h1 v" using deep_copier.stable(1) [OF deep_copy_copies v(3)] by blast
    from agreesD [OF assms this] al A extends_cells [of h h1 a] v MRef show ?thesis
      by (simp add: copy_ptr_def)
  qed (auto simp: ptr_ok_def copy_ptr_def)
qed

lemma agrees_loop:
  "agrees F T f \<Longrightarrow> list_all (has_type F T h) ms \<Longrightarrow> copy_loop f ms h = copy_loop (deep_copy F T) ms h"
proof (induction ms arbitrary: h)
  case (Cons m ms)
  obtain w h1 where c: "deep_copy F T m h = (w, h1)" by (metis prod.exhaust)
  from Cons.prems(2) have m: "has_type F T h m" and ms: "list_all (has_type F T h) ms" by simp_all
  have "list_all (has_type F T h1) ms"
    using ms deep_copier.stable(1) [OF deep_copy_copies] deep_copier.copy_extends [OF deep_copy_copies m c]
    by (auto simp: list_all_iff)
  from Cons.IH [OF Cons.prems(1) this] agreesD [OF Cons.prems(1) m] c show ?case by simp
qed simp

lemma agrees_slice [agree]:
  assumes "agrees F T f"
  shows "agrees F (TSlice T) (copy_slice (zero F T) f)"
  unfolding agrees_def
proof (intro allI impI)
  fix h m assume "has_type F (TSlice T) h m"
  then show "copy_slice (zero F T) f m h = deep_copy F (TSlice T) m h"
  proof (cases m)
    case (MRef a)
    with \<open>has_type F (TSlice T) h m\<close> obtain xs where xs: "cells h a = CSlice xs" "list_all (has_type F T h) xs"
      by (auto simp: slice_ok_def split: cell.splits)
    obtain b h1 where al: "alloc (CSlice (replicate (length xs) (zero F T))) h = (b, h1)" by (metis prod.exhaust)
    have "list_all (has_type F T h1) xs"
      using xs(2) deep_copier.stable(1) [OF deep_copy_copies] extends_alloc [OF al] by (auto simp: list_all_iff)
    from agrees_loop [OF assms this] al xs(1) MRef show ?thesis by (simp add: copy_slice_def)
  qed (auto simp: slice_ok_def copy_slice_def)
qed

lemma agrees_foreign_slice [agree]: "agrees F (TSlice (TForeign n)) (copy_slice (fo_zero (F n)) (fo_copy (F n)))"
  using agrees_slice [OF agrees_builtin(2)] by simp

lemma fields_names: "fields_ok (types_of fs) h ms \<Longrightarrow> map fst ms = map fst fs"
proof (induction fs arbitrary: ms)
  case Nil
  then show ?case by (cases ms) auto
next
  case (Cons p fs)
  from Cons.prems obtain m ms' where "ms = (fst p, m) # ms'" "fields_ok (types_of fs) h ms'" by (rule fields_okE)
  with Cons.IH show ?case by simp
qed

lemma steps_copy:
  "list_all2 (\<lambda>(n, f) (k, T). n = k \<and> agrees F T f) ops fs \<Longrightarrow> fields_ok (types_of fs) h ms \<Longrightarrow>
   distinct (map fst pre @ map fst fs) \<Longrightarrow> map fst pre' = map fst pre \<Longrightarrow>
   steps ops (MStruct (pre' @ ms)) (MStruct (pre @ ms), h) =
     (case copy_fields (copies_of fs) ms h of (vs, h') \<Rightarrow> (MStruct (pre @ vs), h'))"
proof (induction ops fs arbitrary: pre pre' ms h rule: list_all2_induct)
  case Nil
  then show ?case by (cases ms) auto
next
  case (Cons op ops p fs)
  obtain n f where op: "op = (n, f)" by (cases op)
  obtain T where p: "p = (n, T)" and f: "agrees F T f" using Cons.hyps(1) by (cases p) (auto simp: op)
  from Cons.prems(1) obtain m ms' where m: "ms = (n, m) # ms'" "has_type F T h m" "fields_ok (types_of fs) h ms'"
    by (rule fields_okE) (auto simp: p)
  have names: "map fst ms' = map fst fs" by (rule fields_names [OF m(3)])
  have sets: "fst ` set ms' = fst ` set fs" "fst ` set pre' = fst ` set pre"
    using arg_cong [OF names, of set] arg_cong [OF Cons.prems(3), of set] by simp_all
  have n: "n \<notin> fst ` set pre" "n \<notin> fst ` set ms'" "n \<notin> fst ` set pre'"
    unfolding sets using Cons.prems(2) by (auto simp: p)
  obtain v h1 where c: "deep_copy F T m h = (v, h1)" by (metis prod.exhaust)
  have "fields_ok (types_of fs) h1 ms'"
    using fields_stable [OF _ m(3) deep_copier.copy_extends [OF deep_copy_copies m(2) c]] deep_copy_copies
    by (auto simp: list_all_iff copies_type_def)
  moreover have "distinct (map fst (pre @ [(n, v)]) @ map fst fs)" using Cons.prems(2) by (auto simp: p)
  moreover have "map fst (pre' @ [(n, m)]) = map fst (pre @ [(n, v)])" using Cons.prems(3) by simp
  ultimately have "steps ops (MStruct ((pre' @ [(n, m)]) @ ms')) (MStruct ((pre @ [(n, v)]) @ ms'), h1) =
      (case copy_fields (copies_of fs) ms' h1 of (vs, h') \<Rightarrow> (MStruct ((pre @ [(n, v)]) @ vs), h'))"
    by (rule Cons.IH)
  moreover have "copy_field n f (MStruct (pre' @ ms)) (MStruct (pre @ ms), h) = (MStruct ((pre @ [(n, v)]) @ ms'), h1)"
    using c agreesD [OF f m(2)] by (simp add: copy_field_def m(1) field_at [OF n(3)] set_field_at [OF n(1,2)])
  ultimately show ?case by (simp add: op p m(1) c split: prod.split)
qed

lemma agrees_structI:
  assumes "T = TStruct fs" and "distinct (map fst fs)"
    and "\<And>ms h. map fst ms = map fst fs \<Longrightarrow> g (MStruct ms) h = steps ops (MStruct ms) (MStruct ms, h)"
    and "list_all2 (\<lambda>(n, f) (k, T). n = k \<and> agrees F T f) ops fs"
  shows "agrees F T g"
  unfolding agrees_def
proof (intro allI impI)
  fix h m assume "has_type F T h m"
  then obtain ms where m: "m = MStruct ms" "fields_ok (types_of fs) h ms"
    by (auto simp: assms(1) struct_ok_def split: mem.splits)
  from steps_copy [OF assms(4) m(2), of "[]" "[]"] assms(2) assms(3) [OF fields_names [OF m(2)]]
  show "g m h = deep_copy F T m h" by (simp add: m(1) assms(1) copy_struct_def)
qed

text \<open>So such a function is a deep copier.\<close>

lemma agrees_copier:
  assumes "agrees F T f"
  shows "deep_copier (has_type F T) (deep_value F T) (foot F T) f"
  by (rule deep_copier_cong [OF deep_copy_copies]) (rule agreesD [OF assms])

end

end
