(* ===== verification/Api_Deepcopy.thy ===== *)
theory Api_Deepcopy
  imports Copy_Statements
begin

text \<open>
  The generated deep copies (\<^verbatim>\<open>api/v1alpha1/zz_generated.deepcopy.go\<close>): for each struct its fields in memory, \<open>DeepCopyInto\<close>
  statement by statement, \<open>DeepCopy\<close> and, for the kinds and their lists, \<open>DeepCopyObject\<close>. \<open>F\<close> holds the types of the
  Kubernetes packages with their own deep copies. Then each is shown to be the reference copy at its type. The statements
  are those of \<open>Copy_Statements\<close>; a struct is updated in place, field by field.
\<close>

text \<open>\<^verbatim>\<open>metav1.TypeMeta\<close> is copied by assignment: it holds two strings.\<close>

definition TypeMeta_T :: gotype where
  "TypeMeta_T = TStruct [(''Kind'', TString), (''APIVersion'', TString)]"

section \<open>Shared blocks\<close>

definition DatabaseSpec_T :: gotype where
  "DatabaseSpec_T = TStruct
     [(''Name'', TString),
      (''Owner'', TString)]"

definition DatabaseSpec_DeepCopyInto :: "packages \<Rightarrow> copier" where
  "DatabaseSpec_DeepCopyInto F i h =
     (let s = (i, h)
      in s)"

definition DatabaseSpec_DeepCopy :: "packages \<Rightarrow> copier" where
  "DatabaseSpec_DeepCopy F i h = copy_ptr (zero F DatabaseSpec_T) (DatabaseSpec_DeepCopyInto F) i h"

definition MonitoringSpec_T :: gotype where
  "MonitoringSpec_T = TStruct
     [(''EnablePodMonitor'', TBool)]"

definition MonitoringSpec_DeepCopyInto :: "packages \<Rightarrow> copier" where
  "MonitoringSpec_DeepCopyInto F i h =
     (let s = (i, h)
      in s)"

definition MonitoringSpec_DeepCopy :: "packages \<Rightarrow> copier" where
  "MonitoringSpec_DeepCopy F i h = copy_ptr (zero F MonitoringSpec_T) (MonitoringSpec_DeepCopyInto F) i h"

definition PersistenceSpec_T :: gotype where
  "PersistenceSpec_T = TStruct
     [(''Size'', TString),
      (''StorageClass'', TString)]"

definition PersistenceSpec_DeepCopyInto :: "packages \<Rightarrow> copier" where
  "PersistenceSpec_DeepCopyInto F i h =
     (let s = (i, h)
      in s)"

definition PersistenceSpec_DeepCopy :: "packages \<Rightarrow> copier" where
  "PersistenceSpec_DeepCopy F i h = copy_ptr (zero F PersistenceSpec_T) (PersistenceSpec_DeepCopyInto F) i h"

definition StorageSpec_T :: gotype where
  "StorageSpec_T = TStruct
     [(''Size'', TString),
      (''StorageClass'', TString)]"

definition StorageSpec_DeepCopyInto :: "packages \<Rightarrow> copier" where
  "StorageSpec_DeepCopyInto F i h =
     (let s = (i, h)
      in s)"

definition StorageSpec_DeepCopy :: "packages \<Rightarrow> copier" where
  "StorageSpec_DeepCopy F i h = copy_ptr (zero F StorageSpec_T) (StorageSpec_DeepCopyInto F) i h"

definition IngressSpec_T :: gotype where
  "IngressSpec_T = TStruct
     [(''Host'', TString),
      (''IngressClassName'', TString),
      (''TLSSecretName'', TString),
      (''Annotations'', TMap)]"

definition IngressSpec_DeepCopyInto :: "packages \<Rightarrow> copier" where
  "IngressSpec_DeepCopyInto F i h =
     (let s = (i, h);
          s = copy_if_set ''Annotations'' copy_map i s
      in s)"

definition IngressSpec_DeepCopy :: "packages \<Rightarrow> copier" where
  "IngressSpec_DeepCopy F i h = copy_ptr (zero F IngressSpec_T) (IngressSpec_DeepCopyInto F) i h"

definition ServiceExposeSpec_T :: gotype where
  "ServiceExposeSpec_T = TStruct
     [(''Type'', TString),
      (''Annotations'', TMap)]"

definition ServiceExposeSpec_DeepCopyInto :: "packages \<Rightarrow> copier" where
  "ServiceExposeSpec_DeepCopyInto F i h =
     (let s = (i, h);
          s = copy_if_set ''Annotations'' copy_map i s
      in s)"

definition ServiceExposeSpec_DeepCopy :: "packages \<Rightarrow> copier" where
  "ServiceExposeSpec_DeepCopy F i h = copy_ptr (zero F ServiceExposeSpec_T) (ServiceExposeSpec_DeepCopyInto F) i h"

section \<open>\<^verbatim>\<open>PostgresCluster\<close>\<close>

definition PostgresClusterSpec_T :: gotype where
  "PostgresClusterSpec_T = TStruct
     [(''Instances'', TInt32),
      (''Image'', TString),
      (''Storage'', StorageSpec_T),
      (''Database'', DatabaseSpec_T),
      (''Resources'', TForeign ''corev1.ResourceRequirements''),
      (''Monitoring'', MonitoringSpec_T),
      (''Expose'', TPtr ServiceExposeSpec_T)]"

definition PostgresClusterSpec_DeepCopyInto :: "packages \<Rightarrow> copier" where
  "PostgresClusterSpec_DeepCopyInto F i h =
     (let s = (i, h);
          s = assign ''Storage'' i s;
          s = assign ''Database'' i s;
          s = copy_field ''Resources'' (fo_copy (F ''corev1.ResourceRequirements'')) i s;
          s = assign ''Monitoring'' i s;
          s = copy_if_set ''Expose'' (copy_ptr (zero F ServiceExposeSpec_T) (ServiceExposeSpec_DeepCopyInto F)) i s
      in s)"

definition PostgresClusterSpec_DeepCopy :: "packages \<Rightarrow> copier" where
  "PostgresClusterSpec_DeepCopy F i h = copy_ptr (zero F PostgresClusterSpec_T) (PostgresClusterSpec_DeepCopyInto F) i h"

definition PostgresClusterStatus_T :: gotype where
  "PostgresClusterStatus_T = TStruct
     [(''Ready'', TBool),
      (''Phase'', TString),
      (''Instances'', TInt32),
      (''ReadyInstances'', TInt32),
      (''Message'', TString),
      (''Conditions'', TSlice (TForeign ''metav1.Condition''))]"

definition PostgresClusterStatus_DeepCopyInto :: "packages \<Rightarrow> copier" where
  "PostgresClusterStatus_DeepCopyInto F i h =
     (let s = (i, h);
          s = copy_if_set ''Conditions'' (copy_slice (fo_zero (F ''metav1.Condition'')) (fo_copy (F ''metav1.Condition''))) i s
      in s)"

definition PostgresClusterStatus_DeepCopy :: "packages \<Rightarrow> copier" where
  "PostgresClusterStatus_DeepCopy F i h = copy_ptr (zero F PostgresClusterStatus_T) (PostgresClusterStatus_DeepCopyInto F) i h"

definition PostgresCluster_T :: gotype where
  "PostgresCluster_T = TStruct
     [(''TypeMeta'', TypeMeta_T),
      (''ObjectMeta'', TForeign ''metav1.ObjectMeta''),
      (''Spec'', PostgresClusterSpec_T),
      (''Status'', PostgresClusterStatus_T)]"

definition PostgresCluster_DeepCopyInto :: "packages \<Rightarrow> copier" where
  "PostgresCluster_DeepCopyInto F i h =
     (let s = (i, h);
          s = assign ''TypeMeta'' i s;
          s = copy_field ''ObjectMeta'' (fo_copy (F ''metav1.ObjectMeta'')) i s;
          s = copy_field ''Spec'' (PostgresClusterSpec_DeepCopyInto F) i s;
          s = copy_field ''Status'' (PostgresClusterStatus_DeepCopyInto F) i s
      in s)"

definition PostgresCluster_DeepCopy :: "packages \<Rightarrow> copier" where
  "PostgresCluster_DeepCopy F i h = copy_ptr (zero F PostgresCluster_T) (PostgresCluster_DeepCopyInto F) i h"

definition PostgresCluster_DeepCopyObject :: "packages \<Rightarrow> copier" where
  "PostgresCluster_DeepCopyObject F i h = (case PostgresCluster_DeepCopy F i h of (c, h) \<Rightarrow> if c \<noteq> MNil then (c, h) else (MNil, h))"

definition PostgresClusterList_T :: gotype where
  "PostgresClusterList_T = TStruct
     [(''TypeMeta'', TypeMeta_T),
      (''ListMeta'', TForeign ''metav1.ListMeta''),
      (''Items'', TSlice PostgresCluster_T)]"

definition PostgresClusterList_DeepCopyInto :: "packages \<Rightarrow> copier" where
  "PostgresClusterList_DeepCopyInto F i h =
     (let s = (i, h);
          s = assign ''TypeMeta'' i s;
          s = copy_field ''ListMeta'' (fo_copy (F ''metav1.ListMeta'')) i s;
          s = copy_if_set ''Items'' (copy_slice (zero F PostgresCluster_T) (PostgresCluster_DeepCopyInto F)) i s
      in s)"

definition PostgresClusterList_DeepCopy :: "packages \<Rightarrow> copier" where
  "PostgresClusterList_DeepCopy F i h = copy_ptr (zero F PostgresClusterList_T) (PostgresClusterList_DeepCopyInto F) i h"

definition PostgresClusterList_DeepCopyObject :: "packages \<Rightarrow> copier" where
  "PostgresClusterList_DeepCopyObject F i h = (case PostgresClusterList_DeepCopy F i h of (c, h) \<Rightarrow> if c \<noteq> MNil then (c, h) else (MNil, h))"

section \<open>\<^verbatim>\<open>ValkeyCluster\<close>\<close>

definition ValkeyClusterSpec_T :: gotype where
  "ValkeyClusterSpec_T = TStruct
     [(''Shards'', TInt32),
      (''Replicas'', TInt32),
      (''Image'', TString),
      (''Persistence'', PersistenceSpec_T),
      (''Resources'', TForeign ''corev1.ResourceRequirements''),
      (''Expose'', TPtr ServiceExposeSpec_T)]"

definition ValkeyClusterSpec_DeepCopyInto :: "packages \<Rightarrow> copier" where
  "ValkeyClusterSpec_DeepCopyInto F i h =
     (let s = (i, h);
          s = assign ''Persistence'' i s;
          s = copy_field ''Resources'' (fo_copy (F ''corev1.ResourceRequirements'')) i s;
          s = copy_if_set ''Expose'' (copy_ptr (zero F ServiceExposeSpec_T) (ServiceExposeSpec_DeepCopyInto F)) i s
      in s)"

definition ValkeyClusterSpec_DeepCopy :: "packages \<Rightarrow> copier" where
  "ValkeyClusterSpec_DeepCopy F i h = copy_ptr (zero F ValkeyClusterSpec_T) (ValkeyClusterSpec_DeepCopyInto F) i h"

definition ValkeyClusterStatus_T :: gotype where
  "ValkeyClusterStatus_T = TStruct
     [(''Ready'', TBool),
      (''Phase'', TString),
      (''Shards'', TInt32),
      (''ReadyShards'', TInt32),
      (''Message'', TString),
      (''Conditions'', TSlice (TForeign ''metav1.Condition''))]"

definition ValkeyClusterStatus_DeepCopyInto :: "packages \<Rightarrow> copier" where
  "ValkeyClusterStatus_DeepCopyInto F i h =
     (let s = (i, h);
          s = copy_if_set ''Conditions'' (copy_slice (fo_zero (F ''metav1.Condition'')) (fo_copy (F ''metav1.Condition''))) i s
      in s)"

definition ValkeyClusterStatus_DeepCopy :: "packages \<Rightarrow> copier" where
  "ValkeyClusterStatus_DeepCopy F i h = copy_ptr (zero F ValkeyClusterStatus_T) (ValkeyClusterStatus_DeepCopyInto F) i h"

definition ValkeyCluster_T :: gotype where
  "ValkeyCluster_T = TStruct
     [(''TypeMeta'', TypeMeta_T),
      (''ObjectMeta'', TForeign ''metav1.ObjectMeta''),
      (''Spec'', ValkeyClusterSpec_T),
      (''Status'', ValkeyClusterStatus_T)]"

definition ValkeyCluster_DeepCopyInto :: "packages \<Rightarrow> copier" where
  "ValkeyCluster_DeepCopyInto F i h =
     (let s = (i, h);
          s = assign ''TypeMeta'' i s;
          s = copy_field ''ObjectMeta'' (fo_copy (F ''metav1.ObjectMeta'')) i s;
          s = copy_field ''Spec'' (ValkeyClusterSpec_DeepCopyInto F) i s;
          s = copy_field ''Status'' (ValkeyClusterStatus_DeepCopyInto F) i s
      in s)"

definition ValkeyCluster_DeepCopy :: "packages \<Rightarrow> copier" where
  "ValkeyCluster_DeepCopy F i h = copy_ptr (zero F ValkeyCluster_T) (ValkeyCluster_DeepCopyInto F) i h"

definition ValkeyCluster_DeepCopyObject :: "packages \<Rightarrow> copier" where
  "ValkeyCluster_DeepCopyObject F i h = (case ValkeyCluster_DeepCopy F i h of (c, h) \<Rightarrow> if c \<noteq> MNil then (c, h) else (MNil, h))"

definition ValkeyClusterList_T :: gotype where
  "ValkeyClusterList_T = TStruct
     [(''TypeMeta'', TypeMeta_T),
      (''ListMeta'', TForeign ''metav1.ListMeta''),
      (''Items'', TSlice ValkeyCluster_T)]"

definition ValkeyClusterList_DeepCopyInto :: "packages \<Rightarrow> copier" where
  "ValkeyClusterList_DeepCopyInto F i h =
     (let s = (i, h);
          s = assign ''TypeMeta'' i s;
          s = copy_field ''ListMeta'' (fo_copy (F ''metav1.ListMeta'')) i s;
          s = copy_if_set ''Items'' (copy_slice (zero F ValkeyCluster_T) (ValkeyCluster_DeepCopyInto F)) i s
      in s)"

definition ValkeyClusterList_DeepCopy :: "packages \<Rightarrow> copier" where
  "ValkeyClusterList_DeepCopy F i h = copy_ptr (zero F ValkeyClusterList_T) (ValkeyClusterList_DeepCopyInto F) i h"

definition ValkeyClusterList_DeepCopyObject :: "packages \<Rightarrow> copier" where
  "ValkeyClusterList_DeepCopyObject F i h = (case ValkeyClusterList_DeepCopy F i h of (c, h) \<Rightarrow> if c \<noteq> MNil then (c, h) else (MNil, h))"

section \<open>\<^verbatim>\<open>GrafanaInstance\<close>\<close>

definition GrafanaInstanceSpec_T :: gotype where
  "GrafanaInstanceSpec_T = TStruct
     [(''Version'', TString),
      (''Replicas'', TInt32),
      (''Persistence'', TPtr PersistenceSpec_T),
      (''Ingress'', TPtr IngressSpec_T)]"

definition GrafanaInstanceSpec_DeepCopyInto :: "packages \<Rightarrow> copier" where
  "GrafanaInstanceSpec_DeepCopyInto F i h =
     (let s = (i, h);
          s = copy_if_set ''Persistence'' (copy_ptr (zero F PersistenceSpec_T) Pair) i s;
          s = copy_if_set ''Ingress'' (copy_ptr (zero F IngressSpec_T) (IngressSpec_DeepCopyInto F)) i s
      in s)"

definition GrafanaInstanceSpec_DeepCopy :: "packages \<Rightarrow> copier" where
  "GrafanaInstanceSpec_DeepCopy F i h = copy_ptr (zero F GrafanaInstanceSpec_T) (GrafanaInstanceSpec_DeepCopyInto F) i h"

definition GrafanaInstanceStatus_T :: gotype where
  "GrafanaInstanceStatus_T = TStruct
     [(''Ready'', TBool),
      (''Phase'', TString),
      (''Replicas'', TInt32),
      (''Message'', TString),
      (''Conditions'', TSlice (TForeign ''metav1.Condition''))]"

definition GrafanaInstanceStatus_DeepCopyInto :: "packages \<Rightarrow> copier" where
  "GrafanaInstanceStatus_DeepCopyInto F i h =
     (let s = (i, h);
          s = copy_if_set ''Conditions'' (copy_slice (fo_zero (F ''metav1.Condition'')) (fo_copy (F ''metav1.Condition''))) i s
      in s)"

definition GrafanaInstanceStatus_DeepCopy :: "packages \<Rightarrow> copier" where
  "GrafanaInstanceStatus_DeepCopy F i h = copy_ptr (zero F GrafanaInstanceStatus_T) (GrafanaInstanceStatus_DeepCopyInto F) i h"

definition GrafanaInstance_T :: gotype where
  "GrafanaInstance_T = TStruct
     [(''TypeMeta'', TypeMeta_T),
      (''ObjectMeta'', TForeign ''metav1.ObjectMeta''),
      (''Spec'', GrafanaInstanceSpec_T),
      (''Status'', GrafanaInstanceStatus_T)]"

definition GrafanaInstance_DeepCopyInto :: "packages \<Rightarrow> copier" where
  "GrafanaInstance_DeepCopyInto F i h =
     (let s = (i, h);
          s = assign ''TypeMeta'' i s;
          s = copy_field ''ObjectMeta'' (fo_copy (F ''metav1.ObjectMeta'')) i s;
          s = copy_field ''Spec'' (GrafanaInstanceSpec_DeepCopyInto F) i s;
          s = copy_field ''Status'' (GrafanaInstanceStatus_DeepCopyInto F) i s
      in s)"

definition GrafanaInstance_DeepCopy :: "packages \<Rightarrow> copier" where
  "GrafanaInstance_DeepCopy F i h = copy_ptr (zero F GrafanaInstance_T) (GrafanaInstance_DeepCopyInto F) i h"

definition GrafanaInstance_DeepCopyObject :: "packages \<Rightarrow> copier" where
  "GrafanaInstance_DeepCopyObject F i h = (case GrafanaInstance_DeepCopy F i h of (c, h) \<Rightarrow> if c \<noteq> MNil then (c, h) else (MNil, h))"

definition GrafanaInstanceList_T :: gotype where
  "GrafanaInstanceList_T = TStruct
     [(''TypeMeta'', TypeMeta_T),
      (''ListMeta'', TForeign ''metav1.ListMeta''),
      (''Items'', TSlice GrafanaInstance_T)]"

definition GrafanaInstanceList_DeepCopyInto :: "packages \<Rightarrow> copier" where
  "GrafanaInstanceList_DeepCopyInto F i h =
     (let s = (i, h);
          s = assign ''TypeMeta'' i s;
          s = copy_field ''ListMeta'' (fo_copy (F ''metav1.ListMeta'')) i s;
          s = copy_if_set ''Items'' (copy_slice (zero F GrafanaInstance_T) (GrafanaInstance_DeepCopyInto F)) i s
      in s)"

definition GrafanaInstanceList_DeepCopy :: "packages \<Rightarrow> copier" where
  "GrafanaInstanceList_DeepCopy F i h = copy_ptr (zero F GrafanaInstanceList_T) (GrafanaInstanceList_DeepCopyInto F) i h"

definition GrafanaInstanceList_DeepCopyObject :: "packages \<Rightarrow> copier" where
  "GrafanaInstanceList_DeepCopyObject F i h = (case GrafanaInstanceList_DeepCopy F i h of (c, h) \<Rightarrow> if c \<noteq> MNil then (c, h) else (MNil, h))"

section \<open>\<^verbatim>\<open>MariaDBCluster\<close>\<close>

definition MariaDBClusterSpec_T :: gotype where
  "MariaDBClusterSpec_T = TStruct
     [(''Replicas'', TInt32),
      (''Image'', TString),
      (''Storage'', StorageSpec_T),
      (''Database'', DatabaseSpec_T),
      (''Resources'', TForeign ''corev1.ResourceRequirements''),
      (''Monitoring'', MonitoringSpec_T),
      (''Expose'', TPtr ServiceExposeSpec_T)]"

definition MariaDBClusterSpec_DeepCopyInto :: "packages \<Rightarrow> copier" where
  "MariaDBClusterSpec_DeepCopyInto F i h =
     (let s = (i, h);
          s = assign ''Storage'' i s;
          s = assign ''Database'' i s;
          s = copy_field ''Resources'' (fo_copy (F ''corev1.ResourceRequirements'')) i s;
          s = assign ''Monitoring'' i s;
          s = copy_if_set ''Expose'' (copy_ptr (zero F ServiceExposeSpec_T) (ServiceExposeSpec_DeepCopyInto F)) i s
      in s)"

definition MariaDBClusterSpec_DeepCopy :: "packages \<Rightarrow> copier" where
  "MariaDBClusterSpec_DeepCopy F i h = copy_ptr (zero F MariaDBClusterSpec_T) (MariaDBClusterSpec_DeepCopyInto F) i h"

definition MariaDBClusterStatus_T :: gotype where
  "MariaDBClusterStatus_T = TStruct
     [(''Ready'', TBool),
      (''Phase'', TString),
      (''Replicas'', TInt32),
      (''ReadyReplicas'', TInt32),
      (''Message'', TString),
      (''Conditions'', TSlice (TForeign ''metav1.Condition''))]"

definition MariaDBClusterStatus_DeepCopyInto :: "packages \<Rightarrow> copier" where
  "MariaDBClusterStatus_DeepCopyInto F i h =
     (let s = (i, h);
          s = copy_if_set ''Conditions'' (copy_slice (fo_zero (F ''metav1.Condition'')) (fo_copy (F ''metav1.Condition''))) i s
      in s)"

definition MariaDBClusterStatus_DeepCopy :: "packages \<Rightarrow> copier" where
  "MariaDBClusterStatus_DeepCopy F i h = copy_ptr (zero F MariaDBClusterStatus_T) (MariaDBClusterStatus_DeepCopyInto F) i h"

definition MariaDBCluster_T :: gotype where
  "MariaDBCluster_T = TStruct
     [(''TypeMeta'', TypeMeta_T),
      (''ObjectMeta'', TForeign ''metav1.ObjectMeta''),
      (''Spec'', MariaDBClusterSpec_T),
      (''Status'', MariaDBClusterStatus_T)]"

definition MariaDBCluster_DeepCopyInto :: "packages \<Rightarrow> copier" where
  "MariaDBCluster_DeepCopyInto F i h =
     (let s = (i, h);
          s = assign ''TypeMeta'' i s;
          s = copy_field ''ObjectMeta'' (fo_copy (F ''metav1.ObjectMeta'')) i s;
          s = copy_field ''Spec'' (MariaDBClusterSpec_DeepCopyInto F) i s;
          s = copy_field ''Status'' (MariaDBClusterStatus_DeepCopyInto F) i s
      in s)"

definition MariaDBCluster_DeepCopy :: "packages \<Rightarrow> copier" where
  "MariaDBCluster_DeepCopy F i h = copy_ptr (zero F MariaDBCluster_T) (MariaDBCluster_DeepCopyInto F) i h"

definition MariaDBCluster_DeepCopyObject :: "packages \<Rightarrow> copier" where
  "MariaDBCluster_DeepCopyObject F i h = (case MariaDBCluster_DeepCopy F i h of (c, h) \<Rightarrow> if c \<noteq> MNil then (c, h) else (MNil, h))"

definition MariaDBClusterList_T :: gotype where
  "MariaDBClusterList_T = TStruct
     [(''TypeMeta'', TypeMeta_T),
      (''ListMeta'', TForeign ''metav1.ListMeta''),
      (''Items'', TSlice MariaDBCluster_T)]"

definition MariaDBClusterList_DeepCopyInto :: "packages \<Rightarrow> copier" where
  "MariaDBClusterList_DeepCopyInto F i h =
     (let s = (i, h);
          s = assign ''TypeMeta'' i s;
          s = copy_field ''ListMeta'' (fo_copy (F ''metav1.ListMeta'')) i s;
          s = copy_if_set ''Items'' (copy_slice (zero F MariaDBCluster_T) (MariaDBCluster_DeepCopyInto F)) i s
      in s)"

definition MariaDBClusterList_DeepCopy :: "packages \<Rightarrow> copier" where
  "MariaDBClusterList_DeepCopy F i h = copy_ptr (zero F MariaDBClusterList_T) (MariaDBClusterList_DeepCopyInto F) i h"

definition MariaDBClusterList_DeepCopyObject :: "packages \<Rightarrow> copier" where
  "MariaDBClusterList_DeepCopyObject F i h = (case MariaDBClusterList_DeepCopy F i h of (c, h) \<Rightarrow> if c \<noteq> MNil then (c, h) else (MNil, h))"

section \<open>\<^verbatim>\<open>RabbitMQCluster\<close>\<close>

definition RabbitMQClusterSpec_T :: gotype where
  "RabbitMQClusterSpec_T = TStruct
     [(''Replicas'', TInt32),
      (''Image'', TString),
      (''Storage'', StorageSpec_T),
      (''Resources'', TForeign ''corev1.ResourceRequirements''),
      (''Ingress'', TPtr IngressSpec_T)]"

definition RabbitMQClusterSpec_DeepCopyInto :: "packages \<Rightarrow> copier" where
  "RabbitMQClusterSpec_DeepCopyInto F i h =
     (let s = (i, h);
          s = assign ''Storage'' i s;
          s = copy_field ''Resources'' (fo_copy (F ''corev1.ResourceRequirements'')) i s;
          s = copy_if_set ''Ingress'' (copy_ptr (zero F IngressSpec_T) (IngressSpec_DeepCopyInto F)) i s
      in s)"

definition RabbitMQClusterSpec_DeepCopy :: "packages \<Rightarrow> copier" where
  "RabbitMQClusterSpec_DeepCopy F i h = copy_ptr (zero F RabbitMQClusterSpec_T) (RabbitMQClusterSpec_DeepCopyInto F) i h"

definition RabbitMQClusterStatus_T :: gotype where
  "RabbitMQClusterStatus_T = TStruct
     [(''Ready'', TBool),
      (''Phase'', TString),
      (''Replicas'', TInt32),
      (''ReadyReplicas'', TInt32),
      (''Message'', TString),
      (''Conditions'', TSlice (TForeign ''metav1.Condition''))]"

definition RabbitMQClusterStatus_DeepCopyInto :: "packages \<Rightarrow> copier" where
  "RabbitMQClusterStatus_DeepCopyInto F i h =
     (let s = (i, h);
          s = copy_if_set ''Conditions'' (copy_slice (fo_zero (F ''metav1.Condition'')) (fo_copy (F ''metav1.Condition''))) i s
      in s)"

definition RabbitMQClusterStatus_DeepCopy :: "packages \<Rightarrow> copier" where
  "RabbitMQClusterStatus_DeepCopy F i h = copy_ptr (zero F RabbitMQClusterStatus_T) (RabbitMQClusterStatus_DeepCopyInto F) i h"

definition RabbitMQCluster_T :: gotype where
  "RabbitMQCluster_T = TStruct
     [(''TypeMeta'', TypeMeta_T),
      (''ObjectMeta'', TForeign ''metav1.ObjectMeta''),
      (''Spec'', RabbitMQClusterSpec_T),
      (''Status'', RabbitMQClusterStatus_T)]"

definition RabbitMQCluster_DeepCopyInto :: "packages \<Rightarrow> copier" where
  "RabbitMQCluster_DeepCopyInto F i h =
     (let s = (i, h);
          s = assign ''TypeMeta'' i s;
          s = copy_field ''ObjectMeta'' (fo_copy (F ''metav1.ObjectMeta'')) i s;
          s = copy_field ''Spec'' (RabbitMQClusterSpec_DeepCopyInto F) i s;
          s = copy_field ''Status'' (RabbitMQClusterStatus_DeepCopyInto F) i s
      in s)"

definition RabbitMQCluster_DeepCopy :: "packages \<Rightarrow> copier" where
  "RabbitMQCluster_DeepCopy F i h = copy_ptr (zero F RabbitMQCluster_T) (RabbitMQCluster_DeepCopyInto F) i h"

definition RabbitMQCluster_DeepCopyObject :: "packages \<Rightarrow> copier" where
  "RabbitMQCluster_DeepCopyObject F i h = (case RabbitMQCluster_DeepCopy F i h of (c, h) \<Rightarrow> if c \<noteq> MNil then (c, h) else (MNil, h))"

definition RabbitMQClusterList_T :: gotype where
  "RabbitMQClusterList_T = TStruct
     [(''TypeMeta'', TypeMeta_T),
      (''ListMeta'', TForeign ''metav1.ListMeta''),
      (''Items'', TSlice RabbitMQCluster_T)]"

definition RabbitMQClusterList_DeepCopyInto :: "packages \<Rightarrow> copier" where
  "RabbitMQClusterList_DeepCopyInto F i h =
     (let s = (i, h);
          s = assign ''TypeMeta'' i s;
          s = copy_field ''ListMeta'' (fo_copy (F ''metav1.ListMeta'')) i s;
          s = copy_if_set ''Items'' (copy_slice (zero F RabbitMQCluster_T) (RabbitMQCluster_DeepCopyInto F)) i s
      in s)"

definition RabbitMQClusterList_DeepCopy :: "packages \<Rightarrow> copier" where
  "RabbitMQClusterList_DeepCopy F i h = copy_ptr (zero F RabbitMQClusterList_T) (RabbitMQClusterList_DeepCopyInto F) i h"

definition RabbitMQClusterList_DeepCopyObject :: "packages \<Rightarrow> copier" where
  "RabbitMQClusterList_DeepCopyObject F i h = (case RabbitMQClusterList_DeepCopy F i h of (c, h) \<Rightarrow> if c \<noteq> MNil then (c, h) else (MNil, h))"

section \<open>\<^verbatim>\<open>PrometheusInstance\<close>\<close>

definition PrometheusInstanceSpec_T :: gotype where
  "PrometheusInstanceSpec_T = TStruct
     [(''Version'', TString),
      (''Replicas'', TInt32),
      (''Retention'', TString),
      (''Storage'', TPtr StorageSpec_T),
      (''Resources'', TForeign ''corev1.ResourceRequirements''),
      (''Ingress'', TPtr IngressSpec_T)]"

definition PrometheusInstanceSpec_DeepCopyInto :: "packages \<Rightarrow> copier" where
  "PrometheusInstanceSpec_DeepCopyInto F i h =
     (let s = (i, h);
          s = copy_if_set ''Storage'' (copy_ptr (zero F StorageSpec_T) Pair) i s;
          s = copy_field ''Resources'' (fo_copy (F ''corev1.ResourceRequirements'')) i s;
          s = copy_if_set ''Ingress'' (copy_ptr (zero F IngressSpec_T) (IngressSpec_DeepCopyInto F)) i s
      in s)"

definition PrometheusInstanceSpec_DeepCopy :: "packages \<Rightarrow> copier" where
  "PrometheusInstanceSpec_DeepCopy F i h = copy_ptr (zero F PrometheusInstanceSpec_T) (PrometheusInstanceSpec_DeepCopyInto F) i h"

definition PrometheusInstanceStatus_T :: gotype where
  "PrometheusInstanceStatus_T = TStruct
     [(''Ready'', TBool),
      (''Phase'', TString),
      (''Replicas'', TInt32),
      (''ReadyReplicas'', TInt32),
      (''Message'', TString),
      (''Conditions'', TSlice (TForeign ''metav1.Condition''))]"

definition PrometheusInstanceStatus_DeepCopyInto :: "packages \<Rightarrow> copier" where
  "PrometheusInstanceStatus_DeepCopyInto F i h =
     (let s = (i, h);
          s = copy_if_set ''Conditions'' (copy_slice (fo_zero (F ''metav1.Condition'')) (fo_copy (F ''metav1.Condition''))) i s
      in s)"

definition PrometheusInstanceStatus_DeepCopy :: "packages \<Rightarrow> copier" where
  "PrometheusInstanceStatus_DeepCopy F i h = copy_ptr (zero F PrometheusInstanceStatus_T) (PrometheusInstanceStatus_DeepCopyInto F) i h"

definition PrometheusInstance_T :: gotype where
  "PrometheusInstance_T = TStruct
     [(''TypeMeta'', TypeMeta_T),
      (''ObjectMeta'', TForeign ''metav1.ObjectMeta''),
      (''Spec'', PrometheusInstanceSpec_T),
      (''Status'', PrometheusInstanceStatus_T)]"

definition PrometheusInstance_DeepCopyInto :: "packages \<Rightarrow> copier" where
  "PrometheusInstance_DeepCopyInto F i h =
     (let s = (i, h);
          s = assign ''TypeMeta'' i s;
          s = copy_field ''ObjectMeta'' (fo_copy (F ''metav1.ObjectMeta'')) i s;
          s = copy_field ''Spec'' (PrometheusInstanceSpec_DeepCopyInto F) i s;
          s = copy_field ''Status'' (PrometheusInstanceStatus_DeepCopyInto F) i s
      in s)"

definition PrometheusInstance_DeepCopy :: "packages \<Rightarrow> copier" where
  "PrometheusInstance_DeepCopy F i h = copy_ptr (zero F PrometheusInstance_T) (PrometheusInstance_DeepCopyInto F) i h"

definition PrometheusInstance_DeepCopyObject :: "packages \<Rightarrow> copier" where
  "PrometheusInstance_DeepCopyObject F i h = (case PrometheusInstance_DeepCopy F i h of (c, h) \<Rightarrow> if c \<noteq> MNil then (c, h) else (MNil, h))"

definition PrometheusInstanceList_T :: gotype where
  "PrometheusInstanceList_T = TStruct
     [(''TypeMeta'', TypeMeta_T),
      (''ListMeta'', TForeign ''metav1.ListMeta''),
      (''Items'', TSlice PrometheusInstance_T)]"

definition PrometheusInstanceList_DeepCopyInto :: "packages \<Rightarrow> copier" where
  "PrometheusInstanceList_DeepCopyInto F i h =
     (let s = (i, h);
          s = assign ''TypeMeta'' i s;
          s = copy_field ''ListMeta'' (fo_copy (F ''metav1.ListMeta'')) i s;
          s = copy_if_set ''Items'' (copy_slice (zero F PrometheusInstance_T) (PrometheusInstance_DeepCopyInto F)) i s
      in s)"

definition PrometheusInstanceList_DeepCopy :: "packages \<Rightarrow> copier" where
  "PrometheusInstanceList_DeepCopy F i h = copy_ptr (zero F PrometheusInstanceList_T) (PrometheusInstanceList_DeepCopyInto F) i h"

definition PrometheusInstanceList_DeepCopyObject :: "packages \<Rightarrow> copier" where
  "PrometheusInstanceList_DeepCopyObject F i h = (case PrometheusInstanceList_DeepCopy F i h of (c, h) \<Rightarrow> if c \<noteq> MNil then (c, h) else (MNil, h))"

section \<open>Agreement\<close>

lemmas statement_rules = statement_defs field_def set_field_def Let_def

lemma ref_free_blocks [simp]:
  "ref_free TypeMeta_T" "ref_free StorageSpec_T" "ref_free DatabaseSpec_T" "ref_free MonitoringSpec_T" "ref_free PersistenceSpec_T"
  by (simp_all add: TypeMeta_T_def StorageSpec_T_def DatabaseSpec_T_def MonitoringSpec_T_def PersistenceSpec_T_def)

context packages_ok
begin


lemma agrees_DatabaseSpec [agree]: "agrees F DatabaseSpec_T (DatabaseSpec_DeepCopyInto F)"
  by (rule agrees_structI [OF DatabaseSpec_T_def, where ops =
     "[(''Name'', Pair),
      (''Owner'', Pair)]"], simp, clarsimp simp: map_eq_Cons_conv,
    simp add: DatabaseSpec_DeepCopyInto_def statement_rules split: prod.split, simp add: agree)

lemma agrees_MonitoringSpec [agree]: "agrees F MonitoringSpec_T (MonitoringSpec_DeepCopyInto F)"
  by (rule agrees_structI [OF MonitoringSpec_T_def, where ops =
     "[(''EnablePodMonitor'', Pair)]"], simp, clarsimp simp: map_eq_Cons_conv,
    simp add: MonitoringSpec_DeepCopyInto_def statement_rules split: prod.split, simp add: agree)

lemma agrees_PersistenceSpec [agree]: "agrees F PersistenceSpec_T (PersistenceSpec_DeepCopyInto F)"
  by (rule agrees_structI [OF PersistenceSpec_T_def, where ops =
     "[(''Size'', Pair),
      (''StorageClass'', Pair)]"], simp, clarsimp simp: map_eq_Cons_conv,
    simp add: PersistenceSpec_DeepCopyInto_def statement_rules split: prod.split, simp add: agree)

lemma agrees_StorageSpec [agree]: "agrees F StorageSpec_T (StorageSpec_DeepCopyInto F)"
  by (rule agrees_structI [OF StorageSpec_T_def, where ops =
     "[(''Size'', Pair),
      (''StorageClass'', Pair)]"], simp, clarsimp simp: map_eq_Cons_conv,
    simp add: StorageSpec_DeepCopyInto_def statement_rules split: prod.split, simp add: agree)

lemma agrees_IngressSpec [agree]: "agrees F IngressSpec_T (IngressSpec_DeepCopyInto F)"
  by (rule agrees_structI [OF IngressSpec_T_def, where ops =
     "[(''Host'', Pair),
      (''IngressClassName'', Pair),
      (''TLSSecretName'', Pair),
      (''Annotations'', copy_map)]"], simp, clarsimp simp: map_eq_Cons_conv,
    simp add: IngressSpec_DeepCopyInto_def statement_rules split: prod.split, simp add: agree)

lemma agrees_ServiceExposeSpec [agree]: "agrees F ServiceExposeSpec_T (ServiceExposeSpec_DeepCopyInto F)"
  by (rule agrees_structI [OF ServiceExposeSpec_T_def, where ops =
     "[(''Type'', Pair),
      (''Annotations'', copy_map)]"], simp, clarsimp simp: map_eq_Cons_conv,
    simp add: ServiceExposeSpec_DeepCopyInto_def statement_rules split: prod.split, simp add: agree)

lemma agrees_PostgresClusterSpec [agree]: "agrees F PostgresClusterSpec_T (PostgresClusterSpec_DeepCopyInto F)"
  by (rule agrees_structI [OF PostgresClusterSpec_T_def, where ops =
     "[(''Instances'', Pair),
      (''Image'', Pair),
      (''Storage'', Pair),
      (''Database'', Pair),
      (''Resources'', fo_copy (F ''corev1.ResourceRequirements'')),
      (''Monitoring'', Pair),
      (''Expose'', copy_ptr (zero F ServiceExposeSpec_T) (ServiceExposeSpec_DeepCopyInto F))]"], simp, clarsimp simp: map_eq_Cons_conv,
    simp add: PostgresClusterSpec_DeepCopyInto_def statement_rules split: prod.split, simp add: agree)

lemma agrees_PostgresClusterStatus [agree]: "agrees F PostgresClusterStatus_T (PostgresClusterStatus_DeepCopyInto F)"
  by (rule agrees_structI [OF PostgresClusterStatus_T_def, where ops =
     "[(''Ready'', Pair),
      (''Phase'', Pair),
      (''Instances'', Pair),
      (''ReadyInstances'', Pair),
      (''Message'', Pair),
      (''Conditions'', copy_slice (fo_zero (F ''metav1.Condition'')) (fo_copy (F ''metav1.Condition'')))]"], simp, clarsimp simp: map_eq_Cons_conv,
    simp add: PostgresClusterStatus_DeepCopyInto_def statement_rules split: prod.split, simp add: agree)

lemma agrees_PostgresCluster [agree]: "agrees F PostgresCluster_T (PostgresCluster_DeepCopyInto F)"
  by (rule agrees_structI [OF PostgresCluster_T_def, where ops =
     "[(''TypeMeta'', Pair),
      (''ObjectMeta'', fo_copy (F ''metav1.ObjectMeta'')),
      (''Spec'', PostgresClusterSpec_DeepCopyInto F),
      (''Status'', PostgresClusterStatus_DeepCopyInto F)]"], simp, clarsimp simp: map_eq_Cons_conv,
    simp add: PostgresCluster_DeepCopyInto_def statement_rules split: prod.split, simp add: agree)

lemma agrees_PostgresClusterList [agree]: "agrees F PostgresClusterList_T (PostgresClusterList_DeepCopyInto F)"
  by (rule agrees_structI [OF PostgresClusterList_T_def, where ops =
     "[(''TypeMeta'', Pair),
      (''ListMeta'', fo_copy (F ''metav1.ListMeta'')),
      (''Items'', copy_slice (zero F PostgresCluster_T) (PostgresCluster_DeepCopyInto F))]"], simp, clarsimp simp: map_eq_Cons_conv,
    simp add: PostgresClusterList_DeepCopyInto_def statement_rules split: prod.split, simp add: agree)

lemma agrees_ValkeyClusterSpec [agree]: "agrees F ValkeyClusterSpec_T (ValkeyClusterSpec_DeepCopyInto F)"
  by (rule agrees_structI [OF ValkeyClusterSpec_T_def, where ops =
     "[(''Shards'', Pair),
      (''Replicas'', Pair),
      (''Image'', Pair),
      (''Persistence'', Pair),
      (''Resources'', fo_copy (F ''corev1.ResourceRequirements'')),
      (''Expose'', copy_ptr (zero F ServiceExposeSpec_T) (ServiceExposeSpec_DeepCopyInto F))]"], simp, clarsimp simp: map_eq_Cons_conv,
    simp add: ValkeyClusterSpec_DeepCopyInto_def statement_rules split: prod.split, simp add: agree)

lemma agrees_ValkeyClusterStatus [agree]: "agrees F ValkeyClusterStatus_T (ValkeyClusterStatus_DeepCopyInto F)"
  by (rule agrees_structI [OF ValkeyClusterStatus_T_def, where ops =
     "[(''Ready'', Pair),
      (''Phase'', Pair),
      (''Shards'', Pair),
      (''ReadyShards'', Pair),
      (''Message'', Pair),
      (''Conditions'', copy_slice (fo_zero (F ''metav1.Condition'')) (fo_copy (F ''metav1.Condition'')))]"], simp, clarsimp simp: map_eq_Cons_conv,
    simp add: ValkeyClusterStatus_DeepCopyInto_def statement_rules split: prod.split, simp add: agree)

lemma agrees_ValkeyCluster [agree]: "agrees F ValkeyCluster_T (ValkeyCluster_DeepCopyInto F)"
  by (rule agrees_structI [OF ValkeyCluster_T_def, where ops =
     "[(''TypeMeta'', Pair),
      (''ObjectMeta'', fo_copy (F ''metav1.ObjectMeta'')),
      (''Spec'', ValkeyClusterSpec_DeepCopyInto F),
      (''Status'', ValkeyClusterStatus_DeepCopyInto F)]"], simp, clarsimp simp: map_eq_Cons_conv,
    simp add: ValkeyCluster_DeepCopyInto_def statement_rules split: prod.split, simp add: agree)

lemma agrees_ValkeyClusterList [agree]: "agrees F ValkeyClusterList_T (ValkeyClusterList_DeepCopyInto F)"
  by (rule agrees_structI [OF ValkeyClusterList_T_def, where ops =
     "[(''TypeMeta'', Pair),
      (''ListMeta'', fo_copy (F ''metav1.ListMeta'')),
      (''Items'', copy_slice (zero F ValkeyCluster_T) (ValkeyCluster_DeepCopyInto F))]"], simp, clarsimp simp: map_eq_Cons_conv,
    simp add: ValkeyClusterList_DeepCopyInto_def statement_rules split: prod.split, simp add: agree)

lemma agrees_GrafanaInstanceSpec [agree]: "agrees F GrafanaInstanceSpec_T (GrafanaInstanceSpec_DeepCopyInto F)"
  by (rule agrees_structI [OF GrafanaInstanceSpec_T_def, where ops =
     "[(''Version'', Pair),
      (''Replicas'', Pair),
      (''Persistence'', copy_ptr (zero F PersistenceSpec_T) Pair),
      (''Ingress'', copy_ptr (zero F IngressSpec_T) (IngressSpec_DeepCopyInto F))]"], simp, clarsimp simp: map_eq_Cons_conv,
    simp add: GrafanaInstanceSpec_DeepCopyInto_def statement_rules split: prod.split, simp add: agree)

lemma agrees_GrafanaInstanceStatus [agree]: "agrees F GrafanaInstanceStatus_T (GrafanaInstanceStatus_DeepCopyInto F)"
  by (rule agrees_structI [OF GrafanaInstanceStatus_T_def, where ops =
     "[(''Ready'', Pair),
      (''Phase'', Pair),
      (''Replicas'', Pair),
      (''Message'', Pair),
      (''Conditions'', copy_slice (fo_zero (F ''metav1.Condition'')) (fo_copy (F ''metav1.Condition'')))]"], simp, clarsimp simp: map_eq_Cons_conv,
    simp add: GrafanaInstanceStatus_DeepCopyInto_def statement_rules split: prod.split, simp add: agree)

lemma agrees_GrafanaInstance [agree]: "agrees F GrafanaInstance_T (GrafanaInstance_DeepCopyInto F)"
  by (rule agrees_structI [OF GrafanaInstance_T_def, where ops =
     "[(''TypeMeta'', Pair),
      (''ObjectMeta'', fo_copy (F ''metav1.ObjectMeta'')),
      (''Spec'', GrafanaInstanceSpec_DeepCopyInto F),
      (''Status'', GrafanaInstanceStatus_DeepCopyInto F)]"], simp, clarsimp simp: map_eq_Cons_conv,
    simp add: GrafanaInstance_DeepCopyInto_def statement_rules split: prod.split, simp add: agree)

lemma agrees_GrafanaInstanceList [agree]: "agrees F GrafanaInstanceList_T (GrafanaInstanceList_DeepCopyInto F)"
  by (rule agrees_structI [OF GrafanaInstanceList_T_def, where ops =
     "[(''TypeMeta'', Pair),
      (''ListMeta'', fo_copy (F ''metav1.ListMeta'')),
      (''Items'', copy_slice (zero F GrafanaInstance_T) (GrafanaInstance_DeepCopyInto F))]"], simp, clarsimp simp: map_eq_Cons_conv,
    simp add: GrafanaInstanceList_DeepCopyInto_def statement_rules split: prod.split, simp add: agree)

lemma agrees_MariaDBClusterSpec [agree]: "agrees F MariaDBClusterSpec_T (MariaDBClusterSpec_DeepCopyInto F)"
  by (rule agrees_structI [OF MariaDBClusterSpec_T_def, where ops =
     "[(''Replicas'', Pair),
      (''Image'', Pair),
      (''Storage'', Pair),
      (''Database'', Pair),
      (''Resources'', fo_copy (F ''corev1.ResourceRequirements'')),
      (''Monitoring'', Pair),
      (''Expose'', copy_ptr (zero F ServiceExposeSpec_T) (ServiceExposeSpec_DeepCopyInto F))]"], simp, clarsimp simp: map_eq_Cons_conv,
    simp add: MariaDBClusterSpec_DeepCopyInto_def statement_rules split: prod.split, simp add: agree)

lemma agrees_MariaDBClusterStatus [agree]: "agrees F MariaDBClusterStatus_T (MariaDBClusterStatus_DeepCopyInto F)"
  by (rule agrees_structI [OF MariaDBClusterStatus_T_def, where ops =
     "[(''Ready'', Pair),
      (''Phase'', Pair),
      (''Replicas'', Pair),
      (''ReadyReplicas'', Pair),
      (''Message'', Pair),
      (''Conditions'', copy_slice (fo_zero (F ''metav1.Condition'')) (fo_copy (F ''metav1.Condition'')))]"], simp, clarsimp simp: map_eq_Cons_conv,
    simp add: MariaDBClusterStatus_DeepCopyInto_def statement_rules split: prod.split, simp add: agree)

lemma agrees_MariaDBCluster [agree]: "agrees F MariaDBCluster_T (MariaDBCluster_DeepCopyInto F)"
  by (rule agrees_structI [OF MariaDBCluster_T_def, where ops =
     "[(''TypeMeta'', Pair),
      (''ObjectMeta'', fo_copy (F ''metav1.ObjectMeta'')),
      (''Spec'', MariaDBClusterSpec_DeepCopyInto F),
      (''Status'', MariaDBClusterStatus_DeepCopyInto F)]"], simp, clarsimp simp: map_eq_Cons_conv,
    simp add: MariaDBCluster_DeepCopyInto_def statement_rules split: prod.split, simp add: agree)

lemma agrees_MariaDBClusterList [agree]: "agrees F MariaDBClusterList_T (MariaDBClusterList_DeepCopyInto F)"
  by (rule agrees_structI [OF MariaDBClusterList_T_def, where ops =
     "[(''TypeMeta'', Pair),
      (''ListMeta'', fo_copy (F ''metav1.ListMeta'')),
      (''Items'', copy_slice (zero F MariaDBCluster_T) (MariaDBCluster_DeepCopyInto F))]"], simp, clarsimp simp: map_eq_Cons_conv,
    simp add: MariaDBClusterList_DeepCopyInto_def statement_rules split: prod.split, simp add: agree)

lemma agrees_RabbitMQClusterSpec [agree]: "agrees F RabbitMQClusterSpec_T (RabbitMQClusterSpec_DeepCopyInto F)"
  by (rule agrees_structI [OF RabbitMQClusterSpec_T_def, where ops =
     "[(''Replicas'', Pair),
      (''Image'', Pair),
      (''Storage'', Pair),
      (''Resources'', fo_copy (F ''corev1.ResourceRequirements'')),
      (''Ingress'', copy_ptr (zero F IngressSpec_T) (IngressSpec_DeepCopyInto F))]"], simp, clarsimp simp: map_eq_Cons_conv,
    simp add: RabbitMQClusterSpec_DeepCopyInto_def statement_rules split: prod.split, simp add: agree)

lemma agrees_RabbitMQClusterStatus [agree]: "agrees F RabbitMQClusterStatus_T (RabbitMQClusterStatus_DeepCopyInto F)"
  by (rule agrees_structI [OF RabbitMQClusterStatus_T_def, where ops =
     "[(''Ready'', Pair),
      (''Phase'', Pair),
      (''Replicas'', Pair),
      (''ReadyReplicas'', Pair),
      (''Message'', Pair),
      (''Conditions'', copy_slice (fo_zero (F ''metav1.Condition'')) (fo_copy (F ''metav1.Condition'')))]"], simp, clarsimp simp: map_eq_Cons_conv,
    simp add: RabbitMQClusterStatus_DeepCopyInto_def statement_rules split: prod.split, simp add: agree)

lemma agrees_RabbitMQCluster [agree]: "agrees F RabbitMQCluster_T (RabbitMQCluster_DeepCopyInto F)"
  by (rule agrees_structI [OF RabbitMQCluster_T_def, where ops =
     "[(''TypeMeta'', Pair),
      (''ObjectMeta'', fo_copy (F ''metav1.ObjectMeta'')),
      (''Spec'', RabbitMQClusterSpec_DeepCopyInto F),
      (''Status'', RabbitMQClusterStatus_DeepCopyInto F)]"], simp, clarsimp simp: map_eq_Cons_conv,
    simp add: RabbitMQCluster_DeepCopyInto_def statement_rules split: prod.split, simp add: agree)

lemma agrees_RabbitMQClusterList [agree]: "agrees F RabbitMQClusterList_T (RabbitMQClusterList_DeepCopyInto F)"
  by (rule agrees_structI [OF RabbitMQClusterList_T_def, where ops =
     "[(''TypeMeta'', Pair),
      (''ListMeta'', fo_copy (F ''metav1.ListMeta'')),
      (''Items'', copy_slice (zero F RabbitMQCluster_T) (RabbitMQCluster_DeepCopyInto F))]"], simp, clarsimp simp: map_eq_Cons_conv,
    simp add: RabbitMQClusterList_DeepCopyInto_def statement_rules split: prod.split, simp add: agree)

lemma agrees_PrometheusInstanceSpec [agree]: "agrees F PrometheusInstanceSpec_T (PrometheusInstanceSpec_DeepCopyInto F)"
  by (rule agrees_structI [OF PrometheusInstanceSpec_T_def, where ops =
     "[(''Version'', Pair),
      (''Replicas'', Pair),
      (''Retention'', Pair),
      (''Storage'', copy_ptr (zero F StorageSpec_T) Pair),
      (''Resources'', fo_copy (F ''corev1.ResourceRequirements'')),
      (''Ingress'', copy_ptr (zero F IngressSpec_T) (IngressSpec_DeepCopyInto F))]"], simp, clarsimp simp: map_eq_Cons_conv,
    simp add: PrometheusInstanceSpec_DeepCopyInto_def statement_rules split: prod.split, simp add: agree)

lemma agrees_PrometheusInstanceStatus [agree]: "agrees F PrometheusInstanceStatus_T (PrometheusInstanceStatus_DeepCopyInto F)"
  by (rule agrees_structI [OF PrometheusInstanceStatus_T_def, where ops =
     "[(''Ready'', Pair),
      (''Phase'', Pair),
      (''Replicas'', Pair),
      (''ReadyReplicas'', Pair),
      (''Message'', Pair),
      (''Conditions'', copy_slice (fo_zero (F ''metav1.Condition'')) (fo_copy (F ''metav1.Condition'')))]"], simp, clarsimp simp: map_eq_Cons_conv,
    simp add: PrometheusInstanceStatus_DeepCopyInto_def statement_rules split: prod.split, simp add: agree)

lemma agrees_PrometheusInstance [agree]: "agrees F PrometheusInstance_T (PrometheusInstance_DeepCopyInto F)"
  by (rule agrees_structI [OF PrometheusInstance_T_def, where ops =
     "[(''TypeMeta'', Pair),
      (''ObjectMeta'', fo_copy (F ''metav1.ObjectMeta'')),
      (''Spec'', PrometheusInstanceSpec_DeepCopyInto F),
      (''Status'', PrometheusInstanceStatus_DeepCopyInto F)]"], simp, clarsimp simp: map_eq_Cons_conv,
    simp add: PrometheusInstance_DeepCopyInto_def statement_rules split: prod.split, simp add: agree)

lemma agrees_PrometheusInstanceList [agree]: "agrees F PrometheusInstanceList_T (PrometheusInstanceList_DeepCopyInto F)"
  by (rule agrees_structI [OF PrometheusInstanceList_T_def, where ops =
     "[(''TypeMeta'', Pair),
      (''ListMeta'', fo_copy (F ''metav1.ListMeta'')),
      (''Items'', copy_slice (zero F PrometheusInstance_T) (PrometheusInstance_DeepCopyInto F))]"], simp, clarsimp simp: map_eq_Cons_conv,
    simp add: PrometheusInstanceList_DeepCopyInto_def statement_rules split: prod.split, simp add: agree)

text \<open>\<open>DeepCopy\<close> and \<open>DeepCopyObject\<close> copy through a pointer.\<close>

lemma agrees_ptrI: "agrees F T f \<Longrightarrow> (\<And>i h. g i h = copy_ptr (zero F T) f i h) \<Longrightarrow> agrees F (TPtr T) g"
  using agrees_ptr [of T f] by (simp add: agrees_def)

lemma copy_ptr_nil: "(case copy_ptr z f i h of (c, h) \<Rightarrow> if c \<noteq> MNil then (c, h) else (MNil, h)) = copy_ptr z f i h"
  by (simp split: prod.split)

lemma agrees_DatabaseSpec_DeepCopy: "agrees F (TPtr DatabaseSpec_T) (DatabaseSpec_DeepCopy F)"
  by (rule agrees_ptrI [OF agrees_DatabaseSpec]) (rule DatabaseSpec_DeepCopy_def)

lemma agrees_MonitoringSpec_DeepCopy: "agrees F (TPtr MonitoringSpec_T) (MonitoringSpec_DeepCopy F)"
  by (rule agrees_ptrI [OF agrees_MonitoringSpec]) (rule MonitoringSpec_DeepCopy_def)

lemma agrees_PersistenceSpec_DeepCopy: "agrees F (TPtr PersistenceSpec_T) (PersistenceSpec_DeepCopy F)"
  by (rule agrees_ptrI [OF agrees_PersistenceSpec]) (rule PersistenceSpec_DeepCopy_def)

lemma agrees_StorageSpec_DeepCopy: "agrees F (TPtr StorageSpec_T) (StorageSpec_DeepCopy F)"
  by (rule agrees_ptrI [OF agrees_StorageSpec]) (rule StorageSpec_DeepCopy_def)

lemma agrees_IngressSpec_DeepCopy: "agrees F (TPtr IngressSpec_T) (IngressSpec_DeepCopy F)"
  by (rule agrees_ptrI [OF agrees_IngressSpec]) (rule IngressSpec_DeepCopy_def)

lemma agrees_ServiceExposeSpec_DeepCopy: "agrees F (TPtr ServiceExposeSpec_T) (ServiceExposeSpec_DeepCopy F)"
  by (rule agrees_ptrI [OF agrees_ServiceExposeSpec]) (rule ServiceExposeSpec_DeepCopy_def)

lemma agrees_PostgresClusterSpec_DeepCopy: "agrees F (TPtr PostgresClusterSpec_T) (PostgresClusterSpec_DeepCopy F)"
  by (rule agrees_ptrI [OF agrees_PostgresClusterSpec]) (rule PostgresClusterSpec_DeepCopy_def)

lemma agrees_PostgresClusterStatus_DeepCopy: "agrees F (TPtr PostgresClusterStatus_T) (PostgresClusterStatus_DeepCopy F)"
  by (rule agrees_ptrI [OF agrees_PostgresClusterStatus]) (rule PostgresClusterStatus_DeepCopy_def)

lemma agrees_PostgresCluster_DeepCopy: "agrees F (TPtr PostgresCluster_T) (PostgresCluster_DeepCopy F)"
  by (rule agrees_ptrI [OF agrees_PostgresCluster]) (rule PostgresCluster_DeepCopy_def)

lemma agrees_PostgresClusterList_DeepCopy: "agrees F (TPtr PostgresClusterList_T) (PostgresClusterList_DeepCopy F)"
  by (rule agrees_ptrI [OF agrees_PostgresClusterList]) (rule PostgresClusterList_DeepCopy_def)

lemma agrees_ValkeyClusterSpec_DeepCopy: "agrees F (TPtr ValkeyClusterSpec_T) (ValkeyClusterSpec_DeepCopy F)"
  by (rule agrees_ptrI [OF agrees_ValkeyClusterSpec]) (rule ValkeyClusterSpec_DeepCopy_def)

lemma agrees_ValkeyClusterStatus_DeepCopy: "agrees F (TPtr ValkeyClusterStatus_T) (ValkeyClusterStatus_DeepCopy F)"
  by (rule agrees_ptrI [OF agrees_ValkeyClusterStatus]) (rule ValkeyClusterStatus_DeepCopy_def)

lemma agrees_ValkeyCluster_DeepCopy: "agrees F (TPtr ValkeyCluster_T) (ValkeyCluster_DeepCopy F)"
  by (rule agrees_ptrI [OF agrees_ValkeyCluster]) (rule ValkeyCluster_DeepCopy_def)

lemma agrees_ValkeyClusterList_DeepCopy: "agrees F (TPtr ValkeyClusterList_T) (ValkeyClusterList_DeepCopy F)"
  by (rule agrees_ptrI [OF agrees_ValkeyClusterList]) (rule ValkeyClusterList_DeepCopy_def)

lemma agrees_GrafanaInstanceSpec_DeepCopy: "agrees F (TPtr GrafanaInstanceSpec_T) (GrafanaInstanceSpec_DeepCopy F)"
  by (rule agrees_ptrI [OF agrees_GrafanaInstanceSpec]) (rule GrafanaInstanceSpec_DeepCopy_def)

lemma agrees_GrafanaInstanceStatus_DeepCopy: "agrees F (TPtr GrafanaInstanceStatus_T) (GrafanaInstanceStatus_DeepCopy F)"
  by (rule agrees_ptrI [OF agrees_GrafanaInstanceStatus]) (rule GrafanaInstanceStatus_DeepCopy_def)

lemma agrees_GrafanaInstance_DeepCopy: "agrees F (TPtr GrafanaInstance_T) (GrafanaInstance_DeepCopy F)"
  by (rule agrees_ptrI [OF agrees_GrafanaInstance]) (rule GrafanaInstance_DeepCopy_def)

lemma agrees_GrafanaInstanceList_DeepCopy: "agrees F (TPtr GrafanaInstanceList_T) (GrafanaInstanceList_DeepCopy F)"
  by (rule agrees_ptrI [OF agrees_GrafanaInstanceList]) (rule GrafanaInstanceList_DeepCopy_def)

lemma agrees_MariaDBClusterSpec_DeepCopy: "agrees F (TPtr MariaDBClusterSpec_T) (MariaDBClusterSpec_DeepCopy F)"
  by (rule agrees_ptrI [OF agrees_MariaDBClusterSpec]) (rule MariaDBClusterSpec_DeepCopy_def)

lemma agrees_MariaDBClusterStatus_DeepCopy: "agrees F (TPtr MariaDBClusterStatus_T) (MariaDBClusterStatus_DeepCopy F)"
  by (rule agrees_ptrI [OF agrees_MariaDBClusterStatus]) (rule MariaDBClusterStatus_DeepCopy_def)

lemma agrees_MariaDBCluster_DeepCopy: "agrees F (TPtr MariaDBCluster_T) (MariaDBCluster_DeepCopy F)"
  by (rule agrees_ptrI [OF agrees_MariaDBCluster]) (rule MariaDBCluster_DeepCopy_def)

lemma agrees_MariaDBClusterList_DeepCopy: "agrees F (TPtr MariaDBClusterList_T) (MariaDBClusterList_DeepCopy F)"
  by (rule agrees_ptrI [OF agrees_MariaDBClusterList]) (rule MariaDBClusterList_DeepCopy_def)

lemma agrees_RabbitMQClusterSpec_DeepCopy: "agrees F (TPtr RabbitMQClusterSpec_T) (RabbitMQClusterSpec_DeepCopy F)"
  by (rule agrees_ptrI [OF agrees_RabbitMQClusterSpec]) (rule RabbitMQClusterSpec_DeepCopy_def)

lemma agrees_RabbitMQClusterStatus_DeepCopy: "agrees F (TPtr RabbitMQClusterStatus_T) (RabbitMQClusterStatus_DeepCopy F)"
  by (rule agrees_ptrI [OF agrees_RabbitMQClusterStatus]) (rule RabbitMQClusterStatus_DeepCopy_def)

lemma agrees_RabbitMQCluster_DeepCopy: "agrees F (TPtr RabbitMQCluster_T) (RabbitMQCluster_DeepCopy F)"
  by (rule agrees_ptrI [OF agrees_RabbitMQCluster]) (rule RabbitMQCluster_DeepCopy_def)

lemma agrees_RabbitMQClusterList_DeepCopy: "agrees F (TPtr RabbitMQClusterList_T) (RabbitMQClusterList_DeepCopy F)"
  by (rule agrees_ptrI [OF agrees_RabbitMQClusterList]) (rule RabbitMQClusterList_DeepCopy_def)

lemma agrees_PrometheusInstanceSpec_DeepCopy: "agrees F (TPtr PrometheusInstanceSpec_T) (PrometheusInstanceSpec_DeepCopy F)"
  by (rule agrees_ptrI [OF agrees_PrometheusInstanceSpec]) (rule PrometheusInstanceSpec_DeepCopy_def)

lemma agrees_PrometheusInstanceStatus_DeepCopy: "agrees F (TPtr PrometheusInstanceStatus_T) (PrometheusInstanceStatus_DeepCopy F)"
  by (rule agrees_ptrI [OF agrees_PrometheusInstanceStatus]) (rule PrometheusInstanceStatus_DeepCopy_def)

lemma agrees_PrometheusInstance_DeepCopy: "agrees F (TPtr PrometheusInstance_T) (PrometheusInstance_DeepCopy F)"
  by (rule agrees_ptrI [OF agrees_PrometheusInstance]) (rule PrometheusInstance_DeepCopy_def)

lemma agrees_PrometheusInstanceList_DeepCopy: "agrees F (TPtr PrometheusInstanceList_T) (PrometheusInstanceList_DeepCopy F)"
  by (rule agrees_ptrI [OF agrees_PrometheusInstanceList]) (rule PrometheusInstanceList_DeepCopy_def)

lemma agrees_PostgresCluster_DeepCopyObject: "agrees F (TPtr PostgresCluster_T) (PostgresCluster_DeepCopyObject F)"
  by (rule agrees_ptrI [OF agrees_PostgresCluster]) (simp only: PostgresCluster_DeepCopyObject_def PostgresCluster_DeepCopy_def copy_ptr_nil)

lemma agrees_PostgresClusterList_DeepCopyObject: "agrees F (TPtr PostgresClusterList_T) (PostgresClusterList_DeepCopyObject F)"
  by (rule agrees_ptrI [OF agrees_PostgresClusterList]) (simp only: PostgresClusterList_DeepCopyObject_def PostgresClusterList_DeepCopy_def copy_ptr_nil)

lemma agrees_ValkeyCluster_DeepCopyObject: "agrees F (TPtr ValkeyCluster_T) (ValkeyCluster_DeepCopyObject F)"
  by (rule agrees_ptrI [OF agrees_ValkeyCluster]) (simp only: ValkeyCluster_DeepCopyObject_def ValkeyCluster_DeepCopy_def copy_ptr_nil)

lemma agrees_ValkeyClusterList_DeepCopyObject: "agrees F (TPtr ValkeyClusterList_T) (ValkeyClusterList_DeepCopyObject F)"
  by (rule agrees_ptrI [OF agrees_ValkeyClusterList]) (simp only: ValkeyClusterList_DeepCopyObject_def ValkeyClusterList_DeepCopy_def copy_ptr_nil)

lemma agrees_GrafanaInstance_DeepCopyObject: "agrees F (TPtr GrafanaInstance_T) (GrafanaInstance_DeepCopyObject F)"
  by (rule agrees_ptrI [OF agrees_GrafanaInstance]) (simp only: GrafanaInstance_DeepCopyObject_def GrafanaInstance_DeepCopy_def copy_ptr_nil)

lemma agrees_GrafanaInstanceList_DeepCopyObject: "agrees F (TPtr GrafanaInstanceList_T) (GrafanaInstanceList_DeepCopyObject F)"
  by (rule agrees_ptrI [OF agrees_GrafanaInstanceList]) (simp only: GrafanaInstanceList_DeepCopyObject_def GrafanaInstanceList_DeepCopy_def copy_ptr_nil)

lemma agrees_MariaDBCluster_DeepCopyObject: "agrees F (TPtr MariaDBCluster_T) (MariaDBCluster_DeepCopyObject F)"
  by (rule agrees_ptrI [OF agrees_MariaDBCluster]) (simp only: MariaDBCluster_DeepCopyObject_def MariaDBCluster_DeepCopy_def copy_ptr_nil)

lemma agrees_MariaDBClusterList_DeepCopyObject: "agrees F (TPtr MariaDBClusterList_T) (MariaDBClusterList_DeepCopyObject F)"
  by (rule agrees_ptrI [OF agrees_MariaDBClusterList]) (simp only: MariaDBClusterList_DeepCopyObject_def MariaDBClusterList_DeepCopy_def copy_ptr_nil)

lemma agrees_RabbitMQCluster_DeepCopyObject: "agrees F (TPtr RabbitMQCluster_T) (RabbitMQCluster_DeepCopyObject F)"
  by (rule agrees_ptrI [OF agrees_RabbitMQCluster]) (simp only: RabbitMQCluster_DeepCopyObject_def RabbitMQCluster_DeepCopy_def copy_ptr_nil)

lemma agrees_RabbitMQClusterList_DeepCopyObject: "agrees F (TPtr RabbitMQClusterList_T) (RabbitMQClusterList_DeepCopyObject F)"
  by (rule agrees_ptrI [OF agrees_RabbitMQClusterList]) (simp only: RabbitMQClusterList_DeepCopyObject_def RabbitMQClusterList_DeepCopy_def copy_ptr_nil)

lemma agrees_PrometheusInstance_DeepCopyObject: "agrees F (TPtr PrometheusInstance_T) (PrometheusInstance_DeepCopyObject F)"
  by (rule agrees_ptrI [OF agrees_PrometheusInstance]) (simp only: PrometheusInstance_DeepCopyObject_def PrometheusInstance_DeepCopy_def copy_ptr_nil)

lemma agrees_PrometheusInstanceList_DeepCopyObject: "agrees F (TPtr PrometheusInstanceList_T) (PrometheusInstanceList_DeepCopyObject F)"
  by (rule agrees_ptrI [OF agrees_PrometheusInstanceList]) (simp only: PrometheusInstanceList_DeepCopyObject_def PrometheusInstanceList_DeepCopy_def copy_ptr_nil)

end

end
