(* ===== verification/Deepcopy_Properties.thy ===== *)
theory Deepcopy_Properties
  imports Api_Deepcopy
begin

text \<open>
  The properties of the generated deep copies, for all 42 \<^verbatim>\<open>DeepCopy\<close> and \<^verbatim>\<open>DeepCopyObject\<close> functions at once: each is the
  reference copy at its type, returns a well-typed value of the same contents, and shares no cell with the original.
\<close>

text \<open>Every function with the type of what its argument points to.\<close>

definition struct_copies :: "packages \<Rightarrow> (gotype \<times> copier) list" where
  "struct_copies F =
     [(DatabaseSpec_T, DatabaseSpec_DeepCopy F), (MonitoringSpec_T, MonitoringSpec_DeepCopy F),
      (PersistenceSpec_T, PersistenceSpec_DeepCopy F), (StorageSpec_T, StorageSpec_DeepCopy F),
      (IngressSpec_T, IngressSpec_DeepCopy F), (ServiceExposeSpec_T, ServiceExposeSpec_DeepCopy F),
      (PostgresClusterSpec_T, PostgresClusterSpec_DeepCopy F), (PostgresClusterStatus_T, PostgresClusterStatus_DeepCopy F),
      (PostgresCluster_T, PostgresCluster_DeepCopy F), (PostgresClusterList_T, PostgresClusterList_DeepCopy F),
      (ValkeyClusterSpec_T, ValkeyClusterSpec_DeepCopy F), (ValkeyClusterStatus_T, ValkeyClusterStatus_DeepCopy F),
      (ValkeyCluster_T, ValkeyCluster_DeepCopy F), (ValkeyClusterList_T, ValkeyClusterList_DeepCopy F),
      (GrafanaInstanceSpec_T, GrafanaInstanceSpec_DeepCopy F), (GrafanaInstanceStatus_T, GrafanaInstanceStatus_DeepCopy F),
      (GrafanaInstance_T, GrafanaInstance_DeepCopy F), (GrafanaInstanceList_T, GrafanaInstanceList_DeepCopy F),
      (MariaDBClusterSpec_T, MariaDBClusterSpec_DeepCopy F), (MariaDBClusterStatus_T, MariaDBClusterStatus_DeepCopy F),
      (MariaDBCluster_T, MariaDBCluster_DeepCopy F), (MariaDBClusterList_T, MariaDBClusterList_DeepCopy F),
      (RabbitMQClusterSpec_T, RabbitMQClusterSpec_DeepCopy F), (RabbitMQClusterStatus_T, RabbitMQClusterStatus_DeepCopy F),
      (RabbitMQCluster_T, RabbitMQCluster_DeepCopy F), (RabbitMQClusterList_T, RabbitMQClusterList_DeepCopy F),
      (PrometheusInstanceSpec_T, PrometheusInstanceSpec_DeepCopy F),
      (PrometheusInstanceStatus_T, PrometheusInstanceStatus_DeepCopy F),
      (PrometheusInstance_T, PrometheusInstance_DeepCopy F), (PrometheusInstanceList_T, PrometheusInstanceList_DeepCopy F)]"

definition object_copies :: "packages \<Rightarrow> (gotype \<times> copier) list" where
  "object_copies F =
     [(PostgresCluster_T, PostgresCluster_DeepCopyObject F), (PostgresClusterList_T, PostgresClusterList_DeepCopyObject F),
      (ValkeyCluster_T, ValkeyCluster_DeepCopyObject F), (ValkeyClusterList_T, ValkeyClusterList_DeepCopyObject F),
      (GrafanaInstance_T, GrafanaInstance_DeepCopyObject F), (GrafanaInstanceList_T, GrafanaInstanceList_DeepCopyObject F),
      (MariaDBCluster_T, MariaDBCluster_DeepCopyObject F), (MariaDBClusterList_T, MariaDBClusterList_DeepCopyObject F),
      (RabbitMQCluster_T, RabbitMQCluster_DeepCopyObject F), (RabbitMQClusterList_T, RabbitMQClusterList_DeepCopyObject F),
      (PrometheusInstance_T, PrometheusInstance_DeepCopyObject F),
      (PrometheusInstanceList_T, PrometheusInstanceList_DeepCopyObject F)]"

definition generated_copies :: "packages \<Rightarrow> (gotype \<times> copier) list" where
  "generated_copies F = struct_copies F @ object_copies F"

context packages_ok
begin

lemmas agrees_DeepCopy =
  agrees_DatabaseSpec_DeepCopy agrees_MonitoringSpec_DeepCopy agrees_PersistenceSpec_DeepCopy agrees_StorageSpec_DeepCopy
  agrees_IngressSpec_DeepCopy agrees_ServiceExposeSpec_DeepCopy
  agrees_PostgresClusterSpec_DeepCopy agrees_PostgresClusterStatus_DeepCopy agrees_PostgresCluster_DeepCopy agrees_PostgresClusterList_DeepCopy
  agrees_ValkeyClusterSpec_DeepCopy agrees_ValkeyClusterStatus_DeepCopy agrees_ValkeyCluster_DeepCopy agrees_ValkeyClusterList_DeepCopy
  agrees_GrafanaInstanceSpec_DeepCopy agrees_GrafanaInstanceStatus_DeepCopy agrees_GrafanaInstance_DeepCopy agrees_GrafanaInstanceList_DeepCopy
  agrees_MariaDBClusterSpec_DeepCopy agrees_MariaDBClusterStatus_DeepCopy agrees_MariaDBCluster_DeepCopy agrees_MariaDBClusterList_DeepCopy
  agrees_RabbitMQClusterSpec_DeepCopy agrees_RabbitMQClusterStatus_DeepCopy agrees_RabbitMQCluster_DeepCopy agrees_RabbitMQClusterList_DeepCopy
  agrees_PrometheusInstanceSpec_DeepCopy agrees_PrometheusInstanceStatus_DeepCopy agrees_PrometheusInstance_DeepCopy
  agrees_PrometheusInstanceList_DeepCopy

lemmas agrees_DeepCopyObject =
  agrees_PostgresCluster_DeepCopyObject agrees_PostgresClusterList_DeepCopyObject
  agrees_ValkeyCluster_DeepCopyObject agrees_ValkeyClusterList_DeepCopyObject
  agrees_GrafanaInstance_DeepCopyObject agrees_GrafanaInstanceList_DeepCopyObject
  agrees_MariaDBCluster_DeepCopyObject agrees_MariaDBClusterList_DeepCopyObject
  agrees_RabbitMQCluster_DeepCopyObject agrees_RabbitMQClusterList_DeepCopyObject
  agrees_PrometheusInstance_DeepCopyObject agrees_PrometheusInstanceList_DeepCopyObject

lemma struct_copies_agree: "list_all (\<lambda>(T, f). agrees F (TPtr T) f) (struct_copies F)"
  unfolding struct_copies_def list.pred_inject prod.case by (intro conjI list.pred_inject(1) agrees_DeepCopy)

lemma object_copies_agree: "list_all (\<lambda>(T, f). agrees F (TPtr T) f) (object_copies F)"
  unfolding object_copies_def list.pred_inject prod.case by (intro conjI list.pred_inject(1) agrees_DeepCopyObject)

lemma generated_copy_agrees: "(T, f) \<in> set (generated_copies F) \<Longrightarrow> agrees F (TPtr T) f"
  using struct_copies_agree object_copies_agree by (auto simp: generated_copies_def list_all_iff)

lemma generated_copier:
  "(T, f) \<in> set (generated_copies F) \<Longrightarrow>
    deep_copier (has_type F (TPtr T)) (deep_value F (TPtr T)) (foot F (TPtr T)) f"
  by (rule agrees_copier [OF generated_copy_agrees])

end

section \<open>The reference packages\<close>

text \<open>The four foreign types at the layout of their packages, as far as the CRs use them, copied by the reference copy.\<close>

definition no_packages :: packages where
  "no_packages n = \<lparr>fo_zero = MNil, fo_ok = (\<lambda>h m. False), fo_value = (\<lambda>h m. DNil), fo_foot = (\<lambda>h m. {}), fo_copy = Pair\<rparr>"

interpretation no_packages: packages_ok no_packages
  by (unfold_locales; simp add: no_packages_def)

definition foreign_of :: "gotype \<Rightarrow> foreign_type" where
  "foreign_of T = \<lparr>fo_zero = zero no_packages T, fo_ok = has_type no_packages T, fo_value = deep_value no_packages T,
     fo_foot = foot no_packages T, fo_copy = deep_copy no_packages T\<rparr>"

definition ref_ObjectMeta :: gotype where
  "ref_ObjectMeta = TStruct [(''Name'', TString), (''Namespace'', TString), (''Labels'', TMap), (''Annotations'', TMap),
     (''Finalizers'', TSlice TString)]"

definition ref_ListMeta :: gotype where
  "ref_ListMeta = TStruct [(''ResourceVersion'', TString), (''Continue'', TString)]"

definition ref_ResourceRequirements :: gotype where
  "ref_ResourceRequirements = TStruct [(''Limits'', TMap), (''Requests'', TMap)]"

definition ref_Condition :: gotype where
  "ref_Condition = TStruct [(''Type'', TString), (''Status'', TString), (''Reason'', TString), (''Message'', TString)]"

definition ref_packages :: packages where
  "ref_packages n =
     (if n = ''metav1.ObjectMeta'' then foreign_of ref_ObjectMeta
      else if n = ''metav1.ListMeta'' then foreign_of ref_ListMeta
      else if n = ''corev1.ResourceRequirements'' then foreign_of ref_ResourceRequirements
      else if n = ''metav1.Condition'' then foreign_of ref_Condition else no_packages n)"

interpretation ref_packages: packages_ok ref_packages
proof (rule packages_ok.intro)
  fix n
  show "deep_copier (fo_ok (ref_packages n)) (fo_value (ref_packages n)) (fo_foot (ref_packages n)) (fo_copy (ref_packages n))"
    using no_packages.deep_copy_copies no_packages.foreign [of n] by (simp add: ref_packages_def foreign_of_def)
qed

interpretation dashboard_copy: deep_copier "has_type ref_packages (TPtr GrafanaInstance_T)"
  "deep_value ref_packages (TPtr GrafanaInstance_T)" "foot ref_packages (TPtr GrafanaInstance_T)"
  "GrafanaInstance_DeepCopyObject ref_packages"
  by (rule ref_packages.agrees_copier [OF ref_packages.agrees_GrafanaInstance_DeepCopyObject])

text \<open>A pointer is nil exactly if its contents are.\<close>

lemma ptr_value_nil: "ptr_ok p h m \<Longrightarrow> ptr_value f h m = DNil \<longleftrightarrow> m = MNil"
  by (auto simp: ptr_ok_def ptr_value_def split: mem.splits cell.splits)

section \<open>Properties\<close>

text \<open>The memory of the witnesses: a GrafanaInstance with an ingress, its annotations, a finalizer and a condition.\<close>

definition demo_memory :: memory where
  "demo_memory = \<lparr>cells = (\<lambda>_. CVal MNil)
     (0 := CVal (MStruct
        [(''TypeMeta'', MStruct [(''Kind'', MStr ''GrafanaInstance''), (''APIVersion'', MStr ''paas.easter.io/v1alpha1'')]),
         (''ObjectMeta'', MStruct [(''Name'', MStr ''web''), (''Namespace'', MStr ''shop''), (''Labels'', MNil),
            (''Annotations'', MNil), (''Finalizers'', MRef 3)]),
         (''Spec'', MStruct [(''Version'', MStr ''''), (''Replicas'', MInt 2), (''Persistence'', MNil), (''Ingress'', MRef 1)]),
         (''Status'', MStruct [(''Ready'', MBool False), (''Phase'', MStr ''''), (''Replicas'', MInt 0), (''Message'', MStr ''''),
            (''Conditions'', MRef 4)])]),
      1 := CVal (MStruct [(''Host'', MStr ''web.local''), (''IngressClassName'', MStr ''''), (''TLSSecretName'', MStr ''''),
         (''Annotations'', MRef 2)]),
      2 := CMap (fmap_of_list [(''team'', ''shop'')]),
      3 := CSlice [MStr ''finalizer''],
      4 := CSlice [MStruct [(''Type'', MStr ''Ready''), (''Status'', MStr ''False''), (''Reason'', MStr ''''), (''Message'', MStr '''')]]),
     limit = 5\<rparr>"

abbreviation demo_copy :: "mem \<times> memory" where
  "demo_copy \<equiv> GrafanaInstance_DeepCopyObject ref_packages (MRef 0) demo_memory"

abbreviation demo_T :: gotype where
  "demo_T \<equiv> TPtr GrafanaInstance_T"

lemma demo_generated: "(GrafanaInstance_T, GrafanaInstance_DeepCopyObject F) \<in> set (generated_copies F)"
  by (simp add: generated_copies_def object_copies_def)

lemma demo_typed: "has_type ref_packages demo_T demo_memory (MRef 0)"
  by code_simp

text \<open>C23: the generated copies are the reference copy. Whatever the deep copies of the foreign packages do, at a pointer to a value of its type each of
  the 42 functions allocates the same cells with the same contents as the copy defined by recursion on the type.\<close>

theorem deep_copies_follow_types:
  assumes "packages_ok F" and "(T, f) \<in> set (generated_copies F)" and "has_type F (TPtr T) h p"
  shows "f p h = deep_copy F (TPtr T) p h"
  by (rule agreesD [OF packages_ok.generated_copy_agrees [OF assms(1,2)] assms(3)])

theorem deep_copies_follow_types_witness:
  "demo_copy = deep_copy ref_packages demo_T (MRef 0) demo_memory"
  by (rule deep_copies_follow_types [OF ref_packages.packages_ok_axioms demo_generated demo_typed])

text \<open>C19: a copy is a value of the same type and contents. Given a pointer to a value of the type, each function returns a pointer to one
  with the same contents, made of cells it allocated, and leaves the cells that were there as they were, so the
  original is a value of the type with the same contents still; nil is copied to nil.\<close>

theorem deep_copies_keep_contents:
  assumes "packages_ok F" and "(T, f) \<in> set (generated_copies F)" and "has_type F (TPtr T) h p" and "f p h = (q, h')"
  shows "has_type F (TPtr T) h' q \<and> deep_value F (TPtr T) h' q = deep_value F (TPtr T) h p \<and>
    foot F (TPtr T) h' q \<subseteq> {limit h..<limit h'} \<and> (q = MNil \<longleftrightarrow> p = MNil) \<and>
    (\<forall>a < limit h. cells h' a = cells h a) \<and>
    has_type F (TPtr T) h' p \<and> deep_value F (TPtr T) h' p = deep_value F (TPtr T) h p"
proof -
  note D = packages_ok.generated_copier [OF assms(1,2)]
  note E = deep_copier.copy_extends [OF D assms(3,4)]
  have "q = MNil \<longleftrightarrow> p = MNil"
    using deep_copier.copy_ok [OF D assms(3,4)] deep_copier.copy_val [OF D assms(3,4)] assms(3)
      ptr_value_nil [of "has_type F T" h' q "deep_value F T"] ptr_value_nil [of "has_type F T" h p "deep_value F T"]
    by simp
  with deep_copier.copies [OF D assms(3,4)] deep_copier.stable [OF D assms(3) E] E show ?thesis
    by (simp add: extends_def)
qed

theorem deep_copies_keep_contents_witness:
  "fst demo_copy = MRef 5 \<and> limit (snd demo_copy) = 10 \<and> has_type ref_packages demo_T (snd demo_copy) (MRef 5) \<and>
   deep_value ref_packages demo_T (snd demo_copy) (MRef 5) = deep_value ref_packages demo_T demo_memory (MRef 0)"
proof -
  have c: "fst demo_copy = MRef 5" "limit (snd demo_copy) = 10" by code_simp+
  then have "demo_copy = (MRef 5, snd demo_copy)" by (simp add: prod_eq_iff)
  from deep_copies_keep_contents [OF ref_packages.packages_ok_axioms demo_generated demo_typed this] c show ?thesis by blast
qed

text \<open>C18: a copy is isolated from its original. After the copy, whatever is written to the cells of the copy, and whatever is allocated, the
  original reads as before; and whatever is written to the cells of the original, the copy does.\<close>

theorem deep_copies_are_isolated:
  assumes "packages_ok F" and "(T, f) \<in> set (generated_copies F)" and "has_type F (TPtr T) h p" and "f p h = (q, h')"
    and "limit h' \<le> limit k"
  shows "foot F (TPtr T) h p \<inter> foot F (TPtr T) h' q = {} \<and>
    ((\<forall>a < limit h'. a \<notin> foot F (TPtr T) h' q \<longrightarrow> cells k a = cells h' a) \<longrightarrow>
      has_type F (TPtr T) k p \<and> deep_value F (TPtr T) k p = deep_value F (TPtr T) h p) \<and>
    ((\<forall>a < limit h'. a \<notin> foot F (TPtr T) h p \<longrightarrow> cells k a = cells h' a) \<longrightarrow>
      has_type F (TPtr T) k q \<and> deep_value F (TPtr T) k q = deep_value F (TPtr T) h p)"
  using deep_copier.isolated [OF packages_ok.generated_copier [OF assms(1,2)] assms(3,4)] assms(5) by blast

text \<open>The annotations of the copy are in cell 8.\<close>

theorem deep_copies_are_isolated_witness:
  "deep_value ref_packages demo_T (store 8 (CMap fmempty) (snd demo_copy)) (MRef 0) =
     deep_value ref_packages demo_T demo_memory (MRef 0) \<and>
   deep_value ref_packages demo_T (store 8 (CMap fmempty) (snd demo_copy)) (MRef 5) \<noteq>
     deep_value ref_packages demo_T demo_memory (MRef 0)"
proof -
  have "fst demo_copy = MRef 5" by code_simp
  then have c: "demo_copy = (MRef 5, snd demo_copy)" by (simp add: prod_eq_iff)
  have 8: "8 \<in> foot ref_packages demo_T (snd demo_copy) (MRef 5)" by code_simp
  have "\<forall>a < limit (snd demo_copy). a \<notin> foot ref_packages demo_T (snd demo_copy) (MRef 5) \<longrightarrow>
      cells (store 8 (CMap fmempty) (snd demo_copy)) a = cells (snd demo_copy) a"
    using 8 by auto
  with deep_copies_are_isolated [OF ref_packages.packages_ok_axioms demo_generated demo_typed c,
      of "store 8 (CMap fmempty) (snd demo_copy)"]
  have "deep_value ref_packages demo_T (store 8 (CMap fmempty) (snd demo_copy)) (MRef 0) =
      deep_value ref_packages demo_T demo_memory (MRef 0)"
    by simp
  moreover have "deep_value ref_packages demo_T (store 8 (CMap fmempty) (snd demo_copy)) (MRef 5) \<noteq>
      deep_value ref_packages demo_T demo_memory (MRef 0)"
    by code_simp
  ultimately show ?thesis by (rule conjI)
qed

end
