(* ===== verification/Operator_Main.thy ===== *)
theory Operator_Main
  imports Controllers "HOL-Library.Sublist"
begin

text \<open>
  \<^verbatim>\<open>cmd/main.go\<close>, the scheme registration of \<^verbatim>\<open>api/v1alpha1\<close> and \<^verbatim>\<open>SetupWithManager\<close>: from the command-line flags to the
  options of the manager and the sequence of calls that registers the controllers and starts it. The manager
  (controller-runtime) is a parameter: a record of calls over a world \<open>'m\<close>, each of which may fail.
  Logging is left out. The flags arrive as a record, \<open>default_flags\<close> holds the declared defaults; \<open>Flag_Parse\<close> reads them
  off the command line.
\<close>

section \<open>Flags and options\<close>

record flags =
  metricsAddr :: string
  probeAddr :: string
  enableLeaderElection :: bool
  secureMetrics :: bool
  webhookCertPath :: string
  webhookCertName :: string
  webhookCertKey :: string
  metricsCertPath :: string
  metricsCertName :: string
  metricsCertKey :: string
  enableHTTP2 :: bool

definition default_flags :: flags where
  "default_flags = \<lparr>metricsAddr = ''0'', probeAddr = '':8081'', enableLeaderElection = False, secureMetrics = True,
     webhookCertPath = '''', webhookCertName = ''tls.crt'', webhookCertKey = ''tls.key'',
     metricsCertPath = '''', metricsCertName = ''tls.crt'', metricsCertKey = ''tls.key'', enableHTTP2 = False\<rparr>"

text \<open>The field of \<^verbatim>\<open>tls.Config\<close> that is written.\<close>

record tls_Config =
  NextProtos :: "string list"

definition disableHTTP2 :: "tls_Config \<Rightarrow> tls_Config" where
  "disableHTTP2 c = c\<lparr>NextProtos := [''http/1.1'']\<rparr>"

record webhook_Options =
  wh_TLSOpts :: "(tls_Config \<Rightarrow> tls_Config) list"
  wh_CertDir :: string
  wh_CertName :: string
  wh_KeyName :: string

datatype filter_provider = WithAuthenticationAndAuthorization

record metrics_Options =
  ms_BindAddress :: string
  ms_SecureServing :: bool
  ms_TLSOpts :: "(tls_Config \<Rightarrow> tls_Config) list"
  ms_FilterProvider :: "filter_provider option"
  ms_CertDir :: string
  ms_CertName :: string
  ms_KeyName :: string

text \<open>A scheme as the kinds registered in it.\<close>

type_synonym type_scheme = "GroupVersionKind list"

record manager_Options =
  opt_Scheme :: type_scheme
  opt_Metrics :: metrics_Options
  opt_Webhook :: webhook_Options
  opt_HealthProbeBindAddress :: string
  opt_LeaderElection :: bool
  opt_LeaderElectionID :: string

section \<open>The scheme\<close>

definition paas_GVK :: "string \<Rightarrow> GroupVersionKind" where
  "paas_GVK kind = \<lparr>Group = ''paas.example.com'', Version = ''v1alpha1'', Kind = kind\<rparr>"

text \<open>What the \<open>init\<close> of each type file registers.\<close>

definition register_GrafanaInstance :: "type_scheme \<Rightarrow> type_scheme" where
  "register_GrafanaInstance s = s @ [paas_GVK ''GrafanaInstance'', paas_GVK ''GrafanaInstanceList'']"

definition register_MariaDBCluster :: "type_scheme \<Rightarrow> type_scheme" where
  "register_MariaDBCluster s = s @ [paas_GVK ''MariaDBCluster'', paas_GVK ''MariaDBClusterList'']"

definition register_PostgresCluster :: "type_scheme \<Rightarrow> type_scheme" where
  "register_PostgresCluster s = s @ [paas_GVK ''PostgresCluster'', paas_GVK ''PostgresClusterList'']"

definition register_PrometheusInstance :: "type_scheme \<Rightarrow> type_scheme" where
  "register_PrometheusInstance s = s @ [paas_GVK ''PrometheusInstance'', paas_GVK ''PrometheusInstanceList'']"

definition register_RabbitMQCluster :: "type_scheme \<Rightarrow> type_scheme" where
  "register_RabbitMQCluster s = s @ [paas_GVK ''RabbitMQCluster'', paas_GVK ''RabbitMQClusterList'']"

definition register_ValkeyCluster :: "type_scheme \<Rightarrow> type_scheme" where
  "register_ValkeyCluster s = s @ [paas_GVK ''ValkeyCluster'', paas_GVK ''ValkeyClusterList'']"

text \<open>What other packages put into a scheme: client-go its types, and \<^verbatim>\<open>metav1.AddToGroupVersion\<close> what every group and version has.\<close>

record scheme_libs =
  clientgo_AddToScheme :: "type_scheme \<Rightarrow> type_scheme"
  metav1_AddToGroupVersion :: "string \<times> string \<Rightarrow> type_scheme \<Rightarrow> type_scheme"

definition SchemeGroupVersion :: "string \<times> string" where
  "SchemeGroupVersion = (''paas.example.com'', ''v1alpha1'')"

text \<open>\<^verbatim>\<open>SchemeBuilder.AddToScheme\<close> runs the function the builder is made with, then the registered ones, in file order.\<close>

definition SchemeBuilder :: "scheme_libs \<Rightarrow> (type_scheme \<Rightarrow> type_scheme) list" where
  "SchemeBuilder reg = [metav1_AddToGroupVersion reg SchemeGroupVersion,
     register_GrafanaInstance,
     register_MariaDBCluster,
     register_PostgresCluster,
     register_PrometheusInstance,
     register_RabbitMQCluster,
     register_ValkeyCluster]"

definition AddToScheme :: "scheme_libs \<Rightarrow> type_scheme \<Rightarrow> type_scheme" where
  "AddToScheme reg s = fold (\<lambda>register s. register s) (SchemeBuilder reg) s"

lemmas scheme_defs = AddToScheme_def SchemeBuilder_def register_GrafanaInstance_def register_MariaDBCluster_def register_PostgresCluster_def register_PrometheusInstance_def register_RabbitMQCluster_def register_ValkeyCluster_def

text \<open>The package variable \<open>scheme\<close> after \<open>init\<close>.\<close>

definition init_scheme :: "scheme_libs \<Rightarrow> type_scheme" where
  "init_scheme reg = AddToScheme reg (clientgo_AddToScheme reg [])"

section \<open>From flags to options\<close>

definition main_tlsOpts :: "flags \<Rightarrow> (tls_Config \<Rightarrow> tls_Config) list" where
  "main_tlsOpts f = (if \<not> enableHTTP2 f then [] @ [disableHTTP2] else [])"

definition main_webhookOptions :: "flags \<Rightarrow> webhook_Options" where
  "main_webhookOptions f =
     (let opts = \<lparr>wh_TLSOpts = main_tlsOpts f, wh_CertDir = '''', wh_CertName = '''', wh_KeyName = ''''\<rparr>
      in if 0 < length (webhookCertPath f)
         then opts\<lparr>wh_CertDir := webhookCertPath f, wh_CertName := webhookCertName f, wh_KeyName := webhookCertKey f\<rparr>
         else opts)"

definition main_metricsOptions :: "flags \<Rightarrow> metrics_Options" where
  "main_metricsOptions f =
     (let opts = \<lparr>ms_BindAddress = metricsAddr f, ms_SecureServing = secureMetrics f, ms_TLSOpts = main_tlsOpts f,
            ms_FilterProvider = None, ms_CertDir = '''', ms_CertName = '''', ms_KeyName = ''''\<rparr>;
          opts = (if secureMetrics f then opts\<lparr>ms_FilterProvider := Some WithAuthenticationAndAuthorization\<rparr> else opts)
      in if 0 < length (metricsCertPath f)
         then opts\<lparr>ms_CertDir := metricsCertPath f, ms_CertName := metricsCertName f, ms_KeyName := metricsCertKey f\<rparr>
         else opts)"

definition main_managerOptions :: "scheme_libs \<Rightarrow> flags \<Rightarrow> manager_Options" where
  "main_managerOptions reg f =
     \<lparr>opt_Scheme = init_scheme reg, opt_Metrics = main_metricsOptions f, opt_Webhook = main_webhookOptions f,
      opt_HealthProbeBindAddress = probeAddr f, opt_LeaderElection = enableLeaderElection f,
      opt_LeaderElectionID = ''32cc4a18.example.com''\<rparr>"

section \<open>Registration and start\<close>

text \<open>
  The manager: \<open>mgr_Complete\<close> is the builder chain \<open>For\<close>, \<open>Named\<close>, \<open>Complete\<close> for a kind and a controller name.
  The world of the controllers is \<open>'w\<close>.
\<close>

record ('m, 'w) manager_api =
  mgr_GetConfigOrDie :: "'m \<Rightarrow> gerror option \<times> 'm"
  mgr_NewManager :: "manager_Options \<Rightarrow> 'm \<Rightarrow> gerror option \<times> 'm"
  mgr_GetEventRecorder :: "string \<Rightarrow> event \<Rightarrow> 'w \<Rightarrow> 'w"
  mgr_Complete :: "GroupVersionKind \<Rightarrow> string \<Rightarrow> 'm \<Rightarrow> gerror option \<times> 'm"
  mgr_AddHealthzCheck :: "string \<Rightarrow> 'm \<Rightarrow> gerror option \<times> 'm"
  mgr_AddReadyzCheck :: "string \<Rightarrow> 'm \<Rightarrow> gerror option \<times> 'm"
  mgr_Start :: "'m \<Rightarrow> gerror option \<times> 'm"

text \<open>\<^verbatim>\<open>mgr.GetClient()\<close> at the type of each kind.\<close>

record 'w clients =
  client_PostgresCluster :: "('w, PostgresCluster) Client"
  client_ValkeyCluster :: "('w, ValkeyCluster) Client"
  client_GrafanaInstance :: "('w, GrafanaInstance) Client"
  client_MariaDBCluster :: "('w, MariaDBCluster) Client"
  client_RabbitMQCluster :: "('w, RabbitMQCluster) Client"
  client_PrometheusInstance :: "('w, PrometheusInstance) Client"

definition SetupWithManager ::
    "('m, 'w) manager_api \<Rightarrow> GroupVersionKind \<Rightarrow> ('w, 'spec, 'status) GenericReconciler \<Rightarrow> 'm \<Rightarrow> gerror option \<times> 'm" where
  "SetupWithManager m gvk r = mgr_Complete m gvk (gr_Name r)"

text \<open>\<^verbatim>\<open>if err != nil { os.Exit(1) }\<close> after each step; the exit code and the world.\<close>

fun run_steps :: "('m \<Rightarrow> gerror option \<times> 'm) list \<Rightarrow> 'm \<Rightarrow> nat \<times> 'm" where
  "run_steps [] w = (0, w)"
| "run_steps (step # steps) w =
     (case step w of
        (Some _, w') \<Rightarrow> (1, w')
      | (None, w') \<Rightarrow> run_steps steps w')"

definition main_steps ::
    "k8s_libs \<Rightarrow> scheme_libs \<Rightarrow> ('m, 'w) manager_api \<Rightarrow> 'w clients \<Rightarrow> flags \<Rightarrow>
     ('m \<Rightarrow> gerror option \<times> 'm) list" where
  "main_steps L reg m c f =
     [mgr_GetConfigOrDie m,
      mgr_NewManager m (main_managerOptions reg f),
      SetupWithManager m (paas_GVK ''PostgresCluster'')
        (NewPostgresClusterReconciler L (client_PostgresCluster c) (mgr_GetEventRecorder m ''postgrescluster-operator'')),
      SetupWithManager m (paas_GVK ''ValkeyCluster'')
        (NewValkeyClusterReconciler L (client_ValkeyCluster c) (mgr_GetEventRecorder m ''valkeycluster-operator'')),
      SetupWithManager m (paas_GVK ''GrafanaInstance'')
        (NewGrafanaInstanceReconciler L (client_GrafanaInstance c) (mgr_GetEventRecorder m ''grafanainstance-operator'')),
      SetupWithManager m (paas_GVK ''MariaDBCluster'')
        (NewMariaDBClusterReconciler L (client_MariaDBCluster c) (mgr_GetEventRecorder m ''mariadbcluster-operator'')),
      SetupWithManager m (paas_GVK ''RabbitMQCluster'')
        (NewRabbitMQClusterReconciler L (client_RabbitMQCluster c) (mgr_GetEventRecorder m ''rabbitmqcluster-operator'')),
      SetupWithManager m (paas_GVK ''PrometheusInstance'')
        (NewPrometheusInstanceReconciler L (client_PrometheusInstance c) (mgr_GetEventRecorder m ''prometheusinstance-operator'')),
      mgr_AddHealthzCheck m ''healthz'',
      mgr_AddReadyzCheck m ''readyz'',
      mgr_Start m]"

definition operator_main ::
    "k8s_libs \<Rightarrow> scheme_libs \<Rightarrow> ('m, 'w) manager_api \<Rightarrow> 'w clients \<Rightarrow> flags \<Rightarrow> 'm \<Rightarrow> nat \<times> 'm" where
  "operator_main L reg m c f = run_steps (main_steps L reg m c f)"

section \<open>What a start-up does\<close>

text \<open>
  A manager that records the calls it gets and fails as \<open>fails\<close> says of the calls so far, the latest
  included: every behaviour of the real one as far as \<open>main\<close> can see it. The world is the record.
\<close>

datatype main_call =
    MGetConfig
  | MNewManager manager_Options
  | MComplete GroupVersionKind string
  | MHealthz string
  | MReadyz string
  | MStart

definition logged :: "(main_call list \<Rightarrow> bool) \<Rightarrow> main_call \<Rightarrow> main_call list \<Rightarrow> gerror option \<times> main_call list" where
  "logged fails c log = (if fails (log @ [c]) then Some (PlainError ''failed'') else None, log @ [c])"

definition logging_api :: "(main_call list \<Rightarrow> bool) \<Rightarrow> (string \<Rightarrow> event \<Rightarrow> 'w \<Rightarrow> 'w) \<Rightarrow> (main_call list, 'w) manager_api" where
  "logging_api fails rec =
     \<lparr>mgr_GetConfigOrDie = logged fails MGetConfig, mgr_NewManager = (\<lambda>opts. logged fails (MNewManager opts)),
      mgr_GetEventRecorder = rec, mgr_Complete = (\<lambda>gvk name. logged fails (MComplete gvk name)),
      mgr_AddHealthzCheck = (\<lambda>n. logged fails (MHealthz n)), mgr_AddReadyzCheck = (\<lambda>n. logged fails (MReadyz n)),
      mgr_Start = logged fails MStart\<rparr>"

text \<open>The calls of an undisturbed start.\<close>

definition registrations :: "(string \<times> string) list" where
  "registrations =
     [(''PostgresCluster'', ''postgrescluster''), (''ValkeyCluster'', ''valkeycluster''),
      (''GrafanaInstance'', ''grafanainstance''), (''MariaDBCluster'', ''mariadbcluster''),
      (''RabbitMQCluster'', ''rabbitmqcluster''), (''PrometheusInstance'', ''prometheusinstance'')]"

definition main_plan :: "manager_Options \<Rightarrow> main_call list" where
  "main_plan opts = [MGetConfig, MNewManager opts] @ map (\<lambda>(k, n). MComplete (paas_GVK k) n) registrations @
     [MHealthz ''healthz'', MReadyz ''readyz'', MStart]"

lemma main_steps_logging:
  "main_steps L reg (logging_api fails rec) c f = map (logged fails) (main_plan (main_managerOptions reg f))"
  by (simp add: main_steps_def logging_api_def main_plan_def registrations_def SetupWithManager_def controller_defs
    PostgresClusterControllerName_def ValkeyClusterControllerName_def GrafanaInstanceControllerName_def
    MariaDBClusterControllerName_def RabbitMQClusterControllerName_def PrometheusInstanceControllerName_def)

lemma run_steps_logged:
  "run_steps (map (logged fails) plan) log = (code, log') \<Longrightarrow>
   \<exists>did. log' = log @ did \<and> prefix did plan \<and>
     (code = 0 \<longrightarrow> did = plan) \<and> (code \<noteq> 0 \<longrightarrow> code = 1 \<and> did \<noteq> [] \<and> fails log') \<and>
     (\<forall>p. prefix p did \<and> p \<noteq> [] \<and> (code = 0 \<or> p \<noteq> did) \<longrightarrow> \<not> fails (log @ p))"
proof (induction plan arbitrary: log)
  case Nil
  then show ?case by simp
next
  case (Cons c plan)
  show ?case
  proof (cases "fails (log @ [c])")
    case True
    with Cons.prems have "log' = log @ [c]" "code = 1" by (simp_all add: logged_def)
    with True show ?thesis by (intro exI [of _ "[c]"]) (auto simp: prefix_Cons)
  next
    case False
    with Cons.prems have "run_steps (map (logged fails) plan) (log @ [c]) = (code, log')"
      by (simp add: logged_def [of fails c log])
    from Cons.IH [OF this] obtain ds where ds: "log' = (log @ [c]) @ ds" "prefix ds plan"
      "code = 0 \<longrightarrow> ds = plan" "code \<noteq> 0 \<longrightarrow> code = 1 \<and> ds \<noteq> [] \<and> fails log'"
      "\<forall>p. prefix p ds \<and> p \<noteq> [] \<and> (code = 0 \<or> p \<noteq> ds) \<longrightarrow> \<not> fails ((log @ [c]) @ p)" by auto
    have "\<not> fails (log @ p)" if "prefix p (c # ds)" "p \<noteq> []" "code = 0 \<or> p \<noteq> c # ds" for p
    proof -
      from that obtain p' where p: "p = c # p'" "prefix p' ds" by (cases p) auto
      with ds(5) that False show ?thesis by (cases "p' = []") auto
    qed
    with ds show ?thesis by (intro exI [of _ "c # ds"]) auto
  qed
qed

lemma main_tlsOpts_effect: "fold (\<lambda>opt. opt) (main_tlsOpts f) c = (if enableHTTP2 f then c else c\<lparr>NextProtos := [''http/1.1'']\<rparr>)"
  by (simp add: main_tlsOpts_def disableHTTP2_def)

end
