(* ===== verification/Flag_Parse.thy ===== *)
theory Flag_Parse
  imports Operator_Main
begin

text \<open>
  The command line of \<^verbatim>\<open>cmd/main.go\<close>: the flags it declares, and Go's \<^verbatim>\<open>flag.Parse\<close> on them. The flags other packages
  declare on the same command line (\<^verbatim>\<open>zap.Options.BindFlags\<close>, controller-runtime's \<^verbatim>\<open>-kubeconfig\<close>) are a parameter: which names
  they use, which of them are boolean, and what setting one does to their state \<open>'z\<close>, on which \<open>main\<close> does not depend.
\<close>

section \<open>The flags of the operator\<close>

text \<open>A declared flag: its name, its default, and the variable it sets.\<close>

datatype flag_decl =
    StringVar string string "string \<Rightarrow> flags \<Rightarrow> flags"
  | BoolVar string bool "bool \<Rightarrow> flags \<Rightarrow> flags"

fun decl_name :: "flag_decl \<Rightarrow> string" where
  "decl_name (StringVar n _ _) = n"
| "decl_name (BoolVar n _ _) = n"

text \<open>Declaring a flag sets its variable to the default.\<close>

fun declare_flag :: "flag_decl \<Rightarrow> flags \<Rightarrow> flags" where
  "declare_flag (StringVar _ d set_var) f = set_var d f"
| "declare_flag (BoolVar _ d set_var) f = set_var d f"

definition main_flags :: "flag_decl list" where
  "main_flags =
     [StringVar ''metrics-bind-address'' ''0'' (\<lambda>v. metricsAddr_update (\<lambda>_. v)),
      StringVar ''health-probe-bind-address'' '':8081'' (\<lambda>v. probeAddr_update (\<lambda>_. v)),
      BoolVar ''leader-elect'' False (\<lambda>b. enableLeaderElection_update (\<lambda>_. b)),
      BoolVar ''metrics-secure'' True (\<lambda>b. secureMetrics_update (\<lambda>_. b)),
      StringVar ''webhook-cert-path'' '''' (\<lambda>v. webhookCertPath_update (\<lambda>_. v)),
      StringVar ''webhook-cert-name'' ''tls.crt'' (\<lambda>v. webhookCertName_update (\<lambda>_. v)),
      StringVar ''webhook-cert-key'' ''tls.key'' (\<lambda>v. webhookCertKey_update (\<lambda>_. v)),
      StringVar ''metrics-cert-path'' '''' (\<lambda>v. metricsCertPath_update (\<lambda>_. v)),
      StringVar ''metrics-cert-name'' ''tls.crt'' (\<lambda>v. metricsCertName_update (\<lambda>_. v)),
      StringVar ''metrics-cert-key'' ''tls.key'' (\<lambda>v. metricsCertKey_update (\<lambda>_. v)),
      BoolVar ''enable-http2'' False (\<lambda>b. enableHTTP2_update (\<lambda>_. b))]"

text \<open>The variables before the declarations: Go's zero values.\<close>

definition zero_flags :: flags where
  "zero_flags = \<lparr>metricsAddr = '''', probeAddr = '''', enableLeaderElection = False, secureMetrics = False,
     webhookCertPath = '''', webhookCertName = '''', webhookCertKey = '''',
     metricsCertPath = '''', metricsCertName = '''', metricsCertKey = '''', enableHTTP2 = False\<rparr>"

lemma declared_defaults: "fold declare_flag main_flags zero_flags = default_flags"
  by (simp add: main_flags_def zero_flags_def default_flags_def)

section \<open>One argument\<close>

text \<open>\<^verbatim>\<open>strconv.ParseBool\<close>.\<close>

definition ParseBool :: "string \<Rightarrow> bool option" where
  "ParseBool s =
     (if s \<in> set [''1'', ''t'', ''T'', ''true'', ''TRUE'', ''True''] then Some True
      else if s \<in> set [''0'', ''f'', ''F'', ''false'', ''FALSE'', ''False''] then Some False
      else None)"

text \<open>How \<^verbatim>\<open>flag.Parse\<close> reads an argument: not a flag, the terminator \<open>--\<close>, no name, or a name with perhaps a value.\<close>

datatype argument =
    NotAFlag
  | Terminator
  | BadSyntax
  | Named string "string option"

text \<open>The name ends at the first \<open>=\<close>.\<close>

fun cut_value :: "string \<Rightarrow> string \<times> string option" where
  "cut_value [] = ([], None)"
| "cut_value (c # cs) = (if c = CHR ''='' then ([], Some cs) else (case cut_value cs of (n, v) \<Rightarrow> (c # n, v)))"

definition named :: "string \<Rightarrow> argument" where
  "named name =
     (if name = [] \<or> hd name = CHR ''-'' \<or> hd name = CHR ''='' then BadSyntax
      else (case cut_value name of (n, v) \<Rightarrow> Named n v))"

fun read_argument :: "string \<Rightarrow> argument" where
  "read_argument [] = NotAFlag"
| "read_argument [c] = NotAFlag"
| "read_argument (c # d # s) =
     (if c \<noteq> CHR ''-'' then NotAFlag
      else if d \<noteq> CHR ''-'' then named (d # s)
      else if s = [] then Terminator
      else named s)"

section \<open>Parse\<close>

record 'z foreign_flags =
  foreign_IsBool :: "string \<Rightarrow> bool option"
  foreign_Set :: "string \<Rightarrow> string \<Rightarrow> 'z \<Rightarrow> 'z option"

datatype flag_error = ErrHelp | FlagError

text \<open>A flag found under a name: one of \<open>main\<close>'s or another package's.\<close>

datatype flag_ref = Own flag_decl | Foreign string bool

definition lookup_flag :: "'z foreign_flags \<Rightarrow> string \<Rightarrow> flag_ref option" where
  "lookup_flag F name =
     (case find (\<lambda>d. decl_name d = name) main_flags of
        Some d \<Rightarrow> Some (Own d)
      | None \<Rightarrow> map_option (Foreign name) (foreign_IsBool F name))"

fun is_bool_flag :: "flag_ref \<Rightarrow> bool" where
  "is_bool_flag (Own (BoolVar _ _ _)) = True"
| "is_bool_flag (Own (StringVar _ _ _)) = False"
| "is_bool_flag (Foreign _ b) = b"

fun set_flag :: "'z foreign_flags \<Rightarrow> flag_ref \<Rightarrow> string \<Rightarrow> flags \<times> 'z \<Rightarrow> (flags \<times> 'z) option" where
  "set_flag F (Own (StringVar _ _ set_var)) v (f, z) = Some (set_var v f, z)"
| "set_flag F (Own (BoolVar _ _ set_var)) v (f, z) = map_option (\<lambda>b. (set_var b f, z)) (ParseBool v)"
| "set_flag F (Foreign name _) v (f, z) = map_option (Pair f) (foreign_Set F name v z)"

text \<open>The state after the flags, and the arguments left.\<close>

fun flag_Parse ::
    "'z foreign_flags \<Rightarrow> string list \<Rightarrow> flags \<times> 'z \<Rightarrow> flag_error + (flags \<times> 'z) \<times> string list" where
  "flag_Parse F [] st = Inr (st, [])"
| "flag_Parse F (s # args) st =
     (case read_argument s of
        NotAFlag \<Rightarrow> Inr (st, s # args)
      | Terminator \<Rightarrow> Inr (st, args)
      | BadSyntax \<Rightarrow> Inl FlagError
      | Named name value \<Rightarrow>
          (case lookup_flag F name of
             None \<Rightarrow> Inl (if name = ''help'' \<or> name = ''h'' then ErrHelp else FlagError)
           | Some flag \<Rightarrow>
               if is_bool_flag flag then
                 (case set_flag F flag (case value of Some v \<Rightarrow> v | None \<Rightarrow> ''true'') st of
                    None \<Rightarrow> Inl FlagError
                  | Some st' \<Rightarrow> flag_Parse F args st')
               else
                 (case value of
                    Some v \<Rightarrow>
                      (case set_flag F flag v st of
                         None \<Rightarrow> Inl FlagError
                       | Some st' \<Rightarrow> flag_Parse F args st')
                  | None \<Rightarrow>
                      (case args of
                         [] \<Rightarrow> Inl FlagError
                       | v # args' \<Rightarrow>
                           (case set_flag F flag v st of
                              None \<Rightarrow> Inl FlagError
                            | Some st' \<Rightarrow> flag_Parse F args' st')))))"

section \<open>The process\<close>

text \<open>
  Declaring a name twice panics, which ends the process with status 2, as a rejected command line does
  (\<^verbatim>\<open>flag.ExitOnError\<close>); asking for help ends it with 0. What follows a good command line is \<open>operator_main\<close>.
\<close>

definition operator_process ::
    "k8s_libs \<Rightarrow> scheme_libs \<Rightarrow> 'z foreign_flags \<Rightarrow> 'z \<Rightarrow> ('m, 'w) manager_api \<Rightarrow> 'w clients \<Rightarrow>
     string list \<Rightarrow> 'm \<Rightarrow> nat \<times> 'm" where
  "operator_process L reg F z m c args w =
     (if list_ex (\<lambda>d. foreign_IsBool F (decl_name d) \<noteq> None) main_flags then (2, w)
      else (case flag_Parse F args (fold declare_flag main_flags zero_flags, z) of
              Inl ErrHelp \<Rightarrow> (0, w)
            | Inl FlagError \<Rightarrow> (2, w)
            | Inr ((f, _), _) \<Rightarrow> operator_main L reg m c f w))"

text \<open>The arguments the manifests start it with: \<^verbatim>\<open>config/manager/manager.yaml\<close> and the metrics patch of \<^verbatim>\<open>config/default\<close>.\<close>

definition manager_args :: "string list" where
  "manager_args = [''--leader-elect'', ''--health-probe-bind-address=:8081'']"

definition manager_metrics_patch :: "string list \<Rightarrow> string list" where
  "manager_metrics_patch args = ''--metrics-bind-address=:8443'' # args"

definition deployed_args :: "string list" where
  "deployed_args = manager_metrics_patch manager_args"

section \<open>Reading back what was printed\<close>

text \<open>A name as \<^verbatim>\<open>flag.Parse\<close> can tell it from the dashes before it and the value after it.\<close>

definition plain_name :: "string \<Rightarrow> bool" where
  "plain_name n \<longleftrightarrow> n \<noteq> [] \<and> hd n \<noteq> CHR ''-'' \<and> CHR ''='' \<notin> set n"

abbreviation dashes :: "bool \<Rightarrow> string" where
  "dashes two \<equiv> (if two then ''--'' else ''-'')"

lemma cut_value_plain [simp]:
  "CHR ''='' \<notin> set n \<Longrightarrow> cut_value n = (n, None)"
  "CHR ''='' \<notin> set n \<Longrightarrow> cut_value (n @ CHR ''='' # v) = (n, Some v)"
  by (induction n) auto

lemma read_plain:
  assumes "plain_name n"
  shows "read_argument (CHR ''-'' # n) = Named n None"
    and "read_argument (CHR ''-'' # CHR ''-'' # n) = Named n None"
    and "read_argument (CHR ''-'' # n @ CHR ''='' # v) = Named n (Some v)"
    and "read_argument (CHR ''-'' # CHR ''-'' # n @ CHR ''='' # v) = Named n (Some v)"
  using assms by (cases n; auto simp: plain_name_def named_def)+

text \<open>
  The ways to write a flag: one dash or two, and, for the value, joined by \<open>=\<close> or not; not joined, a string follows as an
  argument of its own and a true boolean is left out. A boolean that is written is one of six texts.
\<close>

definition bool_texts :: "bool \<Rightarrow> string list" where
  "bool_texts b = (if b then [''1'', ''t'', ''T'', ''true'', ''TRUE'', ''True'']
     else [''0'', ''f'', ''F'', ''false'', ''FALSE'', ''False''])"

type_synonym flag_style = "bool \<times> bool \<times> nat"

fun print_flag :: "flag_style \<Rightarrow> string \<Rightarrow> string + bool \<Rightarrow> string list" where
  "print_flag (two, joined, i) n (Inl v) = (if joined then [dashes two @ n @ CHR ''='' # v] else [dashes two @ n, v])"
| "print_flag (two, joined, i) n (Inr b) =
     (if b \<and> \<not> joined then [dashes two @ n] else [dashes two @ n @ CHR ''='' # bool_texts b ! (i mod 6)])"

lemma ParseBool_texts: "ParseBool (bool_texts b ! (i mod 6)) = Some b"
proof -
  have "i mod 6 < 6" by simp
  then have "i mod 6 \<in> {0, 1, 2, 3, 4, 5}" by auto
  then show ?thesis by (cases b) (auto simp: bool_texts_def ParseBool_def)
qed

lemma ParseBool_true: "ParseBool ''true'' = Some True"
  by (simp add: ParseBool_def)

text \<open>Giving a flag a value of its type.\<close>

definition gives_flag :: "string \<Rightarrow> string + bool \<Rightarrow> bool" where
  "gives_flag n v \<longleftrightarrow> (case find (\<lambda>d. decl_name d = n) main_flags of
      Some (StringVar _ _ _) \<Rightarrow> isl v | Some (BoolVar _ _ _) \<Rightarrow> \<not> isl v | None \<Rightarrow> False)"

definition give_flag :: "string \<Rightarrow> string + bool \<Rightarrow> flags \<Rightarrow> flags" where
  "give_flag n v f = (case find (\<lambda>d. decl_name d = n) main_flags of
      Some (StringVar _ _ set_var) \<Rightarrow> (case v of Inl s \<Rightarrow> set_var s f | Inr _ \<Rightarrow> f)
    | Some (BoolVar _ _ set_var) \<Rightarrow> (case v of Inr b \<Rightarrow> set_var b f | Inl _ \<Rightarrow> f)
    | None \<Rightarrow> f)"

lemma main_flags_plain: "find (\<lambda>d. decl_name d = n) main_flags = Some d \<Longrightarrow> plain_name n"
proof -
  have "list_all (\<lambda>d. plain_name (decl_name d)) main_flags" by (simp add: main_flags_def plain_name_def)
  then show "find (\<lambda>d. decl_name d = n) main_flags = Some d \<Longrightarrow> plain_name n"
    by (auto simp: find_Some_iff list_all_length)
qed

lemma parse_printed_flag:
  assumes "gives_flag n v"
  shows "flag_Parse F (print_flag style n v @ args) (f, z) = flag_Parse F args (give_flag n v f, z)"
proof -
  from assms obtain d where d: "find (\<lambda>d. decl_name d = n) main_flags = Some d"
    by (auto simp: gives_flag_def split: option.splits)
  obtain two joined i where style: "style = (two, joined, i)" by (metis prod.exhaust)
  note R = read_plain [OF main_flags_plain [OF d]] lookup_flag_def
  show ?thesis
  proof (cases d)
    case (StringVar m x set_var)
    with assms d obtain s where "v = Inl s" by (cases v) (auto simp: gives_flag_def)
    with d StringVar style show ?thesis by (auto simp: R give_flag_def simp del: read_argument.simps)
  next
    case (BoolVar m x set_var)
    with assms d obtain b where "v = Inr b" by (cases v) (auto simp: gives_flag_def)
    with d BoolVar style show ?thesis
      by (auto simp: R give_flag_def ParseBool_texts ParseBool_true simp del: read_argument.simps)
  qed
qed

text \<open>A command line gives flags in any order, some perhaps several times.\<close>

definition print_flags :: "(string \<times> flag_style \<times> (string + bool)) list \<Rightarrow> string list" where
  "print_flags xs = concat (map (\<lambda>(n, style, v). print_flag style n v) xs)"

lemma parse_print_flags:
  assumes "list_all (\<lambda>(n, style, v). gives_flag n v) xs"
  shows "flag_Parse F (print_flags xs @ args) (f, z) = flag_Parse F args (fold (\<lambda>(n, style, v). give_flag n v) xs f, z)"
  using assms by (induction xs arbitrary: f) (auto simp: print_flags_def parse_printed_flag)

text \<open>The values of all flags.\<close>

definition flag_values :: "flags \<Rightarrow> (string \<times> (string + bool)) list" where
  "flag_values f =
     [(''metrics-bind-address'', Inl (metricsAddr f)), (''health-probe-bind-address'', Inl (probeAddr f)),
      (''leader-elect'', Inr (enableLeaderElection f)), (''metrics-secure'', Inr (secureMetrics f)),
      (''webhook-cert-path'', Inl (webhookCertPath f)), (''webhook-cert-name'', Inl (webhookCertName f)),
      (''webhook-cert-key'', Inl (webhookCertKey f)), (''metrics-cert-path'', Inl (metricsCertPath f)),
      (''metrics-cert-name'', Inl (metricsCertName f)), (''metrics-cert-key'', Inl (metricsCertKey f)),
      (''enable-http2'', Inr (enableHTTP2 f))]"

definition flag_value :: "flags \<Rightarrow> string \<rightharpoonup> string + bool" where
  "flag_value f = map_of (flag_values f)"

lemma flag_value_inject: "flag_value f = flag_value g \<longleftrightarrow> f = g"
proof
  assume "flag_value f = flag_value g"
  then have "map (flag_value f) (map fst (flag_values f)) = map (flag_value g) (map fst (flag_values f))" by simp
  then show "f = g" by (simp add: flag_value_def flag_values_def flags.equality)
qed simp

lemma declared_value:
  assumes "d \<in> set main_flags"
  shows "case d of StringVar n _ set_var \<Rightarrow> \<forall>s. flag_value (set_var s f) = (flag_value f)(n \<mapsto> Inl s)
    | BoolVar n _ set_var \<Rightarrow> \<forall>b. flag_value (set_var b f) = (flag_value f)(n \<mapsto> Inr b)"
proof -
  have "list_all (\<lambda>d. case d of StringVar n _ set_var \<Rightarrow> \<forall>s k. flag_value (set_var s f) k = ((flag_value f)(n \<mapsto> Inl s)) k
    | BoolVar n _ set_var \<Rightarrow> \<forall>b k. flag_value (set_var b f) k = ((flag_value f)(n \<mapsto> Inr b)) k) main_flags"
    unfolding main_flags_def list.pred_inject flag_decl.case
    by (intro conjI; simp add: flag_value_def flag_values_def)
  with assms show ?thesis by (auto simp: list_all_iff fun_eq_iff split: flag_decl.splits)
qed

lemma flag_value_give:
  assumes "gives_flag n v"
  shows "flag_value (give_flag n v f) = (flag_value f)(n \<mapsto> v)"
proof -
  from assms obtain d where d: "find (\<lambda>d. decl_name d = n) main_flags = Some d"
    by (auto simp: gives_flag_def split: option.splits)
  then have "d \<in> set main_flags" "decl_name d = n" by (auto simp: find_Some_iff)
  with declared_value [of d f] assms d show ?thesis
    by (cases d; cases v) (auto simp: gives_flag_def give_flag_def)
qed

lemma flag_value_fold:
  assumes "list_all (\<lambda>(n, style, v). gives_flag n v) xs"
  shows "flag_value (fold (\<lambda>(n, style, v). give_flag n v) xs f) = flag_value f ++ map_of (rev (map (\<lambda>(n, style, v). (n, v)) xs))"
  using assms by (induction xs arbitrary: f) (auto simp: flag_value_give map_add_def fun_eq_iff split: option.splits)

section \<open>A flag nobody names keeps its value\<close>

definition keeps :: "'z foreign_flags \<Rightarrow> (flags \<times> 'z \<Rightarrow> bool) \<Rightarrow> string \<Rightarrow> bool" where
  "keeps F I s \<longleftrightarrow> (\<forall>name vl flag v st st'. read_argument s = Named name vl \<longrightarrow> lookup_flag F name = Some flag \<longrightarrow>
     set_flag F flag v st = Some st' \<longrightarrow> I st \<longrightarrow> I st')"

lemma keepsD:
  "keeps F I s \<Longrightarrow> read_argument s = Named name vl \<Longrightarrow> lookup_flag F name = Some flag \<Longrightarrow> I st \<Longrightarrow>
   set_flag F flag v st = Some st' \<Longrightarrow> I st'"
  unfolding keeps_def by blast

lemma flag_Parse_keeps:
  "flag_Parse F args st = Inr (st', rest) \<Longrightarrow> I st \<Longrightarrow> list_all (keeps F I) args \<Longrightarrow> I st'"
proof (induction F args st rule: flag_Parse.induct)
  case (1 F st)
  then show ?case by simp
next
  case (2 F s args st)
  show ?case
  proof (cases "read_argument s")
    case (Named name vl)
    note R = this
    show ?thesis
    proof (cases "lookup_flag F name")
      case (Some flag)
      from "2.prems"(3) have s: "keeps F I s" and later: "list_all (keeps F I) args" by simp_all
      note keep = keepsD [OF s R Some "2.prems"(2)]
      show ?thesis
      proof (cases "is_bool_flag flag")
        case True
        with R Some "2.prems"(1) obtain st2 where st2:
          "set_flag F flag (case vl of Some v \<Rightarrow> v | None \<Rightarrow> ''true'') st = Some st2"
          "flag_Parse F args st2 = Inr (st', rest)"
          by (auto split: option.splits)
        show ?thesis by (rule "2.IH"(1) [OF R Some True st2 keep [OF st2(1)] later])
      next
        case False
        show ?thesis
        proof (cases vl)
          case (Some v)
          with R \<open>lookup_flag F name = Some flag\<close> False "2.prems"(1) obtain st2 where st2:
            "set_flag F flag v st = Some st2" "flag_Parse F args st2 = Inr (st', rest)"
            by (auto split: option.splits)
          show ?thesis
            by (rule "2.IH"(3) [OF R \<open>lookup_flag F name = Some flag\<close> False Some st2 keep [OF st2(1)] later])
        next
          case None
          with R \<open>lookup_flag F name = Some flag\<close> False "2.prems"(1) obtain v args' st2 where st2:
            "args = v # args'" "set_flag F flag v st = Some st2" "flag_Parse F args' st2 = Inr (st', rest)"
            by (auto split: option.splits list.splits)
          from later st2(1) have "list_all (keeps F I) args'" by simp
          then show ?thesis
            by (rule "2.IH"(2) [OF R \<open>lookup_flag F name = Some flag\<close> False None st2 keep [OF st2(2)]])
        qed
      qed
    qed (use R "2.prems" in simp)
  qed (use "2.prems" in auto)
qed

lemma cut_value_prefix: "prefix (fst (cut_value t)) t"
  by (induction t) (auto split: prod.splits)

lemma named_prefix: "named t = Named n v \<Longrightarrow> prefix n t"
  using cut_value_prefix [of t] by (auto simp: named_def split: if_splits prod.splits)

lemma read_argument_prefix:
  "read_argument s = Named n v \<Longrightarrow> prefix (''-'' @ n) s \<or> prefix (''--'' @ n) s"
  by (cases s rule: read_argument.cases) (auto split: if_splits dest: named_prefix)

text \<open>Only an argument that starts with the flag's name changes its variable.\<close>

lemma flag_kept:
  assumes "flag_Parse F args (f, z) = Inr ((f', z'), rest)"
    and "\<And>s. s \<in> set args \<Longrightarrow> \<not> prefix (''-'' @ n) s \<and> \<not> prefix (''--'' @ n) s"
    and others: "\<And>d v f z f2 z2. d \<in> set main_flags \<Longrightarrow> decl_name d \<noteq> n \<Longrightarrow> set_flag F (Own d) v (f, z) = Some (f2, z2) \<Longrightarrow>
      field f2 = field f"
  shows "field f' = field f"
proof -
  let ?I = "\<lambda>st. field (fst st) = field f"
  have "keeps F ?I s" if s: "s \<in> set args" for s
    unfolding keeps_def
  proof (intro allI impI)
    fix name vl flag v st st'
    assume r: "read_argument s = Named name vl" and l: "lookup_flag F name = Some flag"
      and set: "set_flag F flag v st = Some st'" and st: "?I st"
    from s r assms(2) have n: "name \<noteq> n" using read_argument_prefix by blast
    have "field (fst st') = field (fst st)"
    proof (cases flag)
      case (Own d)
      with l have "d \<in> set main_flags" "decl_name d = name"
        by (auto simp: lookup_flag_def find_Some_iff split: option.splits)
      with n others [of d v "fst st" "snd st" "fst st'" "snd st'"] set Own show ?thesis by simp
    next
      case (Foreign n' b)
      with set show ?thesis by (cases st) auto
    qed
    with st show "?I st'" by simp
  qed
  with flag_Parse_keeps [of F args "(f, z)" "(f', z')" rest ?I] assms(1) show ?thesis
    by (simp add: list_all_iff)
qed

lemma http2_kept:
  assumes "flag_Parse F args (f, z) = Inr ((f', z'), rest)"
    and "\<And>s. s \<in> set args \<Longrightarrow> \<not> prefix ''-enable-http2'' s \<and> \<not> prefix ''--enable-http2'' s"
  shows "enableHTTP2 f' = enableHTTP2 f"
  by (rule flag_kept [OF assms(1), of "''enable-http2''"]) (use assms(2) in \<open>auto simp: main_flags_def\<close>)

lemma secure_kept:
  assumes "flag_Parse F args (f, z) = Inr ((f', z'), rest)"
    and "\<And>s. s \<in> set args \<Longrightarrow> \<not> prefix ''-metrics-secure'' s \<and> \<not> prefix ''--metrics-secure'' s"
  shows "secureMetrics f' = secureMetrics f"
  by (rule flag_kept [OF assms(1), of "''metrics-secure''"]) (use assms(2) in \<open>auto simp: main_flags_def\<close>)

end
