(* ===== verification/Pattern.thy ===== *)
theory Pattern
  imports Prelude
begin

text \<open>
  Patterns of text, as the schemas of the CRDs use them: regular expressions over classes of characters, the set of texts they
  stand for, and a matcher by derivatives. The patterns are anchored at both ends, so a text matches as a whole.
\<close>

text \<open>A class is a list of ranges of character codes.\<close>

type_synonym char_class = "(char \<times> char) list"

definition in_class :: "char_class \<Rightarrow> char \<Rightarrow> bool" where
  "in_class rs c \<longleftrightarrow> list_ex (\<lambda>(a, b). (of_char a :: nat) \<le> of_char c \<and> (of_char c :: nat) \<le> of_char b) rs"

datatype rexp =
    Nothing
  | Empty
  | Class char_class
  | Alt rexp rexp
  | Seq rexp rexp
  | Rep rexp

abbreviation Opt :: "rexp \<Rightarrow> rexp" where
  "Opt r \<equiv> Alt Empty r"

abbreviation Rep1 :: "rexp \<Rightarrow> rexp" where
  "Rep1 r \<equiv> Seq r (Rep r)"

definition Lit :: "char \<Rightarrow> rexp" where
  "Lit c = Class [(c, c)]"

primrec lang :: "rexp \<Rightarrow> string set" where
  "lang Nothing = {}"
| "lang Empty = {''''}"
| "lang (Class rs) = {[c] |c. in_class rs c}"
| "lang (Alt r q) = lang r \<union> lang q"
| "lang (Seq r q) = {u @ v |u v. u \<in> lang r \<and> v \<in> lang q}"
| "lang (Rep r) = {concat ws |ws. set ws \<subseteq> lang r}"

section \<open>The matcher\<close>

primrec nullable :: "rexp \<Rightarrow> bool" where
  "nullable Nothing = False"
| "nullable Empty = True"
| "nullable (Class rs) = False"
| "nullable (Alt r q) = (nullable r \<or> nullable q)"
| "nullable (Seq r q) = (nullable r \<and> nullable q)"
| "nullable (Rep r) = True"

primrec deriv :: "char \<Rightarrow> rexp \<Rightarrow> rexp" where
  "deriv c Nothing = Nothing"
| "deriv c Empty = Nothing"
| "deriv c (Class rs) = (if in_class rs c then Empty else Nothing)"
| "deriv c (Alt r q) = Alt (deriv c r) (deriv c q)"
| "deriv c (Seq r q) = (if nullable r then Alt (Seq (deriv c r) q) (deriv c q) else Seq (deriv c r) q)"
| "deriv c (Rep r) = Seq (deriv c r) (Rep r)"

definition matches :: "rexp \<Rightarrow> string \<Rightarrow> bool" where
  "matches r s \<longleftrightarrow> nullable (fold deriv s r)"

lemma nullable_iff: "nullable r \<longleftrightarrow> '''' \<in> lang r"
  by (induction r) (auto intro: exI [of _ "[]"])

lemma Rep_Cons: "c # s \<in> lang (Rep r) \<longleftrightarrow> (\<exists>u v. s = u @ v \<and> c # u \<in> lang r \<and> v \<in> lang (Rep r))"
proof
  assume "c # s \<in> lang (Rep r)"
  then obtain ws where "c # s = concat ws" "set ws \<subseteq> lang r" by auto
  then show "\<exists>u v. s = u @ v \<and> c # u \<in> lang r \<and> v \<in> lang (Rep r)"
  proof (induction ws)
    case (Cons w ws)
    show ?case
    proof (cases w)
      case Nil
      with Cons show ?thesis by simp
    next
      case (Cons d u)
      with Cons.prems have "s = u @ concat ws" "c # u \<in> lang r" "concat ws \<in> lang (Rep r)" by auto
      then show ?thesis by blast
    qed
  qed simp
next
  assume "\<exists>u v. s = u @ v \<and> c # u \<in> lang r \<and> v \<in> lang (Rep r)"
  then obtain u ws where "s = u @ concat ws" "c # u \<in> lang r" "set ws \<subseteq> lang r" by auto
  then have "c # s = concat ((c # u) # ws)" "set ((c # u) # ws) \<subseteq> lang r" by simp_all
  then show "c # s \<in> lang (Rep r)" by (metis (mono_tags, lifting) lang.simps(6) mem_Collect_eq)
qed

lemma deriv_iff: "s \<in> lang (deriv c r) \<longleftrightarrow> c # s \<in> lang r"
proof (induction r arbitrary: s)
  case (Seq r q)
  have "c # s \<in> lang (Seq r q) \<longleftrightarrow> ('''' \<in> lang r \<and> c # s \<in> lang q) \<or> (\<exists>u v. s = u @ v \<and> c # u \<in> lang r \<and> v \<in> lang q)"
    by (auto simp: Cons_eq_append_conv)
  with Seq show ?case by (auto simp: nullable_iff)
next
  case (Rep r)
  then show ?case unfolding Rep_Cons by auto
qed auto

theorem matches_iff: "matches r s \<longleftrightarrow> s \<in> lang r"
  unfolding matches_def by (induction s arbitrary: r) (simp_all add: nullable_iff deriv_iff)

text \<open>Repeated classes and texts in pieces.\<close>

lemma lang_Rep_Class: "s \<in> lang (Rep (Class rs)) \<longleftrightarrow> list_all (in_class rs) s"
proof (induction s)
  case Nil
  then show ?case by (auto intro: exI [of _ "[]"])
next
  case (Cons c s)
  then show ?case unfolding Rep_Cons by auto
qed

lemma lang_Seq_Class: "s \<in> lang (Seq (Class rs) r) \<longleftrightarrow> (\<exists>c t. s = c # t \<and> in_class rs c \<and> t \<in> lang r)"
  by auto (metis append_Cons append_Nil)

lemma lang_Seq_Class_last: "s \<in> lang (Seq r (Class rs)) \<longleftrightarrow> (\<exists>c t. s = t @ [c] \<and> in_class rs c \<and> t \<in> lang r)"
  by auto

lemma lang_Seq_iff: "s \<in> lang (Seq r q) \<longleftrightarrow> (\<exists>u v. s = u @ v \<and> u \<in> lang r \<and> v \<in> lang q)"
  by auto

declare lang.simps(5,6) [simp del]

end
