(* ===== verification/Crd_Schema.thy ===== *)
theory Crd_Schema
  imports Status_Json Pattern
begin

text \<open>
  Custom resource definitions: the OpenAPI schemas they hold, what the API server makes of an object with them (it fills in the
  defaults, then accepts or refuses), and the rest of a definition. The part of the schema language is the one the files under
  \<^verbatim>\<open>config/crd/bases\<close> use. Text is counted in bytes.
\<close>

section \<open>Schemas\<close>

record string_facets =
  sf_format :: "string option"
  sf_enum :: "string list option"
  sf_minLength :: "nat option"
  sf_maxLength :: "nat option"
  sf_pattern :: "rexp option"

definition plain_string :: string_facets where
  "plain_string = \<lparr>sf_format = None, sf_enum = None, sf_minLength = None, sf_maxLength = None, sf_pattern = None\<rparr>"

text \<open>
  By \<open>type\<close> and the keys that go with it: an object has properties, each with its default, and the names that are required; a
  map has \<open>additionalProperties\<close>; the items of an array may be keyed (\<open>x-kubernetes-list-map-keys\<close>); \<open>x-kubernetes-int-or-string\<close>
  has a pattern for the text.
\<close>

datatype schema =
    StringSchema string_facets
  | IntegerSchema (int_format: "string option") (int_minimum: "int option")
  | BooleanSchema
  | IntOrStringSchema rexp
  | MapSchema schema
  | ArraySchema schema "string list"
  | ObjectSchema "(string \<times> gval option \<times> schema) list" "string list"

definition string_ok :: "time_lib \<Rightarrow> string_facets \<Rightarrow> string \<Rightarrow> bool" where
  "string_ok T f s \<longleftrightarrow>
     (sf_format f = Some ''date-time'' \<longrightarrow> is_date_time T s) \<and>
     (case sf_enum f of None \<Rightarrow> True | Some vs \<Rightarrow> s \<in> set vs) \<and>
     (case sf_minLength f of None \<Rightarrow> True | Some n \<Rightarrow> n \<le> length s) \<and>
     (case sf_maxLength f of None \<Rightarrow> True | Some n \<Rightarrow> length s \<le> n) \<and>
     (case sf_pattern f of None \<Rightarrow> True | Some r \<Rightarrow> matches r s)"

definition int_ok :: "string option \<Rightarrow> int option \<Rightarrow> int64 \<Rightarrow> bool" where
  "int_ok fmt least i \<longleftrightarrow>
     (fmt = Some ''int32'' \<longrightarrow> - (2 ^ 31) \<le> sint i \<and> sint i < 2 ^ 31) \<and>
     (case least of None \<Rightarrow> True | Some n \<Rightarrow> n \<le> sint i)"

text \<open>The value of a keyed item at its keys.\<close>

definition item_keys :: "string list \<Rightarrow> gval \<Rightarrow> gval option list" where
  "item_keys ks v = map (fmlookup (as_object v)) ks"

fun conforms :: "time_lib \<Rightarrow> schema \<Rightarrow> gval \<Rightarrow> bool" where
  "conforms T (StringSchema f) v = (case v of GStr s \<Rightarrow> string_ok T f s | _ \<Rightarrow> False)"
| "conforms T (IntegerSchema fmt least) v = (case v of GInt i \<Rightarrow> int_ok fmt least i | _ \<Rightarrow> False)"
| "conforms T BooleanSchema v = (case v of GBool _ \<Rightarrow> True | _ \<Rightarrow> False)"
| "conforms T (IntOrStringSchema r) v = (case v of GInt _ \<Rightarrow> True | GStr s \<Rightarrow> matches r s | _ \<Rightarrow> False)"
| "conforms T (MapSchema s) v = (case v of GMap m \<Rightarrow> fmpred (\<lambda>_ x. conforms T s x) m | _ \<Rightarrow> False)"
| "conforms T (ArraySchema s ks) v = (case v of
      GSlice vs \<Rightarrow> list_all (conforms T s) vs \<and> (ks \<noteq> [] \<longrightarrow> distinct (map (item_keys ks) vs))
    | _ \<Rightarrow> False)"
| "conforms T (ObjectSchema props req) v = (case v of
      GMap m \<Rightarrow>
        list_all (\<lambda>(k, d, s). case fmlookup m k of None \<Rightarrow> True | Some x \<Rightarrow> conforms T s x) props \<and>
        list_all (\<lambda>k. fmlookup m k \<noteq> None) req
    | _ \<Rightarrow> False)"

text \<open>Defaults: a missing property is set, then the properties that are there are filled in themselves.\<close>

fun fill :: "schema \<Rightarrow> gval \<Rightarrow> gval" where
  "fill (MapSchema s) v = (case v of GMap m \<Rightarrow> GMap (fmmap (fill s) m) | _ \<Rightarrow> v)"
| "fill (ArraySchema s ks) v = (case v of GSlice vs \<Rightarrow> GSlice (map (fill s) vs) | _ \<Rightarrow> v)"
| "fill (ObjectSchema props req) v = (case v of
      GMap m \<Rightarrow> GMap (fold (\<lambda>(k, d, s) m.
        case (case fmlookup m k of Some x \<Rightarrow> Some x | None \<Rightarrow> d) of
          Some x \<Rightarrow> fmupd k (fill s x) m
        | None \<Rightarrow> m) props m)
    | _ \<Rightarrow> v)"
| "fill s v = v"

end
