(* ===== verification/Crds.thy ===== *)
theory Crds
  imports Crd_Schema
begin

text \<open>
  The six custom resource definitions of \<^verbatim>\<open>config/crd/bases\<close>, key by key; descriptions are left out. A block that is the same in
  several files (resources, expose, persistence, ingress, condition) is a definition of its own.
\<close>

section \<open>Patterns\<close>

text \<open>\<^verbatim>\<open>^[A-Za-z]([A-Za-z0-9_,:]*[A-Za-z0-9_])?$\<close>\<close>

definition reason_pattern :: rexp where
  "reason_pattern =
     Seq (Class [(CHR ''A'', CHR ''Z''), (CHR ''a'', CHR ''z'')])
       (Opt (Seq
         (Rep (Class [(CHR ''A'', CHR ''Z''), (CHR ''a'', CHR ''z''), (CHR ''0'', CHR ''9''), (CHR ''_'', CHR ''_''),
            (CHR '','', CHR '',''), (CHR '':'', CHR '':'')]))
         (Class [(CHR ''A'', CHR ''Z''), (CHR ''a'', CHR ''z''), (CHR ''0'', CHR ''9''), (CHR ''_'', CHR ''_'')])))"

text \<open>\<^verbatim>\<open>[a-z0-9]([-a-z0-9]*[a-z0-9])?\<close>, \<^verbatim>\<open>([A-Za-z0-9][-A-Za-z0-9_.]*)?[A-Za-z0-9]\<close>, and
  \<^verbatim>\<open>^(label(\.label)*/)?(name)$\<close>\<close>

definition label_pattern :: rexp where
  "label_pattern =
     Seq (Class [(CHR ''a'', CHR ''z''), (CHR ''0'', CHR ''9'')])
       (Opt (Seq
         (Rep (Class [(CHR ''-'', CHR ''-''), (CHR ''a'', CHR ''z''), (CHR ''0'', CHR ''9'')]))
         (Class [(CHR ''a'', CHR ''z''), (CHR ''0'', CHR ''9'')])))"

definition name_pattern :: rexp where
  "name_pattern =
     Seq (Opt (Seq
         (Class [(CHR ''A'', CHR ''Z''), (CHR ''a'', CHR ''z''), (CHR ''0'', CHR ''9'')])
         (Rep (Class [(CHR ''-'', CHR ''-''), (CHR ''A'', CHR ''Z''), (CHR ''a'', CHR ''z''), (CHR ''0'', CHR ''9''),
            (CHR ''_'', CHR ''_''), (CHR ''.'', CHR ''.'')]))))
       (Class [(CHR ''A'', CHR ''Z''), (CHR ''a'', CHR ''z''), (CHR ''0'', CHR ''9'')])"

definition condition_type_pattern :: rexp where
  "condition_type_pattern =
     Seq (Opt (Seq (Seq label_pattern (Rep (Seq (Lit CHR ''.'') label_pattern))) (Lit CHR ''/''))) name_pattern"

text \<open>\<^verbatim>\<open>^(\+|-)?(([0-9]+(\.[0-9]*)?)|(\.[0-9]+))(([KMGTPE]i)|[numkMGTPE]|([eE](\+|-)?(([0-9]+(\.[0-9]*)?)|(\.[0-9]+))))?$\<close>\<close>

definition sign_pattern :: rexp where
  "sign_pattern = Opt (Alt (Lit CHR ''+'') (Lit CHR ''-''))"

definition decimal_pattern :: rexp where
  "decimal_pattern =
     (let d = Class [(CHR ''0'', CHR ''9'')]
      in Alt (Seq (Rep1 d) (Opt (Seq (Lit CHR ''.'') (Rep d)))) (Seq (Lit CHR ''.'') (Rep1 d)))"

definition quantity_pattern :: rexp where
  "quantity_pattern =
     Seq sign_pattern (Seq decimal_pattern (Opt
       (Alt (Seq (Class (map (\<lambda>c. (c, c)) ''KMGTPE'')) (Lit CHR ''i''))
       (Alt (Class (map (\<lambda>c. (c, c)) ''numkMGTPE''))
         (Seq (Class (map (\<lambda>c. (c, c)) ''eE'')) (Seq sign_pattern decimal_pattern))))))"

section \<open>Definitions\<close>

record crd_column =
  col_Name :: string
  col_Type :: string
  col_JSONPath :: string

record crd =
  crd_Name :: string
  crd_Group :: string
  crd_Kind :: string
  crd_ListKind :: string
  crd_Plural :: string
  crd_Singular :: string
  crd_ShortNames :: "string list"
  crd_Scope :: string
  crd_Version :: string
  crd_Columns :: "crd_column list"
  crd_Schema :: schema
  crd_Served :: bool
  crd_Storage :: bool
  crd_Status :: bool

definition database_schema :: schema where
  "database_schema =
    ObjectSchema
      [(''name'', None, StringSchema plain_string),
       (''owner'', None, StringSchema plain_string)]
      [''name'', ''owner'']"

definition expose_schema :: schema where
  "expose_schema =
    ObjectSchema
      [(''annotations'', None, MapSchema (StringSchema plain_string)),
       (''type'', Some (GStr ''LoadBalancer''), StringSchema (plain_string\<lparr>sf_enum := Some [''LoadBalancer'', ''NodePort'']\<rparr>))]
      []"

definition monitoring_schema :: schema where
  "monitoring_schema =
    ObjectSchema
      [(''enablePodMonitor'', Some (GBool True), BooleanSchema)]
      []"

definition claim_schema :: schema where
  "claim_schema =
    ObjectSchema
      [(''name'', None, StringSchema plain_string),
       (''request'', None, StringSchema plain_string)]
      [''name'']"

definition resources_schema :: schema where
  "resources_schema =
    ObjectSchema
      [(''claims'', None, ArraySchema claim_schema [''name'']),
       (''limits'', None, MapSchema (IntOrStringSchema quantity_pattern)),
       (''requests'', None, MapSchema (IntOrStringSchema quantity_pattern))]
      []"

definition storage_schema :: schema where
  "storage_schema =
    ObjectSchema
      [(''size'', None, StringSchema plain_string),
       (''storageClass'', None, StringSchema plain_string)]
      [''size'']"

definition PostgresCluster_spec_schema :: schema where
  "PostgresCluster_spec_schema =
    ObjectSchema
      [(''database'', None, database_schema),
       (''expose'', None, expose_schema),
       (''image'', None, StringSchema plain_string),
       (''instances'', Some (GInt 1), IntegerSchema (Some ''int32'') (Some 1)),
       (''monitoring'', None, monitoring_schema),
       (''resources'', None, resources_schema),
       (''storage'', None, storage_schema)]
      [''database'', ''storage'']"

definition condition_schema :: schema where
  "condition_schema =
    ObjectSchema
      [(''lastTransitionTime'', None, StringSchema (plain_string\<lparr>sf_format := Some ''date-time''\<rparr>)),
       (''message'', None, StringSchema (plain_string\<lparr>sf_maxLength := Some 32768\<rparr>)),
       (''observedGeneration'', None, IntegerSchema (Some ''int64'') (Some 0)),
       (''reason'', None, StringSchema (plain_string\<lparr>sf_minLength := Some 1, sf_maxLength := Some 1024, sf_pattern := Some reason_pattern\<rparr>)),
       (''status'', None, StringSchema (plain_string\<lparr>sf_enum := Some [''True'', ''False'', ''Unknown'']\<rparr>)),
       (''type'', None, StringSchema (plain_string\<lparr>sf_maxLength := Some 316, sf_pattern := Some condition_type_pattern\<rparr>))]
      [''lastTransitionTime'', ''message'', ''reason'', ''status'', ''type'']"

definition PostgresCluster_status_schema :: schema where
  "PostgresCluster_status_schema =
    ObjectSchema
      [(''conditions'', None, ArraySchema condition_schema [''type'']),
       (''instances'', None, IntegerSchema (Some ''int32'') None),
       (''message'', None, StringSchema plain_string),
       (''phase'', None, StringSchema plain_string),
       (''ready'', None, BooleanSchema),
       (''readyInstances'', None, IntegerSchema (Some ''int32'') None)]
      []"

definition PostgresCluster_crd :: crd where
  "PostgresCluster_crd = \<lparr>
     crd_Name = ''postgresclusters.paas.example.com'', crd_Group = ''paas.example.com'', crd_Kind = ''PostgresCluster'', crd_ListKind = ''PostgresClusterList'',
     crd_Plural = ''postgresclusters'', crd_Singular = ''postgrescluster'', crd_ShortNames = [''pgc''],
     crd_Scope = ''Namespaced'', crd_Version = ''v1alpha1'',
     crd_Columns =
      [\<lparr>col_Name = ''Instances'', col_Type = ''integer'', col_JSONPath = ''.spec.instances''\<rparr>,
       \<lparr>col_Name = ''Ready'', col_Type = ''boolean'', col_JSONPath = ''.status.ready''\<rparr>,
       \<lparr>col_Name = ''Phase'', col_Type = ''string'', col_JSONPath = ''.status.phase''\<rparr>,
       \<lparr>col_Name = ''Age'', col_Type = ''date'', col_JSONPath = ''.metadata.creationTimestamp''\<rparr>],
     crd_Schema = ObjectSchema
      [(''apiVersion'', None, StringSchema plain_string),
       (''kind'', None, StringSchema plain_string),
       (''metadata'', None, ObjectSchema [] []),
       (''spec'', None, PostgresCluster_spec_schema),
       (''status'', None, PostgresCluster_status_schema)]
      [''spec''],
     crd_Served = True, crd_Storage = True, crd_Status = True\<rparr>"

definition persistence_schema :: schema where
  "persistence_schema =
    ObjectSchema
      [(''size'', None, StringSchema plain_string),
       (''storageClass'', None, StringSchema plain_string)]
      [''size'']"

definition ValkeyCluster_spec_schema :: schema where
  "ValkeyCluster_spec_schema =
    ObjectSchema
      [(''expose'', None, expose_schema),
       (''image'', None, StringSchema plain_string),
       (''persistence'', None, persistence_schema),
       (''replicas'', Some (GInt 0), IntegerSchema (Some ''int32'') (Some 0)),
       (''resources'', None, resources_schema),
       (''shards'', Some (GInt 1), IntegerSchema (Some ''int32'') (Some 1))]
      [''persistence'']"

definition ValkeyCluster_status_schema :: schema where
  "ValkeyCluster_status_schema =
    ObjectSchema
      [(''conditions'', None, ArraySchema condition_schema [''type'']),
       (''message'', None, StringSchema plain_string),
       (''phase'', None, StringSchema plain_string),
       (''ready'', None, BooleanSchema),
       (''readyShards'', None, IntegerSchema (Some ''int32'') None),
       (''shards'', None, IntegerSchema (Some ''int32'') None)]
      []"

definition ValkeyCluster_crd :: crd where
  "ValkeyCluster_crd = \<lparr>
     crd_Name = ''valkeyclusters.paas.example.com'', crd_Group = ''paas.example.com'', crd_Kind = ''ValkeyCluster'', crd_ListKind = ''ValkeyClusterList'',
     crd_Plural = ''valkeyclusters'', crd_Singular = ''valkeycluster'', crd_ShortNames = [''vkc''],
     crd_Scope = ''Namespaced'', crd_Version = ''v1alpha1'',
     crd_Columns =
      [\<lparr>col_Name = ''Shards'', col_Type = ''integer'', col_JSONPath = ''.spec.shards''\<rparr>,
       \<lparr>col_Name = ''Ready'', col_Type = ''boolean'', col_JSONPath = ''.status.ready''\<rparr>,
       \<lparr>col_Name = ''Phase'', col_Type = ''string'', col_JSONPath = ''.status.phase''\<rparr>,
       \<lparr>col_Name = ''Age'', col_Type = ''date'', col_JSONPath = ''.metadata.creationTimestamp''\<rparr>],
     crd_Schema = ObjectSchema
      [(''apiVersion'', None, StringSchema plain_string),
       (''kind'', None, StringSchema plain_string),
       (''metadata'', None, ObjectSchema [] []),
       (''spec'', None, ValkeyCluster_spec_schema),
       (''status'', None, ValkeyCluster_status_schema)]
      [''spec''],
     crd_Served = True, crd_Storage = True, crd_Status = True\<rparr>"

definition ingress_schema :: schema where
  "ingress_schema =
    ObjectSchema
      [(''annotations'', None, MapSchema (StringSchema plain_string)),
       (''host'', None, StringSchema plain_string),
       (''ingressClassName'', None, StringSchema plain_string),
       (''tlsSecretName'', None, StringSchema plain_string)]
      [''host'']"

definition GrafanaInstance_spec_schema :: schema where
  "GrafanaInstance_spec_schema =
    ObjectSchema
      [(''ingress'', None, ingress_schema),
       (''persistence'', None, persistence_schema),
       (''replicas'', Some (GInt 1), IntegerSchema (Some ''int32'') (Some 0)),
       (''version'', None, StringSchema plain_string)]
      []"

definition GrafanaInstance_status_schema :: schema where
  "GrafanaInstance_status_schema =
    ObjectSchema
      [(''conditions'', None, ArraySchema condition_schema [''type'']),
       (''message'', None, StringSchema plain_string),
       (''phase'', None, StringSchema plain_string),
       (''ready'', None, BooleanSchema),
       (''replicas'', None, IntegerSchema (Some ''int32'') None)]
      []"

definition GrafanaInstance_crd :: crd where
  "GrafanaInstance_crd = \<lparr>
     crd_Name = ''grafanainstances.paas.example.com'', crd_Group = ''paas.example.com'', crd_Kind = ''GrafanaInstance'', crd_ListKind = ''GrafanaInstanceList'',
     crd_Plural = ''grafanainstances'', crd_Singular = ''grafanainstance'', crd_ShortNames = [''gfi''],
     crd_Scope = ''Namespaced'', crd_Version = ''v1alpha1'',
     crd_Columns =
      [\<lparr>col_Name = ''Replicas'', col_Type = ''integer'', col_JSONPath = ''.spec.replicas''\<rparr>,
       \<lparr>col_Name = ''Ready'', col_Type = ''boolean'', col_JSONPath = ''.status.ready''\<rparr>,
       \<lparr>col_Name = ''Phase'', col_Type = ''string'', col_JSONPath = ''.status.phase''\<rparr>,
       \<lparr>col_Name = ''Age'', col_Type = ''date'', col_JSONPath = ''.metadata.creationTimestamp''\<rparr>],
     crd_Schema = ObjectSchema
      [(''apiVersion'', None, StringSchema plain_string),
       (''kind'', None, StringSchema plain_string),
       (''metadata'', None, ObjectSchema [] []),
       (''spec'', None, GrafanaInstance_spec_schema),
       (''status'', None, GrafanaInstance_status_schema)]
      [''spec''],
     crd_Served = True, crd_Storage = True, crd_Status = True\<rparr>"

definition MariaDBCluster_spec_schema :: schema where
  "MariaDBCluster_spec_schema =
    ObjectSchema
      [(''database'', None, database_schema),
       (''expose'', None, expose_schema),
       (''image'', None, StringSchema plain_string),
       (''monitoring'', None, monitoring_schema),
       (''replicas'', Some (GInt 1), IntegerSchema (Some ''int32'') (Some 1)),
       (''resources'', None, resources_schema),
       (''storage'', None, storage_schema)]
      [''database'', ''storage'']"

definition MariaDBCluster_status_schema :: schema where
  "MariaDBCluster_status_schema =
    ObjectSchema
      [(''conditions'', None, ArraySchema condition_schema [''type'']),
       (''message'', None, StringSchema plain_string),
       (''phase'', None, StringSchema plain_string),
       (''ready'', None, BooleanSchema),
       (''readyReplicas'', None, IntegerSchema (Some ''int32'') None),
       (''replicas'', None, IntegerSchema (Some ''int32'') None)]
      []"

definition MariaDBCluster_crd :: crd where
  "MariaDBCluster_crd = \<lparr>
     crd_Name = ''mariadbclusters.paas.example.com'', crd_Group = ''paas.example.com'', crd_Kind = ''MariaDBCluster'', crd_ListKind = ''MariaDBClusterList'',
     crd_Plural = ''mariadbclusters'', crd_Singular = ''mariadbcluster'', crd_ShortNames = [''mdc''],
     crd_Scope = ''Namespaced'', crd_Version = ''v1alpha1'',
     crd_Columns =
      [\<lparr>col_Name = ''Replicas'', col_Type = ''integer'', col_JSONPath = ''.spec.replicas''\<rparr>,
       \<lparr>col_Name = ''Ready'', col_Type = ''boolean'', col_JSONPath = ''.status.ready''\<rparr>,
       \<lparr>col_Name = ''Phase'', col_Type = ''string'', col_JSONPath = ''.status.phase''\<rparr>,
       \<lparr>col_Name = ''Age'', col_Type = ''date'', col_JSONPath = ''.metadata.creationTimestamp''\<rparr>],
     crd_Schema = ObjectSchema
      [(''apiVersion'', None, StringSchema plain_string),
       (''kind'', None, StringSchema plain_string),
       (''metadata'', None, ObjectSchema [] []),
       (''spec'', None, MariaDBCluster_spec_schema),
       (''status'', None, MariaDBCluster_status_schema)]
      [''spec''],
     crd_Served = True, crd_Storage = True, crd_Status = True\<rparr>"

definition RabbitMQCluster_spec_schema :: schema where
  "RabbitMQCluster_spec_schema =
    ObjectSchema
      [(''image'', None, StringSchema plain_string),
       (''ingress'', None, ingress_schema),
       (''replicas'', Some (GInt 1), IntegerSchema (Some ''int32'') (Some 1)),
       (''resources'', None, resources_schema),
       (''storage'', None, storage_schema)]
      [''storage'']"

definition RabbitMQCluster_status_schema :: schema where
  "RabbitMQCluster_status_schema =
    ObjectSchema
      [(''conditions'', None, ArraySchema condition_schema [''type'']),
       (''message'', None, StringSchema plain_string),
       (''phase'', None, StringSchema plain_string),
       (''ready'', None, BooleanSchema),
       (''readyReplicas'', None, IntegerSchema (Some ''int32'') None),
       (''replicas'', None, IntegerSchema (Some ''int32'') None)]
      []"

definition RabbitMQCluster_crd :: crd where
  "RabbitMQCluster_crd = \<lparr>
     crd_Name = ''rabbitmqclusters.paas.example.com'', crd_Group = ''paas.example.com'', crd_Kind = ''RabbitMQCluster'', crd_ListKind = ''RabbitMQClusterList'',
     crd_Plural = ''rabbitmqclusters'', crd_Singular = ''rabbitmqcluster'', crd_ShortNames = [''rmq''],
     crd_Scope = ''Namespaced'', crd_Version = ''v1alpha1'',
     crd_Columns =
      [\<lparr>col_Name = ''Replicas'', col_Type = ''integer'', col_JSONPath = ''.spec.replicas''\<rparr>,
       \<lparr>col_Name = ''Ready'', col_Type = ''boolean'', col_JSONPath = ''.status.ready''\<rparr>,
       \<lparr>col_Name = ''Phase'', col_Type = ''string'', col_JSONPath = ''.status.phase''\<rparr>,
       \<lparr>col_Name = ''Age'', col_Type = ''date'', col_JSONPath = ''.metadata.creationTimestamp''\<rparr>],
     crd_Schema = ObjectSchema
      [(''apiVersion'', None, StringSchema plain_string),
       (''kind'', None, StringSchema plain_string),
       (''metadata'', None, ObjectSchema [] []),
       (''spec'', None, RabbitMQCluster_spec_schema),
       (''status'', None, RabbitMQCluster_status_schema)]
      [''spec''],
     crd_Served = True, crd_Storage = True, crd_Status = True\<rparr>"

definition PrometheusInstance_spec_schema :: schema where
  "PrometheusInstance_spec_schema =
    ObjectSchema
      [(''ingress'', None, ingress_schema),
       (''replicas'', Some (GInt 1), IntegerSchema (Some ''int32'') (Some 0)),
       (''resources'', None, resources_schema),
       (''retention'', None, StringSchema plain_string),
       (''storage'', None, storage_schema),
       (''version'', None, StringSchema plain_string)]
      []"

definition PrometheusInstance_status_schema :: schema where
  "PrometheusInstance_status_schema =
    ObjectSchema
      [(''conditions'', None, ArraySchema condition_schema [''type'']),
       (''message'', None, StringSchema plain_string),
       (''phase'', None, StringSchema plain_string),
       (''ready'', None, BooleanSchema),
       (''readyReplicas'', None, IntegerSchema (Some ''int32'') None),
       (''replicas'', None, IntegerSchema (Some ''int32'') None)]
      []"

definition PrometheusInstance_crd :: crd where
  "PrometheusInstance_crd = \<lparr>
     crd_Name = ''prometheusinstances.paas.example.com'', crd_Group = ''paas.example.com'', crd_Kind = ''PrometheusInstance'', crd_ListKind = ''PrometheusInstanceList'',
     crd_Plural = ''prometheusinstances'', crd_Singular = ''prometheusinstance'', crd_ShortNames = [''promi''],
     crd_Scope = ''Namespaced'', crd_Version = ''v1alpha1'',
     crd_Columns =
      [\<lparr>col_Name = ''Replicas'', col_Type = ''integer'', col_JSONPath = ''.spec.replicas''\<rparr>,
       \<lparr>col_Name = ''Ready'', col_Type = ''boolean'', col_JSONPath = ''.status.ready''\<rparr>,
       \<lparr>col_Name = ''Phase'', col_Type = ''string'', col_JSONPath = ''.status.phase''\<rparr>,
       \<lparr>col_Name = ''Age'', col_Type = ''date'', col_JSONPath = ''.metadata.creationTimestamp''\<rparr>],
     crd_Schema = ObjectSchema
      [(''apiVersion'', None, StringSchema plain_string),
       (''kind'', None, StringSchema plain_string),
       (''metadata'', None, ObjectSchema [] []),
       (''spec'', None, PrometheusInstance_spec_schema),
       (''status'', None, PrometheusInstance_status_schema)]
      [''spec''],
     crd_Served = True, crd_Storage = True, crd_Status = True\<rparr>"

lemmas block_schemas = database_schema_def expose_schema_def monitoring_schema_def claim_schema_def resources_schema_def
  storage_schema_def persistence_schema_def ingress_schema_def

lemmas spec_schemas = PostgresCluster_spec_schema_def ValkeyCluster_spec_schema_def GrafanaInstance_spec_schema_def
  MariaDBCluster_spec_schema_def RabbitMQCluster_spec_schema_def PrometheusInstance_spec_schema_def

lemmas status_schemas = PostgresCluster_status_schema_def ValkeyCluster_status_schema_def GrafanaInstance_status_schema_def
  MariaDBCluster_status_schema_def RabbitMQCluster_status_schema_def PrometheusInstance_status_schema_def

lemmas crd_defs = PostgresCluster_crd_def ValkeyCluster_crd_def GrafanaInstance_crd_def
  MariaDBCluster_crd_def RabbitMQCluster_crd_def PrometheusInstance_crd_def

end
