(* ===== verification/Rbac.thy ===== *)
theory Rbac
  imports Operator_Main
begin

text \<open>
  What the operator may do in the cluster. The \<^verbatim>\<open>+kubebuilder:rbac\<close> markers above each controller and the role
  generated from them (\<^verbatim>\<open>config/rbac/role.yaml\<close>), the permission each call of a client asks for, a client that refuses
  what the rules do not grant, and the lemma that the engine never meets a refusal when the rules grant what its adapter
  needs. Which resource a kind is served under is the API server's to say: a parameter \<open>rm\<close>, with the names the
  documentation of the kinds gives.
\<close>

section \<open>Rules\<close>

text \<open>A permission: API group, resource (with its subresource), verb.\<close>

type_synonym permission = "string \<times> string \<times> string"

record policy_rule =
  rule_Groups :: "string list"
  rule_Resources :: "string list"
  rule_Verbs :: "string list"

fun rule_allows :: "policy_rule \<Rightarrow> permission \<Rightarrow> bool" where
  "rule_allows r (g, res, v) \<longleftrightarrow> g \<in> set (rule_Groups r) \<and> res \<in> set (rule_Resources r) \<and> v \<in> set (rule_Verbs r)"

definition rbac_allows :: "policy_rule list \<Rightarrow> permission \<Rightarrow> bool" where
  "rbac_allows rules p \<longleftrightarrow> list_ex (\<lambda>r. rule_allows r p) rules"

text \<open>A marker names one group and one resource.\<close>

definition rbac_marker :: "string \<Rightarrow> string \<Rightarrow> string list \<Rightarrow> policy_rule" where
  "rbac_marker g res vs = \<lparr>rule_Groups = [g], rule_Resources = [res], rule_Verbs = vs\<rparr>"

section \<open>The markers\<close>

definition PostgresCluster_rbac :: "policy_rule list" where
  "PostgresCluster_rbac =
     [rbac_marker ''paas.example.com'' ''postgresclusters'' [''get'', ''list'', ''watch'', ''create'', ''update'', ''patch'', ''delete''],
      rbac_marker ''paas.example.com'' ''postgresclusters/status'' [''get'', ''update'', ''patch''],
      rbac_marker ''paas.example.com'' ''postgresclusters/finalizers'' [''update''],
      rbac_marker ''postgresql.cnpg.io'' ''clusters'' [''get'', ''list'', ''watch'', ''create'', ''update'', ''patch'', ''delete''],
      rbac_marker ''events.k8s.io'' ''events'' [''create'', ''patch'']]"

definition ValkeyCluster_rbac :: "policy_rule list" where
  "ValkeyCluster_rbac =
     [rbac_marker ''paas.example.com'' ''valkeyclusters'' [''get'', ''list'', ''watch'', ''create'', ''update'', ''patch'', ''delete''],
      rbac_marker ''paas.example.com'' ''valkeyclusters/status'' [''get'', ''update'', ''patch''],
      rbac_marker ''paas.example.com'' ''valkeyclusters/finalizers'' [''update''],
      rbac_marker ''valkey.io'' ''valkeyclusters'' [''get'', ''list'', ''watch'', ''create'', ''update'', ''patch'', ''delete''],
      rbac_marker '''' ''services'' [''get'', ''list'', ''watch'', ''create'', ''update'', ''patch'', ''delete''],
      rbac_marker ''events.k8s.io'' ''events'' [''create'', ''patch'']]"

definition GrafanaInstance_rbac :: "policy_rule list" where
  "GrafanaInstance_rbac =
     [rbac_marker ''paas.example.com'' ''grafanainstances'' [''get'', ''list'', ''watch'', ''create'', ''update'', ''patch'', ''delete''],
      rbac_marker ''paas.example.com'' ''grafanainstances/status'' [''get'', ''update'', ''patch''],
      rbac_marker ''paas.example.com'' ''grafanainstances/finalizers'' [''update''],
      rbac_marker ''grafana.integreatly.org'' ''grafanas'' [''get'', ''list'', ''watch'', ''create'', ''update'', ''patch'', ''delete''],
      rbac_marker ''events.k8s.io'' ''events'' [''create'', ''patch'']]"

definition MariaDBCluster_rbac :: "policy_rule list" where
  "MariaDBCluster_rbac =
     [rbac_marker ''paas.example.com'' ''mariadbclusters'' [''get'', ''list'', ''watch'', ''create'', ''update'', ''patch'', ''delete''],
      rbac_marker ''paas.example.com'' ''mariadbclusters/status'' [''get'', ''update'', ''patch''],
      rbac_marker ''paas.example.com'' ''mariadbclusters/finalizers'' [''update''],
      rbac_marker ''k8s.mariadb.com'' ''mariadbs'' [''get'', ''list'', ''watch'', ''create'', ''update'', ''patch'', ''delete''],
      rbac_marker ''events.k8s.io'' ''events'' [''create'', ''patch'']]"

definition RabbitMQCluster_rbac :: "policy_rule list" where
  "RabbitMQCluster_rbac =
     [rbac_marker ''paas.example.com'' ''rabbitmqclusters'' [''get'', ''list'', ''watch'', ''create'', ''update'', ''patch'', ''delete''],
      rbac_marker ''paas.example.com'' ''rabbitmqclusters/status'' [''get'', ''update'', ''patch''],
      rbac_marker ''paas.example.com'' ''rabbitmqclusters/finalizers'' [''update''],
      rbac_marker ''rabbitmq.com'' ''rabbitmqclusters'' [''get'', ''list'', ''watch'', ''create'', ''update'', ''patch'', ''delete''],
      rbac_marker ''networking.k8s.io'' ''ingresses'' [''get'', ''list'', ''watch'', ''create'', ''update'', ''patch'', ''delete''],
      rbac_marker ''events.k8s.io'' ''events'' [''create'', ''patch'']]"

definition PrometheusInstance_rbac :: "policy_rule list" where
  "PrometheusInstance_rbac =
     [rbac_marker ''paas.example.com'' ''prometheusinstances'' [''get'', ''list'', ''watch'', ''create'', ''update'', ''patch'', ''delete''],
      rbac_marker ''paas.example.com'' ''prometheusinstances/status'' [''get'', ''update'', ''patch''],
      rbac_marker ''paas.example.com'' ''prometheusinstances/finalizers'' [''update''],
      rbac_marker ''monitoring.coreos.com'' ''prometheuses'' [''get'', ''list'', ''watch'', ''create'', ''update'', ''patch'', ''delete''],
      rbac_marker '''' ''services'' [''get'', ''list'', ''watch'', ''create'', ''update'', ''patch'', ''delete''],
      rbac_marker ''networking.k8s.io'' ''ingresses'' [''get'', ''list'', ''watch'', ''create'', ''update'', ''patch'', ''delete''],
      rbac_marker ''events.k8s.io'' ''events'' [''create'', ''patch'']]"

text \<open>The markers of all controllers, and the role the manifests install.\<close>

definition rbac_markers :: "policy_rule list" where
  "rbac_markers = PostgresCluster_rbac @ ValkeyCluster_rbac @ GrafanaInstance_rbac @ MariaDBCluster_rbac @
     RabbitMQCluster_rbac @ PrometheusInstance_rbac"

definition manager_role :: "policy_rule list" where
  "manager_role =
     [\<lparr>rule_Groups = [''''], rule_Resources = [''services''],
       rule_Verbs = [''create'', ''delete'', ''get'', ''list'', ''patch'', ''update'', ''watch'']\<rparr>,
      \<lparr>rule_Groups = [''events.k8s.io''], rule_Resources = [''events''],
       rule_Verbs = [''create'', ''patch'']\<rparr>,
      \<lparr>rule_Groups = [''grafana.integreatly.org''], rule_Resources = [''grafanas''],
       rule_Verbs = [''create'', ''delete'', ''get'', ''list'', ''patch'', ''update'', ''watch'']\<rparr>,
      \<lparr>rule_Groups = [''k8s.mariadb.com''], rule_Resources = [''mariadbs''],
       rule_Verbs = [''create'', ''delete'', ''get'', ''list'', ''patch'', ''update'', ''watch'']\<rparr>,
      \<lparr>rule_Groups = [''monitoring.coreos.com''], rule_Resources = [''prometheuses''],
       rule_Verbs = [''create'', ''delete'', ''get'', ''list'', ''patch'', ''update'', ''watch'']\<rparr>,
      \<lparr>rule_Groups = [''networking.k8s.io''], rule_Resources = [''ingresses''],
       rule_Verbs = [''create'', ''delete'', ''get'', ''list'', ''patch'', ''update'', ''watch'']\<rparr>,
      \<lparr>rule_Groups = [''paas.example.com''], rule_Resources = [''grafanainstances'', ''mariadbclusters'', ''postgresclusters'', ''prometheusinstances'', ''rabbitmqclusters'', ''valkeyclusters''],
       rule_Verbs = [''create'', ''delete'', ''get'', ''list'', ''patch'', ''update'', ''watch'']\<rparr>,
      \<lparr>rule_Groups = [''paas.example.com''], rule_Resources = [''grafanainstances/finalizers'', ''mariadbclusters/finalizers'', ''postgresclusters/finalizers'', ''prometheusinstances/finalizers'', ''rabbitmqclusters/finalizers'', ''valkeyclusters/finalizers''],
       rule_Verbs = [''update'']\<rparr>,
      \<lparr>rule_Groups = [''paas.example.com''], rule_Resources = [''grafanainstances/status'', ''mariadbclusters/status'', ''postgresclusters/status'', ''prometheusinstances/status'', ''rabbitmqclusters/status'', ''valkeyclusters/status''],
       rule_Verbs = [''get'', ''patch'', ''update'']\<rparr>,
      \<lparr>rule_Groups = [''postgresql.cnpg.io''], rule_Resources = [''clusters''],
       rule_Verbs = [''create'', ''delete'', ''get'', ''list'', ''patch'', ''update'', ''watch'']\<rparr>,
      \<lparr>rule_Groups = [''rabbitmq.com''], rule_Resources = [''rabbitmqclusters''],
       rule_Verbs = [''create'', ''delete'', ''get'', ''list'', ''patch'', ''update'', ''watch'']\<rparr>,
      \<lparr>rule_Groups = [''valkey.io''], rule_Resources = [''valkeyclusters''],
       rule_Verbs = [''create'', ''delete'', ''get'', ''list'', ''patch'', ''update'', ''watch'']\<rparr>]"

lemma rbac_allows_Nil [simp]: "\<not> rbac_allows [] p"
  by (simp add: rbac_allows_def)

lemma rbac_allows_Cons [simp]: "rbac_allows (r # rules) p \<longleftrightarrow> rule_allows r p \<or> rbac_allows rules p"
  by (simp add: rbac_allows_def)

lemma rbac_allows_append [simp]: "rbac_allows (rules @ rules') p \<longleftrightarrow> rbac_allows rules p \<or> rbac_allows rules' p"
  by (simp add: rbac_allows_def)

lemmas rbac_defs = PostgresCluster_rbac_def ValkeyCluster_rbac_def GrafanaInstance_rbac_def MariaDBCluster_rbac_def
  RabbitMQCluster_rbac_def PrometheusInstance_rbac_def rbac_marker_def

section \<open>What a call asks for\<close>

type_synonym resource = "string \<times> string"

abbreviation grants :: "policy_rule list \<Rightarrow> resource \<Rightarrow> string list \<Rightarrow> bool" where
  "grants rules res vs \<equiv> list_all (\<lambda>v. rbac_allows rules (fst res, snd res, v)) vs"

definition kind_resource :: "(GroupVersionKind \<Rightarrow> string) \<Rightarrow> GroupVersionKind \<Rightarrow> resource" where
  "kind_resource rm g = (Group g, rm g)"

definition status_resource :: "(GroupVersionKind \<Rightarrow> string) \<Rightarrow> GroupVersionKind \<Rightarrow> resource" where
  "status_resource rm g = (Group g, rm g @ ''/status'')"

text \<open>
  The CR is read through the manager's cache, which gets, lists and watches its kind; a server-side apply patches the
  object or creates it; an event is created, or patched when it repeats.
\<close>

definition enforce_client ::
    "k8s_libs \<Rightarrow> (GroupVersionKind \<Rightarrow> string) \<Rightarrow> policy_rule list \<Rightarrow> gerror \<Rightarrow> GroupVersionKind \<Rightarrow> ('w, 'cr) Client \<Rightarrow> ('w, 'cr) Client" where
  "enforce_client L rm rules forbidden own c = \<lparr>
     Client_Get = (\<lambda>n w. if grants rules (kind_resource rm own) [''get'', ''list'', ''watch'']
       then Client_Get c n w else (Inl forbidden, w)),
     Client_GetUnstructured = (\<lambda>n u w. if grants rules (kind_resource rm (GetGroupVersionKind L u)) [''get'']
       then Client_GetUnstructured c n u w else (Inl forbidden, w)),
     Client_Apply = (\<lambda>u owner force w. if grants rules (kind_resource rm (GetGroupVersionKind L u)) [''patch'', ''create'']
       then Client_Apply c u owner force w else (Inl forbidden, w)),
     Client_Delete = (\<lambda>u w. if grants rules (kind_resource rm (GetGroupVersionKind L u)) [''delete'']
       then Client_Delete c u w else (Some forbidden, w)),
     Client_Update = (\<lambda>cr w. if grants rules (kind_resource rm own) [''update'']
       then Client_Update c cr w else (Inl forbidden, w)),
     Client_StatusUpdate = (\<lambda>cr w. if grants rules (status_resource rm own) [''update'']
       then Client_StatusUpdate c cr w else (Inl forbidden, w)),
     Client_Now = Client_Now c\<rparr>"

text \<open>A refused event is dropped.\<close>

definition enforce_recorder :: "policy_rule list \<Rightarrow> (event \<Rightarrow> 'w \<Rightarrow> 'w) \<Rightarrow> event \<Rightarrow> 'w \<Rightarrow> 'w" where
  "enforce_recorder rules record_event e w =
     (if grants rules (''events.k8s.io'', ''events'') [''create'', ''patch''] then record_event e w else w)"

definition enforce ::
    "k8s_libs \<Rightarrow> (GroupVersionKind \<Rightarrow> string) \<Rightarrow> policy_rule list \<Rightarrow> gerror \<Rightarrow> GroupVersionKind \<Rightarrow>
     ('w, 'spec, 'status) GenericReconciler \<Rightarrow> ('w, 'spec, 'status) GenericReconciler" where
  "enforce L rm rules forbidden own r =
     \<lparr>gr_Client = enforce_client L rm rules forbidden own (gr_Client r),
      gr_Recorder = enforce_recorder rules (gr_Recorder r), gr_Adapter = gr_Adapter r, gr_Name = gr_Name r\<rparr>"

section \<open>Rules that suffice\<close>

text \<open>What the engine needs for a CR kind, its target kind and the kinds of the extras.\<close>

definition suffices ::
    "(GroupVersionKind \<Rightarrow> string) \<Rightarrow> policy_rule list \<Rightarrow> GroupVersionKind \<Rightarrow> GroupVersionKind \<Rightarrow> GroupVersionKind list \<Rightarrow> bool" where
  "suffices rm rules own target extras \<longleftrightarrow>
     grants rules (kind_resource rm own) [''get'', ''list'', ''watch'', ''update''] \<and>
     grants rules (status_resource rm own) [''update''] \<and>
     grants rules (''events.k8s.io'', ''events'') [''create'', ''patch''] \<and>
     grants rules (kind_resource rm target) [''get''] \<and>
     (\<forall>g \<in> set (target # extras). grants rules (kind_resource rm g) [''patch'', ''create'', ''delete''])"

locale authorized = vendor_adapter L A extra_keys V
  for L :: k8s_libs and A :: "('spec, 'status) Adapter"
    and extra_keys :: "string \<Rightarrow> (GroupVersionKind \<times> string) list" and V :: "'status status_view" +
  fixes rm :: "GroupVersionKind \<Rightarrow> string"
    and rules :: "policy_rule list"
    and own :: GroupVersionKind
    and extra_kinds :: "GroupVersionKind list"
  assumes sufficient: "suffices rm rules own (GVK A) extra_kinds"
    and extra_kinds: "fst ` set (extra_keys t) \<subseteq> set extra_kinds"
begin

lemma enforce_own:
  "gr_Adapter (enforce L rm rules f own r) = gr_Adapter r"
  "Client_Get (gr_Client (enforce L rm rules f own r)) n w = Client_Get (gr_Client r) n w"
  "Client_Update (gr_Client (enforce L rm rules f own r)) cr w = Client_Update (gr_Client r) cr w"
  "Client_StatusUpdate (gr_Client (enforce L rm rules f own r)) cr w = Client_StatusUpdate (gr_Client r) cr w"
  "Client_Now (gr_Client (enforce L rm rules f own r)) w = Client_Now (gr_Client r) w"
  "gr_Recorder (enforce L rm rules f own r) e w = gr_Recorder r e w"
  using sufficient by (simp_all add: enforce_def enforce_client_def enforce_recorder_def suffices_def)

lemma enforce_apply:
  "GetGroupVersionKind L u \<in> set (GVK A # extra_kinds) \<Longrightarrow>
   Client_Apply (gr_Client (enforce L rm rules f own r)) u owner force w = Client_Apply (gr_Client r) u owner force w"
  using sufficient unfolding suffices_def by (auto simp: enforce_def enforce_client_def)

lemma enforce_delete:
  "g \<in> set (GVK A # extra_kinds) \<Longrightarrow> valid_gvk g \<Longrightarrow>
   Client_Delete (gr_Client (enforce L rm rules f own r)) (identify L g ns n) w = Client_Delete (gr_Client r) (identify L g ns n) w"
  using sufficient key_of_identify [of g ns n] unfolding suffices_def
  by (auto simp: enforce_def enforce_client_def key_of_def)

lemma enforce_look:
  "Client_GetUnstructured (gr_Client (enforce L rm rules f own r)) n (SetGroupVersionKind L (GVK A) new_unstructured) w =
   Client_GetUnstructured (gr_Client r) n (SetGroupVersionKind L (GVK A) new_unstructured) w"
proof -
  have "hdr_GVK (header L (SetGroupVersionKind L (GVK A) new_unstructured)) = GVK A"
    by (simp add: header_SetGVK metadata_ok_new gvk_valid)
  then have "GetGroupVersionKind L (SetGroupVersionKind L (GVK A) new_unstructured) = GVK A"
    by (simp add: header_def)
  with sufficient show ?thesis by (simp add: enforce_def enforce_client_def suffices_def)
qed

lemma extra_kind:
  assumes "x \<in> set (extras_at A cr t ns owner)"
  shows "extra_GVK x \<in> set (GVK A # extra_kinds)" and "valid_gvk (extra_GVK x)"
proof -
  from assms have "extra_GVK x \<in> fst ` set (extra_keys t)"
    unfolding extra_keys_fixed [of cr t ns owner, symmetric] by force
  with extra_kinds [of t] extra_keys_valid show "extra_GVK x \<in> set (GVK A # extra_kinds)" "valid_gvk (extra_GVK x)"
    by auto
qed

lemma enforce_deleteExtra:
  "x \<in> set (extras_at A cr t ns owner) \<Longrightarrow>
   deleteExtra L (enforce L rm rules f own r) (extra_GVK x) ns' (extra_Name x) w = deleteExtra L r (extra_GVK x) ns' (extra_Name x) w"
  by (simp add: deleteExtra_def enforce_delete extra_kind Let_def del: list.set)

lemma enforce_deleteTarget:
  "gr_Adapter r = A \<Longrightarrow> deleteTarget L (enforce L rm rules f own r) ns n w = deleteTarget L r ns n w"
  by (simp add: deleteTarget_def enforce_own enforce_delete gvk_valid)

lemma enforce_getTarget:
  "gr_Adapter r = A \<Longrightarrow> getTarget L (enforce L rm rules f own r) ns n w = getTarget L r ns n w"
  by (simp add: getTarget_def GetTarget_def enforce_own enforce_look)

lemma enforce_applyTarget:
  "GetGroupVersionKind L u \<in> set (GVK A # extra_kinds) \<Longrightarrow>
   applyTarget (enforce L rm rules f own r) u w = applyTarget r u w"
  by (simp add: applyTarget_def enforce_own enforce_apply del: list.set)

lemma enforce_applyManifest:
  "applyTarget (enforce L rm rules f own r) (BuildManifest A cr t ns owner) w = applyTarget r (BuildManifest A cr t ns owner) w"
proof (rule enforce_applyTarget)
  have "hdr_GVK (header L (BuildManifest A cr t ns owner)) = GVK A" by (simp add: manifest_header)
  then show "GetGroupVersionKind L (BuildManifest A cr t ns owner) \<in> set (GVK A # extra_kinds)"
    by (simp add: header_def)
qed

lemma enforce_applyExtra:
  assumes "x \<in> set (extras_at A cr t ns owner)" and "extra_Desired x = Some d"
  shows "applyTarget (enforce L rm rules f own r) d w = applyTarget r d w"
proof (rule enforce_applyTarget)
  from extra_desired [OF assms] have "GetGroupVersionKind L d = extra_GVK x" by (simp add: key_of_def)
  with extra_kind(1) [OF assms(1)] show "GetGroupVersionKind L d \<in> set (GVK A # extra_kinds)" by simp
qed

lemma enforce_deleteExtras_loop:
  "set xs \<subseteq> set (extras_at A cr t ns owner) \<Longrightarrow>
   deleteExtras_loop L (enforce L rm rules f own r) ns' xs w = deleteExtras_loop L r ns' xs w"
  by (induction xs arbitrary: w) (simp_all add: enforce_deleteExtra [of _ cr t ns owner]
    cong: option.case_cong prod.case_cong)

lemma enforce_applyExtras_loop:
  "set xs \<subseteq> set (extras_at A cr t ns owner) \<Longrightarrow>
   applyExtras_loop L (enforce L rm rules f own r) ns' xs w = applyExtras_loop L r ns' xs w"
proof (induction xs arbitrary: w)
  case (Cons x xs)
  then have "x \<in> set (extras_at A cr t ns owner)" by simp
  with Cons show ?case
    by (cases "extra_Desired x")
      (simp_all add: enforce_deleteExtra [of _ cr t ns owner] enforce_applyExtra [of _ cr t ns owner]
        cong: option.case_cong sum.case_cong prod.case_cong)
qed simp

lemma extras_sub: "ExtraResources A = Some er \<Longrightarrow> set (er cr t ns owner) \<subseteq> set (extras_at A cr t ns owner)"
  by (simp add: extras_at_def)

lemma enforce_extras:
  assumes "gr_Adapter r = A"
  shows "deleteExtraResources L (enforce L rm rules f own r) cr t w = deleteExtraResources L r cr t w"
    and "applyExtraResources L (enforce L rm rules f own r) cr t w = applyExtraResources L r cr t w"
  unfolding deleteExtraResources_def applyExtraResources_def enforce_own assms
  by (simp_all add: enforce_deleteExtras_loop [OF extras_sub] enforce_applyExtras_loop [OF extras_sub] split: option.split)

lemma enforce_reconcile_deletion:
  "gr_Adapter r = A \<Longrightarrow> reconcile_deletion L (enforce L rm rules f own r) cr t w = reconcile_deletion L r cr t w"
  by (simp add: reconcile_deletion_def enforce_deleteTarget enforce_extras enforce_own Let_def
    cong: option.case_cong sum.case_cong prod.case_cong if_cong)

lemma enforce_reconcile_status:
  "gr_Adapter r = A \<Longrightarrow> reconcile_status L (enforce L rm rules f own r) cr t u w = reconcile_status L r cr t u w"
  by (simp add: reconcile_status_def enforce_extras enforce_own Let_def
    cong: option.case_cong sum.case_cong prod.case_cong if_cong)

lemma enforce_reconcile_normal:
  "gr_Adapter r = A \<Longrightarrow> reconcile_normal L (enforce L rm rules f own r) cr t w = reconcile_normal L r cr t w"
  by (simp add: reconcile_normal_def enforce_getTarget enforce_applyManifest enforce_reconcile_status enforce_own Let_def
    cong: option.case_cong sum.case_cong prod.case_cong if_cong)

lemma Reconcile_enforced:
  "gr_Adapter r = A \<Longrightarrow> Reconcile L (enforce L rm rules f own r) req w = Reconcile L r req w"
  by (simp add: Reconcile_def enforce_own enforce_reconcile_deletion enforce_reconcile_normal Let_def
    cong: option.case_cong sum.case_cong prod.case_cong if_cong)

end

section \<open>The six controllers\<close>

text \<open>The names of the resources, as the CRDs of the kinds declare them (\<^verbatim>\<open>spec.names.plural\<close>).\<close>

locale rest_mapping =
  fixes rm :: "GroupVersionKind \<Rightarrow> string"
  assumes own_resources:
      "rm (paas_GVK ''PostgresCluster'') = ''postgresclusters''"
      "rm (paas_GVK ''ValkeyCluster'') = ''valkeyclusters''"
      "rm (paas_GVK ''GrafanaInstance'') = ''grafanainstances''"
      "rm (paas_GVK ''MariaDBCluster'') = ''mariadbclusters''"
      "rm (paas_GVK ''RabbitMQCluster'') = ''rabbitmqclusters''"
      "rm (paas_GVK ''PrometheusInstance'') = ''prometheusinstances''"
    and target_resources:
      "rm cnpg_GVK = ''clusters''"
      "rm valkey_GVK = ''valkeyclusters''"
      "rm grafana_GVK = ''grafanas''"
      "rm mariadb_GVK = ''mariadbs''"
      "rm rabbitmq_GVK = ''rabbitmqclusters''"
      "rm prometheus_GVK = ''prometheuses''"
    and extra_resources:
      "rm valkey_externalServiceGVK = ''services''"
      "rm prometheus_serviceGVK = ''services''"
      "rm ingress_GVK = ''ingresses''"
begin

lemmas resources = own_resources target_resources extra_resources

lemma resource_groups:
  "kind_resource rm (paas_GVK k) = (''paas.example.com'', rm (paas_GVK k))"
  "status_resource rm (paas_GVK k) = (''paas.example.com'', rm (paas_GVK k) @ ''/status'')"
  "kind_resource rm cnpg_GVK = (''postgresql.cnpg.io'', ''clusters'')"
  "kind_resource rm valkey_GVK = (''valkey.io'', ''valkeyclusters'')"
  "kind_resource rm grafana_GVK = (''grafana.integreatly.org'', ''grafanas'')"
  "kind_resource rm mariadb_GVK = (''k8s.mariadb.com'', ''mariadbs'')"
  "kind_resource rm rabbitmq_GVK = (''rabbitmq.com'', ''rabbitmqclusters'')"
  "kind_resource rm prometheus_GVK = (''monitoring.coreos.com'', ''prometheuses'')"
  "kind_resource rm valkey_externalServiceGVK = ('''', ''services'')"
  "kind_resource rm prometheus_serviceGVK = ('''', ''services'')"
  "kind_resource rm ingress_GVK = (''networking.k8s.io'', ''ingresses'')"
  by (simp_all add: kind_resource_def status_resource_def resources)
     (simp_all add: paas_GVK_def cnpg_GVK_def valkey_GVK_def grafana_GVK_def mariadb_GVK_def rabbitmq_GVK_def
        prometheus_GVK_def valkey_externalServiceGVK_def prometheus_serviceGVK_def ingress_GVK_def)

lemma markers_suffice:
  "suffices rm PostgresCluster_rbac (paas_GVK ''PostgresCluster'') cnpg_GVK []"
  "suffices rm ValkeyCluster_rbac (paas_GVK ''ValkeyCluster'') valkey_GVK [valkey_externalServiceGVK]"
  "suffices rm GrafanaInstance_rbac (paas_GVK ''GrafanaInstance'') grafana_GVK []"
  "suffices rm MariaDBCluster_rbac (paas_GVK ''MariaDBCluster'') mariadb_GVK []"
  "suffices rm RabbitMQCluster_rbac (paas_GVK ''RabbitMQCluster'') rabbitmq_GVK [ingress_GVK]"
  "suffices rm PrometheusInstance_rbac (paas_GVK ''PrometheusInstance'') prometheus_GVK [prometheus_serviceGVK, ingress_GVK]"
  by (simp_all add: suffices_def resource_groups own_resources rbac_defs)

end

text \<open>More rules never hurt.\<close>

lemma suffices_mono:
  assumes "suffices rm rules own target extras" and "\<And>p. rbac_allows rules p \<Longrightarrow> rbac_allows rules' p"
  shows "suffices rm rules' own target extras"
  using assms unfolding suffices_def list_all_iff by blast

text \<open>A rule of the role is a list of markers with the verbs in another order.\<close>

lemma rule_as_markers:
  "rule_allows \<lparr>rule_Groups = [g], rule_Resources = r # r' # rs, rule_Verbs = vs\<rparr> p \<longleftrightarrow>
     rule_allows (rbac_marker g r vs) p \<or> rule_allows \<lparr>rule_Groups = [g], rule_Resources = r' # rs, rule_Verbs = vs\<rparr> p"
  "rule_allows \<lparr>rule_Groups = [g], rule_Resources = [r], rule_Verbs = vs\<rparr> p \<longleftrightarrow> rule_allows (rbac_marker g r vs) p"
  by (cases p; auto simp: rbac_marker_def)+

lemma verbs_sorted:
  "rule_allows (rbac_marker g r [''create'', ''delete'', ''get'', ''list'', ''patch'', ''update'', ''watch'']) p \<longleftrightarrow>
   rule_allows (rbac_marker g r [''get'', ''list'', ''watch'', ''create'', ''update'', ''patch'', ''delete'']) p"
  "rule_allows (rbac_marker g r [''get'', ''patch'', ''update'']) p \<longleftrightarrow>
   rule_allows (rbac_marker g r [''get'', ''update'', ''patch'']) p"
  by (cases p; auto simp: rbac_marker_def)+

lemma role_has_markers: "rbac_allows manager_role p \<longleftrightarrow> rbac_allows rbac_markers p"
  unfolding manager_role_def rbac_markers_def PostgresCluster_rbac_def ValkeyCluster_rbac_def GrafanaInstance_rbac_def
    MariaDBCluster_rbac_def RabbitMQCluster_rbac_def PrometheusInstance_rbac_def rbac_allows_append rbac_allows_Cons
    rule_as_markers verbs_sorted rbac_allows_Nil
  by blast

text \<open>The plural the API server serves each of the kinds under.\<close>

definition rest_plurals :: "(GroupVersionKind \<times> string) list" where
  "rest_plurals =
     [(paas_GVK ''PostgresCluster'', ''postgresclusters''), (paas_GVK ''ValkeyCluster'', ''valkeyclusters''),
      (paas_GVK ''GrafanaInstance'', ''grafanainstances''), (paas_GVK ''MariaDBCluster'', ''mariadbclusters''),
      (paas_GVK ''RabbitMQCluster'', ''rabbitmqclusters''), (paas_GVK ''PrometheusInstance'', ''prometheusinstances''),
      (cnpg_GVK, ''clusters''), (valkey_GVK, ''valkeyclusters''), (grafana_GVK, ''grafanas''), (mariadb_GVK, ''mariadbs''),
      (rabbitmq_GVK, ''rabbitmqclusters''), (prometheus_GVK, ''prometheuses''),
      (valkey_externalServiceGVK, ''services''), (ingress_GVK, ''ingresses'')]"

definition rest_plural :: "GroupVersionKind \<Rightarrow> string" where
  "rest_plural g = (case map_of rest_plurals g of Some res \<Rightarrow> res | None \<Rightarrow> '''')"

interpretation plurals: rest_mapping rest_plural
  by unfold_locales (simp_all add: rest_plural_def rest_plurals_def paas_GVK_def cnpg_GVK_def valkey_GVK_def grafana_GVK_def
    mariadb_GVK_def rabbitmq_GVK_def prometheus_GVK_def valkey_externalServiceGVK_def prometheus_serviceGVK_def ingress_GVK_def)

text \<open>Each controller under its own markers.\<close>

interpretation cnpg_auth: authorized ref_libs "cnpg_Adapter ref_libs" "\<lambda>_. []" cnpg_view
    rest_plural PostgresCluster_rbac "paas_GVK ''PostgresCluster''" "[]"
  by unfold_locales (simp_all add: cnpg_Adapter_def plurals.markers_suffice)

interpretation valkey_auth: authorized ref_libs "valkey_Adapter ref_libs" "\<lambda>t. [(valkey_externalServiceGVK, t @ ''-external'')]" valkey_view
    rest_plural ValkeyCluster_rbac "paas_GVK ''ValkeyCluster''" "[valkey_externalServiceGVK]"
  by unfold_locales (simp_all add: valkey_Adapter_def plurals.markers_suffice)

interpretation grafana_auth: authorized ref_libs "grafana_Adapter ref_libs" "\<lambda>_. []" grafana_view
    rest_plural GrafanaInstance_rbac "paas_GVK ''GrafanaInstance''" "[]"
  by unfold_locales (simp_all add: grafana_Adapter_def plurals.markers_suffice)

interpretation mariadb_auth: authorized ref_libs "mariadb_Adapter ref_libs" "\<lambda>_. []" mariadb_view
    rest_plural MariaDBCluster_rbac "paas_GVK ''MariaDBCluster''" "[]"
  by unfold_locales (simp_all add: mariadb_Adapter_def plurals.markers_suffice)

interpretation rabbitmq_auth: authorized ref_libs "rabbitmq_Adapter ref_libs" "\<lambda>t. [(ingress_GVK, t @ ''-ingress'')]" rabbitmq_view
    rest_plural RabbitMQCluster_rbac "paas_GVK ''RabbitMQCluster''" "[ingress_GVK]"
  by unfold_locales (simp_all add: rabbitmq_Adapter_def plurals.markers_suffice)

interpretation prometheus_auth: authorized ref_libs "prometheus_Adapter ref_libs" "\<lambda>t. [(prometheus_serviceGVK, t @ ''-web''), (ingress_GVK, t @ ''-ingress'')]" prometheus_view
    rest_plural PrometheusInstance_rbac "paas_GVK ''PrometheusInstance''" "[prometheus_serviceGVK, ingress_GVK]"
  by unfold_locales (simp_all add: prometheus_Adapter_def plurals.markers_suffice)

section \<open>No refusals\<close>

text \<open>Each controller under rules that grant what its markers grant.\<close>

locale role_setting = k8s_libs_ok L + rest_mapping rm for L :: k8s_libs and rm :: "GroupVersionKind \<Rightarrow> string"
begin

lemma cnpg_enforced:
  assumes "\<And>p. rbac_allows PostgresCluster_rbac p \<Longrightarrow> rbac_allows rules p"
  shows "Reconcile L (enforce L rm rules forbidden (paas_GVK ''PostgresCluster'') (NewPostgresClusterReconciler L c rec)) req w =
    Reconcile L (NewPostgresClusterReconciler L c rec) req w"
proof -
  have "suffices rm rules (paas_GVK ''PostgresCluster'') cnpg_GVK []"
    by (rule suffices_mono [OF markers_suffice(1) assms])
  then have "authorized L (cnpg_Adapter L) (\<lambda>_. []) cnpg_view rm rules (paas_GVK ''PostgresCluster'') []"
    by unfold_locales (simp_all add: cnpg_Adapter_def)
  then show ?thesis by (rule authorized.Reconcile_enforced) (simp add: NewPostgresClusterReconciler_def)
qed

lemma valkey_enforced:
  assumes "\<And>p. rbac_allows ValkeyCluster_rbac p \<Longrightarrow> rbac_allows rules p"
  shows "Reconcile L (enforce L rm rules forbidden (paas_GVK ''ValkeyCluster'') (NewValkeyClusterReconciler L c rec)) req w =
    Reconcile L (NewValkeyClusterReconciler L c rec) req w"
proof -
  have "suffices rm rules (paas_GVK ''ValkeyCluster'') valkey_GVK [valkey_externalServiceGVK]"
    by (rule suffices_mono [OF markers_suffice(2) assms])
  then have "authorized L (valkey_Adapter L) (\<lambda>t. [(valkey_externalServiceGVK, t @ ''-external'')]) valkey_view rm rules (paas_GVK ''ValkeyCluster'') [valkey_externalServiceGVK]"
    by unfold_locales (simp_all add: valkey_Adapter_def)
  then show ?thesis by (rule authorized.Reconcile_enforced) (simp add: NewValkeyClusterReconciler_def)
qed

lemma grafana_enforced:
  assumes "\<And>p. rbac_allows GrafanaInstance_rbac p \<Longrightarrow> rbac_allows rules p"
  shows "Reconcile L (enforce L rm rules forbidden (paas_GVK ''GrafanaInstance'') (NewGrafanaInstanceReconciler L c rec)) req w =
    Reconcile L (NewGrafanaInstanceReconciler L c rec) req w"
proof -
  have "suffices rm rules (paas_GVK ''GrafanaInstance'') grafana_GVK []"
    by (rule suffices_mono [OF markers_suffice(3) assms])
  then have "authorized L (grafana_Adapter L) (\<lambda>_. []) grafana_view rm rules (paas_GVK ''GrafanaInstance'') []"
    by unfold_locales (simp_all add: grafana_Adapter_def)
  then show ?thesis by (rule authorized.Reconcile_enforced) (simp add: NewGrafanaInstanceReconciler_def)
qed

lemma mariadb_enforced:
  assumes "\<And>p. rbac_allows MariaDBCluster_rbac p \<Longrightarrow> rbac_allows rules p"
  shows "Reconcile L (enforce L rm rules forbidden (paas_GVK ''MariaDBCluster'') (NewMariaDBClusterReconciler L c rec)) req w =
    Reconcile L (NewMariaDBClusterReconciler L c rec) req w"
proof -
  have "suffices rm rules (paas_GVK ''MariaDBCluster'') mariadb_GVK []"
    by (rule suffices_mono [OF markers_suffice(4) assms])
  then have "authorized L (mariadb_Adapter L) (\<lambda>_. []) mariadb_view rm rules (paas_GVK ''MariaDBCluster'') []"
    by unfold_locales (simp_all add: mariadb_Adapter_def)
  then show ?thesis by (rule authorized.Reconcile_enforced) (simp add: NewMariaDBClusterReconciler_def)
qed

lemma rabbitmq_enforced:
  assumes "\<And>p. rbac_allows RabbitMQCluster_rbac p \<Longrightarrow> rbac_allows rules p"
  shows "Reconcile L (enforce L rm rules forbidden (paas_GVK ''RabbitMQCluster'') (NewRabbitMQClusterReconciler L c rec)) req w =
    Reconcile L (NewRabbitMQClusterReconciler L c rec) req w"
proof -
  have "suffices rm rules (paas_GVK ''RabbitMQCluster'') rabbitmq_GVK [ingress_GVK]"
    by (rule suffices_mono [OF markers_suffice(5) assms])
  then have "authorized L (rabbitmq_Adapter L) (\<lambda>t. [(ingress_GVK, t @ ''-ingress'')]) rabbitmq_view rm rules (paas_GVK ''RabbitMQCluster'') [ingress_GVK]"
    by unfold_locales (simp_all add: rabbitmq_Adapter_def)
  then show ?thesis by (rule authorized.Reconcile_enforced) (simp add: NewRabbitMQClusterReconciler_def)
qed

lemma prometheus_enforced:
  assumes "\<And>p. rbac_allows PrometheusInstance_rbac p \<Longrightarrow> rbac_allows rules p"
  shows "Reconcile L (enforce L rm rules forbidden (paas_GVK ''PrometheusInstance'') (NewPrometheusInstanceReconciler L c rec)) req w =
    Reconcile L (NewPrometheusInstanceReconciler L c rec) req w"
proof -
  have "suffices rm rules (paas_GVK ''PrometheusInstance'') prometheus_GVK [prometheus_serviceGVK, ingress_GVK]"
    by (rule suffices_mono [OF markers_suffice(6) assms])
  then have "authorized L (prometheus_Adapter L) (\<lambda>t. [(prometheus_serviceGVK, t @ ''-web''), (ingress_GVK, t @ ''-ingress'')]) prometheus_view rm rules (paas_GVK ''PrometheusInstance'') [prometheus_serviceGVK, ingress_GVK]"
    by unfold_locales (simp_all add: prometheus_Adapter_def)
  then show ?thesis by (rule authorized.Reconcile_enforced) (simp add: NewPrometheusInstanceReconciler_def)
qed

end

interpretation ref_roles: role_setting ref_libs rest_plural
  by unfold_locales

lemma role_grants_markers:
  "rbac_allows PostgresCluster_rbac p \<Longrightarrow> rbac_allows manager_role p"
  "rbac_allows ValkeyCluster_rbac p \<Longrightarrow> rbac_allows manager_role p"
  "rbac_allows GrafanaInstance_rbac p \<Longrightarrow> rbac_allows manager_role p"
  "rbac_allows MariaDBCluster_rbac p \<Longrightarrow> rbac_allows manager_role p"
  "rbac_allows RabbitMQCluster_rbac p \<Longrightarrow> rbac_allows manager_role p"
  "rbac_allows PrometheusInstance_rbac p \<Longrightarrow> rbac_allows manager_role p"
  by (simp_all add: role_has_markers rbac_markers_def)

end
