(* ===== verification/Crd_Match.thy ===== *)
theory Crd_Match
  imports Crds Rbac
begin

text \<open>
  The definitions the cluster is given against the Go types: the schemas fill in and accept what the markers of
  \<^verbatim>\<open>api/v1alpha1/*_types.go\<close> say (the \<open>_defaults\<close> and \<open>_valid\<close> of \<open>Api_Json\<close> and \<open>Status_Json\<close>), the patterns are the texts
  described there, and the names are those the operator registers, watches and has rights on.
\<close>

section \<open>Patterns\<close>

lemma class_simps [simp]:
  "in_class [] c \<longleftrightarrow> False"
  "in_class ((a, b) # rs) c \<longleftrightarrow> ((of_char a :: nat) \<le> of_char c \<and> (of_char c :: nat) \<le> of_char b) \<or> in_class rs c"
  by (simp_all add: in_class_def)

lemma of_char_eq: "(of_char a :: nat) \<le> of_char c \<and> (of_char c :: nat) \<le> of_char a \<longleftrightarrow> c = a"
  by (metis antisym of_char_eq_iff order_refl)

text \<open>A text over one class whose ends are of smaller ones.\<close>

lemma ends_pattern:
  "s \<in> lang (Seq (Class as) (Opt (Seq (Rep (Class bs)) (Class cs)))) \<longleftrightarrow>
     s \<noteq> '''' \<and> in_class as (hd s) \<and> (tl s = '''' \<or> (list_all (in_class bs) (butlast (tl s)) \<and> in_class cs (last s)))"
proof (cases s)
  case (Cons c t)
  have "t \<in> lang (Opt (Seq (Rep (Class bs)) (Class cs))) \<longleftrightarrow> t = '''' \<or> (list_all (in_class bs) (butlast t) \<and> in_class cs (last t) \<and> t \<noteq> '''')"
    unfolding lang.simps(4) lang.simps(2) Un_iff lang_Seq_Class_last lang_Rep_Class
    by (cases t rule: rev_cases) auto
  with Cons show ?thesis by (auto simp: lang_Seq_Class simp del: lang.simps)
qed (simp add: lang_Seq_Class)

lemma starts_pattern:
  "s \<in> lang (Seq (Opt (Seq (Class as) (Rep (Class bs)))) (Class cs)) \<longleftrightarrow>
     s \<noteq> '''' \<and> in_class cs (last s) \<and> (butlast s = '''' \<or> (in_class as (hd s) \<and> list_all (in_class bs) (tl (butlast s))))"
proof (cases s rule: rev_cases)
  case (snoc t c)
  have "t \<in> lang (Opt (Seq (Class as) (Rep (Class bs)))) \<longleftrightarrow> t = '''' \<or> (t \<noteq> '''' \<and> in_class as (hd t) \<and> list_all (in_class bs) (tl t))"
    unfolding lang.simps(4) lang.simps(2) Un_iff lang_Seq_Class lang_Rep_Class
    by (cases t) auto
  with snoc show ?thesis by (cases t) (auto simp: lang_Seq_Class_last simp del: lang.simps)
qed (simp add: lang_Seq_Class_last)

lemma single_class: "in_class [(a, a)] c \<longleftrightarrow> c = a"
  by (simp add: of_char_eq)

lemma in_class_Cons: "in_class (r # rs) c \<longleftrightarrow> in_class [r] c \<or> in_class rs c"
  by (cases r) (simp del: class_simps add: in_class_def)

text \<open>The classes of the patterns.\<close>

lemma upper_lower_class: "in_class [(CHR ''A'', CHR ''Z'')] c \<or> in_class [(CHR ''a'', CHR ''z'')] c \<longleftrightarrow> is_letter c"
  by (simp add: is_letter_def)

lemma digit_class: "in_class [(CHR ''0'', CHR ''9'')] c \<longleftrightarrow> is_digit c"
  by (simp add: is_digit_def)

lemma lower_class: "in_class [(CHR ''a'', CHR ''z'')] c \<or> is_digit c \<longleftrightarrow> is_lower_alnum c"
  by (auto simp: is_lower_alnum_def)

lemma classes:
  "in_class [(CHR ''A'', CHR ''Z''), (CHR ''a'', CHR ''z'')] c \<longleftrightarrow> is_letter c"
  "in_class [(CHR ''A'', CHR ''Z''), (CHR ''a'', CHR ''z''), (CHR ''0'', CHR ''9'')] c \<longleftrightarrow> is_letter c \<or> is_digit c"
  "in_class [(CHR ''A'', CHR ''Z''), (CHR ''a'', CHR ''z''), (CHR ''0'', CHR ''9''), (CHR ''_'', CHR ''_'')] c \<longleftrightarrow>
     is_letter c \<or> is_digit c \<or> c = CHR ''_''"
  "in_class [(CHR ''A'', CHR ''Z''), (CHR ''a'', CHR ''z''), (CHR ''0'', CHR ''9''), (CHR ''_'', CHR ''_''), (CHR '','', CHR '',''),
     (CHR '':'', CHR '':'')] c \<longleftrightarrow> is_letter c \<or> is_digit c \<or> c \<in> set ''_,:''"
  "in_class [(CHR ''-'', CHR ''-''), (CHR ''A'', CHR ''Z''), (CHR ''a'', CHR ''z''), (CHR ''0'', CHR ''9''), (CHR ''_'', CHR ''_''),
     (CHR ''.'', CHR ''.'')] c \<longleftrightarrow> is_letter c \<or> is_digit c \<or> c \<in> set ''-_.''"
  "in_class [(CHR ''a'', CHR ''z''), (CHR ''0'', CHR ''9'')] c \<longleftrightarrow> is_lower_alnum c"
  "in_class [(CHR ''-'', CHR ''-''), (CHR ''a'', CHR ''z''), (CHR ''0'', CHR ''9'')] c \<longleftrightarrow> is_lower_alnum c \<or> c = CHR ''-''"
  using upper_lower_class [of c] digit_class [of c] lower_class [of c]
  by (auto simp del: class_simps simp: in_class_Cons [of _ "_ # _"] single_class)

theorem reason_pattern_text: "matches reason_pattern s \<longleftrightarrow> reason_text s"
  unfolding matches_iff reason_pattern_def ends_pattern classes reason_text_def by auto

theorem label_pattern_text: "s \<in> lang label_pattern \<longleftrightarrow> dns_label s"
proof -
  have "list_all P (butlast (tl s)) \<and> Q (last s) \<and> P' (hd s) \<longleftrightarrow> list_all P s \<and> Q (last s) \<and> P' (hd s)"
    if "tl s \<noteq> ''''" "\<And>c. Q c \<Longrightarrow> P c" "\<And>c. P' c \<Longrightarrow> P c" for P Q P'
    using that by (cases s; cases "tl s" rule: rev_cases) auto
  from this [of is_lower_alnum "\<lambda>c. is_lower_alnum c \<or> c = CHR ''-''" is_lower_alnum] show ?thesis
    unfolding label_pattern_def ends_pattern classes dns_label_def
    by (cases s; cases "tl s = ''''") auto
qed

theorem name_pattern_text: "s \<in> lang name_pattern \<longleftrightarrow> name_text s"
proof -
  let ?P = "\<lambda>c. is_letter c \<or> is_digit c \<or> c \<in> set ''-_.''" and ?Q = "\<lambda>c. is_letter c \<or> is_digit c"
  have "list_all ?P (tl (butlast s)) \<and> ?Q (last s) \<and> ?Q (hd s) \<longleftrightarrow> list_all ?P s \<and> ?Q (last s) \<and> ?Q (hd s)" if "butlast s \<noteq> ''''"
    using that by (cases s rule: rev_cases; cases "butlast s") auto
  then show ?thesis
    unfolding name_pattern_def starts_pattern classes name_text_def
    by (cases s rule: rev_cases; cases "butlast s = ''''") auto
qed

text \<open>A domain is a list of labels; a type is a name, or a domain, a slash and a name.\<close>

lemma lang_Lit: "s \<in> lang (Seq (Lit a) r) \<longleftrightarrow> (\<exists>t. s = a # t \<and> t \<in> lang r)"
  unfolding Lit_def lang_Seq_Class single_class by auto

lemma lang_Lit_last: "s \<in> lang (Seq r (Lit a)) \<longleftrightarrow> (\<exists>t. s = t @ [a] \<and> t \<in> lang r)"
  unfolding Lit_def lang_Seq_Class_last single_class by auto

lemma join_dots: "strings_Join [c] (l # ls) = l @ concat (map ((#) c) ls)"
  by (induction ls arbitrary: l) (auto simp: strings_Join_Cons)

lemma lang_dotted:
  "d \<in> lang (Seq label_pattern (Rep (Seq (Lit CHR ''.'') label_pattern))) \<longleftrightarrow>
     (\<exists>ls. ls \<noteq> [] \<and> list_all dns_label ls \<and> d = strings_Join ''.'' ls)"
proof -
  have "v \<in> lang (Rep (Seq (Lit CHR ''.'') label_pattern)) \<longleftrightarrow> (\<exists>ls. list_all dns_label ls \<and> v = concat (map ((#) CHR ''.'') ls))" for v
  proof
    assume "v \<in> lang (Rep (Seq (Lit CHR ''.'') label_pattern))"
    then obtain ws where ws: "v = concat ws" "set ws \<subseteq> lang (Seq (Lit CHR ''.'') label_pattern)" by (auto simp: lang.simps(6))
    have "dns_label (tl w) \<and> w = CHR ''.'' # tl w" if "w \<in> set ws" for w
      using subsetD [OF ws(2) that] by (auto simp: lang_Lit label_pattern_text)
    then have "list_all dns_label (map tl ws)" "ws = map ((#) CHR ''.'') (map tl ws)"
      by (auto simp: list_all_iff intro!: map_idI [symmetric])
    with ws(1) show "\<exists>ls. list_all dns_label ls \<and> v = concat (map ((#) CHR ''.'') ls)" by metis
  next
    assume "\<exists>ls. list_all dns_label ls \<and> v = concat (map ((#) CHR ''.'') ls)"
    then obtain ls where "list_all dns_label ls" "v = concat (map ((#) CHR ''.'') ls)" by blast
    then show "v \<in> lang (Rep (Seq (Lit CHR ''.'') label_pattern))"
      by (auto simp: lang.simps(6) lang_Lit label_pattern_text list_all_iff intro!: exI [of _ "map ((#) CHR ''.'') ls"])
  qed
  then have "d \<in> lang (Seq label_pattern (Rep (Seq (Lit CHR ''.'') label_pattern))) \<longleftrightarrow>
      (\<exists>l ls. d = l @ concat (map ((#) CHR ''.'') ls) \<and> dns_label l \<and> list_all dns_label ls)"
    unfolding lang_Seq_iff label_pattern_text by auto
  also have "\<dots> \<longleftrightarrow> (\<exists>ls. ls \<noteq> [] \<and> list_all dns_label ls \<and> d = strings_Join ''.'' ls)"
    unfolding neq_Nil_conv by (auto simp: join_dots) (metis join_dots list.pred_inject(2) | blast)+
  finally show ?thesis .
qed

lemma no_separators:
  "dns_label l \<Longrightarrow> CHR ''.'' \<notin> set l \<and> CHR ''/'' \<notin> set l" "name_text n \<Longrightarrow> CHR ''/'' \<notin> set n"
proof -
  have "\<not> is_lower_alnum CHR ''.''" "\<not> is_lower_alnum CHR ''/''" "\<not> is_letter CHR ''/''" "\<not> is_digit CHR ''/''"
    by (simp_all add: is_lower_alnum_def is_letter_def is_digit_def)
  then show "dns_label l \<Longrightarrow> CHR ''.'' \<notin> set l \<and> CHR ''/'' \<notin> set l" "name_text n \<Longrightarrow> CHR ''/'' \<notin> set n"
    by (auto simp: dns_label_def name_text_def list_all_iff)
qed

lemma domain_split:
  "d \<in> lang (Seq label_pattern (Rep (Seq (Lit CHR ''.'') label_pattern))) \<longleftrightarrow> list_all dns_label (split_at CHR ''.'' d)"
proof
  assume "d \<in> lang (Seq label_pattern (Rep (Seq (Lit CHR ''.'') label_pattern)))"
  then obtain ls where ls: "ls \<noteq> []" "list_all dns_label ls" "d = strings_Join ''.'' ls" by (auto simp: lang_dotted)
  then have "split_at CHR ''.'' d = ls" using no_separators(1) by (auto simp: list_all_iff intro!: split_join)
  with ls(2) show "list_all dns_label (split_at CHR ''.'' d)" by simp
next
  assume "list_all dns_label (split_at CHR ''.'' d)"
  then show "d \<in> lang (Seq label_pattern (Rep (Seq (Lit CHR ''.'') label_pattern)))"
    unfolding lang_dotted by (metis join_split split_at_not_Nil)
qed

lemma domain_no_slash: "list_all dns_label (split_at CHR ''.'' d) \<Longrightarrow> CHR ''/'' \<notin> set d"
proof -
  have "CHR ''/'' \<notin> set (strings_Join ''.'' ls)" if "list_all dns_label ls" for ls
    using that no_separators(1) by (induction ls) (auto simp: strings_Join_Cons)
  then show "list_all dns_label (split_at CHR ''.'' d) \<Longrightarrow> CHR ''/'' \<notin> set d" by (metis join_split)
qed

theorem condition_type_pattern_text: "matches condition_type_pattern s \<longleftrightarrow> condition_type_text s"
proof -
  have "s \<in> lang condition_type_pattern \<longleftrightarrow>
      name_text s \<or> (\<exists>d n. s = d @ CHR ''/'' # n \<and> list_all dns_label (split_at CHR ''.'' d) \<and> name_text n)"
    unfolding condition_type_pattern_def lang_Seq_iff [of _ "Opt _"] lang.simps(2,4) Un_iff name_pattern_text
      lang_Lit_last domain_split
    by (auto, metis append.assoc append_Cons append_Nil)
  also have "\<dots> \<longleftrightarrow> condition_type_text s"
  proof
    assume "name_text s \<or> (\<exists>d n. s = d @ CHR ''/'' # n \<and> list_all dns_label (split_at CHR ''.'' d) \<and> name_text n)"
    then show "condition_type_text s"
    proof
      assume "name_text s"
      with no_separators(2) [OF this] show ?thesis by (simp add: condition_type_text_def split_at_single)
    next
      assume "\<exists>d n. s = d @ CHR ''/'' # n \<and> list_all dns_label (split_at CHR ''.'' d) \<and> name_text n"
      then obtain d n where s: "s = d @ CHR ''/'' # n" and d: "list_all dns_label (split_at CHR ''.'' d)" and n: "name_text n" by blast
      then show ?thesis
        using domain_no_slash [OF d] no_separators(2) [OF n]
        by (simp add: condition_type_text_def split_at_append split_at_single)
    qed
  next
    assume *: "condition_type_text s"
    have j: "strings_Join ''/'' (split_at CHR ''/'' s) = s" by simp
    from * consider n where "split_at CHR ''/'' s = [n]" "name_text n"
      | d n where "split_at CHR ''/'' s = [d, n]" "list_all dns_label (split_at CHR ''.'' d)" "name_text n"
      by (auto simp: condition_type_text_def split: list.splits)
    then show "name_text s \<or> (\<exists>d n. s = d @ CHR ''/'' # n \<and> list_all dns_label (split_at CHR ''.'' d) \<and> name_text n)"
    proof cases
      case 1
      with j show ?thesis by simp
    next
      case 2
      with j show ?thesis by auto
    qed
  qed
  finally show ?thesis by (simp add: matches_iff)
qed

section \<open>Markers and schemas\<close>

text \<open>What the schema asks of one property.\<close>

definition property_ok :: "time_lib \<Rightarrow> string \<Rightarrow> schema \<Rightarrow> gomap \<Rightarrow> bool" where
  "property_ok T k s m = (case fmlookup m k of None \<Rightarrow> True | Some x \<Rightarrow> conforms T s x)"

lemma conforms_object: "conforms T (ObjectSchema props req) (GMap m) \<longleftrightarrow>
    list_all (\<lambda>(k, d, s). property_ok T k s m) props \<and> list_all (\<lambda>k. valid_required k m) req"
  by (simp add: property_ok_def valid_required_def case_prod_beta)

lemma string_ok_plain [simp]: "string_ok T plain_string s"
  by (simp add: string_ok_def plain_string_def)

text \<open>Each marker is the schema of its field.\<close>

lemma marker_schemas:
  "valid_string k m \<longleftrightarrow> property_ok T k (StringSchema plain_string) m"
  "valid_bool k m \<longleftrightarrow> property_ok T k BooleanSchema m"
  "- (2 ^ 31) \<le> n \<Longrightarrow> valid_minimum k n m \<longleftrightarrow> property_ok T k (IntegerSchema (Some ''int32'') (Some n)) m"
  "valid_int32 k m \<longleftrightarrow> property_ok T k (IntegerSchema (Some ''int32'') None) m"
  "valid_enum k vs m \<longleftrightarrow> property_ok T k (StringSchema (plain_string\<lparr>sf_enum := Some vs\<rparr>)) m"
  "valid_strings k m \<longleftrightarrow> property_ok T k (MapSchema (StringSchema plain_string)) m"
  by (auto simp: marker_defs valid_int32_def property_ok_def int_ok_def string_ok_def plain_string_def fmpred_iff
    split: option.splits gval.splits)
     (metis is_string.simps gval.exhaust)+

lemma valid_in_schema:
  assumes "\<And>x. V x \<longleftrightarrow> conforms T (ObjectSchema props req) (GMap x)"
  shows "valid_in k V m \<longleftrightarrow> property_ok T k (ObjectSchema props req) m"
  unfolding valid_in_def property_ok_def assms by (auto split: option.splits gval.splits)

text \<open>The blocks. The claims of resources and a quantity given as a number are not in the Go values of the operator.\<close>

definition text_quantities :: "string \<Rightarrow> gomap \<Rightarrow> bool" where
  "text_quantities k r = (case fmlookup r k of
      Some (GMap q) \<Rightarrow> fmpred (\<lambda>_ v. case v of GStr s \<Rightarrow> matches quantity_pattern s | GInt _ \<Rightarrow> False | _ \<Rightarrow> True) q
    | _ \<Rightarrow> True)"

definition text_resources :: "gomap \<Rightarrow> bool" where
  "text_resources m = (case fmlookup m ''resources'' of
      Some (GMap r) \<Rightarrow> fmlookup r ''claims'' = None \<and> text_quantities ''limits'' r \<and> text_quantities ''requests'' r
    | _ \<Rightarrow> True)"

lemma quantities_schema:
  assumes "text_quantities k r"
  shows "valid_strings k r \<longleftrightarrow> property_ok T k (MapSchema (IntOrStringSchema quantity_pattern)) r"
proof (cases "\<exists>q. fmlookup r k = Some (GMap q)")
  case True
  then obtain q where q: "fmlookup r k = Some (GMap q)" by blast
  have "is_string v \<longleftrightarrow> conforms T (IntOrStringSchema quantity_pattern) v" if "fmlookup q x = Some v" for x v
  proof -
    from assms that q have "case v of GStr s \<Rightarrow> matches quantity_pattern s | GInt _ \<Rightarrow> False | _ \<Rightarrow> True"
      by (auto simp: text_quantities_def fmpred_iff)
    then show ?thesis by (cases v) simp_all
  qed
  then have "fmpred (\<lambda>_ x. is_string x) q \<longleftrightarrow> fmpred (\<lambda>_ x. conforms T (IntOrStringSchema quantity_pattern) x) q"
    by (auto simp: fmpred_iff)
  with q show ?thesis by (simp add: valid_strings_def property_ok_def del: conforms.simps(4))
next
  case False
  then show ?thesis by (auto simp: valid_strings_def property_ok_def split: option.splits gval.splits)
qed

lemma block_valid:
  "StorageSpec_valid x \<longleftrightarrow> conforms T storage_schema (GMap x)"
  "DatabaseSpec_valid x \<longleftrightarrow> conforms T database_schema (GMap x)"
  "MonitoringSpec_valid x \<longleftrightarrow> conforms T monitoring_schema (GMap x)"
  "PersistenceSpec_valid x \<longleftrightarrow> conforms T persistence_schema (GMap x)"
  "IngressSpec_valid x \<longleftrightarrow> conforms T ingress_schema (GMap x)"
  "ServiceExposeSpec_valid x \<longleftrightarrow> conforms T expose_schema (GMap x)"
  by (auto simp: block_schemas conforms_object marker_schemas [where T = T] StorageSpec_valid_def DatabaseSpec_valid_def
    MonitoringSpec_valid_def PersistenceSpec_valid_def IngressSpec_valid_def ServiceExposeSpec_valid_def simp del: conforms.simps)

lemma valid_in_blocks:
  "valid_in k StorageSpec_valid m \<longleftrightarrow> property_ok T k storage_schema m"
  "valid_in k DatabaseSpec_valid m \<longleftrightarrow> property_ok T k database_schema m"
  "valid_in k MonitoringSpec_valid m \<longleftrightarrow> property_ok T k monitoring_schema m"
  "valid_in k PersistenceSpec_valid m \<longleftrightarrow> property_ok T k persistence_schema m"
  "valid_in k IngressSpec_valid m \<longleftrightarrow> property_ok T k ingress_schema m"
  "valid_in k ServiceExposeSpec_valid m \<longleftrightarrow> property_ok T k expose_schema m"
  using block_valid [of _ T] unfolding block_schemas by (simp_all add: valid_in_schema del: conforms.simps)

lemma valid_in_resources:
  assumes "text_resources m"
  shows "valid_in ''resources'' ResourceRequirements_valid m \<longleftrightarrow> property_ok T ''resources'' resources_schema m"
proof (cases "\<exists>r. fmlookup m ''resources'' = Some (GMap r)")
  case True
  then obtain r where r: "fmlookup m ''resources'' = Some (GMap r)" by blast
  with assms have t: "fmlookup r ''claims'' = None" "text_quantities ''limits'' r" "text_quantities ''requests'' r"
    by (simp_all add: text_resources_def)
  then have "property_ok T ''claims'' s r" for s by (simp add: property_ok_def)
  with quantities_schema [OF t(2)] quantities_schema [OF t(3)]
  have "ResourceRequirements_valid r \<longleftrightarrow> conforms T resources_schema (GMap r)"
    by (simp add: ResourceRequirements_valid_def resources_schema_def conforms_object del: conforms.simps)
  with r show ?thesis by (simp add: valid_in_def property_ok_def)
next
  case False
  then show ?thesis by (auto simp: valid_in_def property_ok_def resources_schema_def split: option.splits gval.splits)
qed

section \<open>Validation\<close>

lemma spec_valid:
  "text_resources m \<Longrightarrow> PostgresClusterSpec_valid m \<longleftrightarrow> conforms T PostgresCluster_spec_schema (GMap m)"
  "text_resources m \<Longrightarrow> ValkeyClusterSpec_valid m \<longleftrightarrow> conforms T ValkeyCluster_spec_schema (GMap m)"
  "text_resources m \<Longrightarrow> GrafanaInstanceSpec_valid m \<longleftrightarrow> conforms T GrafanaInstance_spec_schema (GMap m)"
  "text_resources m \<Longrightarrow> MariaDBClusterSpec_valid m \<longleftrightarrow> conforms T MariaDBCluster_spec_schema (GMap m)"
  "text_resources m \<Longrightarrow> RabbitMQClusterSpec_valid m \<longleftrightarrow> conforms T RabbitMQCluster_spec_schema (GMap m)"
  "text_resources m \<Longrightarrow> PrometheusInstanceSpec_valid m \<longleftrightarrow> conforms T PrometheusInstance_spec_schema (GMap m)"
  by (simp_all add: spec_schemas conforms_object PostgresClusterSpec_valid_def ValkeyClusterSpec_valid_def GrafanaInstanceSpec_valid_def
    MariaDBClusterSpec_valid_def RabbitMQClusterSpec_valid_def PrometheusInstanceSpec_valid_def
    marker_schemas [where T = T] valid_in_blocks [where T = T] valid_in_resources [where T = T] del: conforms.simps) blast+

text \<open>A condition, and the list of them keyed by type.\<close>

lemma condition_valid: "Condition_valid T m \<longleftrightarrow> conforms T condition_schema (GMap m)"
proof -
  have reason: "reason_text s \<Longrightarrow> Suc 0 \<le> length s" for s by (cases s) (simp_all add: reason_text_def)
  have texts: "valid_text ''message'' 32768 (\<lambda>_. True) m \<longleftrightarrow>
      valid_required ''message'' m \<and> property_ok T ''message'' (StringSchema (plain_string\<lparr>sf_maxLength := Some 32768\<rparr>)) m"
    "valid_text ''type'' 316 condition_type_text m \<longleftrightarrow> valid_required ''type'' m \<and>
      property_ok T ''type'' (StringSchema (plain_string\<lparr>sf_maxLength := Some 316, sf_pattern := Some condition_type_pattern\<rparr>)) m"
    "valid_text ''reason'' 1024 reason_text m \<longleftrightarrow> valid_required ''reason'' m \<and>
      property_ok T ''reason'' (StringSchema (plain_string\<lparr>sf_minLength := Some 1, sf_maxLength := Some 1024, sf_pattern := Some reason_pattern\<rparr>)) m"
    by (auto simp: valid_text_def valid_required_def property_ok_def string_ok_def plain_string_def reason_pattern_text
      condition_type_pattern_text reason split: option.splits gval.splits)
  have time: "(case fmlookup m ''lastTransitionTime'' of Some (GStr s) \<Rightarrow> is_date_time T s | _ \<Rightarrow> False) \<longleftrightarrow>
      valid_required ''lastTransitionTime'' m \<and>
      property_ok T ''lastTransitionTime'' (StringSchema (plain_string\<lparr>sf_format := Some ''date-time''\<rparr>)) m"
    by (auto simp: valid_required_def property_ok_def string_ok_def plain_string_def split: option.splits gval.splits)
  have generation: "(case fmlookup m ''observedGeneration'' of None \<Rightarrow> True | Some (GInt i) \<Rightarrow> 0 \<le> sint i | _ \<Rightarrow> False) \<longleftrightarrow>
      property_ok T ''observedGeneration'' (IntegerSchema (Some ''int64'') (Some 0)) m"
    by (auto simp: property_ok_def int_ok_def split: option.splits gval.splits)
  show ?thesis
    unfolding Condition_valid_def condition_schema_def conforms_object texts time generation marker_schemas(5) [where T = T]
    by (simp del: conforms.simps; blast)
qed

lemma conditions_valid: "valid_conditions T m \<longleftrightarrow> property_ok T ''conditions'' (ArraySchema condition_schema [''type'']) m"
proof (cases "\<exists>vs. fmlookup m ''conditions'' = Some (GSlice vs)")
  case True
  then obtain vs where vs: "fmlookup m ''conditions'' = Some (GSlice vs)" by blast
  have item: "(case v of GMap c \<Rightarrow> Condition_valid T c | _ \<Rightarrow> False) \<longleftrightarrow> conforms T condition_schema v" for v
    unfolding condition_valid by (cases v) (simp_all add: condition_schema_def)
  have key: "item_keys [''type''] v = item_keys [''type''] v' \<longleftrightarrow> json_string ''type'' (as_object v) = json_string ''type'' (as_object v')"
    if "conforms T condition_schema v" "conforms T condition_schema v'" for v v'
  proof -
    have "\<exists>s. fmlookup (as_object u) ''type'' = Some (GStr s)" if "conforms T condition_schema u" for u
      using that item [of u] by (cases u) (auto simp: Condition_valid_def valid_text_def split: option.splits gval.splits)
    from this [OF that(1)] this [OF that(2)] show ?thesis by (auto simp: item_keys_def json_string_def)
  qed
  have "distinct (map (item_keys [''type'']) vs) \<longleftrightarrow> distinct (map (\<lambda>v. json_string ''type'' (as_object v)) vs)"
    if "list_all (conforms T condition_schema) vs"
    using that key unfolding distinct_map inj_on_def list_all_iff by metis
  with vs item show ?thesis by (auto simp: valid_conditions_def property_ok_def list_all_iff)
next
  case False
  then show ?thesis by (auto simp: valid_conditions_def property_ok_def split: option.splits gval.splits)
qed

lemma status_valid:
  "PostgresClusterStatus_valid T m \<longleftrightarrow> conforms T PostgresCluster_status_schema (GMap m)"
  "ValkeyClusterStatus_valid T m \<longleftrightarrow> conforms T ValkeyCluster_status_schema (GMap m)"
  "GrafanaInstanceStatus_valid T m \<longleftrightarrow> conforms T GrafanaInstance_status_schema (GMap m)"
  "MariaDBClusterStatus_valid T m \<longleftrightarrow> conforms T MariaDBCluster_status_schema (GMap m)"
  "RabbitMQClusterStatus_valid T m \<longleftrightarrow> conforms T RabbitMQCluster_status_schema (GMap m)"
  "PrometheusInstanceStatus_valid T m \<longleftrightarrow> conforms T PrometheusInstance_status_schema (GMap m)"
  by (simp_all add: status_schemas conforms_object PostgresClusterStatus_valid_def ValkeyClusterStatus_valid_def GrafanaInstanceStatus_valid_def
    MariaDBClusterStatus_valid_def RabbitMQClusterStatus_valid_def PrometheusInstanceStatus_valid_def
    marker_schemas [where T = T] conditions_valid del: conforms.simps) blast+

end
