(* ===== verification/Crd_Kinds.thy ===== *)
theory Crd_Kinds
  imports Crd_Match
begin

text \<open>
  The definitions the cluster is given against the Go types, continued: the schemas fill in the defaults of the markers (the
  \<open>_defaults\<close> of \<open>Api_Json\<close>), and the names are those the operator registers, watches and has rights on.
\<close>

section \<open>Defaults\<close>

fun no_default :: "schema \<Rightarrow> bool" where
  "no_default (MapSchema s) \<longleftrightarrow> no_default s"
| "no_default (ArraySchema s ks) \<longleftrightarrow> no_default s"
| "no_default (ObjectSchema props req) \<longleftrightarrow> list_all (\<lambda>(k, d, s). d = None \<and> no_default s) props"
| "no_default _ \<longleftrightarrow> True"

lemma fmupd_same: "fmlookup m k = Some x \<Longrightarrow> fmupd k x m = m"
  by (rule fmap_ext) auto

text \<open>What \<open>fill\<close> does to one property.\<close>

definition fill_property :: "string \<times> gval option \<times> schema \<Rightarrow> gomap \<Rightarrow> gomap" where
  "fill_property = (\<lambda>(k, d, s) m. case (case fmlookup m k of Some x \<Rightarrow> Some x | None \<Rightarrow> d) of
     Some x \<Rightarrow> fmupd k (fill s x) m | None \<Rightarrow> m)"

lemma fill_object: "fill (ObjectSchema props req) (GMap m) = GMap (fold fill_property props m)"
  by (simp add: fill_property_def)

lemma fill_unchanged: "no_default s \<Longrightarrow> fill s v = v"
proof (induction s v rule: fill.induct)
  case (1 s v)
  show ?case
  proof (cases v)
    case (GMap m)
    have "fmmap (fill s) m = m"
    proof (rule fmap_ext)
      fix k
      show "fmlookup (fmmap (fill s) m) k = fmlookup m k"
      proof (cases "fmlookup m k")
        case (Some x)
        with 1 GMap fmran'I [OF Some] show ?thesis by simp
      qed simp
    qed
    with GMap show ?thesis by simp
  qed simp_all
next
  case (2 s ks v)
  then show ?case by (auto split: gval.split intro!: map_idI)
next
  case (3 props req v)
  show ?case
  proof (cases v)
    case (GMap m)
    have "fill_property p m' = m'" if props: "p \<in> set props" for p m'
    proof -
      obtain k d s where p: "(k, d, s) = p" by (metis prod.exhaust)
      with 3(2) props have "d = None" and s: "no_default s" by (auto simp: list_all_iff)
      moreover have "fill s x = x" if "fmlookup m' k = Some x" for x
        using 3(1) [OF GMap props p refl _ s, of m' x] that by simp
      ultimately show ?thesis using p [symmetric] by (simp add: fill_property_def fmupd_same split: option.split)
    qed
    then have "fold fill_property props m = m" by (induction props) auto
    with GMap show ?thesis by (simp only: fill_object)
  qed simp_all
qed simp_all

lemma fill_property_simps:
  "no_default s \<Longrightarrow> fill_property (k, None, s) m = m"
  "no_default s \<Longrightarrow> fill_property (k, Some v, s) m = default_field k v m"
  by (auto simp: fill_property_def default_field_def set_if_def fill_unchanged fmupd_same split: option.split)

text \<open>An optional object whose properties have defaults.\<close>

lemma fill_property_in:
  assumes "\<And>x. fill (ObjectSchema props req) (GMap x) = GMap (D x)"
  shows "fill_property (k, None, ObjectSchema props req) m = default_in k D m"
proof (cases "fmlookup m k")
  case (Some v)
  have "fill (ObjectSchema props req) v = v" if "\<And>x. v \<noteq> GMap x" using that by (cases v) auto
  with Some assms show ?thesis
    by (cases v) (simp_all add: fill_property_def default_in_def fmupd_same del: fill.simps(3))
qed (simp add: fill_property_def default_in_def)

lemma fmlookup_default:
  "fmlookup (default_field k v m) k' = (if k' = k \<and> fmlookup m k = None then Some v else fmlookup m k')"
  "fmlookup (default_in k D m) k' = (if k' = k then map_option (\<lambda>x. case x of GMap y \<Rightarrow> GMap (D y) | _ \<Rightarrow> x) (fmlookup m k) else fmlookup m k')"
  by (auto simp: default_field_def default_in_def set_if_def split: option.split gval.split)

text \<open>The order in which different properties are filled in does not matter.\<close>

lemma defaults_commute:
  "k \<noteq> k' \<Longrightarrow> default_field k v (default_field k' v' m) = default_field k' v' (default_field k v m)"
  "k \<noteq> k' \<Longrightarrow> default_in k D (default_in k' D' m) = default_in k' D' (default_in k D m)"
  "k \<noteq> k' \<Longrightarrow> default_field k v (default_in k' D' m) = default_in k' D' (default_field k v m)"
  by (rule fmap_ext, auto simp: fmlookup_default)+

lemma fill_blocks:
  "fill_property (k, None, expose_schema) m = default_in k ServiceExposeSpec_defaults m"
  "fill_property (k, None, monitoring_schema) m = default_in k MonitoringSpec_defaults m"
  unfolding block_schemas
  by (rule fill_property_in, simp add: fill_object fill_property_simps ServiceExposeSpec_defaults_def MonitoringSpec_defaults_def
    del: fill.simps(3))+

lemma no_default_blocks:
  "no_default database_schema" "no_default resources_schema" "no_default storage_schema" "no_default persistence_schema"
  "no_default ingress_schema"
  by (simp_all add: block_schemas)

lemma spec_defaults:
  "fill PostgresCluster_spec_schema (GMap m) = GMap (PostgresClusterSpec_defaults m)"
  "fill ValkeyCluster_spec_schema (GMap m) = GMap (ValkeyClusterSpec_defaults m)"
  "fill GrafanaInstance_spec_schema (GMap m) = GMap (GrafanaInstanceSpec_defaults m)"
  "fill MariaDBCluster_spec_schema (GMap m) = GMap (MariaDBClusterSpec_defaults m)"
  "fill RabbitMQCluster_spec_schema (GMap m) = GMap (RabbitMQClusterSpec_defaults m)"
  "fill PrometheusInstance_spec_schema (GMap m) = GMap (PrometheusInstanceSpec_defaults m)"
  by (simp_all add: spec_schemas fill_object fill_blocks fill_property_simps no_default_blocks PostgresClusterSpec_defaults_def
    ValkeyClusterSpec_defaults_def GrafanaInstanceSpec_defaults_def MariaDBClusterSpec_defaults_def RabbitMQClusterSpec_defaults_def
    PrometheusInstanceSpec_defaults_def defaults_commute del: fill.simps(3))

section \<open>Names\<close>

text \<open>The markers above each root type: the status subresource, the short name, the columns \<^verbatim>\<open>kubectl get\<close> prints.\<close>

record kind_markers =
  km_Status :: bool
  km_ShortNames :: "string list"
  km_Columns :: "crd_column list"

definition printcolumn :: "string \<Rightarrow> string \<Rightarrow> string \<Rightarrow> crd_column" where
  "printcolumn n ty path = \<lparr>col_Name = n, col_Type = ty, col_JSONPath = path\<rparr>"

definition PostgresCluster_markers :: kind_markers where
  "PostgresCluster_markers = \<lparr>km_Status = True, km_ShortNames = [''pgc''],
     km_Columns = [printcolumn ''Instances'' ''integer'' ''.spec.instances'',
       printcolumn ''Ready'' ''boolean'' ''.status.ready'', printcolumn ''Phase'' ''string'' ''.status.phase'',
       printcolumn ''Age'' ''date'' ''.metadata.creationTimestamp'']\<rparr>"

definition ValkeyCluster_markers :: kind_markers where
  "ValkeyCluster_markers = \<lparr>km_Status = True, km_ShortNames = [''vkc''],
     km_Columns = [printcolumn ''Shards'' ''integer'' ''.spec.shards'',
       printcolumn ''Ready'' ''boolean'' ''.status.ready'', printcolumn ''Phase'' ''string'' ''.status.phase'',
       printcolumn ''Age'' ''date'' ''.metadata.creationTimestamp'']\<rparr>"

definition GrafanaInstance_markers :: kind_markers where
  "GrafanaInstance_markers = \<lparr>km_Status = True, km_ShortNames = [''gfi''],
     km_Columns = [printcolumn ''Replicas'' ''integer'' ''.spec.replicas'',
       printcolumn ''Ready'' ''boolean'' ''.status.ready'', printcolumn ''Phase'' ''string'' ''.status.phase'',
       printcolumn ''Age'' ''date'' ''.metadata.creationTimestamp'']\<rparr>"

definition MariaDBCluster_markers :: kind_markers where
  "MariaDBCluster_markers = \<lparr>km_Status = True, km_ShortNames = [''mdc''],
     km_Columns = [printcolumn ''Replicas'' ''integer'' ''.spec.replicas'',
       printcolumn ''Ready'' ''boolean'' ''.status.ready'', printcolumn ''Phase'' ''string'' ''.status.phase'',
       printcolumn ''Age'' ''date'' ''.metadata.creationTimestamp'']\<rparr>"

definition RabbitMQCluster_markers :: kind_markers where
  "RabbitMQCluster_markers = \<lparr>km_Status = True, km_ShortNames = [''rmq''],
     km_Columns = [printcolumn ''Replicas'' ''integer'' ''.spec.replicas'',
       printcolumn ''Ready'' ''boolean'' ''.status.ready'', printcolumn ''Phase'' ''string'' ''.status.phase'',
       printcolumn ''Age'' ''date'' ''.metadata.creationTimestamp'']\<rparr>"

definition PrometheusInstance_markers :: kind_markers where
  "PrometheusInstance_markers = \<lparr>km_Status = True, km_ShortNames = [''promi''],
     km_Columns = [printcolumn ''Replicas'' ''integer'' ''.spec.replicas'',
       printcolumn ''Ready'' ''boolean'' ''.status.ready'', printcolumn ''Phase'' ''string'' ''.status.phase'',
       printcolumn ''Age'' ''date'' ''.metadata.creationTimestamp'']\<rparr>"

lemmas kind_marker_defs = PostgresCluster_markers_def ValkeyCluster_markers_def GrafanaInstance_markers_def
  MariaDBCluster_markers_def RabbitMQCluster_markers_def PrometheusInstance_markers_def printcolumn_def

text \<open>The schema at a JSON path, and the column types that go with it.\<close>

fun schema_at :: "string list \<Rightarrow> schema \<Rightarrow> schema option" where
  "schema_at [] s = Some s"
| "schema_at (k # ks) (ObjectSchema props req) =
     (case map_of (map (\<lambda>(k, d, s). (k, s)) props) k of Some s \<Rightarrow> schema_at ks s | None \<Rightarrow> None)"
| "schema_at (k # ks) _ = None"

fun column_of :: "string \<Rightarrow> schema \<Rightarrow> bool" where
  "column_of ty (IntegerSchema f n) \<longleftrightarrow> ty = ''integer''"
| "column_of ty BooleanSchema \<longleftrightarrow> ty = ''boolean''"
| "column_of ty (StringSchema f) \<longleftrightarrow> ty = ''string''"
| "column_of ty _ \<longleftrightarrow> False"

text \<open>The creation time is metadata, which every object has.\<close>

definition column_ok :: "schema \<Rightarrow> crd_column \<Rightarrow> bool" where
  "column_ok s c \<longleftrightarrow> (col_Type c, col_JSONPath c) = (''date'', ''.metadata.creationTimestamp'') \<or>
     (case schema_at (tl (split_at CHR ''.'' (col_JSONPath c))) s of Some f \<Rightarrow> column_of (col_Type c) f | None \<Rightarrow> False)"

text \<open>A definition that serves one of the operator's kinds: under its group, version and plural, with its spec and status, the status
  as a subresource of its own.\<close>

definition serves_kind :: "scheme_libs \<Rightarrow> crd \<Rightarrow> string \<Rightarrow> kind_markers \<Rightarrow> schema \<Rightarrow> schema \<Rightarrow> bool" where
  "serves_kind reg c kind km spec status \<longleftrightarrow>
     \<lparr>Group = crd_Group c, Version = crd_Version c, Kind = crd_Kind c\<rparr> = paas_GVK kind \<and> crd_ListKind c = kind @ ''List'' \<and>
     paas_GVK (crd_Kind c) \<in> set (AddToScheme reg []) \<and> paas_GVK (crd_ListKind c) \<in> set (AddToScheme reg []) \<and>
     crd_Plural c = rest_plural (paas_GVK kind) \<and> crd_Name c = crd_Plural c @ ''.'' @ crd_Group c \<and> crd_Scope c = ''Namespaced'' \<and>
     crd_Served c \<and> crd_Storage c \<and> crd_Status c = km_Status km \<and> km_Status km \<and>
     crd_ShortNames c = km_ShortNames km \<and> crd_Columns c = km_Columns km \<and> list_all (column_ok (crd_Schema c)) (crd_Columns c) \<and>
     schema_at [''spec''] (crd_Schema c) = Some spec \<and> schema_at [''status''] (crd_Schema c) = Some status"

lemmas serve_defs = serves_kind_def crd_defs kind_marker_defs paas_GVK_def scheme_defs rest_plural_def rest_plurals_def column_ok_def

lemma crds_serve_the_kinds:
  "serves_kind reg PostgresCluster_crd ''PostgresCluster'' PostgresCluster_markers PostgresCluster_spec_schema PostgresCluster_status_schema"
  "serves_kind reg ValkeyCluster_crd ''ValkeyCluster'' ValkeyCluster_markers ValkeyCluster_spec_schema ValkeyCluster_status_schema"
  "serves_kind reg GrafanaInstance_crd ''GrafanaInstance'' GrafanaInstance_markers GrafanaInstance_spec_schema GrafanaInstance_status_schema"
  "serves_kind reg MariaDBCluster_crd ''MariaDBCluster'' MariaDBCluster_markers MariaDBCluster_spec_schema MariaDBCluster_status_schema"
  "serves_kind reg RabbitMQCluster_crd ''RabbitMQCluster'' RabbitMQCluster_markers RabbitMQCluster_spec_schema RabbitMQCluster_status_schema"
  "serves_kind reg PrometheusInstance_crd ''PrometheusInstance'' PrometheusInstance_markers PrometheusInstance_spec_schema PrometheusInstance_status_schema"
  by (simp_all add: serve_defs spec_schemas status_schemas)

end
