(* ===== verification/Test_Utils.thy ===== *)
theory Test_Utils
  imports Kube_Objects "HOL-Library.Sublist"
begin

text \<open>
  \<^verbatim>\<open>test/utils/utils.go\<close>: the helpers of the end-to-end tests. They edit scaffolded files, read the output of commands, and run
  \<^verbatim>\<open>kubectl\<close> and \<^verbatim>\<open>kind\<close>. The operating system is a parameter over a world \<open>'w\<close>; of the standard library the functions on strings
  and \<^verbatim>\<open>bufio.Scanner\<close> are modelled here as far as they are used. Writes to a \<^verbatim>\<open>bytes.Buffer\<close> do not fail.
\<close>

section \<open>Strings of the standard library\<close>

text \<open>\<^verbatim>\<open>strings.Index\<close>: the first place the text occurs at; \<open>None\<close> is -1.\<close>

fun strings_Index :: "string \<Rightarrow> string \<Rightarrow> nat option" where
  "strings_Index [] t = (if t = [] then Some 0 else None)"
| "strings_Index (c # s) t = (if prefix t (c # s) then Some 0 else map_option Suc (strings_Index s t))"

definition strings_Contains :: "string \<Rightarrow> string \<Rightarrow> bool" where
  "strings_Contains s t \<longleftrightarrow> strings_Index s t \<noteq> None"

definition strings_TrimPrefix :: "string \<Rightarrow> string \<Rightarrow> string" where
  "strings_TrimPrefix s p = (if prefix p s then drop (length p) s else s)"

lemma strings_Index_bound: "strings_Index s t = Some i \<Longrightarrow> i + length t \<le> length s"
  by (induction s arbitrary: i) (auto split: if_splits dest: prefix_length_le)

text \<open>\<^verbatim>\<open>strings.ReplaceAll(s, old, "")\<close> for an \<^verbatim>\<open>old\<close> that is not empty.\<close>

function strings_RemoveAll :: "string \<Rightarrow> string \<Rightarrow> string" where
  "strings_RemoveAll s old = (case strings_Index s old of
      None \<Rightarrow> s
    | Some i \<Rightarrow> if old = [] then s else take i s @ strings_RemoveAll (drop (i + length old) s) old)"
  by pat_completeness auto

termination
proof (relation "measure (length \<circ> fst)", goal_cases)
  case (2 s old i)
  then have "i + length old \<le> length s" "0 < length old" by (simp_all add: strings_Index_bound)
  then have "length s - (i + length old) < length s" by linarith
  then show ?case by simp
qed simp

declare strings_RemoveAll.simps [simp del]

text \<open>
  The tokens of a \<^verbatim>\<open>bufio.Scanner\<close> over a text, split into lines: no last line if it is empty, a carriage return at the end of a
  line dropped, and none any more once a line does not fit into the buffer of \<^verbatim>\<open>bufio.MaxScanTokenSize\<close> bytes.
\<close>

definition MaxScanTokenSize :: nat where
  "MaxScanTokenSize = 64 * 1024"

definition drop_cr :: "string \<Rightarrow> string" where
  "drop_cr s = (if s \<noteq> [] \<and> last s = CHR 0x0D then butlast s else s)"

definition scan_lines :: "string \<Rightarrow> string list" where
  "scan_lines s = (let ls = split_at CHR 0x0A s; ls' = (if last ls = [] then butlast ls else ls)
     in map drop_cr (takeWhile (\<lambda>l. length l < MaxScanTokenSize) ls'))"

lemma strings_Index_Some: "strings_Index s t = Some i \<Longrightarrow> s = take i s @ t @ drop (i + length t) s"
  by (induction s arbitrary: i) (auto split: if_splits simp: prefix_def)

lemma strings_Index_first: "s = pre @ t @ post \<Longrightarrow> \<exists>i \<le> length pre. strings_Index s t = Some i"
proof (induction s arbitrary: pre)
  case (Cons c s)
  show ?case
  proof (cases "prefix t (c # s)")
    case True
    then show ?thesis by simp
  next
    case False
    with Cons.prems obtain pre' where "pre = c # pre'" "s = pre' @ t @ post" by (cases pre) (auto simp: prefix_def)
    with Cons.IH False show ?thesis by fastforce
  qed
qed simp

lemma strings_Contains_iff: "strings_Contains s t \<longleftrightarrow> sublist t s"
proof -
  have "strings_Index s t \<noteq> None \<longleftrightarrow> sublist t s"
  proof (induction s)
    case (Cons c s)
    then show ?case by (auto simp: sublist_Cons_right)
  qed auto
  then show ?thesis by (simp add: strings_Contains_def)
qed

section \<open>The operating system\<close>

record cmd =
  cmd_Args :: "string list"
  cmd_Dir :: string
  cmd_Env :: "string list"

definition exec_Command :: "string list \<Rightarrow> cmd" where
  "exec_Command args = \<lparr>cmd_Args = args, cmd_Dir = '''', cmd_Env = []\<rparr>"

text \<open>Calls that return a value and an error do so whether the error is nil or not. \<open>err_Error\<close> is the text of an error.\<close>

record 'w os_api =
  os_Getwd :: "'w \<Rightarrow> (string \<times> gerror option) \<times> 'w"
  os_Chdir :: "string \<Rightarrow> 'w \<Rightarrow> gerror option \<times> 'w"
  os_Environ :: "'w \<Rightarrow> string list"
  os_LookupEnv :: "string \<Rightarrow> 'w \<Rightarrow> string option"
  os_ReadFile :: "string \<Rightarrow> 'w \<Rightarrow> (gerror + string) \<times> 'w"
  os_WriteFile :: "string \<Rightarrow> string \<Rightarrow> nat \<Rightarrow> 'w \<Rightarrow> gerror option \<times> 'w"
  exec_CombinedOutput :: "cmd \<Rightarrow> 'w \<Rightarrow> (string \<times> gerror option) \<times> 'w"
  ginkgo_Write :: "string \<Rightarrow> 'w \<Rightarrow> 'w"
  err_Error :: "gerror \<Rightarrow> string"

text \<open>The errors the helpers make, each with the one it wraps.\<close>

datatype util_error =
    GetwdFailed gerror
  | CommandFailed string string gerror
  | ReadFailed string gerror
  | TargetNotFound string
  | WriteFailed string gerror

fun util_error_text :: "(gerror \<Rightarrow> string) \<Rightarrow> util_error \<Rightarrow> string" where
  "util_error_text E (GetwdFailed err) = ''failed to get current working directory: '' @ E err"
| "util_error_text E (CommandFailed command output err) = fmt_q command @ '' failed with error '' @ fmt_q output @ '': '' @ E err"
| "util_error_text E (ReadFailed filename err) = ''failed to read file '' @ fmt_q filename @ '': '' @ E err"
| "util_error_text E (TargetNotFound target) = ''unable to find the code '' @ fmt_q target @ '' to be uncommented''"
| "util_error_text E (WriteFailed filename err) = ''failed to write file '' @ fmt_q filename @ '': '' @ E err"

section \<open>Commands\<close>

definition GetProjectDir :: "'w os_api \<Rightarrow> 'w \<Rightarrow> (string \<times> util_error option) \<times> 'w" where
  "GetProjectDir os w =
     (case os_Getwd os w of
        ((wd, Some err), w1) \<Rightarrow> ((wd, Some (GetwdFailed err)), w1)
      | ((wd, None), w1) \<Rightarrow> ((strings_RemoveAll wd ''/test/e2e'', None), w1))"

definition warnError :: "'w os_api \<Rightarrow> util_error \<Rightarrow> 'w \<Rightarrow> 'w" where
  "warnError os err w = ginkgo_Write os (''warning: '' @ util_error_text (err_Error os) err @ [CHR 0x0A]) w"

text \<open>The command runs in the project directory; that it cannot be entered, or found out, is only logged.\<close>

definition Run :: "'w os_api \<Rightarrow> cmd \<Rightarrow> 'w \<Rightarrow> (string \<times> util_error option) \<times> 'w" where
  "Run os cmd w =
     (case GetProjectDir os w of
        ((dir, _), w1) \<Rightarrow>
          (let cmd1 = cmd\<lparr>cmd_Dir := dir\<rparr>;
               w2 = (case os_Chdir os (cmd_Dir cmd1) w1 of
                       (Some err, w') \<Rightarrow> ginkgo_Write os (''chdir dir: '' @ fmt_q (err_Error os err) @ [CHR 0x0A]) w'
                     | (None, w') \<Rightarrow> w');
               cmd2 = cmd1\<lparr>cmd_Env := os_Environ os w2 @ [''GO111MODULE=on'']\<rparr>;
               command = strings_Join '' '' (cmd_Args cmd2);
               w3 = ginkgo_Write os (''running: '' @ fmt_q command @ [CHR 0x0A]) w2
           in case exec_CombinedOutput os cmd2 w3 of
                ((output, Some err), w4) \<Rightarrow> ((output, Some (CommandFailed command output err)), w4)
              | ((output, None), w4) \<Rightarrow> ((output, None), w4)))"

definition certmanager_url :: string where
  "certmanager_url = ''https://github.com/cert-manager/cert-manager/releases/download/'' @ ''v1.20.2'' @ ''/cert-manager.yaml''"

definition warn_failed :: "'w os_api \<Rightarrow> cmd \<Rightarrow> 'w \<Rightarrow> 'w" where
  "warn_failed os cmd w =
     (case Run os cmd w of
        ((_, Some err), w1) \<Rightarrow> warnError os err w1
      | ((_, None), w1) \<Rightarrow> w1)"

fun delete_leases :: "'w os_api \<Rightarrow> string list \<Rightarrow> 'w \<Rightarrow> 'w" where
  "delete_leases os [] w = w"
| "delete_leases os (lease # leases) w =
     delete_leases os leases
       (warn_failed os (exec_Command [''kubectl'', ''delete'', ''lease'', lease,
          ''-n'', ''kube-system'', ''--ignore-not-found'', ''--force'', ''--grace-period=0'']) w)"

definition UninstallCertManager :: "'w os_api \<Rightarrow> 'w \<Rightarrow> 'w" where
  "UninstallCertManager os w =
     delete_leases os [''cert-manager-cainjector-leader-election'', ''cert-manager-controller'']
       (warn_failed os (exec_Command [''kubectl'', ''delete'', ''-f'', certmanager_url]) w)"

definition InstallCertManager :: "'w os_api \<Rightarrow> 'w \<Rightarrow> util_error option \<times> 'w" where
  "InstallCertManager os w =
     (case Run os (exec_Command [''kubectl'', ''apply'', ''-f'', certmanager_url]) w of
        ((_, Some err), w1) \<Rightarrow> (Some err, w1)
      | ((_, None), w1) \<Rightarrow>
          (case Run os (exec_Command [''kubectl'', ''wait'', ''deployment.apps/cert-manager-webhook'', ''--for'', ''condition=Available'',
                  ''--namespace'', ''cert-manager'', ''--timeout'', ''5m'']) w1 of
             ((_, err), w2) \<Rightarrow> (err, w2)))"

definition GetNonEmptyLines :: "string \<Rightarrow> string list" where
  "GetNonEmptyLines output = filter (\<lambda>l. l \<noteq> '''') (split_at CHR 0x0A output)"

definition certManagerCRDs :: "string list" where
  "certManagerCRDs = [''certificates.cert-manager.io'', ''issuers.cert-manager.io'', ''clusterissuers.cert-manager.io'',
     ''certificaterequests.cert-manager.io'', ''orders.acme.cert-manager.io'', ''challenges.acme.cert-manager.io'']"

fun any_line_has :: "string \<Rightarrow> string list \<Rightarrow> bool" where
  "any_line_has crd [] = False"
| "any_line_has crd (l # ls) = (if strings_Contains l crd then True else any_line_has crd ls)"

fun any_crd_in :: "string list \<Rightarrow> string list \<Rightarrow> bool" where
  "any_crd_in [] ls = False"
| "any_crd_in (crd # crds) ls = (if any_line_has crd ls then True else any_crd_in crds ls)"

definition IsCertManagerCRDsInstalled :: "'w os_api \<Rightarrow> 'w \<Rightarrow> bool \<times> 'w" where
  "IsCertManagerCRDsInstalled os w =
     (case Run os (exec_Command [''kubectl'', ''get'', ''crds'']) w of
        ((_, Some err), w1) \<Rightarrow> (False, w1)
      | ((output, None), w1) \<Rightarrow> (any_crd_in certManagerCRDs (GetNonEmptyLines output), w1))"

definition LoadImageToKindClusterWithName :: "'w os_api \<Rightarrow> string \<Rightarrow> 'w \<Rightarrow> util_error option \<times> 'w" where
  "LoadImageToKindClusterWithName os name w =
     (let cluster = (case os_LookupEnv os ''KIND_CLUSTER'' w of Some v \<Rightarrow> v | None \<Rightarrow> ''kind'');
          kindBinary = (case os_LookupEnv os ''KIND'' w of Some v \<Rightarrow> v | None \<Rightarrow> ''kind'')
      in case Run os (exec_Command [kindBinary, ''load'', ''docker-image'', name, ''--name'', cluster]) w of
           ((_, err), w1) \<Rightarrow> (err, w1))"

section \<open>Uncommenting\<close>

text \<open>The loop over the lines of the target, from a first one on: each without the prefix, a newline before each but the first.\<close>

fun uncomment_loop :: "string \<Rightarrow> string \<Rightarrow> string list \<Rightarrow> string \<Rightarrow> string" where
  "uncomment_loop pfx line [] out = out @ strings_TrimPrefix line pfx"
| "uncomment_loop pfx line (line' # rest) out =
     uncomment_loop pfx line' rest (out @ strings_TrimPrefix line pfx @ [CHR 0x0A])"

definition UncommentCode :: "'w os_api \<Rightarrow> string \<Rightarrow> string \<Rightarrow> string \<Rightarrow> 'w \<Rightarrow> util_error option \<times> 'w" where
  "UncommentCode os filename target pfx w =
     (case os_ReadFile os filename w of
        (Inl err, w1) \<Rightarrow> (Some (ReadFailed filename err), w1)
      | (Inr content, w1) \<Rightarrow>
          (case strings_Index content target of
             None \<Rightarrow> (Some (TargetNotFound target), w1)
           | Some idx \<Rightarrow>
               (case scan_lines target of
                  [] \<Rightarrow> (None, w1)
                | line # rest \<Rightarrow>
                    (let out = uncomment_loop pfx line rest (take idx content) @ drop (idx + length target) content
                     in case os_WriteFile os filename out 420 w1 of
                          (Some err, w2) \<Rightarrow> (Some (WriteFailed filename err), w2)
                        | (None, w2) \<Rightarrow> (None, w2)))))"

section \<open>What uncommenting does\<close>

text \<open>The text without the prefix, line by line; and the text with the prefix put before each line.\<close>

definition uncommented :: "string \<Rightarrow> string \<Rightarrow> string" where
  "uncommented pfx s = strings_Join [CHR 0x0A] (map (\<lambda>l. strings_TrimPrefix l pfx) (split_at CHR 0x0A s))"

definition commented :: "string \<Rightarrow> string \<Rightarrow> string" where
  "commented pfx s = strings_Join [CHR 0x0A] (map ((@) pfx) (split_at CHR 0x0A s))"

text \<open>Lines the scanner hands out as they are: they fit its buffer, and end in no carriage return. \<open>plain_text\<close> also ends in no newline.\<close>

definition plain_line :: "string \<Rightarrow> bool" where
  "plain_line l \<longleftrightarrow> length l < MaxScanTokenSize \<and> drop_cr l = l"

definition plain_text :: "string \<Rightarrow> bool" where
  "plain_text s \<longleftrightarrow> list_all plain_line (split_at CHR 0x0A s) \<and> last (split_at CHR 0x0A s) \<noteq> ''''"

lemma uncomment_loop_join:
  "uncomment_loop pfx line rest out = out @ strings_Join [CHR 0x0A] (map (\<lambda>l. strings_TrimPrefix l pfx) (line # rest))"
  by (induction pfx line rest out rule: uncomment_loop.induct) (simp_all add: strings_Join_Cons)

lemma scan_plain:
  assumes "list_all plain_line ls"
  shows "map drop_cr (takeWhile (\<lambda>l. length l < MaxScanTokenSize) ls) = ls"
  using assms by (induction ls) (simp_all add: plain_line_def)

lemma scan_plain_text:
  assumes "plain_text s"
  shows "scan_lines s = split_at CHR 0x0A s" and "scan_lines (s @ [CHR 0x0A]) = split_at CHR 0x0A s"
proof -
  have "split_at CHR 0x0A (s @ [CHR 0x0A]) = split_at CHR 0x0A s @ [[]]"
    by (induction s) (auto split: list.splits)
  with assms show "scan_lines s = split_at CHR 0x0A s" "scan_lines (s @ [CHR 0x0A]) = split_at CHR 0x0A s"
    by (simp_all add: scan_lines_def plain_text_def scan_plain)
qed

text \<open>The result of the write, wrapped.\<close>

definition written :: "'w os_api \<Rightarrow> string \<Rightarrow> string \<Rightarrow> 'w \<Rightarrow> util_error option \<times> 'w" where
  "written os filename out w = (case os_WriteFile os filename out 420 w of (e, w') \<Rightarrow> (map_option (WriteFailed filename) e, w'))"

lemma UncommentCode_scanned:
  assumes "os_ReadFile os filename w = (Inr content, w1)" and "strings_Index content target = Some i" and "scan_lines target = ls"
    and "ls \<noteq> []"
  shows "UncommentCode os filename target pfx w = written os filename
    (take i content @ strings_Join [CHR 0x0A] (map (\<lambda>l. strings_TrimPrefix l pfx) ls) @ drop (i + length target) content) w1"
  using assms by (cases ls) (auto simp: UncommentCode_def written_def uncomment_loop_join split: prod.split option.split)

theorem UncommentCode_plain:
  assumes "os_ReadFile os filename w = (Inr content, w1)" and "plain_text target"
  shows "UncommentCode os filename target pfx w = (case strings_Index content target of
      None \<Rightarrow> (Some (TargetNotFound target), w1)
    | Some i \<Rightarrow> written os filename (take i content @ uncommented pfx target @ drop (i + length target) content) w1)"
proof (cases "strings_Index content target")
  case None
  with assms show ?thesis by (simp add: UncommentCode_def)
next
  case (Some i)
  from UncommentCode_scanned [OF assms(1) Some scan_plain_text(1) [OF assms(2)]] Some show ?thesis
    by (simp add: uncommented_def)
qed

text \<open>Commenting and uncommenting.\<close>

lemma split_commented:
  assumes "CHR 0x0A \<notin> set pfx"
  shows "split_at CHR 0x0A (commented pfx s) = map ((@) pfx) (split_at CHR 0x0A s)"
  unfolding commented_def
  by (rule split_join) (use assms split_at_piece in auto)

lemma uncommented_commented:
  assumes "CHR 0x0A \<notin> set pfx"
  shows "uncommented pfx (commented pfx s) = s"
  by (simp add: uncommented_def split_commented [OF assms] comp_def strings_TrimPrefix_def)

text \<open>
  What is lost otherwise: the newline at the end of a target, so that the line after it is joined to the last one; and everything from
  a line on that does not fit the buffer. No error is returned.
\<close>

theorem UncommentCode_drops_newline:
  assumes "os_ReadFile os filename w = (Inr content, w1)" and "plain_text target"
    and "strings_Index content (target @ [CHR 0x0A]) = Some i"
  shows "UncommentCode os filename (target @ [CHR 0x0A]) pfx w =
    written os filename (take i content @ uncommented pfx target @ drop (i + length target + 1) content) w1"
  using UncommentCode_scanned [OF assms(1,3) scan_plain_text(2) [OF assms(2)]]
  by (simp add: uncommented_def)

theorem UncommentCode_cuts_long_lines:
  assumes "os_ReadFile os filename w = (Inr content, w1)" and "plain_text first"
    and "CHR 0x0A \<notin> set long" and "MaxScanTokenSize \<le> length long"
    and "strings_Index content (first @ [CHR 0x0A] @ long @ [CHR 0x0A] @ rest) = Some i"
  shows "UncommentCode os filename (first @ [CHR 0x0A] @ long @ [CHR 0x0A] @ rest) pfx w =
    written os filename (take i content @ uncommented pfx first @ drop (i + length (first @ [CHR 0x0A] @ long @ [CHR 0x0A] @ rest)) content) w1"
proof -
  let ?target = "first @ [CHR 0x0A] @ long @ [CHR 0x0A] @ rest"
  have "split_at CHR 0x0A (first @ CHR 0x0A # t) = split_at CHR 0x0A first @ split_at CHR 0x0A t" for t
    by (induction first) (auto split: list.splits)
  then have "split_at CHR 0x0A ?target = split_at CHR 0x0A first @ long # split_at CHR 0x0A rest"
    using assms(3) by (simp add: split_at_append)
  then have "scan_lines ?target = split_at CHR 0x0A first"
    using assms(2,4) scan_plain [of "split_at CHR 0x0A first"]
    by (auto simp: scan_lines_def Let_def plain_text_def plain_line_def list_all_iff butlast_append takeWhile_append map_idI)
  from UncommentCode_scanned [OF assms(1,5) this] show ?thesis by (simp add: uncommented_def)
qed

section \<open>What the commands do\<close>

text \<open>Looking for the names line by line is looking for them in the whole output.\<close>

lemma any_line_has_iff: "any_line_has crd ls \<longleftrightarrow> (\<exists>l \<in> set ls. sublist crd l)"
  by (induction ls) (auto simp: strings_Contains_iff)

lemma any_crd_in_iff: "any_crd_in crds ls \<longleftrightarrow> (\<exists>crd \<in> set crds. \<exists>l \<in> set ls. sublist crd l)"
  by (induction crds) (auto simp: any_line_has_iff)

lemma first_piece:
  "prefix (hd (split_at d s)) s" "prefix t s \<Longrightarrow> d \<notin> set t \<Longrightarrow> prefix t (hd (split_at d s))"
proof -
  show "prefix (hd (split_at d s)) s"
    by (induction s) (auto split: list.split simp: hd_conv_nth)
  show "prefix t s \<Longrightarrow> d \<notin> set t \<Longrightarrow> prefix t (hd (split_at d s))"
  proof (induction s arbitrary: t)
    case (Cons c s)
    then show ?case by (cases t) (auto split: list.split)
  qed simp
qed

lemma split_at_Cons: "c \<noteq> d \<Longrightarrow> split_at d (c # s) = (c # hd (split_at d s)) # tl (split_at d s)"
  by (simp split: list.split)

lemma piece_sublist: "l \<in> set (split_at d s) \<Longrightarrow> sublist l s"
proof (induction s)
  case (Cons c s)
  show ?case
  proof (cases "c = d")
    case True
    with Cons show ?thesis by (auto simp: sublist_Cons_right)
  next
    case False
    have tl: "l \<in> set (tl (split_at d s)) \<Longrightarrow> l \<in> set (split_at d s)" by (meson list.set_sel(2) split_at_not_Nil)
    from False Cons.prems consider "l = c # hd (split_at d s)" | "l \<in> set (tl (split_at d s))"
      unfolding split_at_Cons [OF False] by auto
    then show ?thesis
    proof cases
      case 1
      with first_piece(1) [of d s] show ?thesis by (auto intro: prefix_imp_sublist)
    next
      case 2
      with Cons.IH tl show ?thesis by (auto simp: sublist_Cons_right)
    qed
  qed
qed simp

lemma sublist_piece:
  assumes "sublist t s" and "d \<notin> set t"
  shows "\<exists>l \<in> set (split_at d s). sublist t l"
  using assms
proof (induction s)
  case (Cons c s)
  from Cons.prems(1) consider "prefix t (c # s)" | "sublist t s" by (auto simp: sublist_Cons_right)
  then show ?case
  proof cases
    case 1
    from first_piece(2) [OF 1 Cons.prems(2)] show ?thesis by (meson list.set_sel(1) prefix_imp_sublist split_at_not_Nil)
  next
    case 2
    with Cons obtain l where l: "l \<in> set (split_at d s)" "sublist t l" by blast
    show ?thesis
    proof (cases "c = d")
      case True
      with l show ?thesis by auto
    next
      case False
      from l(1) consider "l = hd (split_at d s)" | "l \<in> set (tl (split_at d s))" by (metis list.collapse set_ConsD split_at_not_Nil)
      then show ?thesis
        using l(2) unfolding split_at_Cons [OF False] by cases (auto simp: sublist_Cons_right)
    qed
  qed
qed auto

lemma sublist_of_line:
  assumes "CHR 0x0A \<notin> set t" and "t \<noteq> ''''"
  shows "(\<exists>l \<in> set (GetNonEmptyLines s). sublist t l) \<longleftrightarrow> sublist t s"
proof
  assume "\<exists>l \<in> set (GetNonEmptyLines s). sublist t l"
  then show "sublist t s" by (auto simp: GetNonEmptyLines_def dest: piece_sublist intro: sublist_order.order.trans)
next
  assume "sublist t s"
  from sublist_piece [OF this assms(1)] assms(2) show "\<exists>l \<in> set (GetNonEmptyLines s). sublist t l"
    by (auto simp: GetNonEmptyLines_def)
qed

theorem IsCertManagerCRDsInstalled_iff:
  assumes "Run os (exec_Command [''kubectl'', ''get'', ''crds'']) w = ((output, err), w1)"
  shows "IsCertManagerCRDsInstalled os w = (err = None \<and> (\<exists>crd \<in> set certManagerCRDs. sublist crd output), w1)"
proof -
  have "CHR 0x0A \<notin> set crd" "crd \<noteq> ''''" if "crd \<in> set certManagerCRDs" for crd
    using that by (auto simp: certManagerCRDs_def)
  with assms show ?thesis
    by (cases err) (auto simp: IsCertManagerCRDsInstalled_def any_crd_in_iff sublist_of_line)
qed

text \<open>The commands that were run, in order, with whether they succeeded.\<close>

definition command_log :: "'w os_api \<Rightarrow> ('w \<times> (string list \<times> bool) list) os_api" where
  "command_log os = \<lparr>
     os_Getwd = (\<lambda>(w, l). case os_Getwd os w of (r, w') \<Rightarrow> (r, (w', l))),
     os_Chdir = (\<lambda>d (w, l). case os_Chdir os d w of (r, w') \<Rightarrow> (r, (w', l))),
     os_Environ = (\<lambda>(w, l). os_Environ os w),
     os_LookupEnv = (\<lambda>k (w, l). os_LookupEnv os k w),
     os_ReadFile = (\<lambda>f (w, l). case os_ReadFile os f w of (r, w') \<Rightarrow> (r, (w', l))),
     os_WriteFile = (\<lambda>f t p (w, l). case os_WriteFile os f t p w of (r, w') \<Rightarrow> (r, (w', l))),
     exec_CombinedOutput = (\<lambda>c (w, l). case exec_CombinedOutput os c w of ((out, e), w') \<Rightarrow> ((out, e), (w', l @ [(cmd_Args c, e = None)]))),
     ginkgo_Write = (\<lambda>t (w, l). (ginkgo_Write os t w, l)),
     err_Error = err_Error os\<rparr>"

lemma Run_command_log:
  assumes "Run (command_log os) c (w, l) = ((out, e), (w', l'))"
  shows "l' = l @ [(cmd_Args c, e = None)]"
  using assms
  by (auto simp: Run_def GetProjectDir_def command_log_def Let_def split: prod.splits option.splits)

lemma warn_failed_log: "map fst (snd (warn_failed (command_log os) c wl)) = map fst (snd wl) @ [cmd_Args c]"
proof -
  obtain out e w' l' where R: "Run (command_log os) c (fst wl, snd wl) = ((out, e), (w', l'))" by (metis prod.exhaust)
  from Run_command_log [OF R] R show ?thesis
    by (cases e) (auto simp: warn_failed_def warnError_def command_log_def split_beta)
qed

lemma delete_leases_log:
  "map fst (snd (delete_leases (command_log os) leases wl)) = map fst (snd wl) @ map (\<lambda>l. [''kubectl'', ''delete'', ''lease'', l,
     ''-n'', ''kube-system'', ''--ignore-not-found'', ''--force'', ''--grace-period=0'']) leases"
  by (induction leases arbitrary: wl) (simp_all add: warn_failed_log exec_Command_def)

text \<open>Uninstalling goes through all its commands whatever fails; installing waits only for what was applied.\<close>

theorem UninstallCertManager_runs_all:
  "map fst (snd (UninstallCertManager (command_log os) (w, []))) =
     [[''kubectl'', ''delete'', ''-f'', certmanager_url],
      [''kubectl'', ''delete'', ''lease'', ''cert-manager-cainjector-leader-election'',
        ''-n'', ''kube-system'', ''--ignore-not-found'', ''--force'', ''--grace-period=0''],
      [''kubectl'', ''delete'', ''lease'', ''cert-manager-controller'',
        ''-n'', ''kube-system'', ''--ignore-not-found'', ''--force'', ''--grace-period=0'']]"
  by (simp add: UninstallCertManager_def delete_leases_log warn_failed_log exec_Command_def)

theorem InstallCertManager_waits_for_applied:
  assumes "InstallCertManager (command_log os) (w, []) = (err, (w', l))"
  shows "\<exists>applied waited. (l = [(applied, False)] \<and> err \<noteq> None) \<or> (l = [(applied, True), (waited, err = None)])"
proof -
  let ?apply = "exec_Command [''kubectl'', ''apply'', ''-f'', certmanager_url]"
  let ?wait = "exec_Command [''kubectl'', ''wait'', ''deployment.apps/cert-manager-webhook'', ''--for'', ''condition=Available'',
    ''--namespace'', ''cert-manager'', ''--timeout'', ''5m'']"
  obtain out1 e1 w1 l1 where 1: "Run (command_log os) ?apply (w, []) = ((out1, e1), (w1, l1))" by (metis prod.exhaust)
  obtain out2 e2 w2 l2 where 2: "Run (command_log os) ?wait (w1, l1) = ((out2, e2), (w2, l2))" by (metis prod.exhaust)
  from assms have "if e1 = None then err = e2 \<and> l = l2 else err = e1 \<and> l = l1"
    by (cases e1) (auto simp: InstallCertManager_def 1 2)
  with Run_command_log [OF 1] Run_command_log [OF 2] show ?thesis by (auto split: if_splits)
qed

end
