(* ===== verification/Operator_Properties.thy ===== *)
theory Operator_Properties
  imports Flag_Parse Ref_Server Crd_Kinds Test_Utils
begin

text \<open>
  The properties of the process around the engine: what the command line and the start-up steps lead to, and that the
  permissions the operator is installed with are the ones its code asks for.
\<close>

section \<open>Start-up\<close>

text \<open>Inputs of the witnesses: clients that answer nothing.\<close>

definition idle_client :: "(nat, 'cr) Client" where
  "idle_client = \<lparr>Client_Get = (\<lambda>n w. (Inl not_found, w)), Client_GetUnstructured = (\<lambda>n u w. (Inl not_found, w)),
     Client_Apply = (\<lambda>u owner force w. (Inl not_found, w)), Client_Delete = (\<lambda>u w. (Some not_found, w)),
     Client_Update = (\<lambda>cr w. (Inl not_found, w)), Client_StatusUpdate = (\<lambda>cr w. (Inl not_found, w)), Client_Now = int\<rparr>"

definition demo_clients :: "nat clients" where
  "demo_clients = \<lparr>client_PostgresCluster = idle_client, client_ValkeyCluster = idle_client,
     client_GrafanaInstance = idle_client, client_MariaDBCluster = idle_client, client_RabbitMQCluster = idle_client,
     client_PrometheusInstance = idle_client\<rparr>"

text \<open>Start-up does its steps in order and stops at the first failure. Whatever the manager answers, \<open>main\<close> makes the calls of
  the plan in order, none after one that fails, and exits with 1 exactly if one failed; otherwise it has made them all.\<close>

theorem main_follows_plan:
  assumes "operator_main L reg (logging_api fails rec) c f [] = (code, log)"
  shows "prefix log (main_plan (main_managerOptions reg f)) \<and>
    (code = 0 \<longrightarrow> log = main_plan (main_managerOptions reg f)) \<and>
    (code \<noteq> 0 \<longrightarrow> code = 1 \<and> fails log) \<and>
    (\<forall>p. prefix p log \<and> p \<noteq> [] \<and> (code = 0 \<or> p \<noteq> log) \<longrightarrow> \<not> fails p)"
  using run_steps_logged [of fails "main_plan (main_managerOptions reg f)" "[]" code log] assms
  by (auto simp: operator_main_def main_steps_logging)

text \<open>The process, whatever its command line.\<close>

lemma process_run_all:
  assumes "operator_process L reg F z (logging_api fails rec) c args [] = (code, log)"
  shows "if list_ex (\<lambda>d. foreign_IsBool F (decl_name d) \<noteq> None) main_flags then code = 2 \<and> log = []
    else (case flag_Parse F args (default_flags, z) of
        Inl ErrHelp \<Rightarrow> code = 0 \<and> log = []
      | Inl FlagError \<Rightarrow> code = 2 \<and> log = []
      | Inr ((f, z'), rest) \<Rightarrow>
          code = (if fails log then 1 else 0) \<and> log \<noteq> [] \<and> prefix log (main_plan (main_managerOptions reg f)) \<and>
          (code = 0 \<longrightarrow> log = main_plan (main_managerOptions reg f)) \<and>
          (\<forall>p. prefix p log \<and> p \<noteq> [] \<and> p \<noteq> log \<longrightarrow> \<not> fails p))"
proof (cases "list_ex (\<lambda>d. foreign_IsBool F (decl_name d) \<noteq> None) main_flags")
  case True
  with assms show ?thesis by (auto simp: operator_process_def)
next
  case False
  then have go: "(case flag_Parse F args (default_flags, z) of
      Inl ErrHelp \<Rightarrow> (0, []) | Inl FlagError \<Rightarrow> (2, [])
    | Inr ((f, _), _) \<Rightarrow> operator_main L reg (logging_api fails rec) c f []) = (code, log)"
    using assms by (simp add: operator_process_def declared_defaults)
  show ?thesis
  proof (cases "flag_Parse F args (default_flags, z)")
    case (Inl e)
    with go False show ?thesis by (cases e) auto
  next
    case (Inr r)
    then obtain f z' rest where r: "flag_Parse F args (default_flags, z) = Inr ((f, z'), rest)"
      by (metis prod.exhaust)
    let ?plan = "main_plan (main_managerOptions reg f)"
    from r go have "run_steps (map (logged fails) ?plan) [] = (code, log)"
      by (simp add: operator_main_def main_steps_logging)
    from run_steps_logged [OF this] have did: "prefix log ?plan" "code = 0 \<longrightarrow> log = ?plan"
      "code \<noteq> 0 \<longrightarrow> code = 1 \<and> log \<noteq> [] \<and> fails log"
      "\<forall>p. prefix p log \<and> p \<noteq> [] \<and> (code = 0 \<or> p \<noteq> log) \<longrightarrow> \<not> fails p" by auto
    have "?plan \<noteq> []" by (simp add: main_plan_def)
    with did have c: "log \<noteq> []" "code = (if fails log then 1 else 0)" by (cases "code = 0"; auto)+
    show ?thesis
      unfolding if_not_P [OF False] r sum.case prod.case using did(1,2,4) c by blast
  qed
qed

lemma help_asked:
  assumes "foreign_IsBool F ''h'' = None" and "foreign_IsBool F ''help'' = None"
    and "arg \<in> set [''-h'', ''--h'', ''-help'', ''--help'']"
  shows "flag_Parse F (arg # args) st = Inl ErrHelp"
  using assms by (auto simp: named_def lookup_flag_def main_flags_def)

text \<open>C33: the process ends as its command line and its steps say. If another package declares one of its flags it panics, status 2. Otherwise it
  exits with 0 before any call is made when help is asked for, as by a first argument \<open>-h\<close> or \<open>--help\<close> if no package has a flag of that
  name, and with 2 before any call when the command line is not accepted; and an accepted command line makes it call the steps of the plan for
  the flags read, in order, none after one that fails, and exit with 1 exactly if one failed, else with 0 after all of them.\<close>

theorem process_follows_plan:
  assumes "operator_process L reg F z (logging_api fails rec) c args [] = (code, log)"
  shows "(if list_ex (\<lambda>d. foreign_IsBool F (decl_name d) \<noteq> None) main_flags then code = 2 \<and> log = []
    else (case flag_Parse F args (default_flags, z) of
        Inl ErrHelp \<Rightarrow> code = 0 \<and> log = []
      | Inl FlagError \<Rightarrow> code = 2 \<and> log = []
      | Inr ((f, z'), rest) \<Rightarrow>
          code = (if fails log then 1 else 0) \<and> log \<noteq> [] \<and> prefix log (main_plan (main_managerOptions reg f)) \<and>
          (code = 0 \<longrightarrow> log = main_plan (main_managerOptions reg f)) \<and>
          (\<forall>p. prefix p log \<and> p \<noteq> [] \<and> p \<noteq> log \<longrightarrow> \<not> fails p)) \<and>
      (foreign_IsBool F ''h'' = None \<and> foreign_IsBool F ''help'' = None \<and> args \<noteq> [] \<and>
       hd args \<in> set [''-h'', ''--h'', ''-help'', ''--help''] \<longrightarrow> code = 0 \<and> log = []))"
proof -
  have "flag_Parse F args (default_flags, z) = Inl ErrHelp"
    if "foreign_IsBool F ''h'' = None" "foreign_IsBool F ''help'' = None" "args \<noteq> []"
      "hd args \<in> set [''-h'', ''--h'', ''-help'', ''--help'']"
    using help_asked [OF that(1,2,4), of "tl args"] that(3) by simp
  with process_run_all [OF assms] show ?thesis by (auto split: if_split_asm)
qed

text \<open>Inputs of the witnesses: a scheme, and the flags of other packages, as far as one boolean and one string flag show them.\<close>

definition demo_reg :: scheme_libs where
  "demo_reg = \<lparr>clientgo_AddToScheme = (\<lambda>s. s),
     metav1_AddToGroupVersion = (\<lambda>(g, v) s. s @ [\<lparr>Group = g, Version = v, Kind = ''WatchEvent''\<rparr>])\<rparr>"

definition demo_foreign :: "unit foreign_flags" where
  "demo_foreign = \<lparr>foreign_IsBool = map_of [(''zap-devel'', True), (''kubeconfig'', False)], foreign_Set = (\<lambda>n v z. Some z)\<rparr>"

abbreviation demo_process :: "string list \<Rightarrow> nat \<times> main_call list" where
  "demo_process args \<equiv> operator_process ref_libs demo_reg demo_foreign () (logging_api (\<lambda>l. length l = 5) (\<lambda>n e (w :: nat). w))
     demo_clients args []"

theorem process_follows_plan_witness:
  "demo_process [''--help''] = (0, []) \<and> demo_process [''--leader-elect'', ''--bogus''] = (2, [])"
proof -
  have own: "\<not> list_ex (\<lambda>d. foreign_IsBool demo_foreign (decl_name d) \<noteq> None) main_flags"
    and none: "foreign_IsBool demo_foreign ''h'' = None" "foreign_IsBool demo_foreign ''help'' = None" by code_simp+
  have bad: "flag_Parse demo_foreign [''--leader-elect'', ''--bogus''] (default_flags, ()) = Inl FlagError" by code_simp
  have r: "demo_process args = (fst (demo_process args), snd (demo_process args))" for args by simp
  note T = process_follows_plan [OF r, unfolded if_not_P [OF own]]
  have "fst (demo_process [''--help'']) = 0 \<and> snd (demo_process [''--help'']) = []"
    by (rule conjunct2 [OF T, THEN mp]) (simp add: none)
  moreover have "fst (demo_process [''--leader-elect'', ''--bogus'']) = 2 \<and> snd (demo_process [''--leader-elect'', ''--bogus'']) = []"
    using conjunct1 [OF T, of "[''--leader-elect'', ''--bogus'']"] unfolding bad by simp
  ultimately show ?thesis by (simp only: prod_eq_iff fst_conv snd_conv simp_thms)
qed

text \<open>C34: reading the flags back. A command line gives any of the operator's flags in any order, some perhaps several times, each written in
  any accepted way: one dash or two, the value joined or as the next argument, a true boolean bare, a boolean as any of the
  twelve texts of \<^verbatim>\<open>strconv.ParseBool\<close>. It is accepted; every flag then has the value it was given last, and the others keep theirs.\<close>

theorem flags_roundtrip:
  assumes "list_all (\<lambda>(n, style, v). gives_flag n v) xs"
  shows "\<exists>f. flag_Parse F (print_flags xs) (f0, z) = Inr ((f, z), []) \<and>
    flag_value f = flag_value f0 ++ map_of (rev (map (\<lambda>(n, style, v). (n, v)) xs))"
  using parse_print_flags [OF assms, of F "[]"] flag_value_fold [OF assms] by simp

theorem flags_roundtrip_witness:
  "flag_Parse demo_foreign [''-metrics-bind-address'', ''--x'', ''--leader-elect=T'', ''--enable-http2'', ''-enable-http2=0''] (default_flags, ()) =
     Inr ((default_flags\<lparr>metricsAddr := ''--x'', enableLeaderElection := True\<rparr>, ()), [])"
proof -
  let ?xs = "[(''metrics-bind-address'', (False, False, 0), Inl ''--x''), (''leader-elect'', (True, True, 2), Inr True),
    (''enable-http2'', (True, False, 0), Inr True), (''enable-http2'', (False, True, 6), Inr False)]
    :: (string \<times> flag_style \<times> (string + bool)) list"
  have given: "list_all (\<lambda>(n, style, v). gives_flag n v) ?xs" by code_simp
  have line: "print_flags ?xs = [''-metrics-bind-address'', ''--x'', ''--leader-elect=T'', ''--enable-http2'', ''-enable-http2=0'']"
    by code_simp
  let ?f = "default_flags\<lparr>metricsAddr := ''--x'', enableLeaderElection := True\<rparr>"
  have "flag_value ?f k = (flag_value default_flags ++ map_of (rev (map (\<lambda>(n, style, v). (n, v)) ?xs))) k" for k
    by (simp add: flag_value_def flag_values_def default_flags_def map_add_def)
  then have "flag_value ?f = flag_value default_flags ++ map_of (rev (map (\<lambda>(n, style, v). (n, v)) ?xs))" by (rule ext)
  with flags_roundtrip [OF given, of demo_foreign default_flags "()"] show ?thesis
    unfolding line by (metis flag_value_inject)
qed

text \<open>C35: hardening can only be given up by name. Unless an argument starts with the flag's name, the manager is made with TLS options
  that leave HTTP/1.1 only, on both servers, and with metrics that are served securely behind authentication.\<close>

theorem hardening_needs_no_flag:
  assumes "operator_process L reg F z (logging_api fails rec) c args [] = (code, log)" and "MNewManager opts \<in> set log"
  shows "((\<forall>s \<in> set args. \<not> prefix ''-enable-http2'' s \<and> \<not> prefix ''--enable-http2'' s) \<longrightarrow>
      fold (\<lambda>opt. opt) (ms_TLSOpts (opt_Metrics opts)) tls = tls\<lparr>NextProtos := [''http/1.1'']\<rparr> \<and>
      fold (\<lambda>opt. opt) (wh_TLSOpts (opt_Webhook opts)) tls = tls\<lparr>NextProtos := [''http/1.1'']\<rparr>) \<and>
    ((\<forall>s \<in> set args. \<not> prefix ''-metrics-secure'' s \<and> \<not> prefix ''--metrics-secure'' s) \<longrightarrow>
      ms_SecureServing (opt_Metrics opts) \<and>
      ms_FilterProvider (opt_Metrics opts) = Some WithAuthenticationAndAuthorization)"
proof -
  from assms(2) have "log \<noteq> []" by auto
  with process_run_all [OF assms(1)] obtain f z' rest where f: "flag_Parse F args (default_flags, z) = Inr ((f, z'), rest)"
    "prefix log (main_plan (main_managerOptions reg f))"
    by (auto split: if_split_asm sum.split_asm flag_error.split_asm)
  then have "MNewManager opts \<in> set (main_plan (main_managerOptions reg f))"
    using assms(2) set_mono_prefix by blast
  then have opts: "opts = main_managerOptions reg f" by (auto simp: main_plan_def)
  have "\<not> enableHTTP2 default_flags" "secureMetrics default_flags" by (simp_all add: default_flags_def)
  with http2_kept [OF f(1)] secure_kept [OF f(1)] show ?thesis
    by (auto simp: opts main_managerOptions_def main_webhookOptions_def main_metricsOptions_def Let_def main_tlsOpts_effect)
qed

theorem hardening_needs_no_flag_witness:
  "\<exists>opts. MNewManager opts \<in> set (snd (demo_process [''--leader-elect''])) \<and>
    fold (\<lambda>opt. opt) (wh_TLSOpts (opt_Webhook opts)) \<lparr>NextProtos = [''h2'']\<rparr> = \<lparr>NextProtos = [''http/1.1'']\<rparr> \<and>
    ms_FilterProvider (opt_Metrics opts) = Some WithAuthenticationAndAuthorization"
proof -
  let ?run = "demo_process [''--leader-elect'']"
  have r: "?run = (fst ?run, snd ?run)" by simp
  have "list_ex (\<lambda>c. case c of MNewManager opts \<Rightarrow> True | _ \<Rightarrow> False) (snd ?run)" by code_simp
  then obtain x where x: "x \<in> set (snd ?run)" "case x of MNewManager opts \<Rightarrow> True | _ \<Rightarrow> False"
    unfolding list_ex_iff by blast
  from x(2) obtain opts where "x = MNewManager opts" by (auto split: main_call.splits)
  with x(1) have opts: "MNewManager opts \<in> set (snd ?run)" by blast
  have "\<not> prefix ''-enable-http2'' ''--leader-elect'' \<and> \<not> prefix ''--enable-http2'' ''--leader-elect''"
    "\<not> prefix ''-metrics-secure'' ''--leader-elect'' \<and> \<not> prefix ''--metrics-secure'' ''--leader-elect''" by simp_all
  with opts hardening_needs_no_flag [OF r opts, of "\<lparr>NextProtos = [''h2'']\<rparr>"] show ?thesis by auto
qed

text \<open>What the manifests deploy. Started with the arguments of the manifests, the operator asks for a manager with leader
  election, metrics on port 8443 over HTTPS behind authentication without HTTP/2, and probes on port 8081, and goes through its
  plan with it.\<close>

theorem deployed_operator_options:
  assumes "list_all (\<lambda>d. foreign_IsBool F (decl_name d) = None) main_flags"
  shows "operator_process L reg F z (logging_api fails rec) c deployed_args [] =
    run_steps (map (logged fails) (main_plan
      \<lparr>opt_Scheme = init_scheme reg,
       opt_Metrics = \<lparr>ms_BindAddress = '':8443'', ms_SecureServing = True, ms_TLSOpts = [disableHTTP2],
         ms_FilterProvider = Some WithAuthenticationAndAuthorization, ms_CertDir = '''', ms_CertName = '''', ms_KeyName = ''''\<rparr>,
       opt_Webhook = \<lparr>wh_TLSOpts = [disableHTTP2], wh_CertDir = '''', wh_CertName = '''', wh_KeyName = ''''\<rparr>,
       opt_HealthProbeBindAddress = '':8081'', opt_LeaderElection = True, opt_LeaderElectionID = ''32cc4a18.example.com''\<rparr>)) []"
proof -
  have "flag_Parse F deployed_args (default_flags, z) =
      Inr ((default_flags\<lparr>metricsAddr := '':8443'', enableLeaderElection := True, probeAddr := '':8081''\<rparr>, z), [])"
    by (simp add: deployed_args_def manager_metrics_patch_def manager_args_def named_def lookup_flag_def main_flags_def
      ParseBool_def default_flags_def)
  moreover have "\<not> list_ex (\<lambda>d. foreign_IsBool F (decl_name d) \<noteq> None) main_flags"
    using assms by (auto simp: list_ex_iff list_all_iff)
  ultimately show ?thesis
    by (simp add: operator_process_def declared_defaults operator_main_def main_steps_logging main_managerOptions_def
      main_metricsOptions_def main_webhookOptions_def main_tlsOpts_def default_flags_def)
qed

text \<open>C38: a manager that was started has all six controllers. If the start call was made, every kind was registered before it under
  its controller name, with a kind the manager's scheme knows.\<close>

theorem started_manager_has_all_controllers:
  assumes "operator_main L reg (logging_api fails rec) c f [] = (code, log)" and "MStart \<in> set log"
  shows "log = main_plan (main_managerOptions reg f) \<and>
    list_all (\<lambda>(k, n). MComplete (paas_GVK k) n \<in> set log \<and> paas_GVK k \<in> set (opt_Scheme (main_managerOptions reg f))) registrations \<and>
    distinct (map fst registrations) \<and> distinct (map snd registrations)"
proof -
  let ?plan = "main_plan (main_managerOptions reg f)"
  have p: "prefix log ?plan"
    using run_steps_logged [of fails ?plan "[]" code log] assms(1) by (auto simp: operator_main_def main_steps_logging)
  have "MStart \<notin> set (butlast ?plan)" and "last ?plan = MStart" and "?plan \<noteq> []"
    by (auto simp: main_plan_def registrations_def)
  with p assms(2) have "log = ?plan"
    by (metis prefix_snoc append_butlast_last_id set_mono_prefix subset_iff)
  then show ?thesis
    by (simp add: main_plan_def registrations_def main_managerOptions_def init_scheme_def scheme_defs paas_GVK_def)
qed

theorem started_manager_has_all_controllers_witness:
  "\<exists>code log. operator_main ref_libs demo_reg (logging_api (\<lambda>l. False) (\<lambda>n e (w :: nat). w)) demo_clients default_flags [] = (code, log) \<and>
    MComplete (paas_GVK ''RabbitMQCluster'') ''rabbitmqcluster'' \<in> set log"
proof -
  let ?run = "operator_main ref_libs demo_reg (logging_api (\<lambda>l. False) (\<lambda>n e (w :: nat). w)) demo_clients default_flags []"
  have r: "?run = (fst ?run, snd ?run)" by simp
  have "MStart \<in> set (snd ?run)"
    by (simp add: operator_main_def main_steps_logging main_plan_def registrations_def logged_def)
  from started_manager_has_all_controllers [OF r this] have "MComplete (paas_GVK ''RabbitMQCluster'') ''rabbitmqcluster'' \<in> set (snd ?run)"
    by (auto simp: registrations_def)
  with r show ?thesis by blast
qed

text \<open>HTTP/2 stays off unless it is asked for: the TLS options of the metrics and of the webhook server, applied to any
  configuration, restrict it to HTTP/1.1 unless the flag is set, and leave it alone if it is.\<close>

theorem http2_off_by_default:
  "fold (\<lambda>opt. opt) (wh_TLSOpts (opt_Webhook (main_managerOptions reg f))) tls =
     (if enableHTTP2 f then tls else tls\<lparr>NextProtos := [''http/1.1'']\<rparr>) \<and>
   fold (\<lambda>opt. opt) (ms_TLSOpts (opt_Metrics (main_managerOptions reg f))) tls =
     (if enableHTTP2 f then tls else tls\<lparr>NextProtos := [''http/1.1'']\<rparr>) \<and> \<not> enableHTTP2 default_flags"
  by (simp add: main_managerOptions_def main_webhookOptions_def main_metricsOptions_def Let_def main_tlsOpts_effect default_flags_def)

text \<open>The metrics endpoint asks for authentication exactly when it is served securely, certificates or not; by default it
  is secure and not served.\<close>

theorem metrics_guarded:
  "(ms_FilterProvider (main_metricsOptions f) = Some WithAuthenticationAndAuthorization) = ms_SecureServing (main_metricsOptions f) \<and>
   ms_SecureServing (main_metricsOptions f) = secureMetrics f \<and>
   (ms_CertDir (main_metricsOptions f), ms_CertName (main_metricsOptions f), ms_KeyName (main_metricsOptions f)) =
     (if metricsCertPath f = '''' then ('''', '''', '''') else (metricsCertPath f, metricsCertName f, metricsCertKey f)) \<and>
   ms_SecureServing (main_metricsOptions default_flags) \<and> ms_BindAddress (main_metricsOptions default_flags) = ''0''"
  by (auto simp: main_metricsOptions_def Let_def default_flags_def)

section \<open>Permissions\<close>

text \<open>C32: the role in the manifests is the markers in the code: it grants a verb on a resource of a group exactly if the markers
  above one of the six controllers do.\<close>

theorem role_is_markers:
  "rbac_allows manager_role p \<longleftrightarrow>
     list_ex (\<lambda>rules. rbac_allows rules p)
       [PostgresCluster_rbac, ValkeyCluster_rbac, GrafanaInstance_rbac, MariaDBCluster_rbac, RabbitMQCluster_rbac, PrometheusInstance_rbac]"
  unfolding role_has_markers rbac_markers_def by simp

text \<open>C31: no reconcile is ever refused. On an API server that enforces the markers of a controller, or the role of the manifests,
  every reconcile of that controller does exactly what it would do without any access control.\<close>

theorem role_never_refuses:
  assumes "k8s_libs_ok L" and "rest_mapping rm"
  shows "(\<forall>rules \<in> {PostgresCluster_rbac, manager_role}. \<forall>req w. Reconcile L (enforce L rm rules forbidden (paas_GVK ''PostgresCluster'') (NewPostgresClusterReconciler L c1 rec1)) req w =
      Reconcile L (NewPostgresClusterReconciler L c1 rec1) req w) \<and>
    (\<forall>rules \<in> {ValkeyCluster_rbac, manager_role}. \<forall>req w. Reconcile L (enforce L rm rules forbidden (paas_GVK ''ValkeyCluster'') (NewValkeyClusterReconciler L c2 rec2)) req w =
      Reconcile L (NewValkeyClusterReconciler L c2 rec2) req w) \<and>
    (\<forall>rules \<in> {GrafanaInstance_rbac, manager_role}. \<forall>req w. Reconcile L (enforce L rm rules forbidden (paas_GVK ''GrafanaInstance'') (NewGrafanaInstanceReconciler L c3 rec3)) req w =
      Reconcile L (NewGrafanaInstanceReconciler L c3 rec3) req w) \<and>
    (\<forall>rules \<in> {MariaDBCluster_rbac, manager_role}. \<forall>req w. Reconcile L (enforce L rm rules forbidden (paas_GVK ''MariaDBCluster'') (NewMariaDBClusterReconciler L c4 rec4)) req w =
      Reconcile L (NewMariaDBClusterReconciler L c4 rec4) req w) \<and>
    (\<forall>rules \<in> {RabbitMQCluster_rbac, manager_role}. \<forall>req w. Reconcile L (enforce L rm rules forbidden (paas_GVK ''RabbitMQCluster'') (NewRabbitMQClusterReconciler L c5 rec5)) req w =
      Reconcile L (NewRabbitMQClusterReconciler L c5 rec5) req w) \<and>
    (\<forall>rules \<in> {PrometheusInstance_rbac, manager_role}. \<forall>req w. Reconcile L (enforce L rm rules forbidden (paas_GVK ''PrometheusInstance'') (NewPrometheusInstanceReconciler L c6 rec6)) req w =
      Reconcile L (NewPrometheusInstanceReconciler L c6 rec6) req w)"
proof -
  have role: "role_setting L rm" using assms by (rule role_setting.intro)
  show ?thesis
    by (intro conjI ballI allI; rule role_setting.cnpg_enforced [OF role] role_setting.valkey_enforced [OF role]
      role_setting.grafana_enforced [OF role] role_setting.mariadb_enforced [OF role] role_setting.rabbitmq_enforced [OF role]
      role_setting.prometheus_enforced [OF role]; auto simp: role_grants_markers)
qed

theorem role_never_refuses_witness:
  "\<forall>req w. Reconcile ref_libs (enforce ref_libs rest_plural manager_role not_found (paas_GVK ''PrometheusInstance'')
      (NewPrometheusInstanceReconciler ref_libs (ref_client prom_wire) ref_recorder)) req w =
    Reconcile ref_libs (NewPrometheusInstanceReconciler ref_libs (ref_client prom_wire) ref_recorder) req w"
  using role_never_refuses [OF ref.k8s_libs_ok_axioms plurals.rest_mapping_axioms,
    of not_found idle_client "\<lambda>e w. w" idle_client "\<lambda>e w. w" idle_client "\<lambda>e w. w" idle_client "\<lambda>e w. w" idle_client "\<lambda>e w. w"
      "ref_client prom_wire" ref_recorder] by blast

section \<open>Installed definitions\<close>

text \<open>C36: the definitions the cluster is given are what the Go types say. Each of the six custom resource definitions serves its kind under
  the names the operator registers and asks for, with the columns, short name and status subresource of the markers; its schema fills in
  exactly the defaults of the markers, and accepts a spec exactly if the markers do (resources without claims, their quantities as
  texts of the pattern), and a status exactly if the types and markers of the status do.\<close>

theorem definitions_are_the_markers:
  assumes "text_resources m"
  shows "(serves_kind reg PostgresCluster_crd ''PostgresCluster'' PostgresCluster_markers PostgresCluster_spec_schema PostgresCluster_status_schema \<and>
      fill PostgresCluster_spec_schema (GMap m) = GMap (PostgresClusterSpec_defaults m) \<and>
      (conforms T PostgresCluster_spec_schema (GMap m) \<longleftrightarrow> PostgresClusterSpec_valid m) \<and>
      (conforms T PostgresCluster_status_schema (GMap st) \<longleftrightarrow> PostgresClusterStatus_valid T st)) \<and>
    (serves_kind reg ValkeyCluster_crd ''ValkeyCluster'' ValkeyCluster_markers ValkeyCluster_spec_schema ValkeyCluster_status_schema \<and>
      fill ValkeyCluster_spec_schema (GMap m) = GMap (ValkeyClusterSpec_defaults m) \<and>
      (conforms T ValkeyCluster_spec_schema (GMap m) \<longleftrightarrow> ValkeyClusterSpec_valid m) \<and>
      (conforms T ValkeyCluster_status_schema (GMap st) \<longleftrightarrow> ValkeyClusterStatus_valid T st)) \<and>
    (serves_kind reg GrafanaInstance_crd ''GrafanaInstance'' GrafanaInstance_markers GrafanaInstance_spec_schema GrafanaInstance_status_schema \<and>
      fill GrafanaInstance_spec_schema (GMap m) = GMap (GrafanaInstanceSpec_defaults m) \<and>
      (conforms T GrafanaInstance_spec_schema (GMap m) \<longleftrightarrow> GrafanaInstanceSpec_valid m) \<and>
      (conforms T GrafanaInstance_status_schema (GMap st) \<longleftrightarrow> GrafanaInstanceStatus_valid T st)) \<and>
    (serves_kind reg MariaDBCluster_crd ''MariaDBCluster'' MariaDBCluster_markers MariaDBCluster_spec_schema MariaDBCluster_status_schema \<and>
      fill MariaDBCluster_spec_schema (GMap m) = GMap (MariaDBClusterSpec_defaults m) \<and>
      (conforms T MariaDBCluster_spec_schema (GMap m) \<longleftrightarrow> MariaDBClusterSpec_valid m) \<and>
      (conforms T MariaDBCluster_status_schema (GMap st) \<longleftrightarrow> MariaDBClusterStatus_valid T st)) \<and>
    (serves_kind reg RabbitMQCluster_crd ''RabbitMQCluster'' RabbitMQCluster_markers RabbitMQCluster_spec_schema RabbitMQCluster_status_schema \<and>
      fill RabbitMQCluster_spec_schema (GMap m) = GMap (RabbitMQClusterSpec_defaults m) \<and>
      (conforms T RabbitMQCluster_spec_schema (GMap m) \<longleftrightarrow> RabbitMQClusterSpec_valid m) \<and>
      (conforms T RabbitMQCluster_status_schema (GMap st) \<longleftrightarrow> RabbitMQClusterStatus_valid T st)) \<and>
    (serves_kind reg PrometheusInstance_crd ''PrometheusInstance'' PrometheusInstance_markers PrometheusInstance_spec_schema
        PrometheusInstance_status_schema \<and>
      fill PrometheusInstance_spec_schema (GMap m) = GMap (PrometheusInstanceSpec_defaults m) \<and>
      (conforms T PrometheusInstance_spec_schema (GMap m) \<longleftrightarrow> PrometheusInstanceSpec_valid m) \<and>
      (conforms T PrometheusInstance_status_schema (GMap st) \<longleftrightarrow> PrometheusInstanceStatus_valid T st))"
  using crds_serve_the_kinds by (simp only: spec_defaults spec_valid [OF assms, of T] status_valid [of T] simp_thms)

text \<open>A spec with limits: valid once the defaults are filled in, by the schema as by the markers.\<close>

definition demo_spec_json :: gomap where
  "demo_spec_json = fmap_of_list [(''storage'', GMap (fmap_of_list [(''size'', GStr ''1Gi'')])),
     (''resources'', GMap (fmap_of_list [(''limits'', GMap (fmap_of_list [(''cpu'', GStr ''500m'')]))]))]"

theorem definitions_are_the_markers_witness:
  "conforms ref_time RabbitMQCluster_spec_schema (GMap demo_spec_json) \<and> \<not> conforms ref_time PostgresCluster_spec_schema (GMap demo_spec_json)"
proof -
  have "matches quantity_pattern ''500m''" by code_simp
  then have "text_resources demo_spec_json"
    by (simp add: text_resources_def text_quantities_def demo_spec_json_def fmap_of_list_simps fmpred_upd)
  from definitions_are_the_markers [OF this, of demo_reg ref_time]
  have "conforms ref_time RabbitMQCluster_spec_schema (GMap demo_spec_json) \<longleftrightarrow> RabbitMQClusterSpec_valid demo_spec_json"
    "conforms ref_time PostgresCluster_spec_schema (GMap demo_spec_json) \<longleftrightarrow> PostgresClusterSpec_valid demo_spec_json"
    by blast+
  then show ?thesis
    by (simp add: RabbitMQClusterSpec_valid_def PostgresClusterSpec_valid_def ResourceRequirements_valid_def StorageSpec_valid_def
      marker_defs valid_in_def demo_spec_json_def fmap_of_list_simps fmpred_upd)
qed

section \<open>Scaffolding of the tests\<close>

text \<open>C37: uncommenting undoes commenting. Where a file holds a commented block, whose lines fit the scanner's buffer and end in no
  carriage return and which does not end in a newline, \<open>UncommentCode\<close> writes the file with that block as it was before it was commented,
  and everything around it unchanged.\<close>

theorem uncomment_restores_commented:
  assumes "os_ReadFile os filename w = (Inr (before @ commented pfx s @ after), w1)"
    and "strings_Index (before @ commented pfx s @ after) (commented pfx s) = Some (length before)"
    and "CHR 0x0A \<notin> set pfx" and "plain_text (commented pfx s)"
  shows "UncommentCode os filename (commented pfx s) pfx w =
    (case os_WriteFile os filename (before @ s @ after) 420 w1 of (e, w2) \<Rightarrow> (map_option (WriteFailed filename) e, w2))"
  using UncommentCode_plain [OF assms(1,4), of pfx] assms(2) by (simp add: uncommented_commented [OF assms(3)] written_def)

text \<open>An operating system of files only.\<close>

definition demo_files :: "((string \<times> string) list) os_api" where
  "demo_files = \<lparr>os_Getwd = (\<lambda>w. (('''', None), w)), os_Chdir = (\<lambda>d w. (None, w)), os_Environ = (\<lambda>w. []),
     os_LookupEnv = (\<lambda>k w. None),
     os_ReadFile = (\<lambda>f w. (case map_of w f of Some t \<Rightarrow> Inr t | None \<Rightarrow> Inl not_found, w)),
     os_WriteFile = (\<lambda>f t p w. (None, AList.update f t w)),
     exec_CombinedOutput = (\<lambda>c w. (('''', None), w)), ginkgo_Write = (\<lambda>t w. w), err_Error = (\<lambda>e. '''')\<rparr>"

theorem uncomment_restores_commented_witness:
  "UncommentCode demo_files ''f'' (''#a'' @ [CHR 0x0A] @ ''#b'') ''#'' [(''f'', ''x '' @ ''#a'' @ [CHR 0x0A] @ ''#b'' @ '' y'')] =
     (None, [(''f'', ''x a'' @ [CHR 0x0A] @ ''b y'')])"
proof -
  have "plain_text (commented ''#'' (''a'' @ [CHR 0x0A] @ ''b''))"
    by (simp add: plain_text_def plain_line_def drop_cr_def MaxScanTokenSize_def commented_def)
  from uncomment_restores_commented [OF _ _ _ this, of demo_files "''f''" "[(''f'', ''x '' @ ''#a'' @ [CHR 0x0A] @ ''#b'' @ '' y'')]"
      "''x ''" "'' y''"]
  show ?thesis by (simp add: demo_files_def commented_def)
qed

end
