(* ===== verification/Whole_Operator.thy ===== *)
theory Whole_Operator
  imports Operator_Main Engine_Liveness Reconciler_Runs Api_Json
begin

text \<open>
  All six controllers on one API server, any that meets its laws. What a pass over one CR does to another is nothing, as long as no object
  belongs to both; so any interleaving of passes brings every CR to where its own passes would bring it. First the
  engine of one kind on a server that keeps the CRs of a kind apart (\<open>shared_engine\<close>), then passes of any participants
  over one world (\<open>participants\<close>), then the operator: a pass for each CR by the controller of its kind,
      and the vendor operators that see
  to the children of the targets (\<open>shared_api\<close>).
\<close>

section \<open>One kind among others\<close>

locale shared_engine = available_engine +
  assumes update_others: "Client_Update c cr w
      = (a, w') \<Longrightarrow> m \<noteq> (cr_namespace cr, cr_name cr) \<Longrightarrow> cr_at m w' = cr_at m w"
    and status_others: "Client_StatusUpdate c cr w
        = (a, w') \<Longrightarrow> m \<noteq> (cr_namespace cr, cr_name cr) \<Longrightarrow> cr_at m w' = cr_at m w"
begin

text \<open>What a pass leaves alone, with whatever answers and on whichever path.\<close>

definition framed where
  "framed req w w' \<longleftrightarrow> (\<forall>m. m \<noteq> req \<longrightarrow> cr_at m w' = cr_at m w) \<and>
     (\<forall>key. key \<notin> owned (fst req) (snd req) \<longrightarrow> obj_at key w' = obj_at key w \<and> live key w' = live key w)"

lemma framedD:
  "framed req w w' \<Longrightarrow> m \<noteq> req \<Longrightarrow> cr_at m w' = cr_at m w"
  "framed req w w' \<Longrightarrow> key \<notin> owned (fst req) (snd req) \<Longrightarrow> obj_at key w' = obj_at key w \<and> live key w'
      = live key w"
  unfolding framed_def by blast+

lemma framed_refl: "framed req w w"
  by (simp add: framed_def)

lemma framed_trans: "framed req w w1 \<Longrightarrow> framed req w1 w2 \<Longrightarrow> framed req w w2"
  by (simp add: framed_def)

lemma phase_cr: "protocol_step L A req p c' q \<Longrightarrow> phase_of cr p \<Longrightarrow>
    (case c' of CUpdate x _ \<Rightarrow> (cr_namespace x, cr_name x) = (cr_namespace cr, cr_name cr)
     | CStatusUpdate x _ \<Rightarrow> (cr_namespace x, cr_name x) = (cr_namespace cr, cr_name cr) | _ \<Rightarrow> True)"
  by (cases rule: protocol_step.cases) (auto simp: add_finalizer remove_finalizer apply_frame)

lemma performed_framed:
  assumes "performed r c' w w'" and "\<And>key. changed_key L c' = Some key \<Longrightarrow> key \<in> owned (fst req) (snd req)"
    and "case c' of CUpdate x _ \<Rightarrow> (cr_namespace x, cr_name x) = req | CStatusUpdate x _ \<Rightarrow> (cr_namespace x, cr_name x)
        = req
      | _ \<Rightarrow> True"
  shows "framed req w w'"
proof (cases c')
  case (CGet k a)
  with assms(1) have "Client_Get c k w = (a, w')" by (simp add: wired)
  from get_frame [OF this] show ?thesis by (simp add: framed_def)
next
  case (CGetTarget k u b)
  with assms(1) have "Client_GetUnstructured c k u w = (b, w')" by (simp add: wired)
  from look_frame [OF this] show ?thesis by (simp add: framed_def)
next
  case (CApply u f force b)
  with assms(1,2) have "Client_Apply c u f force w = (b, w')" "key_of L u \<in> owned (fst req) (snd req)" by (simp_all add: wired)
  with srv_apply_frame [OF this(1)] show ?thesis unfolding framed_def by metis
next
  case (CDelete u d)
  with assms(1,2) have "Client_Delete c u w = (d, w')" "key_of L u \<in> owned (fst req) (snd req)" by (simp_all add: wired)
  with delete_frame [OF this(1)] show ?thesis unfolding framed_def by metis
next
  case (CUpdate x a)
  with assms(1,3) have "Client_Update c x w = (a, w')" "(cr_namespace x, cr_name x) = req" by (simp_all add: wired)
  with update_frame [OF this(1)] update_others [OF this(1)] show ?thesis unfolding framed_def by metis
next
  case (CStatusUpdate x a)
  with assms(1,3) have "Client_StatusUpdate c x w = (a, w')" "(cr_namespace x, cr_name x) = req" by (simp_all add: wired)
  with status_frame [OF this(1)] status_others [OF this(1)] show ?thesis unfolding framed_def by metis
next
  case (CEvent e)
  with assms(1) event_frame show ?thesis by (simp add: wired framed_def)
qed

lemma Reconcile_framed: "framed req w (snd (Reconcile L r req w))"
proof -
  obtain res e w' where R: "Reconcile L r req w = ((res, e), w')" by (metis prod.exhaust)
  let ?J = "\<lambda>p v. framed req w v \<and> (p = Read \<or> (\<exists>res e. p = Done res e) \<or>
      (\<exists>cr. (cr_namespace cr, cr_name cr) = req \<and> phase_of cr p))"
  have "?J (Done res e) w'"
  proof (rule Reconcile_coupled [OF R])
    show "?J Read w" by (simp add: framed_refl)
  next
    fix p c' q v v'
    assume J: "?J p v" and step: "protocol_step L (gr_Adapter r) req p c' q" and perf: "performed r c' v v'"
    from step have step: "protocol_step L A req p c' q" by (simp add: wired)
    show "?J q v'"
    proof (cases "p = Read")
      case True
      with step show ?thesis
      proof (cases rule: protocol_step.cases)
        case (read_error err)
        with perf have g: "Client_Get c req v = (Inl err, v')" by (simp add: wired)
        have "framed req v v'" using get_frame [OF g] by (simp add: framed_def)
        with J have "framed req w v'" using framed_trans by blast
        with read_error show ?thesis by blast
      next
        case (read_ok cr)
        with perf have g: "Client_Get c req v = (Inr cr, v')" by (simp add: wired)
        from get_ok [OF g] have n: "(cr_namespace cr, cr_name cr) = req" by (rule req_of)
        have "framed req v v'" using get_frame [OF g] by (simp add: framed_def)
        with J have "framed req w v'" using framed_trans by blast
        moreover have "phase_of cr q" using read_ok by (simp add: after_read_def)
        ultimately show ?thesis using n by blast
      qed auto
    next
      case False
      with J step obtain cr where n: "(cr_namespace cr, cr_name cr) = req" and p: "phase_of cr p" by (blast elim: DoneE)
      have "framed req v v'"
        by (rule performed_framed [OF perf])
          (use step_scope [OF step p] phase_cr [OF step p] n in \<open>auto split: api_call.splits\<close>)
      with J have "framed req w v'" using framed_trans by blast
      with step_scope [OF step p] n show ?thesis by blast
    qed
  qed
  with R show ?thesis by simp
qed

end

section \<open>Passes over one world\<close>

locale participants =
  fixes pass :: "'i \<Rightarrow> 'w \<Rightarrow> 'w"
    and course :: "'i \<Rightarrow> nat \<Rightarrow> 'w \<Rightarrow> bool"
    and apart :: "'i \<Rightarrow> 'i \<Rightarrow> bool"
  assumes own_pass: "course i k w \<Longrightarrow> course i (k - 1) (pass i w)"
    and other_pass: "apart i j \<Longrightarrow> course j k w \<Longrightarrow> course j k (pass i w)"
begin

lemma schedule_course:
  assumes "\<And>i. i \<in> set schedule \<Longrightarrow> i \<noteq> j \<Longrightarrow> apart i j" and "course j k w"
  shows "course j (k - count_list schedule j) (fold pass schedule w)"
  using assms
proof (induction schedule arbitrary: k w)
  case Nil
  then show ?case by simp
next
  case (Cons i schedule)
  show ?case
  proof (cases "i = j")
    case True
    from Cons.IH [OF Cons.prems(1) own_pass [OF Cons.prems(2)]] True show ?thesis by simp
  next
    case False
    from Cons.prems(1) [of i] False have "apart i j" by simp
    from Cons.IH [OF Cons.prems(1) other_pass [OF this Cons.prems(2)]] False show ?thesis by simp
  qed
qed

text \<open>Whatever the order and whatever comes after: enough passes are enough.\<close>

lemma all_arrive:
  assumes "\<And>i j. i \<in> I \<Longrightarrow> j \<in> I \<Longrightarrow> i \<noteq> j \<Longrightarrow> apart i j"
      and "set schedule \<subseteq> I"
    and "j \<in> I" and "course j k w" and "k \<le> count_list schedule j"
  shows "course j 0 (fold pass schedule w)"
  using schedule_course [of schedule j k w] assms by (auto simp: subset_iff)

end

section \<open>The operator\<close>

text \<open>The CRs an API server holds.\<close>

record cr_stores =
  st_pg :: "NamespacedName \<Rightarrow> PostgresCluster option"
  st_vk :: "NamespacedName \<Rightarrow> ValkeyCluster option"
  st_gf :: "NamespacedName \<Rightarrow> GrafanaInstance option"
  st_md :: "NamespacedName \<Rightarrow> MariaDBCluster option"
  st_rmq :: "NamespacedName \<Rightarrow> RabbitMQCluster option"
  st_prom :: "NamespacedName \<Rightarrow> PrometheusInstance option"

text \<open>A CR to take care of: its kind, its name, and the spec it is to be settled on, or none if it is to go.\<close>

datatype member =
    PostgresClusterMember NamespacedName "PostgresClusterSpec option"
  | ValkeyClusterMember NamespacedName "ValkeyClusterSpec option"
  | GrafanaInstanceMember NamespacedName "GrafanaInstanceSpec option"
  | MariaDBClusterMember NamespacedName "MariaDBClusterSpec option"
  | RabbitMQClusterMember NamespacedName "RabbitMQClusterSpec option"
  | PrometheusInstanceMember NamespacedName "PrometheusInstanceSpec option"

text \<open>The objects the operator applies and deletes for it.\<close>

fun member_keys :: "member \<Rightarrow> object_key set" where
  "member_keys (PostgresClusterMember n goal) = owned_keys cnpg_GVK (\<lambda>_. []) (fst n) (snd n)"
| "member_keys (ValkeyClusterMember n goal) = owned_keys valkey_GVK
    (\<lambda>t. [(valkey_externalServiceGVK, t @ ''-external'')]) (fst n) (snd n)"
| "member_keys (GrafanaInstanceMember n goal) = owned_keys grafana_GVK (\<lambda>_. []) (fst n) (snd n)"
| "member_keys (MariaDBClusterMember n goal) = owned_keys mariadb_GVK (\<lambda>_. []) (fst n) (snd n)"
| "member_keys (RabbitMQClusterMember n goal) = owned_keys rabbitmq_GVK (\<lambda>t. [(ingress_GVK, t @ ''-ingress'')]) (fst n) (snd n)"
| "member_keys (PrometheusInstanceMember n goal) = owned_keys prometheus_GVK
    (\<lambda>t. [(prometheus_serviceGVK, t @ ''-web''), (ingress_GVK, t @ ''-ingress'')]) (fst n) (snd n)"

text \<open>The objects its manifest tells the vendor operator to create, by name: the Service of an exposed CNPG cluster, the passwords of a
  MariaDB.\<close>

definition secret_GVK :: GroupVersionKind where
  "secret_GVK = \<lparr>Group = '''', Version = ''v1'', Kind = ''Secret''\<rparr>"

fun managed_keys :: "member \<Rightarrow> object_key set" where
  "managed_keys (PostgresClusterMember n goal) = {(valkey_externalServiceGVK, fst n, snd n @ ''-external'')}"
| "managed_keys (MariaDBClusterMember n goal) = {(secret_GVK, fst n, snd n @ ''-app''), (secret_GVK, fst n, snd n @ ''-root'')}"
| "managed_keys _ = {}"

text \<open>One reconcile for it, by the controller of its kind as \<open>main\<close> makes it; \<open>rec\<close> is the event recorder under each name.\<close>

fun member_pass :: "k8s_libs \<Rightarrow> 'w clients \<Rightarrow> (string \<Rightarrow> event \<Rightarrow> 'w \<Rightarrow> 'w) \<Rightarrow> member \<Rightarrow> 'w \<Rightarrow> 'w" where
  "member_pass L C rec (PostgresClusterMember n goal) w =
     snd (Reconcile L (NewPostgresClusterReconciler L (client_PostgresCluster C) (rec ''postgrescluster-operator'')) n w)"
| "member_pass L C rec (ValkeyClusterMember n goal) w =
     snd (Reconcile L (NewValkeyClusterReconciler L (client_ValkeyCluster C) (rec ''valkeycluster-operator'')) n w)"
| "member_pass L C rec (GrafanaInstanceMember n goal) w =
     snd (Reconcile L (NewGrafanaInstanceReconciler L (client_GrafanaInstance C) (rec ''grafanainstance-operator'')) n w)"
| "member_pass L C rec (MariaDBClusterMember n goal) w =
     snd (Reconcile L (NewMariaDBClusterReconciler L (client_MariaDBCluster C) (rec ''mariadbcluster-operator'')) n w)"
| "member_pass L C rec (RabbitMQClusterMember n goal) w =
     snd (Reconcile L (NewRabbitMQClusterReconciler L (client_RabbitMQCluster C) (rec ''rabbitmqcluster-operator'')) n w)"
| "member_pass L C rec (PrometheusInstanceMember n goal) w =
     snd (Reconcile L (NewPrometheusInstanceReconciler L (client_PrometheusInstance C) (rec ''prometheusinstance-operator'')) n w)"

text \<open>At most so many passes from where it is to be.\<close>

fun member_course ::
    "k8s_libs \<Rightarrow> ('w \<Rightarrow> cr_stores) \<Rightarrow> (object_key \<Rightarrow> 'w \<Rightarrow> unstructured option) \<Rightarrow> (object_key \<Rightarrow> 'w \<Rightarrow> bool) \<Rightarrow>
     member \<Rightarrow> nat \<Rightarrow> 'w \<Rightarrow> bool" where
  "member_course L crs obj_at live (PostgresClusterMember n goal) k w =
     on_course L (cnpg_Adapter L) (\<lambda>_. []) cnpg_view (\<lambda>n w. st_pg (crs w) n) obj_at live pg_wire n goal k w"
| "member_course L crs obj_at live (ValkeyClusterMember n goal) k w =
     on_course L (valkey_Adapter L) (\<lambda>t. [(valkey_externalServiceGVK, t @ ''-external'')]) valkey_view
         (\<lambda>n w. st_vk (crs w) n) obj_at live vk_wire n goal k w"
| "member_course L crs obj_at live (GrafanaInstanceMember n goal) k w =
     on_course L (grafana_Adapter L) (\<lambda>_. []) grafana_view (\<lambda>n w. st_gf (crs w) n) obj_at live gf_wire n goal k w"
| "member_course L crs obj_at live (MariaDBClusterMember n goal) k w =
     on_course L (mariadb_Adapter L) (\<lambda>_. []) mariadb_view (\<lambda>n w. st_md (crs w) n) obj_at live md_wire n goal k w"
| "member_course L crs obj_at live (RabbitMQClusterMember n goal) k w =
     on_course L (rabbitmq_Adapter L) (\<lambda>t. [(ingress_GVK, t @ ''-ingress'')]) rabbitmq_view
         (\<lambda>n w. st_rmq (crs w) n) obj_at live rmq_wire n goal k w"
| "member_course L crs obj_at live (PrometheusInstanceMember n goal) k w =
     on_course L (prometheus_Adapter L) (\<lambda>t. [(prometheus_serviceGVK, t @ ''-web''), (ingress_GVK, t @ ''-ingress'')])
         prometheus_view (\<lambda>n w. st_prom (crs w) n) obj_at live prom_wire n goal k w"

section \<open>Who gets in whose way\<close>

text \<open>
  What belongs to a CR: what the operator writes for it, what its manifest names, and whatever else the vendor operators create for it,
  \<open>children\<close>, which is arbitrary. Two CRs clash when something belongs to both.
\<close>

definition belongs :: "(member \<Rightarrow> object_key set) \<Rightarrow> member \<Rightarrow> object_key set" where
  "belongs children i = member_keys i \<union> (managed_keys i \<union> children i)"

definition clash :: "(member \<Rightarrow> object_key set) \<Rightarrow> member \<Rightarrow> member \<Rightarrow> bool" where
  "clash children i j \<longleftrightarrow> belongs children i \<inter> belongs children j \<noteq> {}"

lemma suffixes_differ: "n @ ''-external'' \<noteq> n' @ ''-web''" "n @ ''-web'' \<noteq> n' @ ''-external''"
  "n @ ''-app'' \<noteq> n' @ ''-root''" "n @ ''-root'' \<noteq> n' @ ''-app''"
  by (auto simp: append_eq_append_conv2 append_eq_Cons_conv Cons_eq_append_conv)

lemmas gvk_defs = cnpg_GVK_def valkey_GVK_def grafana_GVK_def mariadb_GVK_def rabbitmq_GVK_def prometheus_GVK_def
  valkey_externalServiceGVK_def prometheus_serviceGVK_def ingress_GVK_def secret_GVK_def

lemma managed_not_own: "managed_keys i \<inter> member_keys i = {}"
  by (cases i) (auto simp: owned_keys_def gvk_defs)

text \<open>With no further children, these clash: two of one kind and name; a RabbitMQCluster and a PrometheusInstance of one name, over an
  Ingress; a ValkeyCluster and a PostgresCluster of one name, over a Service.\<close>

fun same_names :: "member \<Rightarrow> member \<Rightarrow> bool" where
  "same_names (PostgresClusterMember n _) (PostgresClusterMember n' _) \<longleftrightarrow> n = n'"
| "same_names (ValkeyClusterMember n _) (ValkeyClusterMember n' _) \<longleftrightarrow> n = n'"
| "same_names (GrafanaInstanceMember n _) (GrafanaInstanceMember n' _) \<longleftrightarrow> n = n'"
| "same_names (MariaDBClusterMember n _) (MariaDBClusterMember n' _) \<longleftrightarrow> n = n'"
| "same_names (RabbitMQClusterMember n _) (RabbitMQClusterMember n' _) \<longleftrightarrow> n = n'"
| "same_names (PrometheusInstanceMember n _) (PrometheusInstanceMember n' _) \<longleftrightarrow> n = n'"
| "same_names (RabbitMQClusterMember n _) (PrometheusInstanceMember n' _) \<longleftrightarrow> n = n'"
| "same_names (PrometheusInstanceMember n _) (RabbitMQClusterMember n' _) \<longleftrightarrow> n = n'"
| "same_names (ValkeyClusterMember n _) (PostgresClusterMember n' _) \<longleftrightarrow> n = n'"
| "same_names (PostgresClusterMember n _) (ValkeyClusterMember n' _) \<longleftrightarrow> n = n'"
| "same_names _ _ \<longleftrightarrow> False"

lemma clash_same_names: "clash (\<lambda>_. {}) i j \<longleftrightarrow> same_names i j"
  by (cases i; cases j) (auto simp: clash_def belongs_def owned_keys_def gvk_defs suffixes_differ)

text \<open>A step of the vendor operators: they do as they like with the children of the members.\<close>

definition vendor_step ::
    "('w \<Rightarrow> cr_stores) \<Rightarrow> (object_key \<Rightarrow> 'w \<Rightarrow> unstructured option) \<Rightarrow> (object_key \<Rightarrow> 'w \<Rightarrow> bool) \<Rightarrow>
     (member \<Rightarrow> object_key set) \<Rightarrow> member set \<Rightarrow> ('w \<Rightarrow> 'w) \<Rightarrow> bool" where
  "vendor_step crs obj_at live children members f \<longleftrightarrow> (\<forall>w. crs (f w) = crs w \<and>
     (\<forall>key. (\<forall>i \<in> members. key \<notin> managed_keys i \<union> children i) \<longrightarrow> obj_at key (f w)
         = obj_at key w \<and> live key (f w) = live key w))"

text \<open>What happens in the cluster: a pass for a member, or a step of the vendor operators.\<close>

fun happens :: "k8s_libs \<Rightarrow> 'w clients \<Rightarrow> (string \<Rightarrow> event \<Rightarrow> 'w \<Rightarrow> 'w) \<Rightarrow> member + ('w \<Rightarrow> 'w) \<Rightarrow> 'w \<Rightarrow> 'w" where
  "happens L C rec (Inl m) w = member_pass L C rec m w"
| "happens L C rec (Inr f) w = f w"

text \<open>The CR of a member is the same in both stores.\<close>

fun same_cr :: "member \<Rightarrow> cr_stores \<Rightarrow> cr_stores \<Rightarrow> bool" where
  "same_cr (PostgresClusterMember n goal) s s' \<longleftrightarrow> st_pg s' n = st_pg s n"
| "same_cr (ValkeyClusterMember n goal) s s' \<longleftrightarrow> st_vk s' n = st_vk s n"
| "same_cr (GrafanaInstanceMember n goal) s s' \<longleftrightarrow> st_gf s' n = st_gf s n"
| "same_cr (MariaDBClusterMember n goal) s s' \<longleftrightarrow> st_md s' n = st_md s n"
| "same_cr (RabbitMQClusterMember n goal) s s' \<longleftrightarrow> st_rmq s' n = st_rmq s n"
| "same_cr (PrometheusInstanceMember n goal) s s' \<longleftrightarrow> st_prom s' n = st_prom s n"

section \<open>One API server for all\<close>

text \<open>Each controller finds the server as its engine needs it, and a client writes to the store of its own kind only.\<close>

locale shared_api =
  pg: shared_engine L "cnpg_Adapter L" "\<lambda>_. []" cnpg_view
    "client_PostgresCluster C" "rec ''postgrescluster-operator''" "\<lambda>n w. st_pg (crs w) n" obj_at live pg_wire
    "NewPostgresClusterReconciler L (client_PostgresCluster C) (rec ''postgrescluster-operator'')" +
  vk: shared_engine L "valkey_Adapter L" "\<lambda>t. [(valkey_externalServiceGVK, t @ ''-external'')]" valkey_view
    "client_ValkeyCluster C" "rec ''valkeycluster-operator''" "\<lambda>n w. st_vk (crs w) n" obj_at live vk_wire
    "NewValkeyClusterReconciler L (client_ValkeyCluster C) (rec ''valkeycluster-operator'')" +
  gf: shared_engine L "grafana_Adapter L" "\<lambda>_. []" grafana_view
    "client_GrafanaInstance C" "rec ''grafanainstance-operator''" "\<lambda>n w. st_gf (crs w) n" obj_at live gf_wire
    "NewGrafanaInstanceReconciler L (client_GrafanaInstance C) (rec ''grafanainstance-operator'')" +
  md: shared_engine L "mariadb_Adapter L" "\<lambda>_. []" mariadb_view
    "client_MariaDBCluster C" "rec ''mariadbcluster-operator''" "\<lambda>n w. st_md (crs w) n" obj_at live md_wire
    "NewMariaDBClusterReconciler L (client_MariaDBCluster C) (rec ''mariadbcluster-operator'')" +
  rmq: shared_engine L "rabbitmq_Adapter L" "\<lambda>t. [(ingress_GVK, t @ ''-ingress'')]" rabbitmq_view
    "client_RabbitMQCluster C" "rec ''rabbitmqcluster-operator''" "\<lambda>n w. st_rmq (crs w) n" obj_at live rmq_wire
    "NewRabbitMQClusterReconciler L (client_RabbitMQCluster C) (rec ''rabbitmqcluster-operator'')" +
  prom: shared_engine L "prometheus_Adapter L"
      "\<lambda>t. [(prometheus_serviceGVK, t @ ''-web''), (ingress_GVK, t @ ''-ingress'')]" prometheus_view
    "client_PrometheusInstance C" "rec ''prometheusinstance-operator''" "\<lambda>n w. st_prom (crs w) n" obj_at live prom_wire
    "NewPrometheusInstanceReconciler L (client_PrometheusInstance C) (rec ''prometheusinstance-operator'')"
  for L :: k8s_libs
    and C :: "'w clients"
    and rec :: "string \<Rightarrow> event \<Rightarrow> 'w \<Rightarrow> 'w"
    and crs :: "'w \<Rightarrow> cr_stores"
    and obj_at :: "object_key \<Rightarrow> 'w \<Rightarrow> unstructured option"
    and live :: "object_key \<Rightarrow> 'w \<Rightarrow> bool" +
  assumes pg_only: "call_invariant (NewPostgresClusterReconciler L (client_PostgresCluster C) (rec ''postgrescluster-operator''))
      (\<lambda>w. (crs w)\<lparr>st_pg := \<lambda>_. None\<rparr> = s)"
    and vk_only: "call_invariant (NewValkeyClusterReconciler L (client_ValkeyCluster C) (rec ''valkeycluster-operator''))
      (\<lambda>w. (crs w)\<lparr>st_vk := \<lambda>_. None\<rparr> = s)"
    and gf_only: "call_invariant (NewGrafanaInstanceReconciler L (client_GrafanaInstance C) (rec ''grafanainstance-operator''))
      (\<lambda>w. (crs w)\<lparr>st_gf := \<lambda>_. None\<rparr> = s)"
    and md_only: "call_invariant (NewMariaDBClusterReconciler L (client_MariaDBCluster C) (rec ''mariadbcluster-operator''))
      (\<lambda>w. (crs w)\<lparr>st_md := \<lambda>_. None\<rparr> = s)"
    and rmq_only: "call_invariant (NewRabbitMQClusterReconciler L (client_RabbitMQCluster C) (rec ''rabbitmqcluster-operator''))
      (\<lambda>w. (crs w)\<lparr>st_rmq := \<lambda>_. None\<rparr> = s)"
    and prom_only: "call_invariant (NewPrometheusInstanceReconciler L (client_PrometheusInstance C) (rec ''prometheusinstance-operator''))
      (\<lambda>w. (crs w)\<lparr>st_prom := \<lambda>_. None\<rparr> = s)"
begin

lemma adapter_GVKs:
  "GVK (cnpg_Adapter L) = cnpg_GVK" "GVK (valkey_Adapter L) = valkey_GVK" "GVK (grafana_Adapter L) = grafana_GVK"
  "GVK (mariadb_Adapter L) = mariadb_GVK" "GVK (rabbitmq_Adapter L) = rabbitmq_GVK" "GVK (prometheus_Adapter L) = prometheus_GVK"
  by (simp_all add: cnpg_Adapter_def valkey_Adapter_def grafana_Adapter_def mariadb_Adapter_def rabbitmq_Adapter_def prometheus_Adapter_def)

text \<open>Objects that are not its own a pass leaves alone.\<close>

lemma pass_frame:
  assumes "key \<notin> member_keys i"
  shows "obj_at key (member_pass L C rec i w) = obj_at key w \<and> live key (member_pass L C rec i w) = live key w"
proof (cases i)
  case (PostgresClusterMember n goal)
  with assms pg.framedD(2) [OF pg.Reconcile_framed, of key n w] show ?thesis by (simp add: adapter_GVKs)
next
  case (ValkeyClusterMember n goal)
  with assms vk.framedD(2) [OF vk.Reconcile_framed, of key n w] show ?thesis by (simp add: adapter_GVKs)
next
  case (GrafanaInstanceMember n goal)
  with assms gf.framedD(2) [OF gf.Reconcile_framed, of key n w] show ?thesis by (simp add: adapter_GVKs)
next
  case (MariaDBClusterMember n goal)
  with assms md.framedD(2) [OF md.Reconcile_framed, of key n w] show ?thesis by (simp add: adapter_GVKs)
next
  case (RabbitMQClusterMember n goal)
  with assms rmq.framedD(2) [OF rmq.Reconcile_framed, of key n w] show ?thesis by (simp add: adapter_GVKs)
next
  case (PrometheusInstanceMember n goal)
  with assms prom.framedD(2) [OF prom.Reconcile_framed, of key n w] show ?thesis by (simp add: adapter_GVKs)
qed

text \<open>And CRs other than the one it is for, of its own kind and of others.\<close>

lemma pg_stores:
  defines "r \<equiv> NewPostgresClusterReconciler L (client_PostgresCluster C) (rec ''postgrescluster-operator'')"
  shows "st_vk (crs (snd (Reconcile L r n w))) = st_vk (crs w)"
    and "st_gf (crs (snd (Reconcile L r n w))) = st_gf (crs w)"
    and "st_md (crs (snd (Reconcile L r n w))) = st_md (crs w)"
    and "st_rmq (crs (snd (Reconcile L r n w))) = st_rmq (crs w)"
    and "st_prom (crs (snd (Reconcile L r n w))) = st_prom (crs w)"
    and "m \<noteq> n \<Longrightarrow> st_pg (crs (snd (Reconcile L r n w))) m = st_pg (crs w) m"
proof -
  obtain x w' where R: "Reconcile L r n w = (x, w')" by (metis prod.exhaust)
  have e: "(crs w')\<lparr>st_pg := \<lambda>_. None\<rparr> = (crs w)\<lparr>st_pg := \<lambda>_. None\<rparr>"
    using call_invariant.Reconcile_preserves [OF pg_only [of "(crs w)\<lparr>st_pg := \<lambda>_. None\<rparr>", folded r_def] R] by simp
  show "st_vk (crs (snd (Reconcile L r n w))) = st_vk (crs w)" "st_gf (crs (snd (Reconcile L r n w))) = st_gf (crs w)"
      "st_md (crs (snd (Reconcile L r n w))) = st_md (crs w)" "st_rmq (crs (snd (Reconcile L r n w))) = st_rmq (crs w)"
      "st_prom (crs (snd (Reconcile L r n w))) = st_prom (crs w)"
    using arg_cong [OF e, of st_vk] arg_cong [OF e, of st_gf] arg_cong [OF e, of st_md] arg_cong [OF e, of st_rmq]
        arg_cong [OF e, of st_prom] by (simp_all add: R)
  show "m \<noteq> n \<Longrightarrow> st_pg (crs (snd (Reconcile L r n w))) m = st_pg (crs w) m"
    using pg.framedD(1) [OF pg.Reconcile_framed, of m n w] by (simp add: r_def)
qed

lemma vk_stores:
  defines "r \<equiv> NewValkeyClusterReconciler L (client_ValkeyCluster C) (rec ''valkeycluster-operator'')"
  shows "st_pg (crs (snd (Reconcile L r n w))) = st_pg (crs w)"
    and "st_gf (crs (snd (Reconcile L r n w))) = st_gf (crs w)"
    and "st_md (crs (snd (Reconcile L r n w))) = st_md (crs w)"
    and "st_rmq (crs (snd (Reconcile L r n w))) = st_rmq (crs w)"
    and "st_prom (crs (snd (Reconcile L r n w))) = st_prom (crs w)"
    and "m \<noteq> n \<Longrightarrow> st_vk (crs (snd (Reconcile L r n w))) m = st_vk (crs w) m"
proof -
  obtain x w' where R: "Reconcile L r n w = (x, w')" by (metis prod.exhaust)
  have e: "(crs w')\<lparr>st_vk := \<lambda>_. None\<rparr> = (crs w)\<lparr>st_vk := \<lambda>_. None\<rparr>"
    using call_invariant.Reconcile_preserves [OF vk_only [of "(crs w)\<lparr>st_vk := \<lambda>_. None\<rparr>", folded r_def] R] by simp
  show "st_pg (crs (snd (Reconcile L r n w))) = st_pg (crs w)" "st_gf (crs (snd (Reconcile L r n w))) = st_gf (crs w)"
      "st_md (crs (snd (Reconcile L r n w))) = st_md (crs w)" "st_rmq (crs (snd (Reconcile L r n w))) = st_rmq (crs w)"
      "st_prom (crs (snd (Reconcile L r n w))) = st_prom (crs w)"
    using arg_cong [OF e, of st_pg] arg_cong [OF e, of st_gf] arg_cong [OF e, of st_md] arg_cong [OF e, of st_rmq]
        arg_cong [OF e, of st_prom] by (simp_all add: R)
  show "m \<noteq> n \<Longrightarrow> st_vk (crs (snd (Reconcile L r n w))) m = st_vk (crs w) m"
    using vk.framedD(1) [OF vk.Reconcile_framed, of m n w] by (simp add: r_def)
qed

lemma gf_stores:
  defines "r \<equiv> NewGrafanaInstanceReconciler L (client_GrafanaInstance C) (rec ''grafanainstance-operator'')"
  shows "st_pg (crs (snd (Reconcile L r n w))) = st_pg (crs w)"
    and "st_vk (crs (snd (Reconcile L r n w))) = st_vk (crs w)"
    and "st_md (crs (snd (Reconcile L r n w))) = st_md (crs w)"
    and "st_rmq (crs (snd (Reconcile L r n w))) = st_rmq (crs w)"
    and "st_prom (crs (snd (Reconcile L r n w))) = st_prom (crs w)"
    and "m \<noteq> n \<Longrightarrow> st_gf (crs (snd (Reconcile L r n w))) m = st_gf (crs w) m"
proof -
  obtain x w' where R: "Reconcile L r n w = (x, w')" by (metis prod.exhaust)
  have e: "(crs w')\<lparr>st_gf := \<lambda>_. None\<rparr> = (crs w)\<lparr>st_gf := \<lambda>_. None\<rparr>"
    using call_invariant.Reconcile_preserves [OF gf_only [of "(crs w)\<lparr>st_gf := \<lambda>_. None\<rparr>", folded r_def] R] by simp
  show "st_pg (crs (snd (Reconcile L r n w))) = st_pg (crs w)" "st_vk (crs (snd (Reconcile L r n w))) = st_vk (crs w)"
      "st_md (crs (snd (Reconcile L r n w))) = st_md (crs w)" "st_rmq (crs (snd (Reconcile L r n w))) = st_rmq (crs w)"
      "st_prom (crs (snd (Reconcile L r n w))) = st_prom (crs w)"
    using arg_cong [OF e, of st_pg] arg_cong [OF e, of st_vk] arg_cong [OF e, of st_md] arg_cong [OF e, of st_rmq]
        arg_cong [OF e, of st_prom] by (simp_all add: R)
  show "m \<noteq> n \<Longrightarrow> st_gf (crs (snd (Reconcile L r n w))) m = st_gf (crs w) m"
    using gf.framedD(1) [OF gf.Reconcile_framed, of m n w] by (simp add: r_def)
qed

lemma md_stores:
  defines "r \<equiv> NewMariaDBClusterReconciler L (client_MariaDBCluster C) (rec ''mariadbcluster-operator'')"
  shows "st_pg (crs (snd (Reconcile L r n w))) = st_pg (crs w)"
    and "st_vk (crs (snd (Reconcile L r n w))) = st_vk (crs w)"
    and "st_gf (crs (snd (Reconcile L r n w))) = st_gf (crs w)"
    and "st_rmq (crs (snd (Reconcile L r n w))) = st_rmq (crs w)"
    and "st_prom (crs (snd (Reconcile L r n w))) = st_prom (crs w)"
    and "m \<noteq> n \<Longrightarrow> st_md (crs (snd (Reconcile L r n w))) m = st_md (crs w) m"
proof -
  obtain x w' where R: "Reconcile L r n w = (x, w')" by (metis prod.exhaust)
  have e: "(crs w')\<lparr>st_md := \<lambda>_. None\<rparr> = (crs w)\<lparr>st_md := \<lambda>_. None\<rparr>"
    using call_invariant.Reconcile_preserves [OF md_only [of "(crs w)\<lparr>st_md := \<lambda>_. None\<rparr>", folded r_def] R] by simp
  show "st_pg (crs (snd (Reconcile L r n w))) = st_pg (crs w)" "st_vk (crs (snd (Reconcile L r n w))) = st_vk (crs w)"
      "st_gf (crs (snd (Reconcile L r n w))) = st_gf (crs w)" "st_rmq (crs (snd (Reconcile L r n w))) = st_rmq (crs w)"
      "st_prom (crs (snd (Reconcile L r n w))) = st_prom (crs w)"
    using arg_cong [OF e, of st_pg] arg_cong [OF e, of st_vk] arg_cong [OF e, of st_gf] arg_cong [OF e, of st_rmq]
        arg_cong [OF e, of st_prom] by (simp_all add: R)
  show "m \<noteq> n \<Longrightarrow> st_md (crs (snd (Reconcile L r n w))) m = st_md (crs w) m"
    using md.framedD(1) [OF md.Reconcile_framed, of m n w] by (simp add: r_def)
qed

lemma rmq_stores:
  defines "r \<equiv> NewRabbitMQClusterReconciler L (client_RabbitMQCluster C) (rec ''rabbitmqcluster-operator'')"
  shows "st_pg (crs (snd (Reconcile L r n w))) = st_pg (crs w)"
    and "st_vk (crs (snd (Reconcile L r n w))) = st_vk (crs w)"
    and "st_gf (crs (snd (Reconcile L r n w))) = st_gf (crs w)"
    and "st_md (crs (snd (Reconcile L r n w))) = st_md (crs w)"
    and "st_prom (crs (snd (Reconcile L r n w))) = st_prom (crs w)"
    and "m \<noteq> n \<Longrightarrow> st_rmq (crs (snd (Reconcile L r n w))) m = st_rmq (crs w) m"
proof -
  obtain x w' where R: "Reconcile L r n w = (x, w')" by (metis prod.exhaust)
  have e: "(crs w')\<lparr>st_rmq := \<lambda>_. None\<rparr> = (crs w)\<lparr>st_rmq := \<lambda>_. None\<rparr>"
    using call_invariant.Reconcile_preserves [OF rmq_only [of "(crs w)\<lparr>st_rmq := \<lambda>_. None\<rparr>", folded r_def] R] by simp
  show "st_pg (crs (snd (Reconcile L r n w))) = st_pg (crs w)" "st_vk (crs (snd (Reconcile L r n w))) = st_vk (crs w)"
      "st_gf (crs (snd (Reconcile L r n w))) = st_gf (crs w)" "st_md (crs (snd (Reconcile L r n w))) = st_md (crs w)"
      "st_prom (crs (snd (Reconcile L r n w))) = st_prom (crs w)"
    using arg_cong [OF e, of st_pg] arg_cong [OF e, of st_vk] arg_cong [OF e, of st_gf] arg_cong [OF e, of st_md]
        arg_cong [OF e, of st_prom] by (simp_all add: R)
  show "m \<noteq> n \<Longrightarrow> st_rmq (crs (snd (Reconcile L r n w))) m = st_rmq (crs w) m"
    using rmq.framedD(1) [OF rmq.Reconcile_framed, of m n w] by (simp add: r_def)
qed

lemma prom_stores:
  defines "r \<equiv> NewPrometheusInstanceReconciler L (client_PrometheusInstance C) (rec ''prometheusinstance-operator'')"
  shows "st_pg (crs (snd (Reconcile L r n w))) = st_pg (crs w)"
    and "st_vk (crs (snd (Reconcile L r n w))) = st_vk (crs w)"
    and "st_gf (crs (snd (Reconcile L r n w))) = st_gf (crs w)"
    and "st_md (crs (snd (Reconcile L r n w))) = st_md (crs w)"
    and "st_rmq (crs (snd (Reconcile L r n w))) = st_rmq (crs w)"
    and "m \<noteq> n \<Longrightarrow> st_prom (crs (snd (Reconcile L r n w))) m = st_prom (crs w) m"
proof -
  obtain x w' where R: "Reconcile L r n w = (x, w')" by (metis prod.exhaust)
  have e: "(crs w')\<lparr>st_prom := \<lambda>_. None\<rparr> = (crs w)\<lparr>st_prom := \<lambda>_. None\<rparr>"
    using call_invariant.Reconcile_preserves [OF prom_only [of "(crs w)\<lparr>st_prom := \<lambda>_. None\<rparr>", folded r_def] R] by simp
  show "st_pg (crs (snd (Reconcile L r n w))) = st_pg (crs w)" "st_vk (crs (snd (Reconcile L r n w))) = st_vk (crs w)"
      "st_gf (crs (snd (Reconcile L r n w))) = st_gf (crs w)" "st_md (crs (snd (Reconcile L r n w))) = st_md (crs w)"
      "st_rmq (crs (snd (Reconcile L r n w))) = st_rmq (crs w)"
    using arg_cong [OF e, of st_pg] arg_cong [OF e, of st_vk] arg_cong [OF e, of st_gf] arg_cong [OF e, of st_md]
        arg_cong [OF e, of st_rmq] by (simp_all add: R)
  show "m \<noteq> n \<Longrightarrow> st_prom (crs (snd (Reconcile L r n w))) m = st_prom (crs w) m"
    using prom.framedD(1) [OF prom.Reconcile_framed, of m n w] by (simp add: r_def)
qed

lemmas stores = pg_stores vk_stores gf_stores md_stores rmq_stores prom_stores

lemma course_cong:
  assumes "same_cr j (crs w) (crs w')" and "\<And>key. key \<in> member_keys j \<Longrightarrow> obj_at key w'
      = obj_at key w \<and> live key w' = live key w"
  shows "member_course L crs obj_at live j k w' = member_course L crs obj_at live j k w"
proof (cases j)
  case (PostgresClusterMember n goal)
  with assms show ?thesis by (simp, intro pg.course_cong) (simp_all add: adapter_GVKs)
next
  case (ValkeyClusterMember n goal)
  with assms show ?thesis by (simp, intro vk.course_cong) (simp_all add: adapter_GVKs)
next
  case (GrafanaInstanceMember n goal)
  with assms show ?thesis by (simp, intro gf.course_cong) (simp_all add: adapter_GVKs)
next
  case (MariaDBClusterMember n goal)
  with assms show ?thesis by (simp, intro md.course_cong) (simp_all add: adapter_GVKs)
next
  case (RabbitMQClusterMember n goal)
  with assms show ?thesis by (simp, intro rmq.course_cong) (simp_all add: adapter_GVKs)
next
  case (PrometheusInstanceMember n goal)
  with assms show ?thesis by (simp, intro prom.course_cong) (simp_all add: adapter_GVKs)
qed

lemma own_pass:
  "member_course L crs obj_at live i k w \<Longrightarrow> member_course L crs obj_at live i (k - 1) (member_pass L C rec i w)"
  by (cases i) (simp_all add: pg.course_pass vk.course_pass gf.course_pass md.course_pass rmq.course_pass prom.course_pass del: One_nat_def)

lemma clash_cr: "\<not> clash children i j \<Longrightarrow> same_cr j (crs w) (crs (member_pass L C rec i w))"
  by (cases i; cases j) (auto simp: clash_def belongs_def owned_keys_def stores)

lemma other_pass:
  assumes "\<not> clash children i j" and "member_course L crs obj_at live j k w"
  shows "member_course L crs obj_at live j k (member_pass L C rec i w)"
proof -
  have "obj_at key (member_pass L C rec i w) = obj_at key w \<and> live key (member_pass L C rec i w) = live key w"
    if "key \<in> member_keys j" for key
    using pass_frame [of key i w] assms(1) that by (auto simp: clash_def belongs_def)
  with course_cong [OF clash_cr [OF assms(1)]] assms(2) show ?thesis by blast
qed

text \<open>A vendor step keeps every course, if the children are no one's own objects.\<close>

lemma vendor_course:
  assumes "vendor_step crs obj_at live children members f"
    and "\<And>i. i \<in> members \<Longrightarrow> (managed_keys i \<union> children i) \<inter> member_keys j = {}"
    and "member_course L crs obj_at live j k w"
  shows "member_course L crs obj_at live j k (f w)"
proof -
  have "same_cr j (crs w) (crs (f w))" using assms(1) by (cases j) (simp_all add: vendor_step_def)
  moreover have "obj_at key (f w) = obj_at key w \<and> live key (f w) = live key w" if "key \<in> member_keys j" for key
  proof -
    have "key \<notin> managed_keys i \<union> children i" if "i \<in> members" for i
      using assms(2) [OF that] \<open>key \<in> member_keys j\<close> by blast
    with assms(1) show ?thesis unfolding vendor_step_def by blast
  qed
  ultimately show ?thesis using course_cong assms(3) by blast
qed

definition undisturbed :: "(member \<Rightarrow> object_key set) \<Rightarrow> member set \<Rightarrow> member + ('w \<Rightarrow> 'w) \<Rightarrow> member + ('w \<Rightarrow> 'w) \<Rightarrow> bool" where
  "undisturbed children members x y \<longleftrightarrow> (case y of Inr _ \<Rightarrow> True
     | Inl j \<Rightarrow> (case x of Inl i \<Rightarrow> \<not> clash children i j
         | Inr f \<Rightarrow> vendor_step crs obj_at live children members f \<and>
             (\<forall>i \<in> members. (managed_keys i \<union> children i) \<inter> member_keys j = {})))"

end

sublocale shared_api \<subseteq> cluster: participants "happens L C rec"
  "\<lambda>x k w. case x of Inl m \<Rightarrow> member_course L crs obj_at live m k w | Inr f \<Rightarrow> True"
      "undisturbed children members" for children members
proof (unfold_locales, goal_cases)
  case (1 x k w)
  then show ?case using own_pass by (cases x) simp_all
next
  case (2 x y k w)
  then show ?case
    using other_pass vendor_course by (cases x; cases y) (auto simp: undisturbed_def)
qed

context shared_api
begin

lemma all_settle:
  assumes "\<And>i j. i \<in> members \<Longrightarrow> j \<in> members \<Longrightarrow> i \<noteq> j \<Longrightarrow> \<not> clash children i j"
    and "\<And>i. i \<in> members \<Longrightarrow> children i \<inter> member_keys i = {}"
    and "\<And>m. Inl m \<in> set schedule \<Longrightarrow> m \<in> members"
    and "\<And>f. Inr f \<in> set schedule \<Longrightarrow> vendor_step crs obj_at live children members f"
    and "i \<in> members" and "member_course L crs obj_at live i k w" and "k \<le> count_list schedule (Inl i)"
  shows "member_course L crs obj_at live i 0 (fold (happens L C rec) schedule w)"
proof -
  have apart: "(managed_keys m \<union> children m) \<inter> member_keys i = {}" if "m \<in> members" for m
    using assms(1) [OF that assms(5)] assms(2) [OF that] managed_not_own [of m]
    by (cases "m = i") (auto simp: clash_def belongs_def)
  have "undisturbed children members x (Inl i)" if x: "x \<in> set schedule" "x \<noteq> Inl i" for x
  proof (cases x)
    case (Inl m)
    with x assms(3) have "m \<in> members" "m \<noteq> i" by blast+
    with Inl assms(1) [OF _ assms(5), of m] show ?thesis by (simp add: undisturbed_def)
  next
    case (Inr f)
    with x assms(4) have "vendor_step crs obj_at live children members f" by blast
    with Inr apart show ?thesis by (simp add: undisturbed_def)
  qed
  from cluster.schedule_course [of schedule "Inl i" children members k w, OF this] assms(6,7) show ?thesis by simp
qed

lemma children_left_alone:
  assumes "\<And>i j. i \<in> members \<Longrightarrow> j \<in> members \<Longrightarrow> i \<noteq> j \<Longrightarrow> \<not> clash children i j"
    and "\<And>i. i \<in> members \<Longrightarrow> children i \<inter> member_keys i = {}"
    and "i \<in> members" and "j \<in> members" and "key \<in> managed_keys i \<union> children i"
  shows "obj_at key (member_pass L C rec j w) = obj_at key w \<and> live key (member_pass L C rec j w) = live key w"
proof (rule pass_frame)
  show "key \<notin> member_keys j"
    using assms(1) [OF assms(3,4)] assms(2) [OF assms(3)] assms(5) managed_not_own [of i]
    by (cases "i = j") (auto simp: clash_def belongs_def)
qed

end

end
