(* ===== verification/World_View.thy ===== *)
theory World_View
  imports Client_Simulation
begin

text \<open>
  A reconciler sees only its client. If the state its client works on is a part of a larger world, read by \<open>get\<close> and
  written back by \<open>put\<close>, then so works \<open>Reconcile\<close>: it runs on the part and leaves the rest alone. This is how several
  controllers share one API server.
\<close>

definition over :: "('w \<Rightarrow> 's) \<Rightarrow> ('s \<Rightarrow> 'w \<Rightarrow> 'w) \<Rightarrow> ('s \<Rightarrow> 'a \<times> 's) \<Rightarrow> 'w \<Rightarrow> 'a \<times> 'w" where
  "over get put f w = (case f (get w) of (a, s) \<Rightarrow> (a, put s w))"

definition embed_client :: "('w \<Rightarrow> 's) \<Rightarrow> ('s \<Rightarrow> 'w \<Rightarrow> 'w) \<Rightarrow> ('s, 'cr) Client \<Rightarrow> ('w, 'cr) Client" where
  "embed_client get put c = \<lparr>
     Client_Get = (\<lambda>n. over get put (Client_Get c n)),
     Client_GetUnstructured = (\<lambda>n u. over get put (Client_GetUnstructured c n u)),
     Client_Apply = (\<lambda>u owner force. over get put (Client_Apply c u owner force)),
     Client_Delete = (\<lambda>u. over get put (Client_Delete c u)),
     Client_Update = (\<lambda>cr. over get put (Client_Update c cr)),
     Client_StatusUpdate = (\<lambda>cr. over get put (Client_StatusUpdate c cr)),
     Client_Now = (\<lambda>w. Client_Now c (get w))\<rparr>"

definition embed_recorder :: "('w \<Rightarrow> 's) \<Rightarrow> ('s \<Rightarrow> 'w \<Rightarrow> 'w) \<Rightarrow> (event \<Rightarrow> 's \<Rightarrow> 's) \<Rightarrow> event \<Rightarrow> 'w \<Rightarrow> 'w" where
  "embed_recorder get put record_event e w = put (record_event e (get w)) w"

definition embed ::
    "('w \<Rightarrow> 's) \<Rightarrow> ('s \<Rightarrow> 'w \<Rightarrow> 'w) \<Rightarrow> ('s, 'spec, 'status) GenericReconciler \<Rightarrow> ('w, 'spec, 'status) GenericReconciler" where
  "embed get put r = \<lparr>gr_Client = embed_client get put (gr_Client r), gr_Recorder = embed_recorder get put (gr_Recorder r),
     gr_Adapter = gr_Adapter r, gr_Name = gr_Name r\<rparr>"

text \<open>The part is a lens into the world.\<close>

locale world_view =
  fixes get :: "'w \<Rightarrow> 's"
    and put :: "'s \<Rightarrow> 'w \<Rightarrow> 'w"
  assumes get_put [simp]: "get (put s w) = s"
    and put_put [simp]: "put s (put t w) = put s w"
    and put_get [simp]: "put (get w) w = w"
begin

lemma embed_sel [simp]:
  "gr_Adapter (embed get put r) = gr_Adapter r"
  "Client_Get (gr_Client (embed get put r)) n w = over get put (Client_Get (gr_Client r) n) w"
  "Client_GetUnstructured (gr_Client (embed get put r)) n u w = over get put (Client_GetUnstructured (gr_Client r) n u) w"
  "Client_Apply (gr_Client (embed get put r)) u f b w = over get put (Client_Apply (gr_Client r) u f b) w"
  "Client_Delete (gr_Client (embed get put r)) u w = over get put (Client_Delete (gr_Client r) u) w"
  "Client_Update (gr_Client (embed get put r)) cr w = over get put (Client_Update (gr_Client r) cr) w"
  "Client_StatusUpdate (gr_Client (embed get put r)) cr w = over get put (Client_StatusUpdate (gr_Client r) cr) w"
  "Client_Now (gr_Client (embed get put r)) w = Client_Now (gr_Client r) (get w)"
  "gr_Recorder (embed get put r) e w = put (gr_Recorder r e (get w)) w"
  by (simp_all add: embed_def embed_client_def embed_recorder_def)

end

text \<open>The two clients answer alike in a world and in its part.\<close>

sublocale world_view \<subseteq> embedded: client_simulation "embed get put r" r "\<lambda>w s. w = put s w0" "\<lambda>w s. w = put s w0" "\<lambda>w s. w = put s w0" for r w0
  by unfold_locales (auto simp: over_def split: prod.splits)

context world_view
begin

theorem Reconcile_over: "Reconcile L (embed get put r) req w = over get put (Reconcile L r req) w"
  using embedded.Reconcile_sim [of w "get w" w L r req] by (auto simp: over_def elim!: same_answerE split: prod.split)

end

end
