(* ===== verification/Operator_World.thy ===== *)
theory Operator_World
  imports Whole_Operator Ref_Server World_View
begin

text \<open>
  A reference server for the six controllers: six stores of CRs, one of objects. The client of each kind works on its part of
  the world as on the server of \<open>Ref_Server\<close>; \<open>shared_api\<close> is interpreted on it.
\<close>

section \<open>Engines on a part of the world\<close>

text \<open>The laws of a server hold of the world it is a part of.\<close>

locale viewed_engine = world_view get put + shared_engine L A extra_keys V c record_event cr_at obj_at live wire r
  for get :: "'w \<Rightarrow> 's"
    and put :: "'s \<Rightarrow> 'w \<Rightarrow> 'w"
    and L :: k8s_libs
    and A :: "('spec, 'status) Adapter"
    and extra_keys :: "string \<Rightarrow> (GroupVersionKind \<times> string) list"
    and V :: "'status status_view"
    and c :: "('s, ('spec, 'status) paas_object) Client"
    and record_event :: "event \<Rightarrow> 's \<Rightarrow> 's"
    and cr_at :: "NamespacedName \<Rightarrow> 's \<Rightarrow> ('spec, 'status) paas_object option"
    and obj_at :: "object_key \<Rightarrow> 's \<Rightarrow> unstructured option"
    and live :: "object_key \<Rightarrow> 's \<Rightarrow> bool"
    and wire :: "'spec \<Rightarrow> 'spec"
    and r :: "('s, 'spec, 'status) GenericReconciler"

lemma overE:
  assumes "over get put f w = (a, w')"
  obtains s where "f (get w) = (a, s)" "w' = put s w"
  using assms by (auto simp: over_def split: prod.splits)

lemma fst_over: "fst (over get put f w) = fst (f (get w))"
  by (simp add: over_def split: prod.split)

lemma embed_client_sel:
  "Client_Get (embed_client get put c) n = over get put (Client_Get c n)"
  "Client_GetUnstructured (embed_client get put c) n u = over get put (Client_GetUnstructured c n u)"
  "Client_Apply (embed_client get put c) u f b = over get put (Client_Apply c u f b)"
  "Client_Delete (embed_client get put c) u = over get put (Client_Delete c u)"
  "Client_Update (embed_client get put c) cr = over get put (Client_Update c cr)"
  "Client_StatusUpdate (embed_client get put c) cr = over get put (Client_StatusUpdate c cr)"
  by (simp_all add: embed_client_def)

sublocale viewed_engine \<subseteq> whole: shared_engine L A extra_keys V "embed_client get put c" "embed_recorder get put record_event"
  "\<lambda>n w. cr_at n (get w)" "\<lambda>k w. obj_at k (get w)" "\<lambda>k w. live k (get w)" wire "embed get put r"
proof (unfold_locales, goal_cases)
  case 1 then show ?case unfolding embed_client_sel by (elim overE, hypsubst, simp only: get_put) (rule get_frame, assumption+)
next
  case 2 then show ?case unfolding embed_client_sel by (elim overE, hypsubst, simp only: get_put) (rule get_ok, assumption+)
next
  case 3 then show ?case unfolding embed_client_sel by (elim overE, hypsubst, simp only: get_put) (rule get_missing, assumption+)
next
  case 4 then show ?case by (rule stored_name)
next
  case 5 then show ?case unfolding embed_client_sel by (elim overE, hypsubst, simp only: get_put) (rule look_frame, assumption+)
next
  case 6 then show ?case unfolding embed_client_sel by (elim overE, hypsubst, simp only: get_put) (rule look_ok, assumption+)
next
  case 7 then show ?case unfolding embed_client_sel by (elim overE, hypsubst, simp only: get_put) (rule look_missing, assumption+)
next
  case 8 then show ?case unfolding embed_client_sel by (elim overE, hypsubst, simp only: get_put) (rule srv_apply_ok, assumption+)
next
  case 9 then show ?case unfolding embed_client_sel by (elim overE, hypsubst, simp only: get_put) (rule srv_apply_frame, assumption+)
next
  case 10 then show ?case unfolding embed_client_sel by (elim overE, hypsubst, simp only: get_put) (rule delete_gone, assumption+)
next
  case 11 then show ?case unfolding embed_client_sel by (elim overE, hypsubst, simp only: get_put) (rule delete_frame, assumption+)
next
  case 12 then show ?case unfolding embed_client_sel by (elim overE, hypsubst, simp only: get_put) (rule update_ok, assumption+)
next
  case 13 then show ?case unfolding embed_client_sel by (elim overE, hypsubst, simp only: get_put) (rule update_frame, assumption+)
next
  case 14 then show ?case unfolding embed_client_sel by (elim overE, hypsubst, simp only: get_put) (rule status_ok, assumption+)
next
  case 15 then show ?case unfolding embed_client_sel by (elim overE, hypsubst, simp only: get_put) (rule status_frame, assumption+)
next
  case 16 show ?case using event_frame by (simp add: embed_recorder_def)
next
  case 17 show ?case using wired(1) by (simp add: embed_def)
next
  case 18 show ?case using wired(2) by (simp add: embed_def)
next
  case 19 show ?case using wired(3) by (simp add: embed_def)
next
  case 20 then show ?case using get_answers unfolding embed_client_sel fst_over by blast
next
  case 21 then show ?case using look_answers unfolding embed_client_sel fst_over by blast
next
  case 22 then show ?case using apply_answers unfolding embed_client_sel fst_over by blast
next
  case 23 then show ?case using delete_answers unfolding embed_client_sel fst_over by blast
next
  case 24 then show ?case using update_answers unfolding embed_client_sel fst_over by blast
next
  case 25 then show ?case using status_answers unfolding embed_client_sel fst_over by blast
next
  case 26 then show ?case unfolding embed_client_sel by (elim overE, hypsubst, simp only: get_put) (rule update_others, assumption+)
next
  case 27 then show ?case unfolding embed_client_sel by (elim overE, hypsubst, simp only: get_put) (rule status_others, assumption+)
qed

text \<open>A client that works on a part keeps what does not depend on it.\<close>

context world_view
begin

lemma embed_invariant:
  assumes "\<And>s w. I (put s w) \<longleftrightarrow> I w"
  shows "call_invariant (embed get put r) I"
  by unfold_locales (use assms in \<open>auto simp: over_def split: prod.splits\<close>)

end

section \<open>The world\<close>

record operator_world =
  ow_pg :: "NamespacedName \<Rightarrow> PostgresCluster option"
  ow_vk :: "NamespacedName \<Rightarrow> ValkeyCluster option"
  ow_gf :: "NamespacedName \<Rightarrow> GrafanaInstance option"
  ow_md :: "NamespacedName \<Rightarrow> MariaDBCluster option"
  ow_rmq :: "NamespacedName \<Rightarrow> RabbitMQCluster option"
  ow_prom :: "NamespacedName \<Rightarrow> PrometheusInstance option"
  ow_objs :: "object_key \<Rightarrow> unstructured option"
  ow_clock :: time
  ow_events :: "event list"

text \<open>The API server as the client of each controller sees it.\<close>

definition pg_part :: "operator_world \<Rightarrow> (PostgresClusterSpec, PostgresClusterStatus) server" where
  "pg_part w = \<lparr>srv_crs = ow_pg w, srv_objs = ow_objs w, srv_clock = ow_clock w, srv_events = ow_events w\<rparr>"

definition pg_update :: "(PostgresClusterSpec, PostgresClusterStatus) server \<Rightarrow> operator_world \<Rightarrow> operator_world" where
  "pg_update s w = w\<lparr>ow_pg := srv_crs s, ow_objs := srv_objs s, ow_clock := srv_clock s, ow_events := srv_events s\<rparr>"

interpretation pg_view: world_view pg_part pg_update
  by unfold_locales (simp_all add: pg_part_def pg_update_def)

definition vk_part :: "operator_world \<Rightarrow> (ValkeyClusterSpec, ValkeyClusterStatus) server" where
  "vk_part w = \<lparr>srv_crs = ow_vk w, srv_objs = ow_objs w, srv_clock = ow_clock w, srv_events = ow_events w\<rparr>"

definition vk_update :: "(ValkeyClusterSpec, ValkeyClusterStatus) server \<Rightarrow> operator_world \<Rightarrow> operator_world" where
  "vk_update s w = w\<lparr>ow_vk := srv_crs s, ow_objs := srv_objs s, ow_clock := srv_clock s, ow_events := srv_events s\<rparr>"

interpretation vk_view: world_view vk_part vk_update
  by unfold_locales (simp_all add: vk_part_def vk_update_def)

definition gf_part :: "operator_world \<Rightarrow> (GrafanaInstanceSpec, GrafanaInstanceStatus) server" where
  "gf_part w = \<lparr>srv_crs = ow_gf w, srv_objs = ow_objs w, srv_clock = ow_clock w, srv_events = ow_events w\<rparr>"

definition gf_update :: "(GrafanaInstanceSpec, GrafanaInstanceStatus) server \<Rightarrow> operator_world \<Rightarrow> operator_world" where
  "gf_update s w = w\<lparr>ow_gf := srv_crs s, ow_objs := srv_objs s, ow_clock := srv_clock s, ow_events := srv_events s\<rparr>"

interpretation gf_view: world_view gf_part gf_update
  by unfold_locales (simp_all add: gf_part_def gf_update_def)

definition md_part :: "operator_world \<Rightarrow> (MariaDBClusterSpec, MariaDBClusterStatus) server" where
  "md_part w = \<lparr>srv_crs = ow_md w, srv_objs = ow_objs w, srv_clock = ow_clock w, srv_events = ow_events w\<rparr>"

definition md_update :: "(MariaDBClusterSpec, MariaDBClusterStatus) server \<Rightarrow> operator_world \<Rightarrow> operator_world" where
  "md_update s w = w\<lparr>ow_md := srv_crs s, ow_objs := srv_objs s, ow_clock := srv_clock s, ow_events := srv_events s\<rparr>"

interpretation md_view: world_view md_part md_update
  by unfold_locales (simp_all add: md_part_def md_update_def)

definition rmq_part :: "operator_world \<Rightarrow> (RabbitMQClusterSpec, RabbitMQClusterStatus) server" where
  "rmq_part w = \<lparr>srv_crs = ow_rmq w, srv_objs = ow_objs w, srv_clock = ow_clock w, srv_events = ow_events w\<rparr>"

definition rmq_update :: "(RabbitMQClusterSpec, RabbitMQClusterStatus) server \<Rightarrow> operator_world \<Rightarrow> operator_world" where
  "rmq_update s w = w\<lparr>ow_rmq := srv_crs s, ow_objs := srv_objs s, ow_clock := srv_clock s, ow_events := srv_events s\<rparr>"

interpretation rmq_view: world_view rmq_part rmq_update
  by unfold_locales (simp_all add: rmq_part_def rmq_update_def)

definition prom_part :: "operator_world \<Rightarrow> (PrometheusInstanceSpec, PrometheusInstanceStatus) server" where
  "prom_part w = \<lparr>srv_crs = ow_prom w, srv_objs = ow_objs w, srv_clock = ow_clock w, srv_events = ow_events w\<rparr>"

definition prom_update :: "(PrometheusInstanceSpec, PrometheusInstanceStatus) server \<Rightarrow> operator_world \<Rightarrow> operator_world" where
  "prom_update s w = w\<lparr>ow_prom := srv_crs s, ow_objs := srv_objs s, ow_clock := srv_clock s, ow_events := srv_events s\<rparr>"

interpretation prom_view: world_view prom_part prom_update
  by unfold_locales (simp_all add: prom_part_def prom_update_def)

lemmas part_defs = pg_part_def pg_update_def vk_part_def vk_update_def gf_part_def gf_update_def md_part_def md_update_def
  rmq_part_def rmq_update_def prom_part_def prom_update_def

section \<open>The server of each kind\<close>

lemma ref_others:
  "Client_Update (ref_client wire) cr w = (a, w') \<Longrightarrow> m \<noteq> (cr_namespace cr, cr_name cr) \<Longrightarrow> server_cr m w' = server_cr m w"
  "Client_StatusUpdate (ref_client wire) cr w = (a, w') \<Longrightarrow> m \<noteq> (cr_namespace cr, cr_name cr) \<Longrightarrow>
    server_cr m w' = server_cr m w"
  by (auto simp: ref_client_def put_cr_def server_cr_def dest!: server_cr_name split: option.splits if_splits)

interpretation pg_shared: viewed_engine pg_part pg_update ref_libs "cnpg_Adapter ref_libs" "\<lambda>_. []"
  cnpg_view "ref_client pg_wire" ref_recorder server_cr server_obj server_live pg_wire
  "NewPostgresClusterReconciler ref_libs (ref_client pg_wire) ref_recorder"
  by unfold_locales (rule ref_others, assumption+)+

interpretation vk_shared: viewed_engine vk_part vk_update ref_libs "valkey_Adapter ref_libs" "\<lambda>t. [(valkey_externalServiceGVK, t @ ''-external'')]"
  valkey_view "ref_client vk_wire" ref_recorder server_cr server_obj server_live vk_wire
  "NewValkeyClusterReconciler ref_libs (ref_client vk_wire) ref_recorder"
  by unfold_locales (rule ref_others, assumption+)+

interpretation gf_shared: viewed_engine gf_part gf_update ref_libs "grafana_Adapter ref_libs" "\<lambda>_. []"
  grafana_view "ref_client gf_wire" ref_recorder server_cr server_obj server_live gf_wire
  "NewGrafanaInstanceReconciler ref_libs (ref_client gf_wire) ref_recorder"
  by unfold_locales (rule ref_others, assumption+)+

interpretation md_shared: viewed_engine md_part md_update ref_libs "mariadb_Adapter ref_libs" "\<lambda>_. []"
  mariadb_view "ref_client md_wire" ref_recorder server_cr server_obj server_live md_wire
  "NewMariaDBClusterReconciler ref_libs (ref_client md_wire) ref_recorder"
  by unfold_locales (rule ref_others, assumption+)+

interpretation rmq_shared: viewed_engine rmq_part rmq_update ref_libs "rabbitmq_Adapter ref_libs" "\<lambda>t. [(ingress_GVK, t @ ''-ingress'')]"
  rabbitmq_view "ref_client rmq_wire" ref_recorder server_cr server_obj server_live rmq_wire
  "NewRabbitMQClusterReconciler ref_libs (ref_client rmq_wire) ref_recorder"
  by unfold_locales (rule ref_others, assumption+)+

interpretation prom_shared: viewed_engine prom_part prom_update ref_libs "prometheus_Adapter ref_libs" "\<lambda>t. [(prometheus_serviceGVK, t @ ''-web''), (ingress_GVK, t @ ''-ingress'')]"
  prometheus_view "ref_client prom_wire" ref_recorder server_cr server_obj server_live prom_wire
  "NewPrometheusInstanceReconciler ref_libs (ref_client prom_wire) ref_recorder"
  by unfold_locales (rule ref_others, assumption+)+

section \<open>All in one\<close>

definition ow_crs :: "operator_world \<Rightarrow> cr_stores" where
  "ow_crs w = \<lparr>st_pg = (\<lambda>n. server_cr n (pg_part w)),
     st_vk = (\<lambda>n. server_cr n (vk_part w)),
     st_gf = (\<lambda>n. server_cr n (gf_part w)),
     st_md = (\<lambda>n. server_cr n (md_part w)),
     st_rmq = (\<lambda>n. server_cr n (rmq_part w)),
     st_prom = (\<lambda>n. server_cr n (prom_part w))\<rparr>"

definition ow_obj :: "object_key \<Rightarrow> operator_world \<Rightarrow> unstructured option" where
  "ow_obj key w = ow_objs w key"

definition ow_live :: "object_key \<Rightarrow> operator_world \<Rightarrow> bool" where
  "ow_live key w \<longleftrightarrow> ow_objs w key \<noteq> None"

definition ow_recorder :: "event \<Rightarrow> operator_world \<Rightarrow> operator_world" where
  "ow_recorder e w = w\<lparr>ow_events := ow_events w @ [e]\<rparr>"

definition ref_clients :: "operator_world clients" where
  "ref_clients = \<lparr>client_PostgresCluster = embed_client pg_part pg_update (ref_client pg_wire),
     client_ValkeyCluster = embed_client vk_part vk_update (ref_client vk_wire),
     client_GrafanaInstance = embed_client gf_part gf_update (ref_client gf_wire),
     client_MariaDBCluster = embed_client md_part md_update (ref_client md_wire),
     client_RabbitMQCluster = embed_client rmq_part rmq_update (ref_client rmq_wire),
     client_PrometheusInstance = embed_client prom_part prom_update (ref_client prom_wire)\<rparr>"

lemma ow_crs_sel [simp]:
  "st_pg (ow_crs w) n = server_cr n (pg_part w)"
  "st_vk (ow_crs w) n = server_cr n (vk_part w)"
  "st_gf (ow_crs w) n = server_cr n (gf_part w)"
  "st_md (ow_crs w) n = server_cr n (md_part w)"
  "st_rmq (ow_crs w) n = server_cr n (rmq_part w)"
  "st_prom (ow_crs w) n = server_cr n (prom_part w)"
  by (simp_all add: ow_crs_def)

lemma ow_objects:
  "server_obj key (pg_part w) = ow_obj key w" "server_live key (pg_part w) = ow_live key w"
  "server_obj key (vk_part w) = ow_obj key w" "server_live key (vk_part w) = ow_live key w"
  "server_obj key (gf_part w) = ow_obj key w" "server_live key (gf_part w) = ow_live key w"
  "server_obj key (md_part w) = ow_obj key w" "server_live key (md_part w) = ow_live key w"
  "server_obj key (rmq_part w) = ow_obj key w" "server_live key (rmq_part w) = ow_live key w"
  "server_obj key (prom_part w) = ow_obj key w" "server_live key (prom_part w) = ow_live key w"
  by (simp_all add: part_defs server_obj_def server_live_def ow_obj_def ow_live_def)

lemma ow_recorders:
  "embed_recorder pg_part pg_update ref_recorder = ow_recorder"
  "embed_recorder vk_part vk_update ref_recorder = ow_recorder"
  "embed_recorder gf_part gf_update ref_recorder = ow_recorder"
  "embed_recorder md_part md_update ref_recorder = ow_recorder"
  "embed_recorder rmq_part rmq_update ref_recorder = ow_recorder"
  "embed_recorder prom_part prom_update ref_recorder = ow_recorder"
  by (simp_all add: fun_eq_iff embed_recorder_def ref_recorder_def ow_recorder_def part_defs)

lemma ow_reconcilers:
  "embed pg_part pg_update (NewPostgresClusterReconciler ref_libs (ref_client pg_wire) ref_recorder) =
     NewPostgresClusterReconciler ref_libs (client_PostgresCluster ref_clients) ow_recorder"
  "embed vk_part vk_update (NewValkeyClusterReconciler ref_libs (ref_client vk_wire) ref_recorder) =
     NewValkeyClusterReconciler ref_libs (client_ValkeyCluster ref_clients) ow_recorder"
  "embed gf_part gf_update (NewGrafanaInstanceReconciler ref_libs (ref_client gf_wire) ref_recorder) =
     NewGrafanaInstanceReconciler ref_libs (client_GrafanaInstance ref_clients) ow_recorder"
  "embed md_part md_update (NewMariaDBClusterReconciler ref_libs (ref_client md_wire) ref_recorder) =
     NewMariaDBClusterReconciler ref_libs (client_MariaDBCluster ref_clients) ow_recorder"
  "embed rmq_part rmq_update (NewRabbitMQClusterReconciler ref_libs (ref_client rmq_wire) ref_recorder) =
     NewRabbitMQClusterReconciler ref_libs (client_RabbitMQCluster ref_clients) ow_recorder"
  "embed prom_part prom_update (NewPrometheusInstanceReconciler ref_libs (ref_client prom_wire) ref_recorder) =
     NewPrometheusInstanceReconciler ref_libs (client_PrometheusInstance ref_clients) ow_recorder"
  by (simp_all add: embed_def ref_clients_def controller_defs ow_recorders)

lemma ow_clients:
  "embed_client pg_part pg_update (ref_client pg_wire) = client_PostgresCluster ref_clients"
  "embed_client vk_part vk_update (ref_client vk_wire) = client_ValkeyCluster ref_clients"
  "embed_client gf_part gf_update (ref_client gf_wire) = client_GrafanaInstance ref_clients"
  "embed_client md_part md_update (ref_client md_wire) = client_MariaDBCluster ref_clients"
  "embed_client rmq_part rmq_update (ref_client rmq_wire) = client_RabbitMQCluster ref_clients"
  "embed_client prom_part prom_update (ref_client prom_wire) = client_PrometheusInstance ref_clients"
  by (simp_all add: ref_clients_def)

lemmas ow_eqs = ow_objects ow_recorders ow_reconcilers ow_clients

text \<open>A client of one kind keeps the other stores.\<close>

lemma ow_stores:
  "(ow_crs (pg_update pg_s w))\<lparr>st_pg := \<lambda>_. None\<rparr> = (ow_crs w)\<lparr>st_pg := \<lambda>_. None\<rparr>"
  "(ow_crs (vk_update vk_s w))\<lparr>st_vk := \<lambda>_. None\<rparr> = (ow_crs w)\<lparr>st_vk := \<lambda>_. None\<rparr>"
  "(ow_crs (gf_update gf_s w))\<lparr>st_gf := \<lambda>_. None\<rparr> = (ow_crs w)\<lparr>st_gf := \<lambda>_. None\<rparr>"
  "(ow_crs (md_update md_s w))\<lparr>st_md := \<lambda>_. None\<rparr> = (ow_crs w)\<lparr>st_md := \<lambda>_. None\<rparr>"
  "(ow_crs (rmq_update rmq_s w))\<lparr>st_rmq := \<lambda>_. None\<rparr> = (ow_crs w)\<lparr>st_rmq := \<lambda>_. None\<rparr>"
  "(ow_crs (prom_update prom_s w))\<lparr>st_prom := \<lambda>_. None\<rparr> = (ow_crs w)\<lparr>st_prom := \<lambda>_. None\<rparr>"
  by (simp_all add: ow_crs_def part_defs server_cr_def)

interpretation ref_cluster: shared_api ref_libs ref_clients "\<lambda>_. ow_recorder" ow_crs ow_obj ow_live
proof (intro shared_api.intro shared_api_axioms.intro, goal_cases)
  case 1 show ?case using pg_shared.whole.shared_engine_axioms by (simp add: ow_eqs)
next
  case 2 show ?case using vk_shared.whole.shared_engine_axioms by (simp add: ow_eqs)
next
  case 3 show ?case using gf_shared.whole.shared_engine_axioms by (simp add: ow_eqs)
next
  case 4 show ?case using md_shared.whole.shared_engine_axioms by (simp add: ow_eqs)
next
  case 5 show ?case using rmq_shared.whole.shared_engine_axioms by (simp add: ow_eqs)
next
  case 6 show ?case using prom_shared.whole.shared_engine_axioms by (simp add: ow_eqs)
next
  case (7 s) show ?case unfolding ow_reconcilers [symmetric] by (rule pg_view.embed_invariant) (simp add: ow_stores)
next
  case (8 s) show ?case unfolding ow_reconcilers [symmetric] by (rule vk_view.embed_invariant) (simp add: ow_stores)
next
  case (9 s) show ?case unfolding ow_reconcilers [symmetric] by (rule gf_view.embed_invariant) (simp add: ow_stores)
next
  case (10 s) show ?case unfolding ow_reconcilers [symmetric] by (rule md_view.embed_invariant) (simp add: ow_stores)
next
  case (11 s) show ?case unfolding ow_reconcilers [symmetric] by (rule rmq_view.embed_invariant) (simp add: ow_stores)
next
  case (12 s) show ?case unfolding ow_reconcilers [symmetric] by (rule prom_view.embed_invariant) (simp add: ow_stores)
qed

end
