(* ===== verification/Shared_Cluster.thy ===== *)
theory Shared_Cluster
  imports Operator_World
begin

text \<open>
  Where CRs do clash: the passes of the Prometheus and the RabbitMQ controller over CRs of one namespace and name, which share
  an Ingress, and a pass of the Valkey controller beside a PostgresCluster of that name, whose Service it deletes.
\<close>

lemma views_share_objects:
  "ow_objs (prom_update s w) = srv_objs s" "ow_objs (rmq_update t w) = srv_objs t"
  "server_obj k (prom_part w) = ow_objs w k" "server_obj k (rmq_part w) = ow_objs w k"
  "server_cr m (rmq_part (prom_update s w)) = server_cr m (rmq_part w)"
  "server_cr m (prom_part (rmq_update t w)) = server_cr m (prom_part w)"
  by (simp_all add: part_defs server_obj_def server_cr_def)

section \<open>Prometheus beside RabbitMQ\<close>

definition prometheus_reconciler :: "(operator_world, PrometheusInstanceSpec, PrometheusInstanceStatus) GenericReconciler" where
  "prometheus_reconciler = embed prom_part prom_update (NewPrometheusInstanceReconciler ref_libs (ref_client prom_wire) ref_recorder)"

definition rabbitmq_reconciler :: "(operator_world, RabbitMQClusterSpec, RabbitMQClusterStatus) GenericReconciler" where
  "rabbitmq_reconciler = embed rmq_part rmq_update (NewRabbitMQClusterReconciler ref_libs (ref_client rmq_wire) ref_recorder)"

definition prometheus_pass :: "NamespacedName \<Rightarrow> operator_world \<Rightarrow> operator_world" where
  "prometheus_pass req w = snd (Reconcile ref_libs prometheus_reconciler req w)"

definition rabbitmq_pass :: "NamespacedName \<Rightarrow> operator_world \<Rightarrow> operator_world" where
  "rabbitmq_pass req w = snd (Reconcile ref_libs rabbitmq_reconciler req w)"

text \<open>Both CRs are there, live and claimed; only the Prometheus one asks for an Ingress.\<close>

definition contested :: "NamespacedName \<Rightarrow> IngressSpec \<Rightarrow> operator_world \<Rightarrow> bool" where
  "contested req ing w \<longleftrightarrow>
     (case server_cr req (prom_part w) of
        Some p \<Rightarrow> \<not> terminating ref_libs p \<and> has_finalizer ref_libs p \<and> prom_Ingress (Spec p) = Some ing
      | None \<Rightarrow> False) \<and>
     (case server_cr req (rmq_part w) of
        Some q \<Rightarrow> \<not> terminating ref_libs q \<and> has_finalizer ref_libs q \<and> rmq_Ingress (Spec q) = None
      | None \<Rightarrow> False)"

definition shared_ingress :: "NamespacedName \<Rightarrow> object_key" where
  "shared_ingress req = (ingress_GVK, fst req, snd req @ ''-ingress'')"

lemma protected_same: "same_but_status x y \<Longrightarrow> terminating L x = terminating L y" "same_but_status x y \<Longrightarrow> Spec x = Spec y"
  by (simp_all add: same_but_status_def terminating_def)

lemma protected_finalizer: "same_but_status x y \<Longrightarrow> has_finalizer ref_libs x = has_finalizer ref_libs y"
  by (simp add: same_but_status_def has_finalizer_def ref.contains_finalizer)

lemma prometheus_pass_effect:
  assumes "contested req ing w"
  shows "contested req ing (prometheus_pass req w)"
    and "error_of ref_libs prometheus_reconciler req w = None"
    and "\<exists>u. ow_objs (prometheus_pass req w) (shared_ingress req) = Some u \<and>
      covers (ingress_Build ref_libs ing (snd req @ ''-ingress'') (fst req) (snd req) prometheus_FieldManager (snd req @ ''-web'') prometheus_webPort) u"
proof -
  let ?r = "NewPrometheusInstanceReconciler ref_libs (ref_client prom_wire) ref_recorder" and ?s = "prom_part w"
  obtain p where p: "server_cr req ?s = Some p" "\<not> terminating ref_libs p" "has_finalizer ref_libs p"
    "prom_Ingress (Spec p) = Some ing"
    using assms by (auto simp: contested_def split: option.splits)
  obtain res s' where R: "Reconcile ref_libs ?r req ?s = ((res, None), s')"
    using prom_server.Reconcile_answers [OF p(1)] by (metis prod.exhaust fst_conv snd_conv)
  have over: "Reconcile ref_libs prometheus_reconciler req w = ((res, None), prom_update s' w)"
    by (simp add: prometheus_reconciler_def prom_view.Reconcile_over over_def R)
  then show "error_of ref_libs prometheus_reconciler req w = None" by simp
  have w': "prometheus_pass req w = prom_update s' w" by (simp add: prometheus_pass_def over)
  have n: "(cr_namespace p, cr_name p) = req" by (rule server_cr_name [OF p(1)])
  note C = prom_server.Reconcile_converges(1) [OF R p(1-3), unfolded converged_def n]
  then obtain x where x: "server_cr req s' = Some x" "same_but_status x p" by blast
  with p assms show "contested req ing (prometheus_pass req w)"
    by (simp add: contested_def w' views_share_objects protected_same [OF x(2)] protected_finalizer [OF x(2)])
  from C have "\<forall>x \<in> set (extras_of (prometheus_Adapter ref_libs) p). settled server_obj server_live (cr_namespace p) x s'"
    by blast
  then show "\<exists>u. ow_objs (prometheus_pass req w) (shared_ingress req) = Some u \<and>
      covers (ingress_Build ref_libs ing (snd req @ ''-ingress'') (fst req) (snd req) prometheus_FieldManager (snd req @ ''-web'') prometheus_webPort) u"
    using n by (auto simp: extras_of_def target_of_def prometheus_Adapter_def prometheus_TargetName_def prometheus_ExtraResources_def
      p(4) Let_def settled_def server_obj_def w' views_share_objects shared_ingress_def)
qed

lemma rabbitmq_pass_effect:
  assumes "contested req ing w"
  shows "contested req ing (rabbitmq_pass req w)"
    and "error_of ref_libs rabbitmq_reconciler req w = None"
    and "ow_objs (rabbitmq_pass req w) (shared_ingress req) = None"
proof -
  let ?r = "NewRabbitMQClusterReconciler ref_libs (ref_client rmq_wire) ref_recorder" and ?s = "rmq_part w"
  obtain q where q: "server_cr req ?s = Some q" "\<not> terminating ref_libs q" "has_finalizer ref_libs q"
    "rmq_Ingress (Spec q) = None"
    using assms by (auto simp: contested_def split: option.splits)
  obtain res s' where R: "Reconcile ref_libs ?r req ?s = ((res, None), s')"
    using rmq_server.Reconcile_answers [OF q(1)] by (metis prod.exhaust fst_conv snd_conv)
  have over: "Reconcile ref_libs rabbitmq_reconciler req w = ((res, None), rmq_update s' w)"
    by (simp add: rabbitmq_reconciler_def rmq_view.Reconcile_over over_def R)
  then show "error_of ref_libs rabbitmq_reconciler req w = None" by simp
  have w': "rabbitmq_pass req w = rmq_update s' w" by (simp add: rabbitmq_pass_def over)
  have n: "(cr_namespace q, cr_name q) = req" by (rule server_cr_name [OF q(1)])
  note C = rmq_server.Reconcile_converges(1) [OF R q(1-3), unfolded converged_def n]
  then obtain x where x: "server_cr req s' = Some x" "same_but_status x q" by blast
  with q assms show "contested req ing (rabbitmq_pass req w)"
    by (simp add: contested_def w' views_share_objects protected_same [OF x(2)] protected_finalizer [OF x(2)])
  from C have "\<forall>x \<in> set (extras_of (rabbitmq_Adapter ref_libs) q). settled server_obj server_live (cr_namespace q) x s'"
    by blast
  then show "ow_objs (rabbitmq_pass req w) (shared_ingress req) = None"
    using n by (auto simp: extras_of_def target_of_def rabbitmq_Adapter_def rabbitmq_TargetName_def rabbitmq_ExtraResources_def
      q(4) Let_def settled_def server_live_def w' views_share_objects shared_ingress_def)
qed

lemma contested_forever: "contested req ing w \<Longrightarrow> contested req ing (((rabbitmq_pass req \<circ> prometheus_pass req) ^^ n) w)"
  by (induction n) (simp_all add: prometheus_pass_effect(1) rabbitmq_pass_effect(1))

section \<open>Valkey beside CNPG\<close>

context engine
begin

text \<open>A pass without error over a live, claimed CR makes the call for each of its extras.\<close>

lemma Reconcile_does_extras:
  assumes R: "Reconcile L r req w = ((res, None), w')" and cr: "cr_at req w = Some cr"
    and t: "\<not> terminating L cr" and f: "has_finalizer L cr" and x: "x \<in> set (extras_of A cr)"
  shows "extra_done L A (cr_namespace cr) x (calls L r req w)"
proof -
  let ?cs = "calls L r req w"
  have run: "protocol_run L A req Read ?cs (Done res None)" using calls_run [of L r req w] R by (simp add: wired)
  have "RequeueAfter res \<noteq> 0"
    using Reconcile_converges(1) [OF R cr t f] by (auto simp: converged_def requeue_for_def time_Minute_def time_Second_def split: if_splits)
  then obtain o' a where s: "CStatusUpdate o' (Inr a) \<in> set ?cs" using run_requeue [OF run] by auto
  from run_status [OF run s] obtain cr' g u pre now where
    cs: "?cs = CGet req (Inr cr') # g # CApply (manifest_of A cr') (FieldManager A) True (Inr u) # pre @ [CStatusUpdate o' (Inr a)]"
    and D: "\<forall>x \<in> set (extras_of A cr'). extra_done L A (cr_namespace cr') x pre" by blast
  obtain b w1 where g: "Client_Get c req w = (b, w1)" by (metis prod.exhaust)
  obtain v where "history r w ?cs v"
    using traced_history.Reconcile_preserves [of L r req "(w, [])" _ "snd (Reconcile L (traced r) req (w, []))" w]
    by (cases "Reconcile L (traced r) req (w, [])") (auto simp: calls_def history_nil)
  with cs g have "b = Inr cr'" by (auto simp: wired elim: history.cases)
  with get_ok g cr have "cr' = cr" by fastforce
  with D x have "extra_done L A (cr_namespace cr) x pre" by blast
  then show ?thesis unfolding cs by (auto simp: extra_done_def deleted_in_def split: option.splits)
qed

lemma Reconcile_prunes:
  assumes "Reconcile L r req w = ((res, None), w')" and "cr_at req w = Some cr"
    and "\<not> terminating L cr" and "has_finalizer L cr" and x: "x \<in> set (extras_of A cr)" "extra_Desired x = None"
  shows "key_deleted_in L (extra_GVK x, cr_namespace cr, extra_Name x) (calls L r req w)"
    and "\<not> live (extra_GVK x, cr_namespace cr, extra_Name x) w'"
  using Reconcile_does_extras [OF assms(1-5)] Reconcile_converges(1) [OF assms(1-4)] x
    key_of_identify [OF extras_valid [OF x(1)]]
  by (auto simp: extra_done_def deleted_in_def key_deleted_in_def converged_def settled_def)

end

text \<open>The name of the Service the CNPG manifest of an exposed PostgresCluster asks for.\<close>

definition cnpg_service_name :: "k8s_libs \<Rightarrow> PostgresCluster \<Rightarrow> gval option" where
  "cnpg_service_name L p = path_lookup
     (head_map (path_lookup (Object (manifest_of (cnpg_Adapter L) p)) [''spec'', ''managed'', ''services'', ''additional'']))
     [''serviceTemplate'', ''metadata'', ''name'']"

lemma cnpg_service_name:
  "pg_Expose (Spec p) = Some e \<Longrightarrow> cnpg_service_name L p = Some (GStr (cr_name p @ ''-external''))"
  by (simp add: cnpg_service_name_def manifest_of_def target_of_def cnpg_Adapter_def cnpg_TargetName_def cnpg_BuildManifest_def Let_def)

lemma valkey_unexposed_extra:
  "vk_Expose (Spec q) = None \<Longrightarrow> extras_of (valkey_Adapter L) q =
     [\<lparr>extra_GVK = valkey_externalServiceGVK, extra_Name = cr_name q @ ''-external'', extra_Desired = None\<rparr>]"
  by (simp add: extras_of_def target_of_def valkey_Adapter_def valkey_TargetName_def valkey_ExtraResources_def Let_def)

end
