(* ===== verification/Spec2Isabelle.thy ===== *)
theory Spec2Isabelle
  imports Engine_Properties Concurrency_Properties Adapter_Properties Api_Properties Deepcopy_Properties Operator_Properties Shared_Cluster
begin

text \<open>
  The paas-operator (\<^verbatim>\<open>src/\<close>, Go) as Isabelle definitions, and the theorems that make it correct.

  \<^bold>\<open>The program.\<close> A Kubernetes operator with six custom resources (CRs) of group \<^verbatim>\<open>paas.example.com\<close>. Each CR is translated to
  one object of a vendor operator, its target (CloudNativePG \<^verbatim>\<open>Cluster\<close>, \<^verbatim>\<open>ValkeyCluster\<close>, \<^verbatim>\<open>Grafana\<close>, \<^verbatim>\<open>MariaDB\<close>,
  \<^verbatim>\<open>RabbitmqCluster\<close>, \<^verbatim>\<open>Prometheus\<close>), for some kinds with extra objects (a Service, an Ingress); the status of the target
  is mirrored back. One generic engine, \<^verbatim>\<open>internal/reconciler/reconciler.go\<close>, does this for every kind; what is special about a kind
  is in its adapter, \<^verbatim>\<open>internal/<vendor>/<vendor>.go\<close>; \<^verbatim>\<open>internal/controller\<close> wires the two; \<^verbatim>\<open>cmd/main.go\<close> starts the manager.
  The engine reads a CR, and on the deletion path deletes target and extras and releases its finalizer; otherwise it first
  adds the finalizer, then looks up, applies, handles the extras, writes the status and asks to be called again.

  \<^bold>\<open>The theories\<close>, in the order they build on each other.
  \<^item> \<open>Prelude\<close>: Go integers at their width, strings, durations, the part of \<^verbatim>\<open>fmt.Sprintf\<close> in use, maps, texts cut
    at a character.
  \<^item> \<open>Kube_Objects\<close>, \<open>Kube_Libs\<close>, \<open>Ref_Libs\<close>: the values of \<^verbatim>\<open>unstructured.Unstructured\<close>, metadata, conditions, errors; the
    functions of apimachinery and controller-runtime the code calls as a record \<open>k8s_libs\<close>, their documented behaviour as the
    locale \<open>k8s_libs_ok\<close>; a reference implementation that satisfies it.
  \<^item> \<open>Api_Types\<close>: the specs and statuses of \<^verbatim>\<open>api/v1alpha1/*_types.go\<close>, as records field by field. \<open>Api_Json\<close>: the JSON of the
    specs, written and read as their tags say, with the defaults and the validation of their markers; \<open>wire\<close> of a kind is what the
    API server stores of a spec the operator sends. \<open>Status_Json\<close>: the JSON of the statuses, and the schema of their conditions.
  \<^item> \<open>Go_Memory\<close>, \<open>Deep_Copy\<close>, \<open>Copy_Statements\<close>, \<open>Api_Deepcopy\<close>: Go values in a memory of cells, the copy by recursion on the type,
    the contract \<open>deep_copier\<close>, the statements of the generated code, and all functions of \<^verbatim>\<open>zz_generated.deepcopy.go\<close> under
    their names, each with the layout \<open><struct>_T\<close> of its struct.
  \<^item> \<open>Manifest_Lib\<close>, \<open>Ingress\<close>: what the builders share; \<^verbatim>\<open>internal/ingress/ingress.go\<close>.
  \<^item> \<open>Reconciler\<close>: the engine. State is the world \<open>'w\<close> behind the client, threaded through every call; a Go \<^verbatim>\<open>error\<close> is the left
    summand or \<open>Some\<close>. \<open>Reconcile\<close> is the Go method of that name, its two halves are \<open>reconcile_deletion\<close> and \<open>reconcile_normal\<close>
    (whose end is \<open>reconcile_status\<close>), the helpers keep their names.
  \<^item> \<open>Client_Simulation\<close>: two reconcilers whose clients answer alike return alike, in related worlds; the traced, the embedded and the
    cached client are instances.
  \<^item> \<open>Reconciler_Protocol\<close>: the abstract specification of the engine, a state machine over API calls with their answers, and
    the simulation. \<open>Reconciler_Safety\<close>: the facts about runs of the machine, by inversion of its steps.
  \<^item> \<open>Vendor_Adapter\<close>: the contract between engine and adapter as the locales \<open>vendor_adapter\<close> and \<open>counting_adapter\<close>.
  \<^item> \<open>Cnpg\<close>, \<open>Valkey\<close>, \<open>Grafana\<close>, \<open>MariaDB\<close>, \<open>RabbitMQ\<close>, \<open>Prometheus\<close>: the adapters, function by function under the
    Go names with the vendor as prefix, readers that take a manifest back to the spec, the functional facts of each status reader,
    and the proof (\<open>sublocale\<close>) that the adapter meets the contract on any libraries that meet theirs.
  \<^item> \<open>Controllers\<close>, \<open>Operator_Main\<close>: the wiring, the scheme, and \<^verbatim>\<open>main\<close> as the list of fallible calls it makes. \<open>Flag_Parse\<close>: the flags
    \<^verbatim>\<open>main\<close> declares, Go's \<^verbatim>\<open>flag.Parse\<close> on them, and the process from its arguments to its exit code.
  \<^item> \<open>Rbac\<close>: the markers above the controllers and the role in \<^verbatim>\<open>config/rbac/role.yaml\<close> as rules, a client that enforces them, and the
    locale \<open>authorized\<close> under which the engine never notices.
  \<^item> \<open>Pattern\<close>, \<open>Crd_Schema\<close>, \<open>Crds\<close>: regular expressions with a matcher, the OpenAPI schemas of custom resource definitions with
    validation and defaults, and the six definitions of \<^verbatim>\<open>config/crd/bases\<close>. \<open>Crd_Match\<close>, \<open>Crd_Kinds\<close>: each against the Go types, in what
    it accepts, in what it fills in and in its names.
  \<^item> \<open>Test_Utils\<close>: the helpers of the end-to-end tests, \<^verbatim>\<open>test/utils/utils.go\<close>, with what they use of \<^verbatim>\<open>strings\<close> and \<^verbatim>\<open>bufio.Scanner\<close>.
  \<^item> \<open>Kube_Api\<close>, \<open>Engine_Liveness\<close>: the API server as the locale \<open>kube_api\<close>, the engine against it (\<open>engine\<close>, and
    \<open>available_engine\<close> when calls succeed). \<open>Ref_Server\<close>: an in-memory server that stores what comes off the wire, on which the three
    are interpreted for all six controllers.
  \<^item> \<open>Reconciler_Runs\<close>, \<open>Cached_Api\<close>: the worlds a run goes through, and a proof rule by assertions on the phases of the protocol; the
    engine behind a cache that lags, with other writers acting between any two calls (\<open>cached_api\<close>, \<open>cached_engine\<close>): the \<open>trail\<close> of the CR
    holds the version cached, the versions the watch has yet to deliver, and last the version stored.
    \<open>Cached_Server\<close>: a server with cache, planned interference and faults, on which they are interpreted for all six controllers.
    \<open>Cached_Liveness\<close>: once the others rest, it answers like a server without a cache, so the engine recovers (\<open>recovering_engine\<close>).
  \<^item> \<open>Whole_Operator\<close>: a kind among others (\<open>shared_engine\<close>), passes of many participants over one world (\<open>participants\<close>), and all six
    controllers on one API server (\<open>shared_api\<close>), beside vendor operators that see to the children of the targets.
    \<open>World_View\<close>, \<open>Operator_World\<close>: a reconciler whose client works on a part of a larger world leaves the rest alone
    (\<open>world_view\<close>, \<open>viewed_engine\<close>); so the in-memory server, with six stores of CRs and one of objects, is a \<open>shared_api\<close>.
    \<open>Shared_Cluster\<close>: passes over CRs that clash.
  \<^item> \<open>Engine_Properties\<close>, \<open>Concurrency_Properties\<close>, \<open>Adapter_Properties\<close>, \<open>Api_Properties\<close>, \<open>Deepcopy_Properties\<close>, \<open>Operator_Properties\<close> and
    this theory: the properties.

  \<^bold>\<open>What is shown.\<close>
  \<^item> Of the engine, for every adapter, client, world and answer: its calls are a complete run of the protocol, so their order is fixed,
    the first error ends the run and is returned, a run makes at most five calls and one per extra. The finalizer is
    released only after the target and every extra were deleted, also those an earlier spec asked for; nothing is
    written for a CR that is terminating or unprotected; the status is that of the object as applied.
  \<^item> Against a server that does what its documentation says of a call that succeeds: a reconcile without error leaves target, extras
    and status as the CR asks and every other object alone; where calls succeed, two passes settle a new CR, any number of further passes
    keeps it settled, only the first pass asks for an immediate one, and one pass completes a deletion.
  \<^item> Among others: users may edit, delete and recreate the CR and delete its objects between and during the calls, the cache may be any number
    of versions behind, calls may conflict or lose their answers, the operator may be killed; an object is live only while its CR is stored
    with the finalizer. Two premises: no one else takes the finalizer off, and no one else creates objects under the keys
    the operator owns. The shared Ingress and the shared Service below are cases where the second fails. Once nothing of the kind is pending
    any more, two passes settle or release the CR, from whatever state was reached.
  \<^item> Of the adapters: they meet the contract; every manifest, with its extras, determines the spec it was built from (requests and limits
    cut to cpu and memory); the status readers on every branch, the loops with \<open>break\<close> against a search for the first
    match; conversions at 32 and 64 bits, with the range in which truncation is harmless; transition times change exactly
    when the condition flips.
  \<^item> Of the API types: a spec the server accepted is accepted again, unchanged, when the operator sends it back; the exception is a
    count of zero where zero is allowed and one is the default, which becomes one. A status an adapter writes fits the schema as long
    as its message does, and is read back with times in whole seconds. Every generated deep copy returns a value of the same type and
    contents in new cells, so that writes to the one are not seen through the other.
  \<^item> Of start-up: flags are read back however they are written; a bad command line ends the process before any call, otherwise
    calls in order, exit code 1 exactly on the first failure, all kinds registered before the start; HTTP/2 off and metrics guarded unless an
    argument names the flag; what the arguments in the manifests lead to.
  \<^item> Of the definitions the cluster is given: they serve the kinds the operator registers, under the names it asks for, fill in the
    defaults of the markers and accept the specs and statuses that the markers do.
  \<^item> Of permissions: the role in the manifests is what the markers say, and neither ever refuses a call of the controllers.
  \<^item> Across kinds: on any server, any interleaving of passes over CRs to which no object belongs in common, and of vendor operators
    making their children, settles or releases them all. Targets never collide, while the extras do: a RabbitMQ cluster and a Prometheus of one name share
    an Ingress, which their controllers create and delete in turns for ever without an error; a Valkey cluster that is not exposed deletes
    the Service CNPG makes for an exposed Postgres cluster of its name.
  \<^item> Of the test helpers: uncommenting a block restores it, and what is lost where the scanner's conditions do not hold; commands run in
    order, on errors too where that is meant; the search for CRDs is one for a name in the output.

  \<^bold>\<open>Bounds.\<close> Nothing runs on fuel: the loops of the program are over lists and are structural recursions;
  only replacing in a text is by the length of what is left. Integers are words of their Go
  width. Failure and interference are in the model as the answers of the client and the states it returns.

  \<^bold>\<open>Parameters.\<close> The Kubernetes libraries (\<open>k8s_libs\<close>), the API client and event recorder (\<open>Client\<close>), the manager of controller-runtime
  (\<open>manager_api\<close>), what client-go and metav1 put into the scheme (\<open>scheme_libs\<close>), the flags of other packages (\<open>foreign_flags\<close>), the resource a kind is served
  under (\<open>rest_mapping\<close>), the text of an instant (\<open>time_lib\<close>), the operating system under the test
  helpers (\<open>os_api\<close>), and the types of the Kubernetes packages with their own deep copies (\<open>packages\<close>, with the contract \<open>packages_ok\<close>) are not under \<^verbatim>\<open>src/\<close>.

  \<^bold>\<open>Not modelled.\<close> Logging (logr, zap), which decides nothing; contexts and their cancellation; in JSON explicit nulls; in the Go types
  the claims of resources and quantities given as numbers, which the schemas allow (a quantity is its text,
  where Go rewrites it to the canonical form of the same amount); the law of \<open>time_lib\<close> is for every instant, where RFC 3339 has the years 0 to 9999; in the stored CR the seconds'
  fractions of its times, which the server drops; the length of a text in characters (it is counted in bytes); of slices the
  capacity and parts of a backing array (a slice is a whole cell); what the vendor operators do to the targets, which calls for further passes (their children are arbitrary keys); the test cases, which
  need a live cluster; of the YAML under \<^verbatim>\<open>config/\<close> what is not named above. Recovery of many CRs at once is shown on an API server
  without a cache, recovery behind a cache for one CR.
\<close>

section \<open>Kinds side by side\<close>

text \<open>The targets of different kinds never collide: the six target kinds differ from each other and from the kinds of
  the extras, so same-named CRs of different kinds have different targets.\<close>

theorem target_kinds_distinct:
  "distinct [GVK (cnpg_Adapter L), GVK (valkey_Adapter L), GVK (grafana_Adapter L), GVK (mariadb_Adapter L),
     GVK (rabbitmq_Adapter L), GVK (prometheus_Adapter L), ingress_GVK, valkey_externalServiceGVK] \<and>
   prometheus_serviceGVK = valkey_externalServiceGVK"
  by (simp add: cnpg_Adapter_def valkey_Adapter_def grafana_Adapter_def mariadb_Adapter_def rabbitmq_Adapter_def
    prometheus_Adapter_def cnpg_GVK_def valkey_GVK_def grafana_GVK_def mariadb_GVK_def rabbitmq_GVK_def prometheus_GVK_def
    ingress_GVK_def valkey_externalServiceGVK_def prometheus_serviceGVK_def)

text \<open>C7: the operator settles everything at once, on any API server that meets the laws. Take any CRs of any kinds, no two of
  which clash: nothing belongs to two of them, counting what the operator writes for them, what their manifests have the vendor operators
  create by name (\<open>managed_keys\<close>), and whatever else these create (\<open>children\<close>, any keys apart from the operator's own). Each
  CR is still to be settled on its spec or to be released. Then any interleaving of passes over them and of
  steps of the vendor operators that gives each CR as many passes as it lacks
  leaves every one where its own passes lead: settled on its spec, or released with none of its objects left. And no pass of any of
  them touches the children of another, or its own.\<close>

theorem operator_settles_every_CR:
  assumes "shared_api L C rec crs obj_at live"
    and "\<And>i j. i \<in> members \<Longrightarrow> j \<in> members \<Longrightarrow> i \<noteq> j \<Longrightarrow> \<not> clash children i j"
    and "\<And>i. i \<in> members \<Longrightarrow> children i \<inter> member_keys i = {}"
    and "\<And>m. Inl m \<in> set schedule \<Longrightarrow> m \<in> members"
    and "\<And>f. Inr f \<in> set schedule \<Longrightarrow> vendor_step crs obj_at live children members f"
    and "i \<in> members" and "member_course L crs obj_at live i k w" and "k \<le> count_list schedule (Inl i)"
  shows "member_course L crs obj_at live i 0 (fold (happens L C rec) schedule w) \<and>
    (\<forall>j \<in> members. \<forall>key \<in> managed_keys i \<union> children i.
       obj_at key (member_pass L C rec j v) = obj_at key v \<and> live key (member_pass L C rec j v) = live key v)"
  using shared_api.all_settle [OF assms(1-8)] shared_api.children_left_alone [OF assms(1-3) assms(6)] by blast

text \<open>Inputs of the witnesses: an empty world, a Postgres.\<close>

definition no_world :: operator_world where
  "no_world = \<lparr>ow_pg = (\<lambda>_. None), ow_vk = (\<lambda>_. None), ow_gf = (\<lambda>_. None), ow_md = (\<lambda>_. None), ow_rmq = (\<lambda>_. None),
     ow_prom = (\<lambda>_. None), ow_objs = (\<lambda>_. None), ow_clock = 0, ow_events = []\<rparr>"

definition demo_db :: PostgresCluster where
  "demo_db = \<lparr>ObjectMeta = \<lparr>meta_Name = ''cache'', meta_Namespace = ''shop'', meta_Generation = 1,
       meta_DeletionTimestamp = None, meta_Finalizers = []\<rparr>,
     Spec = \<lparr>pg_Instances = 3, pg_Image = '''', pg_Storage = \<lparr>storage_Size = ''1Gi'', storage_StorageClass = ''''\<rparr>,
       pg_Database = \<lparr>db_Name = ''app'', db_Owner = ''app''\<rparr>, pg_Resources = \<lparr>Limits = fmempty, Requests = fmempty\<rparr>,
       pg_Monitoring = \<lparr>EnablePodMonitor = False\<rparr>, pg_Expose = Some demo_expose\<rparr>,
     Status = \<lparr>pgst_Ready = False, pgst_Phase = '''', pgst_Instances = 0, pgst_ReadyInstances = 0, pgst_Message = '''',
       pgst_Conditions = []\<rparr>\<rparr>"

text \<open>A new Valkey, a new Prometheus, a Postgres on its way out; meanwhile CNPG makes the Service of the Postgres.\<close>

definition demo_start :: operator_world where
  "demo_start = no_world\<lparr>ow_vk := (\<lambda>_. None)((''shop'', ''cache'') := Some demo_cache),
     ow_prom := (\<lambda>_. None)((''shop'', ''web'') := Some (demo_metrics (Some demo_ingress))),
     ow_pg := (\<lambda>_. None)((''shop'', ''db'') := Some (demo_db
       \<lparr>ObjectMeta := (ObjectMeta demo_db)\<lparr>meta_Name := ''db'', meta_Finalizers := [FinalizerName], meta_DeletionTimestamp := Some 7\<rparr>\<rparr>))\<rparr>"

definition demo_members :: "member list" where
  "demo_members = [ValkeyClusterMember (''shop'', ''cache'') (Some (vk_wire (Spec demo_cache))),
     PrometheusInstanceMember (''shop'', ''web'') (Some (prom_wire (Spec (demo_metrics (Some demo_ingress))))),
     PostgresClusterMember (''shop'', ''db'') None]"

definition demo_child :: object_key where
  "demo_child = (valkey_externalServiceGVK, ''shop'', ''db-external'')"

definition cnpg_makes_service :: "operator_world \<Rightarrow> operator_world" where
  "cnpg_makes_service w = w\<lparr>ow_objs := (ow_objs w)(demo_child := Some new_unstructured)\<rparr>"

definition demo_schedule :: "(member + (operator_world \<Rightarrow> operator_world)) list" where
  "demo_schedule = map Inl demo_members @ Inr cnpg_makes_service # map Inl (rev demo_members)"

theorem operator_settles_every_CR_witness:
  "list_all (\<lambda>i. member_course ref_libs ow_crs ow_obj ow_live i 0
     (fold (happens ref_libs ref_clients (\<lambda>_. ow_recorder)) demo_schedule demo_start)) demo_members \<and>
   ow_live demo_child (member_pass ref_libs ref_clients (\<lambda>_. ow_recorder) (hd demo_members) (cnpg_makes_service demo_start))"
proof -
  let ?M = "set demo_members"
  have start: "member_course ref_libs ow_crs ow_obj ow_live i 2 demo_start" if "i \<in> ?M" for i
    using that by (auto simp: demo_members_def on_course_def demo_start_def no_world_def part_defs server_cr_def demo_cache_def
      demo_metrics_def demo_db_def terminating_def has_finalizer_def ref.contains_finalizer ref.is_zero)
  have apart: "\<not> clash (\<lambda>_. {}) i j" if "i \<in> ?M" "j \<in> ?M" "i \<noteq> j" for i j
    using that by (auto simp: demo_members_def clash_same_names)
  have vendor: "vendor_step ow_crs ow_obj ow_live (\<lambda>_. {}) ?M f" if "Inr f \<in> set demo_schedule" for f
    using that by (auto simp: demo_schedule_def vendor_step_def cnpg_makes_service_def ow_crs_def ow_obj_def ow_live_def part_defs
      server_cr_def demo_members_def demo_child_def)
  have enough: "2 \<le> count_list demo_schedule (Inl i)" if "i \<in> ?M" for i
    using that by (auto simp: demo_schedule_def demo_members_def)
  have passes: "m \<in> ?M" if "Inl m \<in> set demo_schedule" for m
    using that by (auto simp: demo_schedule_def)
  have settles: "member_course ref_libs ow_crs ow_obj ow_live i 0
        (fold (happens ref_libs ref_clients (\<lambda>_. ow_recorder)) demo_schedule demo_start) \<and>
      (\<forall>j \<in> ?M. \<forall>key \<in> managed_keys i \<union> {}. ow_obj key (member_pass ref_libs ref_clients (\<lambda>_. ow_recorder) j v) = ow_obj key v \<and>
        ow_live key (member_pass ref_libs ref_clients (\<lambda>_. ow_recorder) j v) = ow_live key v)" if i: "i \<in> ?M" for i v
    by (rule operator_settles_every_CR [OF ref_cluster.shared_api_axioms])
       (erule (2) apart | simp | erule passes | erule vendor | rule i | rule start [OF i] | rule enough [OF i])+
  have "member_course ref_libs ow_crs ow_obj ow_live i 0 (fold (happens ref_libs ref_clients (\<lambda>_. ow_recorder)) demo_schedule demo_start)"
    if "i \<in> ?M" for i
    using settles [OF that] by simp
  moreover have "ow_live demo_child (member_pass ref_libs ref_clients (\<lambda>_. ow_recorder) (hd demo_members) (cnpg_makes_service demo_start))"
  proof -
    let ?db = "PostgresClusterMember (''shop'', ''db'') None"
    have "?db \<in> ?M" "hd demo_members \<in> ?M" "demo_child \<in> managed_keys ?db \<union> {}"
      by (simp_all add: demo_members_def demo_child_def)
    moreover have "ow_live demo_child (cnpg_makes_service demo_start)" by (simp add: ow_live_def cnpg_makes_service_def)
    ultimately show ?thesis using settles [of ?db "cnpg_makes_service demo_start"] by simp
  qed
  ultimately show ?thesis by (simp add: list_all_iff)
qed

text \<open>The extras do collide. A PrometheusInstance with an ingress and a RabbitMQCluster without one, of the same name and
  namespace, fight over one Ingress: the object the one applies is the one the other deletes.\<close>

theorem rabbitmq_prunes_prometheus_ingress:
  assumes "k8s_libs_ok L" and "prom_Ingress (Spec p) = Some ing" and "rmq_Ingress (Spec q) = None"
    and "cr_name p = cr_name q" and "cr_namespace p = cr_namespace q"
  shows "\<exists>x y d. x \<in> set (extras_of (prometheus_Adapter L) p) \<and> extra_Desired x = Some d \<and>
    y \<in> set (extras_of (rabbitmq_Adapter L) q) \<and> extra_Desired y = None \<and>
    key_of L (identify L (extra_GVK y) (cr_namespace q) (extra_Name y)) = key_of L d"
proof -
  let ?n = "cr_name q" and ?ns = "cr_namespace q"
  let ?d = "ingress_Build L ing (?n @ ''-ingress'') ?ns ?n prometheus_FieldManager (?n @ ''-web'') prometheus_webPort"
  have k: "key_of L ?d = (ingress_GVK, ?ns, ?n @ ''-ingress'')"
    by (simp add: key_of_header k8s_libs_ok.ingress_Build_header [OF assms(1)])
  have v: "valid_gvk ingress_GVK" by (simp add: valid_gvk_def ingress_GVK_def)
  have i: "key_of L (identify L ingress_GVK ?ns (?n @ ''-ingress'')) = (ingress_GVK, ?ns, ?n @ ''-ingress'')"
    by (simp add: key_of_header identify_def k8s_libs_ok.header_identify_aux [OF assms(1) v])
  show ?thesis
    by (rule exI [of _ "\<lparr>extra_GVK = ingress_GVK, extra_Name = ?n @ ''-ingress'', extra_Desired = Some ?d\<rparr>"],
        rule exI [of _ "\<lparr>extra_GVK = ingress_GVK, extra_Name = ?n @ ''-ingress'', extra_Desired = None\<rparr>"], rule exI [of _ ?d])
       (simp add: extras_of_def target_of_def prometheus_Adapter_def rabbitmq_Adapter_def prometheus_TargetName_def
          rabbitmq_TargetName_def prometheus_ExtraResources_def rabbitmq_ExtraResources_def Let_def assms k i)
qed

text \<open>C39: so two correct controllers never settle. On one API server with both CRs, alternating passes report no error, yet after
  every Prometheus pass the Ingress is stored with all that the PrometheusInstance asks for, and after every RabbitMQ pass
  it is gone, for ever.\<close>

theorem contested_ingress_never_settles:
  assumes "contested req ing w"
  defines "before \<equiv> \<lambda>n. ((rabbitmq_pass req \<circ> prometheus_pass req) ^^ n) w"
  shows "error_of ref_libs prometheus_reconciler req (before n) = None \<and>
    (\<exists>u. ow_objs (prometheus_pass req (before n)) (shared_ingress req) = Some u \<and>
      covers (ingress_Build ref_libs ing (snd req @ ''-ingress'') (fst req) (snd req) prometheus_FieldManager
        (snd req @ ''-web'') prometheus_webPort) u) \<and>
    error_of ref_libs rabbitmq_reconciler req (prometheus_pass req (before n)) = None \<and>
    ow_objs (before (Suc n)) (shared_ingress req) = None"
proof -
  have c: "contested req ing (before n)" unfolding before_def by (rule contested_forever [OF assms(1)])
  have s: "before (Suc n) = rabbitmq_pass req (prometheus_pass req (before n))" by (simp add: before_def)
  note P = prometheus_pass_effect [OF c]
  show ?thesis unfolding s using P(2,3) rabbitmq_pass_effect(2,3) [OF P(1)] by blast
qed

definition demo_cluster :: operator_world where
  "demo_cluster =
     (let p = demo_metrics (Some demo_ingress); q = demo_queue None
      in no_world\<lparr>ow_prom := (\<lambda>_. None)((''shop'', ''web'') := Some (p\<lparr>ObjectMeta := (ObjectMeta p)\<lparr>meta_Finalizers := [FinalizerName]\<rparr>\<rparr>)),
          ow_rmq := (\<lambda>_. None)((''shop'', ''web'') := Some (q\<lparr>ObjectMeta := (ObjectMeta q)\<lparr>meta_Finalizers := [FinalizerName]\<rparr>\<rparr>))\<rparr>)"

theorem contested_ingress_never_settles_witness:
  "ow_objs (prometheus_pass (''shop'', ''web'')
      (((rabbitmq_pass (''shop'', ''web'') \<circ> prometheus_pass (''shop'', ''web'')) ^^ 100) demo_cluster))
      (shared_ingress (''shop'', ''web'')) \<noteq> None \<and>
   ow_objs (((rabbitmq_pass (''shop'', ''web'') \<circ> prometheus_pass (''shop'', ''web'')) ^^ Suc 100) demo_cluster)
      (shared_ingress (''shop'', ''web'')) = None"
proof -
  have "contested (''shop'', ''web'') demo_ingress demo_cluster" by code_simp
  from contested_ingress_never_settles [OF this, of 100] show ?thesis by auto
qed

text \<open>C40: a pass over a ValkeyCluster that is not exposed deletes the Service that an exposed PostgresCluster of the same namespace and
  name has CNPG create. On any API server that meets the laws, whatever that Service is and whoever made it: a pass that ends without
  error over the live, claimed ValkeyCluster calls delete on the Service of exactly the name the CNPG manifest asks for, in that
  namespace, the call succeeds or finds nothing, and afterwards the Service is not there.\<close>

theorem valkey_prunes_cnpg_service:
  assumes "engine L (valkey_Adapter L) (\<lambda>t. [(valkey_externalServiceGVK, t @ ''-external'')]) valkey_view c record_event cr_at obj_at live
      wire (NewValkeyClusterReconciler L c record_event)"
    and "cr_at (cr_namespace p, cr_name p) w = Some q" and "\<not> terminating L q" and "has_finalizer L q" and "vk_Expose (Spec q) = None"
    and "pg_Expose (Spec p) = Some e"
    and "Reconcile L (NewValkeyClusterReconciler L c record_event) (cr_namespace p, cr_name p) w = ((res, None), w')"
  shows "\<exists>n. cnpg_service_name L p = Some (GStr n) \<and>
    key_deleted_in L (\<lparr>Group = '''', Version = ''v1'', Kind = ''Service''\<rparr>, cr_namespace p, n)
      (calls L (NewValkeyClusterReconciler L c record_event) (cr_namespace p, cr_name p) w) \<and>
    \<not> live (\<lparr>Group = '''', Version = ''v1'', Kind = ''Service''\<rparr>, cr_namespace p, n) w'"
proof -
  have "cr_namespace q = cr_namespace p" "cr_name q = cr_name p"
    using engine.req_of [OF assms(1,2)] by simp_all
  with engine.Reconcile_prunes [OF assms(1,7,2-4), unfolded valkey_unexposed_extra [OF assms(5)], OF list.set_intros(1)]
    cnpg_service_name [OF assms(6)] show ?thesis by (simp add: valkey_externalServiceGVK_def)
qed

text \<open>The Service is there before the pass and not after it.\<close>

definition demo_beside :: "(ValkeyClusterSpec, ValkeyClusterStatus) server" where
  "demo_beside = (demo_world (demo_vk None [FinalizerName] None))\<lparr>srv_objs := (\<lambda>_. None)(demo_service := Some new_unstructured)\<rparr>"

theorem valkey_prunes_cnpg_service_witness:
  "cnpg_service_name ref_libs demo_db = Some (GStr ''cache-external'') \<and> server_live demo_service demo_beside \<and>
   \<not> server_live demo_service (snd (Reconcile ref_libs demo_r (''shop'', ''cache'') demo_beside))"
proof -
  obtain res w' where R: "Reconcile ref_libs demo_r (''shop'', ''cache'') demo_beside = ((res, None), w')"
    using vk_server.Reconcile_answers [of "(''shop'', ''cache'')" demo_beside "demo_vk None [FinalizerName] None"]
    by (cases "Reconcile ref_libs demo_r (''shop'', ''cache'') demo_beside")
       (auto simp: demo_beside_def demo_world_def server_cr_def demo_vk_def demo_meta_def)
  have n: "(cr_namespace demo_db, cr_name demo_db) = (''shop'', ''cache'')" by (simp add: demo_db_def)
  have "server_cr (cr_namespace demo_db, cr_name demo_db) demo_beside = Some (demo_vk None [FinalizerName] None)"
    "\<not> terminating ref_libs (demo_vk None [FinalizerName] None)" "has_finalizer ref_libs (demo_vk None [FinalizerName] None)"
    "vk_Expose (Spec (demo_vk None [FinalizerName] None)) = None" "pg_Expose (Spec demo_db) = Some demo_expose"
    by (simp_all add: demo_beside_def demo_world_def server_cr_def demo_vk_def demo_meta_def demo_db_def terminating_def
      has_finalizer_def ref.contains_finalizer ref.is_zero)
  from valkey_prunes_cnpg_service [OF vk_server.engine_axioms this R [folded n]] have
    "\<exists>k. cnpg_service_name ref_libs demo_db = Some (GStr k) \<and> \<not> server_live (valkey_externalServiceGVK, ''shop'', k) w'"
    using n by (auto simp: valkey_externalServiceGVK_def)
  moreover have "cnpg_service_name ref_libs demo_db = Some (GStr ''cache-external'')"
    by (simp add: cnpg_service_name [of _ demo_expose] demo_db_def)
  moreover have "server_live demo_service demo_beside" by (simp add: demo_beside_def server_live_def)
  ultimately show ?thesis by (simp add: R)
qed

end
